(* ===== verification/Py_Prelude.thy ===== *)
theory Py_Prelude
  imports Main
begin

text \<open>
  Prelude of the development: the part of Python's \<open>str\<close> that the application uses, and the
  collections of simplification facts that the component theories share.

  A Python \<open>str\<close> is a \<open>string\<close> (a list of characters). The application's identifiers, labels,
  prices and timestamps are ASCII; case mapping and whitespace follow Python on ASCII characters.
  \<open>None\<close> is the \<open>None\<close> of an option type. The marker \<open>app/data/dtos.py: NA\<close> is the constant
  \<open>''N/A''\<close>.
\<close>

named_theorems py_str \<open>facts on Python string operations\<close>
named_theorems py_dec \<open>facts on Python decimal operations\<close>
named_theorems py_time \<open>facts on timestamps\<close>

abbreviation NA :: string where
  "NA \<equiv> ''N/A''"

section \<open>Characters\<close>

definition py_isspace :: "char \<Rightarrow> bool" where
  "py_isspace c \<longleftrightarrow> c \<in> set [CHR 0x09, CHR 0x0A, CHR 0x0B, CHR 0x0C, CHR 0x0D,
     CHR 0x1C, CHR 0x1D, CHR 0x1E, CHR 0x1F, CHR '' '']"

definition py_isdigit :: "char \<Rightarrow> bool" where
  "py_isdigit c \<longleftrightarrow> 48 \<le> (of_char c :: nat) \<and> (of_char c :: nat) \<le> 57"

definition digit_val :: "char \<Rightarrow> nat" where
  "digit_val c = of_char c - 48"

definition digit_char :: "nat \<Rightarrow> char" where
  "digit_char d = char_of (48 + d)"

definition lower_char :: "char \<Rightarrow> char" where
  "lower_char c = (let n = (of_char c :: nat) in if 65 \<le> n \<and> n \<le> 90 then char_of (n + 32) else c)"

definition upper_char :: "char \<Rightarrow> char" where
  "upper_char c = (let n = (of_char c :: nat) in if 97 \<le> n \<and> n \<le> 122 then char_of (n - 32) else c)"

section \<open>String methods\<close>

definition py_lower :: "string \<Rightarrow> string" where
  "py_lower s = map lower_char s"

definition py_upper :: "string \<Rightarrow> string" where
  "py_upper s = map upper_char s"

definition strip_by :: "(char \<Rightarrow> bool) \<Rightarrow> string \<Rightarrow> string" where
  "strip_by p s = rev (dropWhile p (rev (dropWhile p s)))"

definition py_strip :: "string \<Rightarrow> string" where
  "py_strip s = strip_by py_isspace s"

definition py_replace_char :: "char \<Rightarrow> char \<Rightarrow> string \<Rightarrow> string" where
  "py_replace_char a b s = map (\<lambda>c. if c = a then b else c) s"

definition py_remove_char :: "char \<Rightarrow> string \<Rightarrow> string" where
  "py_remove_char a s = filter (\<lambda>c. c \<noteq> a) s"

fun py_in :: "string \<Rightarrow> string \<Rightarrow> bool" where
  "py_in needle [] \<longleftrightarrow> needle = []"
| "py_in needle (c # cs) \<longleftrightarrow> take (length needle) (c # cs) = needle \<or> py_in needle cs"

fun py_join :: "string \<Rightarrow> string list \<Rightarrow> string" where
  "py_join sep [] = []"
| "py_join sep [x] = x"
| "py_join sep (x # y # zs) = x @ sep @ py_join sep (y # zs)"

text \<open>
  \<open>tuple(dict.fromkeys(xs))\<close>: the distinct elements in the order of their first occurrence.
\<close>

fun dict_fromkeys :: "'a list \<Rightarrow> 'a list" where
  "dict_fromkeys [] = []"
| "dict_fromkeys (x # xs) = x # filter (\<lambda>y. y \<noteq> x) (dict_fromkeys xs)"

section \<open>Facts\<close>

lemma digit_char_digits [py_str]: "d < 10 \<Longrightarrow> py_isdigit (digit_char d)"
  by (simp add: py_isdigit_def digit_char_def)

lemma digit_val_digit_char [simp]: "d < 10 \<Longrightarrow> digit_val (digit_char d) = d"
  by (simp add: digit_val_def digit_char_def)

lemma digit_val_less: "py_isdigit c \<Longrightarrow> digit_val c < 10"
  by (auto simp: py_isdigit_def digit_val_def)

lemma digit_char_digit_val: "py_isdigit c \<Longrightarrow> digit_char (digit_val c) = c"
  by (auto simp: py_isdigit_def digit_val_def digit_char_def)

lemma lower_char_idem [simp]: "lower_char (lower_char c) = lower_char c"
  by (auto simp: lower_char_def Let_def)

lemma upper_char_idem [simp]: "upper_char (upper_char c) = upper_char c"
  by (auto simp: upper_char_def Let_def)

lemma py_lower_idem [simp]: "py_lower (py_lower s) = py_lower s"
  by (simp add: py_lower_def)

lemma py_upper_idem [simp]: "py_upper (py_upper s) = py_upper s"
  by (simp add: py_upper_def)

lemma py_lower_Nil_iff [simp]: "py_lower s = [] \<longleftrightarrow> s = []"
  by (simp add: py_lower_def)

lemma py_upper_Nil_iff [simp]: "py_upper s = [] \<longleftrightarrow> s = []"
  by (simp add: py_upper_def)

text \<open>Stripping leaves no strippable character at either end, and stops there.\<close>

lemma strip_by_ends:
  "strip_by p s \<noteq> [] \<Longrightarrow> \<not> p (hd (strip_by p s)) \<and> \<not> p (last (strip_by p s))"
proof -
  assume ne: "strip_by p s \<noteq> []"
  let ?l = "dropWhile p s" and ?r = "dropWhile p (rev (dropWhile p s))"
  from ne have r: "?r \<noteq> []" by (simp add: strip_by_def)
  have l: "?l \<noteq> []"
  proof
    assume "?l = []"
    then have "?r = []" by (simp only: rev.simps dropWhile.simps)
    with r show False by contradiction
  qed
  have "\<not> p (hd ?r)" using r by (rule hd_dropWhile)
  moreover have "last ?r = hd ?l"
  proof -
    obtain xs where "rev ?l = xs @ ?r" by (metis takeWhile_dropWhile_id)
    then have "last (rev ?l) = last ?r" by (metis last_appendR r)
    then show ?thesis using l by (simp add: last_rev)
  qed
  ultimately show ?thesis
    using r l hd_dropWhile [OF l] by (simp add: strip_by_def hd_rev last_rev)
qed

lemma strip_by_fixed:
  "s = [] \<or> (\<not> p (hd s) \<and> \<not> p (last s)) \<Longrightarrow> strip_by p s = s"
proof (cases "s = []")
  case False
  assume "s = [] \<or> (\<not> p (hd s) \<and> \<not> p (last s))"
  with False have "\<not> p (hd s)" and "\<not> p (hd (rev s))" by (simp_all add: hd_rev)
  moreover have "dropWhile p t = t" if "\<not> p (hd t)" for t
    using that by (cases t) auto
  ultimately show ?thesis by (simp add: strip_by_def)
qed (simp add: strip_by_def)

lemma strip_by_idem [simp]: "strip_by p (strip_by p s) = strip_by p s"
  using strip_by_ends strip_by_fixed by blast

lemma py_strip_idem [simp]: "py_strip (py_strip s) = py_strip s"
  by (simp add: py_strip_def)

lemma py_isspace_case [simp]: "py_isspace (lower_char c) = py_isspace c" "py_isspace (upper_char c) = py_isspace c"
  by (auto simp: py_isspace_def lower_char_def upper_char_def Let_def char_of_eq_iff take_bit_eq_mod)

lemma py_strip_case [simp]:
  "py_strip (py_lower (py_strip s)) = py_lower (py_strip s)"
  "py_strip (py_upper (py_strip s)) = py_upper (py_strip s)"
  using strip_by_ends [of py_isspace s]
  by (cases "py_strip s = []"; auto intro!: strip_by_fixed simp: py_strip_def py_lower_def py_upper_def hd_map last_map)+

lemma NA_fixed [simp]: "py_strip NA = NA" "py_upper NA = NA" "py_strip [] = []"
  by code_simp+

lemma set_strip_by: "set (strip_by p s) \<subseteq> set s"
proof
  fix x
  assume "x \<in> set (strip_by p s)"
  then have "x \<in> set (rev (dropWhile p s))"
    unfolding strip_by_def set_rev by (metis set_dropWhileD set_rev)
  then show "x \<in> set s" by (auto dest: set_dropWhileD)
qed

lemma set_py_strip: "set (py_strip s) \<subseteq> set s"
  by (simp add: py_strip_def set_strip_by)

lemma py_in_iff: "py_in needle s \<longleftrightarrow> (\<exists>pre post. s = pre @ needle @ post)"
proof (induction s)
  case Nil
  then show ?case by auto
next
  case (Cons c cs)
  show ?case
  proof
    assume "py_in needle (c # cs)"
    then consider "take (length needle) (c # cs) = needle" | "py_in needle cs" by auto
    then show "\<exists>pre post. c # cs = pre @ needle @ post"
    proof cases
      case 1
      then have "c # cs = [] @ needle @ drop (length needle) (c # cs)"
        by (metis append_Nil append_take_drop_id)
      then show ?thesis by blast
    next
      case 2
      with Cons.IH obtain pre post where "cs = pre @ needle @ post" by blast
      then have "c # cs = (c # pre) @ needle @ post" by simp
      then show ?thesis by blast
    qed
  next
    assume "\<exists>pre post. c # cs = pre @ needle @ post"
    then obtain pre post where eq: "c # cs = pre @ needle @ post" by blast
    show "py_in needle (c # cs)"
    proof (cases pre)
      case Nil
      with eq have "take (length needle) (c # cs) = needle" by simp
      then show ?thesis by simp
    next
      case (Cons d ds)
      with eq have "cs = ds @ needle @ post" by simp
      with Cons.IH show ?thesis by auto
    qed
  qed
qed

lemma set_dict_fromkeys [simp]: "set (dict_fromkeys xs) = set xs"
  by (induction xs) auto

lemma distinct_dict_fromkeys [simp]: "distinct (dict_fromkeys xs)"
  by (induction xs) auto

lemma dict_fromkeys_Nil_iff [simp]: "dict_fromkeys xs = [] \<longleftrightarrow> xs = []"
  by (cases xs) auto

lemma dict_fromkeys_distinct: "distinct xs \<Longrightarrow> dict_fromkeys xs = xs"
proof (induction xs)
  case (Cons x xs)
  then have "filter (\<lambda>y. y \<noteq> x) xs = xs" by (auto simp: filter_id_conv)
  with Cons show ?case by simp
qed simp

section \<open>Exceptions\<close>

text \<open>
  A call that may raise returns a sum: \<open>Inl\<close> the exception, \<open>Inr\<close> the value. \<open>ebind\<close> is the
  sequencing of two such calls, \<open>eraise_if\<close> a guarded \<open>raise\<close> or early failure return.
\<close>

definition ebind :: "'e + 'a \<Rightarrow> ('a \<Rightarrow> 'e + 'b) \<Rightarrow> 'e + 'b" where
  "ebind r f = (case r of Inl e \<Rightarrow> Inl e | Inr x \<Rightarrow> f x)"

definition eraise_if :: "bool \<Rightarrow> 'e \<Rightarrow> 'e + unit" where
  "eraise_if c e = (if c then Inl e else Inr ())"

lemma ebind_simps [simp]: "ebind (Inl e) f = Inl e" "ebind (Inr x) f = f x"
  by (simp_all add: ebind_def)

lemma ebind_Inr_iff [simp]: "ebind r f = Inr y \<longleftrightarrow> (\<exists>x. r = Inr x \<and> f x = Inr y)"
  by (cases r) auto

lemma eraise_if_Inr_iff [simp]: "eraise_if c e = Inr u \<longleftrightarrow> \<not> c"
  by (simp add: eraise_if_def)

lemma eraise_if_False [simp]: "eraise_if False e = Inr ()"
  by (simp add: eraise_if_def)

section \<open>Runs of a state machine\<close>

text \<open>
  The interface of every stateful component: one step function over inputs and a predicate that
  each step on an admissible input keeps. Runs over a list of such inputs then keep it too.
  Components interpret the locale on their own step function and invariant.
\<close>

fun run :: "('s \<Rightarrow> 'i \<Rightarrow> 's) \<Rightarrow> 's \<Rightarrow> 'i list \<Rightarrow> 's" where
  "run step s [] = s"
| "run step s (i # is) = run step (step s i) is"

lemma run_append [simp]: "run step s (xs @ ys) = run step (run step s xs) ys"
  by (induction xs arbitrary: s) auto

text \<open>A run that leaves a predicate leaves it at one of its inputs.\<close>

lemma run_first_exit:
  assumes "P s" and "\<not> P (run step s is)"
  obtains k where "k < length is" "P (run step s (take k is))" "\<not> P (step (run step s (take k is)) (is ! k))"
  using assms
proof (induction "is" arbitrary: s thesis)
  case (Cons i "is")
  show ?case
  proof (cases "P (step s i)")
    case True
    with Cons.IH [of "step s i"] Cons.prems(3) obtain k where "k < length is" "P (run step (step s i) (take k is))"
      "\<not> P (step (run step (step s i) (take k is)) (is ! k))" by auto
    then show ?thesis using Cons.prems(1) [of "Suc k"] by simp
  next
    case False
    with Cons.prems show ?thesis by (intro Cons.prems(1) [of 0]) auto
  qed
qed simp

locale step_machine =
  fixes step :: "'s \<Rightarrow> 'i \<Rightarrow> 's"
    and ok :: "'i \<Rightarrow> bool"
    and inv :: "'s \<Rightarrow> bool"
  assumes step_inv: "inv s \<Longrightarrow> ok i \<Longrightarrow> inv (step s i)"
begin

lemma run_inv: "inv s \<Longrightarrow> list_all ok is \<Longrightarrow> inv (run step s is)"
  by (induction "is" arbitrary: s) (auto intro: step_inv)

end

text \<open>
  A measured machine: a rank that no step lowers. What a run reaches is ranked at least as high
  as where it starts.
\<close>

locale ranked_machine =
  fixes step :: "'s \<Rightarrow> 'i \<Rightarrow> 's"
    and rank :: "'s \<Rightarrow> 'r::preorder"
  assumes step_rank: "rank s \<le> rank (step s i)"
begin

lemma run_rank: "rank s \<le> rank (run step s is)"
proof (induction "is" arbitrary: s)
  case Nil
  show ?case by simp
next
  case (Cons i "is")
  have "rank s \<le> rank (step s i)" by (rule step_rank)
  also have "\<dots> \<le> rank (run step (step s i) is)" by (rule Cons.IH)
  finally show ?case by simp
qed

end

end
