(* ===== verification/Py_Decimal.thy ===== *)
theory Py_Decimal
  imports Py_Prelude Complex_Main "HOL-Library.Log_Nat"
begin

text \<open>
  Python's \<open>decimal.Decimal\<close> in the default context: 28 significant digits, half-even rounding.
  A finite decimal is modelled by the rational number it denotes. Construction from text and
  comparison are exact; every arithmetic operation computes the exact rational result and rounds
  it to 28 significant digits with \<open>dec_round\<close>. \<open>quantize\<close> rounds to a fixed number of decimals and
  fails (\<open>None\<close>, Python's \<open>InvalidOperation\<close>) when the result needs more than 28 digits. The exponent
  limits of the context (one million) are outside the model.

  The section on interfaces states what the application relies on as the locale
  \<open>decimal_rounding\<close> and interprets it on \<open>dec_round\<close>.
\<close>

section \<open>Powers of ten\<close>

definition p10 :: "int \<Rightarrow> rat" where
  "p10 e = (if 0 \<le> e then 10 ^ nat e else 1 / 10 ^ nat (- e))"

lemma p10_powi: "p10 e = 10 powi e"
  by (simp add: p10_def power_int_def inverse_eq_divide power_one_over)

lemma p10_pos [simp]: "0 < p10 e"
  by (simp add: p10_def)

lemma p10_nonneg [simp]: "0 \<le> p10 e"
  using p10_pos [of e] by linarith

lemma p10_nonzero [simp]: "p10 e \<noteq> 0"
  using p10_pos [of e] by linarith

lemma p10_0 [simp]: "p10 0 = 1"
  by (simp add: p10_def)

lemma p10_add: "p10 (a + b) = p10 a * p10 b"
  by (simp add: p10_powi power_int_add)

lemma p10_diff: "p10 (a - b) = p10 a / p10 b"
  by (simp add: p10_powi power_int_diff)

lemma p10_mono: "a \<le> b \<Longrightarrow> p10 a \<le> p10 b"
  by (simp add: p10_powi power_int_increasing)

lemma p10_strict: "a < b \<Longrightarrow> p10 a < p10 b"
  by (simp add: p10_powi power_int_strict_increasing)

lemma p10_less_iff [simp]: "p10 a < p10 b \<longleftrightarrow> a < b"
  by (metis linorder_not_less p10_mono p10_strict)

lemma p10_le_iff [simp]: "p10 a \<le> p10 b \<longleftrightarrow> a \<le> b"
  by (metis linorder_not_less p10_mono p10_strict)

lemma p10_of_nat: "p10 (int n) = of_int (10 ^ n)"
  by (simp add: p10_def)

section \<open>Rounding to 28 significant digits\<close>

definition round_half_even :: "rat \<Rightarrow> int" where
  "round_half_even r =
     (let f = \<lfloor>r\<rfloor>; d = r - of_int f in
      if d < 1 / 2 then f else if 1 / 2 < d then f + 1 else if even f then f else f + 1)"

text \<open>The adjusted exponent: the position of the first significant digit.\<close>

definition dec_exp :: "rat \<Rightarrow> int" where
  "dec_exp x =
     (let (p, q) = quotient_of \<bar>x\<bar>;
          d = int (floorlog 10 (nat p)) - int (floorlog 10 (nat q))
      in if p10 d \<le> \<bar>x\<bar> then d else d - 1)"

definition dec_round :: "rat \<Rightarrow> rat" where
  "dec_round x =
     (if x = 0 then 0
      else let u = p10 (dec_exp x - 27) in of_int (round_half_even (x / u)) * u)"

definition dec_add :: "rat \<Rightarrow> rat \<Rightarrow> rat" where
  "dec_add x y = dec_round (x + y)"

definition dec_sub :: "rat \<Rightarrow> rat \<Rightarrow> rat" where
  "dec_sub x y = dec_round (x - y)"

definition dec_mul :: "rat \<Rightarrow> rat \<Rightarrow> rat" where
  "dec_mul x y = dec_round (x * y)"

definition dec_div :: "rat \<Rightarrow> rat \<Rightarrow> rat" where
  "dec_div x y = dec_round (x / y)"

definition dec_sum :: "rat list \<Rightarrow> rat" where
  "dec_sum xs = foldl dec_add 0 xs"

text \<open>\<open>quantize(Decimal(10) ** -places)\<close>: half-even, \<open>ROUND_DOWN\<close> and \<open>ROUND_HALF_UP\<close>.\<close>

definition dec_quantize :: "nat \<Rightarrow> rat \<Rightarrow> rat option" where
  "dec_quantize places x =
     (let c = round_half_even (x * 10 ^ places)
      in if \<bar>c\<bar> < 10 ^ 28 then Some (of_int c / 10 ^ places) else None)"

definition dec_quantize_down :: "nat \<Rightarrow> rat \<Rightarrow> rat option" where
  "dec_quantize_down places x =
     (let y = x * 10 ^ places; c = (if 0 \<le> y then \<lfloor>y\<rfloor> else \<lceil>y\<rceil>)
      in if \<bar>c\<bar> < 10 ^ 28 then Some (of_int c / 10 ^ places) else None)"

definition dec_quantize_half_up :: "nat \<Rightarrow> rat \<Rightarrow> rat option" where
  "dec_quantize_half_up places x =
     (let y = x * 10 ^ places; c = (if 0 \<le> y then \<lfloor>y + 1 / 2\<rfloor> else \<lceil>y - 1 / 2\<rceil>)
      in if \<bar>c\<bar> < 10 ^ 28 then Some (of_int c / 10 ^ places) else None)"

subsection \<open>Half-even rounding of a rational\<close>

lemma round_half_even_of_int [simp]: "round_half_even (of_int n) = n"
  by (simp add: round_half_even_def)

lemma round_half_even_lower: "of_int n \<le> r \<Longrightarrow> n \<le> round_half_even r"
  by (auto simp: round_half_even_def Let_def le_floor_iff [symmetric])

lemma round_half_even_upper: "r \<le> of_int n \<Longrightarrow> round_half_even r \<le> n"
proof -
  assume r: "r \<le> of_int n"
  show ?thesis
  proof (cases "r = of_int n")
    case False
    with r have "\<lfloor>r\<rfloor> < n" by (simp add: floor_less_iff)
    then show ?thesis by (auto simp: round_half_even_def Let_def)
  qed simp
qed

lemma round_half_even_err: "\<bar>r - of_int (round_half_even r)\<bar> \<le> 1 / 2"
proof -
  have "0 \<le> r - of_int \<lfloor>r\<rfloor>" and "r - of_int \<lfloor>r\<rfloor> < 1"
    by (linarith, linarith)
  then show ?thesis by (auto simp: round_half_even_def Let_def)
qed

lemma round_half_even_mono: "r \<le> s \<Longrightarrow> round_half_even r \<le> round_half_even s"
proof (cases "\<lfloor>r\<rfloor> = \<lfloor>s\<rfloor>")
  case True
  assume "r \<le> s"
  with True show ?thesis by (auto simp: round_half_even_def Let_def)
next
  case False
  assume "r \<le> s"
  then have "\<lfloor>r\<rfloor> \<le> \<lfloor>s\<rfloor>" by (rule floor_mono)
  with False have "\<lfloor>r\<rfloor> + 1 \<le> \<lfloor>s\<rfloor>" by linarith
  moreover have "round_half_even r \<le> \<lfloor>r\<rfloor> + 1" by (auto simp: round_half_even_def Let_def)
  moreover have "\<lfloor>s\<rfloor> \<le> round_half_even s" by (auto simp: round_half_even_def Let_def)
  ultimately show ?thesis by linarith
qed

lemma round_half_even_minus: "round_half_even (- r) = - round_half_even r"
proof (cases "r = of_int \<lfloor>r\<rfloor>")
  case True
  then show ?thesis by (metis of_int_minus round_half_even_of_int)
next
  case False
  then have "\<lceil>r\<rceil> = \<lfloor>r\<rfloor> + 1" by (simp add: ceiling_altdef)
  then have "\<lfloor>- r\<rfloor> = - \<lfloor>r\<rfloor> - 1" by (simp add: floor_minus)
  then show ?thesis by (auto simp: round_half_even_def Let_def)
qed

subsection \<open>The adjusted exponent\<close>

lemma floorlog10_bounds:
  "0 < n \<Longrightarrow> p10 (int (floorlog 10 n) - 1) \<le> of_nat n \<and> of_nat n < p10 (int (floorlog 10 n))"
proof -
  assume n: "0 < n"
  then have b: "10 ^ (floorlog 10 n - 1) \<le> n" "n < 10 ^ floorlog 10 n"
    using floorlog_bounds [of n 10] by simp_all
  have pos: "0 < floorlog 10 n" using n by (simp add: floorlog_def)
  have "p10 (int (floorlog 10 n) - 1) = of_nat (10 ^ (floorlog 10 n - 1))"
    using pos by (simp add: p10_def nat_diff_distrib)
  moreover have "p10 (int (floorlog 10 n)) = of_nat (10 ^ floorlog 10 n)"
    by (simp add: p10_def)
  ultimately show ?thesis using b by (simp only: of_nat_le_iff of_nat_less_iff)
qed

lemma dec_exp_bounds:
  assumes "x \<noteq> 0"
  shows "p10 (dec_exp x) \<le> \<bar>x\<bar>" and "\<bar>x\<bar> < p10 (dec_exp x + 1)"
proof -
  obtain p q where pq: "quotient_of \<bar>x\<bar> = (p, q)" by force
  then have q: "0 < q" and x: "\<bar>x\<bar> = of_int p / of_int q"
    by (simp_all add: quotient_of_denom_pos quotient_of_div)
  from assms x q have p: "0 < p"
    by (metis abs_ge_zero abs_zero abs_eq_0 divide_eq_0_iff linorder_neqE_linordered_idom
        not_less of_int_0 of_int_less_0_iff of_int_pos divide_less_0_iff)
  let ?a = "int (floorlog 10 (nat p))" and ?b = "int (floorlog 10 (nat q))"
  have np: "(of_nat (nat p) :: rat) = of_int p" and nq: "(of_nat (nat q) :: rat) = of_int q"
    using p q by (simp_all add: of_nat_nat)
  have pb: "p10 (?a - 1) \<le> of_int p" "of_int p < p10 ?a"
    using floorlog10_bounds [of "nat p"] p np by simp_all
  have qb: "p10 (?b - 1) \<le> of_int q" "of_int q < p10 ?b"
    using floorlog10_bounds [of "nat q"] q nq by simp_all
  have q0: "(0::rat) < of_int q" using q by simp
  have lo: "p10 (?a - ?b - 1) \<le> \<bar>x\<bar>"
  proof -
    have "p10 (?a - ?b - 1) = p10 (?a - 1) / p10 ?b"
      by (simp add: p10_diff [symmetric] algebra_simps)
    also have "\<dots> \<le> of_int p / of_int q"
      using pb(1) qb(2) q0 p by (intro frac_le) simp_all
    finally show ?thesis by (simp only: x)
  qed
  have hi: "\<bar>x\<bar> < p10 (?a - ?b + 1)"
  proof -
    have "of_int p / of_int q < p10 ?a / p10 (?b - 1)"
      using pb(2) qb(1) p by (intro frac_less) simp_all
    also have "\<dots> = p10 (?a - ?b + 1)"
      by (simp add: p10_diff [symmetric] algebra_simps)
    finally show ?thesis by (simp only: x)
  qed
  have e: "dec_exp x = (if p10 (?a - ?b) \<le> \<bar>x\<bar> then ?a - ?b else ?a - ?b - 1)"
    by (simp add: dec_exp_def pq Let_def)
  show "p10 (dec_exp x) \<le> \<bar>x\<bar>" using lo by (simp add: e)
  show "\<bar>x\<bar> < p10 (dec_exp x + 1)" using hi by (simp add: e)
qed

lemma dec_exp_unique:
  assumes "p10 e \<le> \<bar>x\<bar>" and "\<bar>x\<bar> < p10 (e + 1)"
  shows "dec_exp x = e"
proof -
  have "x \<noteq> 0" using assms(1) p10_pos [of e] by (metis abs_zero linorder_not_less)
  then have "p10 (dec_exp x) \<le> \<bar>x\<bar>" and "\<bar>x\<bar> < p10 (dec_exp x + 1)"
    by (rule dec_exp_bounds)+
  with assms have "p10 e < p10 (dec_exp x + 1)" and "p10 (dec_exp x) < p10 (e + 1)"
    by linarith+
  then show ?thesis by simp
qed

lemma dec_exp_minus [simp]: "dec_exp (- x) = dec_exp x"
  by (simp add: dec_exp_def)

lemma dec_exp_mono:
  assumes "0 < x" and "x \<le> y"
  shows "dec_exp x \<le> dec_exp y"
proof -
  have "p10 (dec_exp x) \<le> x" using dec_exp_bounds(1) [of x] assms by simp
  also have "x \<le> y" by fact
  also have "y < p10 (dec_exp y + 1)" using dec_exp_bounds(2) [of y] assms by simp
  finally show ?thesis by simp
qed

subsection \<open>Rounding: exact on 28 digits, monotone, odd\<close>

definition dec_repr :: "rat \<Rightarrow> bool" where
  "dec_repr x \<longleftrightarrow> (\<exists>c e. \<bar>c\<bar> < 10 ^ 28 \<and> x = of_int c * p10 e)"

lemma dec_round_0 [simp]: "dec_round 0 = 0"
  by (simp add: dec_round_def)

lemma dec_round_minus [simp]: "dec_round (- x) = - dec_round x"
  by (simp add: dec_round_def Let_def round_half_even_minus)

lemma p10_scale27: "p10 e = of_int (10 ^ 27) * p10 (e - 27)"
  using p10_add [of 27 "e - 27"] by (simp add: p10_def [of 27])

lemma p10_scale28: "p10 (e + 1) = of_int (10 ^ 28) * p10 (e - 27)"
  using p10_add [of 28 "e - 27"] by (simp add: p10_def [of 28] add.commute)

lemma dec_scaled_bounds:
  assumes "0 < x"
  shows "of_int (10 ^ 27) \<le> x / p10 (dec_exp x - 27)"
    and "x / p10 (dec_exp x - 27) < of_int (10 ^ 28)"
  using dec_exp_bounds [of x] assms
  unfolding p10_scale28 p10_scale27 [of "dec_exp x"]
  by (simp_all only: pos_le_divide_eq [OF p10_pos] pos_divide_less_eq [OF p10_pos] abs_of_pos)

lemma dec_coeff_bounds:
  assumes "0 < x"
  shows "10 ^ 27 \<le> round_half_even (x / p10 (dec_exp x - 27))"
    and "round_half_even (x / p10 (dec_exp x - 27)) \<le> 10 ^ 28"
  using dec_scaled_bounds [OF assms] by (auto intro: round_half_even_lower round_half_even_upper)

lemma dec_round_bracket:
  assumes "0 < x"
  shows "p10 (dec_exp x) \<le> dec_round x" and "dec_round x \<le> p10 (dec_exp x + 1)"
proof -
  let ?u = "p10 (dec_exp x - 27)" and ?c = "round_half_even (x / p10 (dec_exp x - 27))"
  have r: "dec_round x = of_int ?c * ?u"
    using assms by (simp add: dec_round_def Let_def)
  show "p10 (dec_exp x) \<le> dec_round x"
    unfolding p10_scale27 [of "dec_exp x"] r using dec_coeff_bounds(1) [OF assms]
    by (intro mult_right_mono p10_nonneg) (simp only: of_int_le_iff)
  show "dec_round x \<le> p10 (dec_exp x + 1)"
    unfolding p10_scale28 r using dec_coeff_bounds(2) [OF assms]
    by (intro mult_right_mono p10_nonneg) (simp only: of_int_le_iff)
qed

lemma dec_round_pos [simp]: "0 < x \<Longrightarrow> 0 < dec_round x"
  using dec_round_bracket(1) [of x] p10_pos [of "dec_exp x"] by linarith

lemma dec_round_mono_pos:
  assumes "0 < x" and "x \<le> y"
  shows "dec_round x \<le> dec_round y"
proof (cases "dec_exp x = dec_exp y")
  case True
  let ?u = "p10 (dec_exp y - 27)"
  have "x / ?u \<le> y / ?u" using assms(2) by (simp add: divide_right_mono)
  then have "round_half_even (x / ?u) \<le> round_half_even (y / ?u)" by (rule round_half_even_mono)
  then have "of_int (round_half_even (x / ?u)) * ?u \<le> of_int (round_half_even (y / ?u)) * ?u"
    by (simp add: mult_right_mono)
  with assms True show ?thesis by (simp add: dec_round_def Let_def)
next
  case False
  with dec_exp_mono [OF assms] have "dec_exp x + 1 \<le> dec_exp y" by linarith
  then have "p10 (dec_exp x + 1) \<le> p10 (dec_exp y)" by simp
  then show ?thesis
    using dec_round_bracket(2) [OF assms(1)] dec_round_bracket(1) [of y] assms by linarith
qed

lemma dec_round_exact:
  assumes "dec_repr x"
  shows "dec_round x = x"
proof (cases "x = 0")
  case False
  obtain c e where c: "\<bar>c\<bar> < 10 ^ 28" and x: "x = of_int c * p10 e"
    using assms by (auto simp: dec_repr_def)
  have "\<bar>x\<bar> = of_int \<bar>c\<bar> * p10 e" by (simp add: x abs_mult)
  also have "\<dots> < of_int (10 ^ 28) * p10 e"
    using c by (intro mult_strict_right_mono p10_pos) (simp only: of_int_less_iff)
  also have "\<dots> = p10 (28 + e)" using p10_scale28 [of "27 + e"] by (simp add: algebra_simps)
  finally have "dec_exp x < 28 + e" using dec_exp_bounds(1) [OF False] by (simp flip: p10_less_iff)
  then have "0 \<le> e - (dec_exp x - 27)" by linarith
  then obtain n where "e - (dec_exp x - 27) = int n" by (rule nonneg_int_cases)
  then have n: "e = dec_exp x - 27 + int n" by linarith
  let ?u = "p10 (dec_exp x - 27)"
  have "p10 e = ?u * of_int (10 ^ n)" by (subst n) (simp only: p10_add p10_of_nat)
  then have xu: "x = of_int (c * 10 ^ n) * ?u" using x by (metis mult.assoc mult.commute of_int_mult)
  then have "x / ?u = of_int (c * 10 ^ n)" by (metis nonzero_mult_div_cancel_right p10_nonzero)
  then have "dec_round x = of_int (c * 10 ^ n) * ?u"
    using False by (simp only: dec_round_def Let_def round_half_even_of_int if_False)
  then show ?thesis using xu by simp
qed simp

lemma dec_repr_round [simp]: "dec_repr (dec_round x)"
proof -
  have pos: "dec_repr (dec_round x)" if x: "0 < x" for x
  proof -
    let ?u = "p10 (dec_exp x - 27)" and ?c = "round_half_even (x / p10 (dec_exp x - 27))"
    have r: "dec_round x = of_int ?c * ?u" using x by (simp add: dec_round_def Let_def)
    have c: "10 ^ 27 \<le> ?c" "?c \<le> 10 ^ 28" by (rule dec_coeff_bounds [OF x])+
    show ?thesis
    proof (cases "?c = 10 ^ 28")
      case True
      have "dec_round x = of_int (10 ^ 27) * p10 (dec_exp x - 26)"
      proof -
        have "p10 (dec_exp x - 26) = 10 * ?u"
          using p10_add [of 1 "dec_exp x - 27"] by (simp add: p10_def [of 1])
        then show ?thesis unfolding r True by simp
      qed
      moreover have "\<bar>10 ^ 27 :: int\<bar> < 10 ^ 28" by simp
      ultimately show ?thesis unfolding dec_repr_def by blast
    next
      case False
      have "0 \<le> ?c" using c(1) by (rule order_trans [rotated]) simp
      with c(2) False have "\<bar>?c\<bar> < 10 ^ 28" by (simp only: abs_of_nonneg order_less_le) simp
      with r show ?thesis unfolding dec_repr_def by blast
    qed
  qed
  have neg: "dec_repr (- x)" if "dec_repr x" for x
  proof -
    from that obtain c e where "\<bar>c\<bar> < 10 ^ 28" "x = of_int c * p10 e" by (auto simp: dec_repr_def)
    then have "\<bar>- c\<bar> < 10 ^ 28 \<and> - x = of_int (- c) * p10 e" by simp
    then show ?thesis unfolding dec_repr_def by blast
  qed
  consider "0 < x" | "x = 0" | "x < 0" by linarith
  then show ?thesis
  proof cases
    case 2
    have "\<bar>0 :: int\<bar> < 10 ^ 28 \<and> (0 :: rat) = of_int 0 * p10 0" by simp
    with 2 show ?thesis unfolding dec_repr_def by fastforce
  next
    case 3
    with neg [OF pos [of "- x"]] show ?thesis by simp
  qed (rule pos)
qed

lemma dec_round_idem [simp]: "dec_round (dec_round x) = dec_round x"
  by (simp add: dec_round_exact)

section \<open>The interface of the arithmetic context\<close>

text \<open>
  What the application relies on when it compares results of decimal arithmetic: rounding is
  monotone, symmetric in the sign, never loses a sign, and leaves rounded values alone.
\<close>

locale decimal_rounding =
  fixes rnd :: "rat \<Rightarrow> rat"
  assumes rnd_mono_pos: "0 < x \<Longrightarrow> x \<le> y \<Longrightarrow> rnd x \<le> rnd y"
    and rnd_odd: "rnd (- x) = - rnd x"
    and rnd_pos: "0 < x \<Longrightarrow> 0 < rnd x"
    and rnd_idem: "rnd (rnd x) = rnd x"
begin

lemma rnd_zero: "rnd 0 = 0"
  using rnd_odd [of 0] by simp

lemma rnd_neg: "x < 0 \<Longrightarrow> rnd x < 0"
  using rnd_pos [of "- x"] by (simp add: rnd_odd)

lemma rnd_gt_zero_iff: "0 < rnd x \<longleftrightarrow> 0 < x"
  using rnd_pos [of x] rnd_neg [of x] rnd_zero by (cases "x = 0") force+

lemma rnd_less_zero_iff: "rnd x < 0 \<longleftrightarrow> x < 0"
  using rnd_pos [of x] rnd_neg [of x] rnd_zero by (cases "x = 0") force+

lemma rnd_eq_zero_iff: "rnd x = 0 \<longleftrightarrow> x = 0"
  using rnd_gt_zero_iff [of x] rnd_less_zero_iff [of x] by linarith

lemma rnd_ge_zero_iff: "0 \<le> rnd x \<longleftrightarrow> 0 \<le> x"
  using rnd_less_zero_iff [of x] by linarith

lemma rnd_le_zero_iff: "rnd x \<le> 0 \<longleftrightarrow> x \<le> 0"
  using rnd_gt_zero_iff [of x] by linarith

lemma rnd_mono: "x \<le> y \<Longrightarrow> rnd x \<le> rnd y"
proof -
  assume xy: "x \<le> y"
  consider "0 < x" | "y < 0" | "x \<le> 0" "0 \<le> y" by linarith
  then show ?thesis
  proof cases
    case 1
    then show ?thesis using xy by (rule rnd_mono_pos)
  next
    case 2
    then have "rnd (- y) \<le> rnd (- x)" using xy by (intro rnd_mono_pos) simp_all
    then show ?thesis by (simp add: rnd_odd)
  next
    case 3
    then have "rnd x \<le> 0" and "0 \<le> rnd y" by (simp_all add: rnd_le_zero_iff rnd_ge_zero_iff)
    then show ?thesis by linarith
  qed
qed

text \<open>A rounded quantity is on the same side of a representable threshold as the exact one.\<close>

lemma rnd_lower: "rnd k = k \<Longrightarrow> k \<le> x \<Longrightarrow> k \<le> rnd x"
  using rnd_mono [of k x] by simp

lemma rnd_upper: "rnd k = k \<Longrightarrow> x \<le> k \<Longrightarrow> rnd x \<le> k"
  using rnd_mono [of x k] by simp

lemma rnd_below: "rnd k = k \<Longrightarrow> rnd x < k \<Longrightarrow> x < k"
  using rnd_lower [of k x] by linarith

lemmas rnd_signs = rnd_zero rnd_gt_zero_iff rnd_less_zero_iff rnd_eq_zero_iff rnd_ge_zero_iff rnd_le_zero_iff

end

interpretation dr: decimal_rounding dec_round
  by unfold_locales (auto intro: dec_round_mono_pos)

lemma dec_sub_signs [py_dec]:
  shows "0 < dec_sub x y \<longleftrightarrow> y < x" and "dec_sub x y < 0 \<longleftrightarrow> x < y" and "dec_sub x y = 0 \<longleftrightarrow> x = y"
    and "dec_sub x y \<le> 0 \<longleftrightarrow> x \<le> y" and "0 \<le> dec_sub x y \<longleftrightarrow> y \<le> x"
  by (simp_all add: dec_sub_def dr.rnd_signs)

lemma dec_add_pos [py_dec]: "0 < x \<Longrightarrow> 0 \<le> y \<Longrightarrow> 0 < dec_add x y"
  by (simp add: dec_add_def dr.rnd_signs)

lemma dec_mul_pos [py_dec]: "0 < x \<Longrightarrow> 0 < y \<Longrightarrow> 0 < dec_mul x y"
  by (simp add: dec_mul_def dr.rnd_signs)

lemma dec_div_pos [py_dec]: "0 < x \<Longrightarrow> 0 < y \<Longrightarrow> 0 < dec_div x y"
  by (simp add: dec_div_def dr.rnd_signs)

lemma dec_add_mono: "x \<le> x' \<Longrightarrow> y \<le> y' \<Longrightarrow> dec_add x y \<le> dec_add x' y'"
  by (simp add: dec_add_def dr.rnd_mono add_mono)

lemma dec_sub_mono: "x \<le> x' \<Longrightarrow> y' \<le> y \<Longrightarrow> dec_sub x y \<le> dec_sub x' y'"
  by (simp add: dec_sub_def dr.rnd_mono diff_mono)

lemma dec_div_mono: "x \<le> x' \<Longrightarrow> y' \<le> y \<Longrightarrow> 0 \<le> x \<Longrightarrow> 0 < y' \<Longrightarrow> dec_div x y \<le> dec_div x' y'"
  by (simp add: dec_div_def dr.rnd_mono frac_le)

text \<open>Numerals of the source with at most 28 digits are exact.\<close>

lemma dec_repr_of_int: "\<bar>c\<bar> < 10 ^ 28 \<Longrightarrow> dec_repr (of_int c)"
  unfolding dec_repr_def by (metis mult.right_neutral p10_0)

lemma dec_repr_scaled: "\<bar>c\<bar> < 10 ^ 28 \<Longrightarrow> dec_repr (of_int c / 10 ^ k)"
proof -
  assume c: "\<bar>c\<bar> < 10 ^ 28"
  have "p10 (- int k) = 1 / 10 ^ k" by (simp add: p10_def)
  then have "of_int c / 10 ^ k = of_int c * p10 (- int k)" by simp
  with c show ?thesis unfolding dec_repr_def by blast
qed

lemma dec_quantize_repr: "dec_quantize k x = Some y \<Longrightarrow> dec_repr y"
  by (auto simp: dec_quantize_def Let_def split: if_splits intro: dec_repr_scaled)

lemma dec_quantize_down_repr: "dec_quantize_down k x = Some y \<Longrightarrow> dec_repr y"
  by (auto simp: dec_quantize_down_def Let_def split: if_splits intro: dec_repr_scaled)

lemma dec_quantize_mono:
  assumes "dec_quantize k x = Some x'" and "dec_quantize k y = Some y'" and "x \<le> y"
  shows "x' \<le> y'"
proof -
  have "round_half_even (x * 10 ^ k) \<le> round_half_even (y * 10 ^ k)"
    using assms(3) by (intro round_half_even_mono) (simp add: mult_right_mono)
  then show ?thesis
    using assms(1,2) by (auto simp: dec_quantize_def Let_def divide_right_mono split: if_splits)
qed

lemma dec_quantize_down_le: "0 \<le> x \<Longrightarrow> dec_quantize_down k x = Some y \<Longrightarrow> 0 \<le> y \<and> y \<le> x"
  by (auto simp: dec_quantize_down_def Let_def divide_le_eq split: if_splits)

section \<open>Construction from text\<close>

datatype py_decimal = Finite rat | Infinite bool | NotANumber

definition digits_val :: "string \<Rightarrow> nat" where
  "digits_val s = foldl (\<lambda>a c. 10 * a + digit_val c) 0 s"

fun split_sign :: "string \<Rightarrow> bool \<times> string" where
  "split_sign [] = (False, [])"
| "split_sign (c # cs) =
     (if c = CHR ''-'' then (True, cs) else if c = CHR ''+'' then (False, cs) else (False, c # cs))"

fun parse_exponent :: "string \<Rightarrow> int option" where
  "parse_exponent [] = Some 0"
| "parse_exponent (c # cs) =
     (let (neg, ds) = split_sign cs in
      if (c = CHR ''e'' \<or> c = CHR ''E'') \<and> ds \<noteq> [] \<and> list_all py_isdigit ds
      then Some (if neg then - int (digits_val ds) else int (digits_val ds))
      else None)"

definition split_fraction :: "string \<Rightarrow> string \<times> string" where
  "split_fraction r =
     (case r of c # cs \<Rightarrow> if c = CHR ''.'' then (takeWhile py_isdigit cs, dropWhile py_isdigit cs)
                          else ([], r)
      | [] \<Rightarrow> ([], []))"

definition parse_number :: "string \<Rightarrow> rat option" where
  "parse_number s =
     (let ip = takeWhile py_isdigit s; (fp, r) = split_fraction (dropWhile py_isdigit s) in
      if ip = [] \<and> fp = [] then None
      else map_option (\<lambda>e. of_nat (digits_val (ip @ fp)) * p10 (e - int (length fp))) (parse_exponent r))"

definition is_nan_text :: "string \<Rightarrow> bool" where
  "is_nan_text l \<longleftrightarrow> (take 3 l = ''nan'' \<and> list_all py_isdigit (drop 3 l))
     \<or> (take 4 l = ''snan'' \<and> list_all py_isdigit (drop 4 l))"

text \<open>\<open>Decimal(text)\<close>; \<open>None\<close> is the \<open>InvalidOperation\<close> of a malformed text.\<close>

definition decimal_of_string :: "string \<Rightarrow> py_decimal option" where
  "decimal_of_string s =
     (let (neg, u) = split_sign (py_remove_char (CHR ''_'') (py_strip s)); l = py_lower u in
      if l = ''inf'' \<or> l = ''infinity'' then Some (Infinite neg)
      else if is_nan_text l then Some NotANumber
      else map_option (\<lambda>v. Finite (if neg then - v else v)) (parse_number u))"

text \<open>The finite values only, as every caller that checks \<open>is_finite()\<close> keeps them.\<close>

definition finite_decimal :: "string \<Rightarrow> rat option" where
  "finite_decimal s = (case decimal_of_string s of Some (Finite v) \<Rightarrow> Some v | _ \<Rightarrow> None)"

text \<open>
  An argument that the application accepts as \<open>Any\<close> and turns into a price: \<open>None\<close>, a \<open>Decimal\<close>, or
  any other object, which is read through its \<open>str\<close> text.
\<close>

datatype py_value = VNone | VText string | VDecimal py_decimal

section \<open>The plain decimal text of a normalized value\<close>

fun nat_digits :: "nat \<Rightarrow> string" where
  "nat_digits n = (if n < 10 then [digit_char n] else nat_digits (n div 10) @ [digit_char (n mod 10)])"

declare nat_digits.simps [simp del]

fun pad_digits :: "nat \<Rightarrow> nat \<Rightarrow> string" where
  "pad_digits 0 n = []"
| "pad_digits (Suc k) n = pad_digits k (n div 10) @ [digit_char (n mod 10)]"

definition frac_digits :: "rat \<Rightarrow> nat" where
  "frac_digits x =
     (let m = nat (27 - dec_exp x) in
      case find (\<lambda>k. snd (quotient_of x) dvd 10 ^ k) [0..<Suc m] of Some k \<Rightarrow> k | None \<Rightarrow> m)"

text \<open>\<open>format(x.normalize(), 'f')\<close> for a value that already has at most 28 digits.\<close>

definition dec_format_f :: "rat \<Rightarrow> string" where
  "dec_format_f x =
     (let k = frac_digits x; n = nat \<lfloor>\<bar>x\<bar> * 10 ^ k\<rfloor> in
      (if x < 0 then ''-'' else []) @ nat_digits (n div 10 ^ k)
        @ (if k = 0 then [] else CHR ''.'' # pad_digits k (n mod 10 ^ k)))"

definition dec_canonical :: "rat \<Rightarrow> string" where
  "dec_canonical v = dec_format_f (dec_round v)"

subsection \<open>Executable forms\<close>

text \<open>
  Natural numbers evaluate in unary; the following equations run the conversions on integers.
\<close>

definition digits_int :: "string \<Rightarrow> int" where
  "digits_int s = foldl (\<lambda>a c. 10 * a + int (digit_val c)) 0 s"

function int_digits :: "int \<Rightarrow> string" where
  "int_digits n = (if n < 10 then [digit_char (nat n)] else int_digits (n div 10) @ [digit_char (nat (n mod 10))])"
  by pat_completeness auto
termination by (relation "measure nat") auto

declare int_digits.simps [simp del]

fun int_pad :: "nat \<Rightarrow> int \<Rightarrow> string" where
  "int_pad 0 n = []"
| "int_pad (Suc k) n = int_pad k (n div 10) @ [digit_char (nat (n mod 10))]"

function int_len :: "int \<Rightarrow> int" where
  "int_len n = (if n \<le> 0 then 0 else int_len (n div 10) + 1)"
  by pat_completeness auto
termination by (relation "measure nat") auto

declare int_len.simps [simp del]

lemma int_len_floorlog: "int_len n = int (floorlog 10 (nat n))"
proof (induction n rule: int_len.induct)
  case (1 n)
  show ?case
  proof (cases "n \<le> 0")
    case True
    then show ?thesis by (simp add: int_len.simps floorlog_def)
  next
    case False
    then have "nat (n div 10) = nat n div 10" by (simp add: nat_div_distrib)
    with False 1 show ?thesis
      by (subst int_len.simps, subst compute_floorlog) simp
  qed
qed

lemma dec_exp_code [code]:
  "dec_exp x = (let (p, q) = quotient_of \<bar>x\<bar>; d = int_len p - int_len q in if p10 d \<le> \<bar>x\<bar> then d else d - 1)"
  by (simp add: dec_exp_def int_len_floorlog)

lemma digits_int: "digits_int s = int (digits_val s)"
proof -
  have "foldl (\<lambda>a c. 10 * a + int (digit_val c)) (int b) s = int (foldl (\<lambda>a c. 10 * a + digit_val c) b s)" for b
  proof (induction s arbitrary: b)
    case (Cons c s)
    show ?case using Cons.IH [of "10 * b + digit_val c"] by simp
  qed simp
  from this [of 0] show ?thesis by (simp add: digits_int_def digits_val_def)
qed

lemma int_digits: "int_digits (int n) = nat_digits n"
proof (induction n rule: nat_digits.induct)
  case (1 n)
  then show ?case
    by (subst int_digits.simps, subst nat_digits.simps)
       (simp add: zdiv_int [of n 10, simplified, symmetric] zmod_int [of n 10, simplified, symmetric])
qed

lemma int_pad: "int_pad k (int n) = pad_digits k n"
  by (induction k arbitrary: n)
     (simp_all add: zdiv_int [of _ 10, simplified, symmetric] zmod_int [of _ 10, simplified, symmetric])

lemma parse_number_code [code]:
  "parse_number s =
     (let ip = takeWhile py_isdigit s; (fp, r) = split_fraction (dropWhile py_isdigit s) in
      if ip = [] \<and> fp = [] then None
      else map_option (\<lambda>e. of_int (digits_int (ip @ fp)) * p10 (e - int (length fp))) (parse_exponent r))"
  by (simp add: parse_number_def digits_int Let_def split: prod.splits)

lemma dec_format_f_code [code]:
  "dec_format_f x =
     (let k = frac_digits x; n = \<lfloor>\<bar>x\<bar> * 10 ^ k\<rfloor>; b = 10 ^ k in
      (if x < 0 then ''-'' else []) @ int_digits (n div b)
        @ (if k = 0 then [] else CHR ''.'' # int_pad k (n mod b)))"
proof -
  define k where "k = frac_digits x"
  have "0 \<le> \<bar>x\<bar> * 10 ^ k" by simp
  then obtain n where n: "\<lfloor>\<bar>x\<bar> * 10 ^ k\<rfloor> = int n" by (metis zero_le_floor zero_le_imp_eq_int)
  have "int n div 10 ^ k = int (n div 10 ^ k)" "int n mod 10 ^ k = int (n mod 10 ^ k)"
    by (simp_all add: zdiv_int zmod_int)
  with n show ?thesis
    by (simp add: dec_format_f_def Let_def k_def [symmetric] int_digits int_pad)
qed

subsection \<open>Digit strings\<close>

lemma digits_val_Nil [simp]: "digits_val [] = 0"
  by (simp add: digits_val_def)

lemma digits_val_snoc [simp]: "digits_val (s @ [c]) = 10 * digits_val s + digit_val c"
  by (simp add: digits_val_def)

lemma digits_val_append: "digits_val (s @ t) = digits_val s * 10 ^ length t + digits_val t"
proof (induction t rule: rev_induct)
  case (snoc c t)
  have "digits_val (s @ t @ [c]) = 10 * digits_val (s @ t) + digit_val c"
    using digits_val_snoc [of "s @ t" c] by simp
  with snoc show ?case by (simp add: algebra_simps)
qed simp

lemma nat_digits_digits: "list_all py_isdigit (nat_digits n)"
proof (induction n rule: nat_digits.induct)
  case (1 n)
  then show ?case
    by (subst nat_digits.simps) (auto simp: digit_char_digits)
qed

lemma nat_digits_nonempty [simp]: "nat_digits n \<noteq> []"
  by (subst nat_digits.simps) simp

lemma nat_digits_val [simp]: "digits_val (nat_digits n) = n"
proof (induction n rule: nat_digits.induct)
  case (1 n)
  show ?case
  proof (cases "n < 10")
    case True
    then show ?thesis
      by (subst nat_digits.simps) (simp add: digits_val_snoc [of "[]", simplified])
  next
    case False
    then show ?thesis using 1 by (subst nat_digits.simps) simp
  qed
qed

lemma pad_digits_digits: "list_all py_isdigit (pad_digits k n)"
  by (induction k arbitrary: n) (auto simp: digit_char_digits)

lemma pad_digits_length [simp]: "length (pad_digits k n) = k"
  by (induction k arbitrary: n) auto

lemma pad_digits_val [simp]: "digits_val (pad_digits k n) = n mod 10 ^ k"
proof (induction k arbitrary: n)
  case (Suc k)
  have "n mod 10 ^ Suc k = 10 * (n div 10 mod 10 ^ k) + n mod 10"
    by (simp add: mod_mult2_eq)
  with Suc show ?case by simp
qed simp

lemma takeWhile_digits [simp]:
  "list_all py_isdigit ds \<Longrightarrow> takeWhile py_isdigit (ds @ CHR ''.'' # r) = ds"
  "list_all py_isdigit ds \<Longrightarrow> dropWhile py_isdigit (ds @ CHR ''.'' # r) = CHR ''.'' # r"
  "list_all py_isdigit ds \<Longrightarrow> takeWhile py_isdigit ds = ds"
  "list_all py_isdigit ds \<Longrightarrow> dropWhile py_isdigit ds = []"
  by (induction ds) (auto simp: py_isdigit_def)

lemma parse_number_plain:
  assumes "list_all py_isdigit ip" and "list_all py_isdigit fp" and "ip \<noteq> []"
  shows "parse_number ip = Some (of_nat (digits_val ip))"
    and "parse_number (ip @ CHR ''.'' # fp) = Some (of_nat (digits_val (ip @ fp)) * p10 (- int (length fp)))"
  using assms by (simp_all add: parse_number_def split_fraction_def)

subsection \<open>The text of a value parses back to the value\<close>

definition plain_number :: "string \<Rightarrow> bool" where
  "plain_number u \<longleftrightarrow> u \<noteq> [] \<and> py_isdigit (hd u) \<and> py_isdigit (last u)
     \<and> list_all (\<lambda>c. py_isdigit c \<or> c = CHR ''.'') u"

lemma py_isdigit_not [simp]:
  "\<not> py_isdigit (CHR ''-'')" "\<not> py_isdigit (CHR ''+'')" "\<not> py_isdigit (CHR ''_'')" "\<not> py_isdigit (CHR ''.'')"
  by (simp_all add: py_isdigit_def)

lemma py_isdigit_not_space: "py_isdigit c \<Longrightarrow> \<not> py_isspace c"
  by (auto simp: py_isdigit_def py_isspace_def)

lemma lower_char_digit: "py_isdigit c \<Longrightarrow> lower_char c = c"
  by (auto simp: py_isdigit_def lower_char_def Let_def)

lemma decimal_of_string_plain:
  assumes "plain_number u"
  shows "decimal_of_string u = map_option Finite (parse_number u)"
    and "decimal_of_string (CHR ''-'' # u) = map_option (\<lambda>v. Finite (- v)) (parse_number u)"
proof -
  obtain c cs where u: "u = c # cs" using assms by (cases u) (auto simp: plain_number_def)
  have c: "py_isdigit c" "c \<noteq> CHR ''-''" "c \<noteq> CHR ''+''"
    using assms u by (auto simp: plain_number_def)
  have ends: "\<not> py_isspace (hd u)" "\<not> py_isspace (last u)"
    using assms by (simp_all add: plain_number_def py_isdigit_not_space)
  have s1: "py_strip u = u" using ends by (simp add: py_strip_def strip_by_fixed)
  have s2: "py_strip (CHR ''-'' # u) = CHR ''-'' # u"
    using ends(2) u by (simp add: py_strip_def strip_by_fixed py_isspace_def)
  have no_us: "\<forall>d \<in> set u. d \<noteq> CHR ''_''"
    using assms by (auto simp: plain_number_def list_all_iff)
  have r: "py_remove_char (CHR ''_'') u = u"
    using no_us by (simp add: py_remove_char_def filter_id_conv)
  have l: "py_lower u = c # map lower_char cs" using u c(1) by (simp add: py_lower_def lower_char_digit)
  have ni: "py_lower u \<noteq> ''inf''" "py_lower u \<noteq> ''infinity''" "\<not> is_nan_text (py_lower u)"
    unfolding l is_nan_text_def using c(1) by (auto simp: py_isdigit_def)
  have sp: "split_sign u = (False, u)" using u c by simp
  show "decimal_of_string u = map_option Finite (parse_number u)"
    using ni by (simp add: decimal_of_string_def s1 r sp)
  have r2: "py_remove_char (CHR ''_'') (CHR ''-'' # u) = CHR ''-'' # u"
    using r by (simp add: py_remove_char_def)
  show "decimal_of_string (CHR ''-'' # u) = map_option (\<lambda>v. Finite (- v)) (parse_number u)"
    using ni by (simp add: decimal_of_string_def s2 r2)
qed

lemma plain_number_digits:
  assumes "list_all py_isdigit ip" and "ip \<noteq> []"
  shows "plain_number ip"
    and "list_all py_isdigit fp \<Longrightarrow> fp \<noteq> [] \<Longrightarrow> plain_number (ip @ CHR ''.'' # fp)"
  using assms by (auto simp: plain_number_def list_all_iff)

lemma quotient_dvd_iff: "snd (quotient_of x) dvd 10 ^ k \<longleftrightarrow> (\<exists>m. x * 10 ^ k = of_int m)"
proof -
  obtain p q where pq: "quotient_of x = (p, q)" by force
  then have q: "q \<noteq> 0" and x: "x = of_int p / of_int q" and cop: "coprime p q"
    using quotient_of_denom_pos [OF pq] by (simp_all add: quotient_of_div quotient_of_coprime)
  have "(\<exists>m. x * 10 ^ k = of_int m) \<longleftrightarrow> (\<exists>m. of_int (p * 10 ^ k) = (of_int (m * q) :: rat))"
    using q by (simp add: x field_simps)
  also have "\<dots> \<longleftrightarrow> (\<exists>m. p * 10 ^ k = m * q)" by (simp only: of_int_eq_iff)
  also have "\<dots> \<longleftrightarrow> q dvd p * 10 ^ k" by (auto simp: dvd_def mult.commute)
  also have "\<dots> \<longleftrightarrow> q dvd 10 ^ k"
    using cop by (simp add: coprime_commute coprime_dvd_mult_right_iff)
  finally show ?thesis by (simp add: pq)
qed

lemma frac_digits_integral:
  assumes "dec_repr x"
  obtains m where "x * 10 ^ frac_digits x = of_int m"
proof -
  let ?m = "nat (27 - dec_exp x)"
  have "\<exists>m. x * 10 ^ ?m = of_int m"
  proof (cases "x = 0")
    case False
    let ?c = "round_half_even (x / p10 (dec_exp x - 27))"
    have xc: "x = of_int ?c * p10 (dec_exp x - 27)"
      using dec_round_exact [OF assms] False by (simp add: dec_round_def Let_def)
    show ?thesis
    proof (cases "dec_exp x \<le> 27")
      case True
      then have "p10 (dec_exp x - 27) * 10 ^ ?m = 1"
        by (cases "dec_exp x = 27") (simp_all add: p10_def)
      then have "x * 10 ^ ?m = of_int ?c" by (subst xc) simp
      then show ?thesis by blast
    next
      case False
      then have "p10 (dec_exp x - 27) = of_int (10 ^ nat (dec_exp x - 27))" by (simp add: p10_def)
      then have "x * 10 ^ ?m = of_int (?c * 10 ^ nat (dec_exp x - 27))"
        using False by (subst xc) simp
      then show ?thesis by blast
    qed
  qed auto
  then have hit: "snd (quotient_of x) dvd 10 ^ ?m" by (simp only: quotient_dvd_iff)
  have "snd (quotient_of x) dvd 10 ^ frac_digits x"
  proof (cases "find (\<lambda>k. snd (quotient_of x) dvd 10 ^ k) [0..<Suc ?m]")
    case None
    then show ?thesis using hit by (simp add: frac_digits_def Let_def)
  next
    case (Some k)
    then have "snd (quotient_of x) dvd 10 ^ k" by (auto simp: find_Some_iff)
    with Some show ?thesis by (simp add: frac_digits_def Let_def)
  qed
  then show ?thesis using that by (auto simp only: quotient_dvd_iff)
qed

lemma dec_format_f_parse:
  assumes "dec_repr x"
  shows "decimal_of_string (dec_format_f x) = Some (Finite x)"
proof -
  obtain m where m: "x * 10 ^ frac_digits x = of_int m" using frac_digits_integral [OF assms] .
  let ?k = "frac_digits x" and ?n = "nat \<bar>m\<bar>"
  let ?ip = "nat_digits (?n div 10 ^ ?k)" and ?fp = "pad_digits ?k (?n mod 10 ^ ?k)"
  have ax: "\<bar>x\<bar> * 10 ^ ?k = of_int \<bar>m\<bar>" using arg_cong [OF m, of abs] by (simp add: abs_mult)
  have n: "nat \<lfloor>\<bar>x\<bar> * 10 ^ ?k\<rfloor> = ?n" by (simp only: ax floor_of_int)
  have ip: "list_all py_isdigit ?ip" "?ip \<noteq> []" and fp: "list_all py_isdigit ?fp"
    by (simp_all add: nat_digits_digits pad_digits_digits)
  define u where "u = ?ip @ (if ?k = 0 then [] else CHR ''.'' # ?fp)"
  have plain: "plain_number u"
  proof (cases "?k = 0")
    case True
    then show ?thesis using plain_number_digits(1) [OF ip] by (simp add: u_def)
  next
    case False
    then have "?fp \<noteq> []" by (metis length_0_conv pad_digits_length)
    then show ?thesis using False plain_number_digits(2) [OF ip fp] by (simp add: u_def)
  qed
  have val: "parse_number u = Some \<bar>x\<bar>"
  proof (cases "?k = 0")
    case True
    then have "\<bar>x\<bar> = of_nat ?n" using ax by simp
    with True show ?thesis using parse_number_plain(1) [OF ip(1) ip(1) ip(2)] by (simp add: u_def)
  next
    case False
    have "of_nat (?n div 10 ^ ?k * 10 ^ ?k + ?n mod 10 ^ ?k) * p10 (- int ?k) = of_nat ?n * p10 (- int ?k)"
      by (simp only: div_mult_mod_eq)
    also have "\<dots> = (\<bar>x\<bar> * 10 ^ ?k) * p10 (- int ?k)" by (simp only: ax of_nat_nat abs_ge_zero)
    also have "\<dots> = \<bar>x\<bar>" by (simp add: p10_def)
    finally show ?thesis using False parse_number_plain(2) [OF ip(1) fp ip(2)]
      by (simp add: u_def digits_val_append del: of_nat_add of_nat_mult)
  qed
  have "dec_format_f x = (if x < 0 then CHR ''-'' # u else u)"
    by (simp add: dec_format_f_def Let_def n u_def)
  then show ?thesis using decimal_of_string_plain [OF plain] val by simp
qed

text \<open>
  Two prices have the same canonical text exactly when they round to the same 28-digit value, so
  the text identifies the value whatever notation (\<open>1.50\<close>, \<open>1.5\<close>, \<open>15E-1\<close>) it was stored in.
\<close>

lemma dec_canonical_parse: "decimal_of_string (dec_canonical v) = Some (Finite (dec_round v))"
  by (simp add: dec_canonical_def dec_format_f_parse)

lemma dec_canonical_eq_iff: "dec_canonical v = dec_canonical w \<longleftrightarrow> dec_round v = dec_round w"
  by (metis dec_canonical_def dec_canonical_parse option.inject py_decimal.inject(1))

end
