(* ===== verification/Trade_Plan.thy ===== *)
theory Trade_Plan
  imports Py_Decimal
begin

text \<open>
  The economic contract of a trade plan.

  Models \<open>app/core/minimum_rr.py\<close> (the configured and per-mode minimum reward-to-risk ratio),
  \<open>app/core/price_precision.py\<close> (rounding of published prices) and
  \<open>app/core/trade_plan_integrity.py\<close> (geometry and reward-to-risk validation). The validator is shown
  equivalent to a declarative description of a well-ordered plan; from it follow the guarantees of
  the published plan at every price of its entry zone.
\<close>

section \<open>Minimum reward-to-risk policy\<close>

definition DEFAULT_CONFIGURED_MINIMUM_RR :: rat where
  "DEFAULT_CONFIGURED_MINIMUM_RR = 5 / 2"

definition SCALP_HARD_MINIMUM_RR :: rat where
  "SCALP_HARD_MINIMUM_RR = 5 / 2"

definition SWING_HARD_MINIMUM_RR :: rat where
  "SWING_HARD_MINIMUM_RR = 5 / 2"

definition CHALLENGE_HARD_MINIMUM_RR :: rat where
  "CHALLENGE_HARD_MINIMUM_RR = 3"

datatype rr_error = MinimumRRConfigurationError | UnsupportedMode string

record MinimumRRPolicy =
  rp_mode :: string
  configured_global_minimum_rr :: rat
  hard_mode_floor :: rat
  effective_minimum_rr :: rat

fun decimal_of_stripped :: "py_value \<Rightarrow> py_decimal option" where
  "decimal_of_stripped VNone = decimal_of_string ''None''"
| "decimal_of_stripped (VText s) = decimal_of_string (py_strip s)"
| "decimal_of_stripped (VDecimal d) = Some d"

definition validate_configured_minimum_rr :: "py_value \<Rightarrow> rr_error + rat" where
  "validate_configured_minimum_rr v =
     (case decimal_of_stripped v of
        Some (Finite m) \<Rightarrow>
          if m < DEFAULT_CONFIGURED_MINIMUM_RR then Inl MinimumRRConfigurationError else Inr m
      | _ \<Rightarrow> Inl MinimumRRConfigurationError)"

definition mode_name :: "string \<Rightarrow> string" where
  "mode_name m = py_lower (py_strip m)"

definition hard_mode_minimum_rr :: "string \<Rightarrow> rr_error + rat" where
  "hard_mode_minimum_rr m =
     (let n = mode_name m in
      if n = ''challenge'' then Inr CHALLENGE_HARD_MINIMUM_RR
      else if n = ''scalp'' then Inr SCALP_HARD_MINIMUM_RR
      else if n = ''swing'' then Inr SWING_HARD_MINIMUM_RR
      else Inl (UnsupportedMode n))"

definition minimum_rr_policy :: "py_value \<Rightarrow> string \<Rightarrow> rr_error + MinimumRRPolicy" where
  "minimum_rr_policy v m =
     ebind (validate_configured_minimum_rr v) (\<lambda>configured.
     ebind (hard_mode_minimum_rr (mode_name m)) (\<lambda>hard_floor.
       Inr \<lparr>rp_mode = mode_name m, configured_global_minimum_rr = configured,
            hard_mode_floor = hard_floor, effective_minimum_rr = max configured hard_floor\<rparr>))"

fun candidate_decimal :: "py_value \<Rightarrow> rat option" where
  "candidate_decimal VNone = None"
| "candidate_decimal (VText s) =
     (if py_upper (py_strip s) \<in> {'''', ''N/A'', ''NA'', ''NONE'', ''NAN''} then None
      else finite_decimal (py_strip s))"
| "candidate_decimal (VDecimal d) = (case d of Finite r \<Rightarrow> Some r | _ \<Rightarrow> None)"

definition candidate_rr_meets_minimum :: "py_value \<Rightarrow> MinimumRRPolicy \<Rightarrow> bool" where
  "candidate_rr_meets_minimum v policy =
     (case candidate_decimal v of None \<Rightarrow> False | Some r \<Rightarrow> r \<ge> effective_minimum_rr policy)"

text \<open>The rejection text prints the policy and the candidate; here the reason carries them.\<close>

datatype rr_rejection =
  MissingRR MinimumRRPolicy | RRBelowMinimum rat MinimumRRPolicy | NoRRRejection

definition rr_rejection_reason :: "py_value \<Rightarrow> MinimumRRPolicy \<Rightarrow> rr_rejection" where
  "rr_rejection_reason v policy =
     (case candidate_decimal v of
        None \<Rightarrow> MissingRR policy
      | Some r \<Rightarrow>
          if \<not> candidate_rr_meets_minimum (VDecimal (Finite r)) policy then RRBelowMinimum r policy
          else NoRRRejection)"

lemma rr_rejection_reason_correct:
  "rr_rejection_reason v policy = NoRRRejection \<longleftrightarrow> candidate_rr_meets_minimum v policy"
  by (auto simp: rr_rejection_reason_def candidate_rr_meets_minimum_def split: option.splits)

lemma mode_name_idem [simp]: "mode_name (mode_name m) = mode_name m"
  by (simp add: mode_name_def)

lemma minimum_rr_policy_floor:
  assumes "minimum_rr_policy v m = Inr policy"
  shows "5 / 2 \<le> configured_global_minimum_rr policy"
    and "configured_global_minimum_rr policy \<le> effective_minimum_rr policy"
    and "hard_mode_floor policy \<le> effective_minimum_rr policy"
    and "rp_mode policy = ''challenge'' \<Longrightarrow> 3 \<le> effective_minimum_rr policy"
  using assms
  by (auto simp: minimum_rr_policy_def validate_configured_minimum_rr_def hard_mode_minimum_rr_def
      DEFAULT_CONFIGURED_MINIMUM_RR_def CHALLENGE_HARD_MINIMUM_RR_def Let_def
      split: option.splits py_decimal.splits if_splits)

section \<open>Published prices\<close>

definition public_price_decimal_places :: "rat \<Rightarrow> nat" where
  "public_price_decimal_places v =
     (let magnitude = \<bar>v\<bar> in
      if magnitude \<ge> 10 then 2 else if magnitude \<ge> 1 then 4 else if magnitude \<ge> 1 / 100 then 5 else 8)"

definition quantize_public_price :: "rat \<Rightarrow> rat option" where
  "quantize_public_price v = dec_quantize_half_up (public_price_decimal_places v) v"

lemma half_up_value:
  assumes "dec_quantize_half_up k x = Some y" and "0 \<le> x"
  shows "y * 10 ^ k = of_int \<lfloor>x * 10 ^ k + 1 / 2\<rfloor>"
  using assms by (auto simp: dec_quantize_half_up_def Let_def split: if_splits)

lemma half_up_error:
  assumes "dec_quantize_half_up k x = Some y" and "0 \<le> x"
  shows "\<bar>y - x\<bar> \<le> 1 / (2 * 10 ^ k)"
proof -
  have "\<bar>of_int \<lfloor>x * 10 ^ k + 1 / 2\<rfloor> - x * 10 ^ k\<bar> \<le> (1 / 2 :: rat)" by linarith
  then have "\<bar>(y - x) * 10 ^ k\<bar> \<le> 1 / 2" by (simp only: half_up_value [OF assms, symmetric] left_diff_distrib)
  then have "\<bar>y - x\<bar> * (2 * 10 ^ k) \<le> 1" by (simp add: abs_mult)
  then show ?thesis by (simp add: pos_le_divide_eq)
qed

text \<open>Prices on either side of a point of both grids stay on their side.\<close>

lemma half_up_side:
  assumes q: "dec_quantize_half_up k x = Some x'" and "0 \<le> x" and B: "B * 10 ^ k = of_int b"
  shows "x \<le> B \<Longrightarrow> x' \<le> B" and "B \<le> x \<Longrightarrow> B \<le> x'"
proof -
  have p: "(0::rat) < 10 ^ k" by simp
  show "x' \<le> B" if "x \<le> B"
  proof -
    have "x * 10 ^ k \<le> of_int b" using mult_right_mono [OF that, of "10 ^ k"] B by simp
    then have "\<lfloor>x * 10 ^ k + 1 / 2\<rfloor> \<le> b" by linarith
    then have "x' * 10 ^ k \<le> B * 10 ^ k" by (simp add: half_up_value [OF q \<open>0 \<le> x\<close>] B)
    with p show ?thesis by (simp only: mult_le_cancel_right_pos)
  qed
  show "B \<le> x'" if "B \<le> x"
  proof -
    have "of_int b \<le> x * 10 ^ k" using mult_right_mono [OF that, of "10 ^ k"] B by simp
    then have "b \<le> \<lfloor>x * 10 ^ k + 1 / 2\<rfloor>" by linarith
    then have "B * 10 ^ k \<le> x' * 10 ^ k" by (simp add: half_up_value [OF q \<open>0 \<le> x\<close>] B)
    with p show ?thesis by (simp only: mult_le_cancel_right_pos)
  qed
qed

lemma half_up_mono:
  assumes "dec_quantize_half_up k x = Some x'" and "dec_quantize_half_up k y = Some y'" and "0 \<le> x" and "x \<le> y"
  shows "x' \<le> y'"
proof -
  have "x * 10 ^ k + 1 / 2 \<le> y * 10 ^ k + 1 / 2" using mult_right_mono [OF assms(4), of "10 ^ k"] by simp
  then have "\<lfloor>x * 10 ^ k + 1 / 2\<rfloor> \<le> \<lfloor>y * 10 ^ k + 1 / 2\<rfloor>" by (rule floor_mono)
  then have "x' * 10 ^ k \<le> y' * 10 ^ k" using assms by (simp add: half_up_value)
  then show ?thesis by (simp add: mult_le_cancel_right_pos)
qed

lemma places_boundary:
  assumes "public_price_decimal_places x \<noteq> public_price_decimal_places y" and "0 \<le> x" and "x \<le> y"
  obtains B b c where "x \<le> B" "B \<le> y" "B * 10 ^ public_price_decimal_places x = of_int b"
    "B * 10 ^ public_price_decimal_places y = of_int c"
proof -
  consider "x < 10" "10 \<le> y" | "x < 1" "1 \<le> y" "y < 10" | "x < 1 / 100" "1 / 100 \<le> y" "y < 1"
    using assms by (auto simp: public_price_decimal_places_def Let_def split: if_splits)
  then show ?thesis
  proof cases
    case 1
    with assms that [of 10 "10 * 10 ^ public_price_decimal_places x" "10 * 10 ^ public_price_decimal_places y"]
    show ?thesis by simp
  next
    case 2
    with assms that [of 1 "10 ^ public_price_decimal_places x" "10 ^ public_price_decimal_places y"]
    show ?thesis by simp
  next
    case 3
    then have "public_price_decimal_places x = 8" "public_price_decimal_places y = 5"
      using assms by (auto simp: public_price_decimal_places_def Let_def)
    with 3 that [of "1 / 100" 1000000 1000] show ?thesis by simp
  qed
qed

section \<open>Trade-plan integrity\<close>

definition PUBLIC_TP2_MINIMUM_RR :: rat where
  "PUBLIC_TP2_MINIMUM_RR = 3"

datatype TradePlanFailure =
  UNSUPPORTED_DIRECTION | MISSING_COMPONENT | MALFORMED_NUMERIC | NON_FINITE_NUMERIC
| NON_POSITIVE_PRICE | ENTRY_ZONE_INVALID | ENTRY_REFERENCE_OUTSIDE_ZONE | STOP_INSIDE_ENTRY_ZONE
| STOP_WRONG_SIDE | TARGET_INSIDE_ENTRY_ZONE | TARGET_WRONG_SIDE | DUPLICATE_TARGETS
| TARGET_ORDER_INVALID | ZERO_RISK | NEGATIVE_RISK | ZERO_REWARD | NEGATIVE_REWARD | RR_BELOW_MINIMUM

primrec failure_value :: "TradePlanFailure \<Rightarrow> string" where
  "failure_value UNSUPPORTED_DIRECTION = ''unsupported_direction''"
| "failure_value MISSING_COMPONENT = ''missing_required_plan_component''"
| "failure_value MALFORMED_NUMERIC = ''malformed_numeric''"
| "failure_value NON_FINITE_NUMERIC = ''non_finite_numeric''"
| "failure_value NON_POSITIVE_PRICE = ''non_positive_price''"
| "failure_value ENTRY_ZONE_INVALID = ''entry_zone_invalid''"
| "failure_value ENTRY_REFERENCE_OUTSIDE_ZONE = ''entry_reference_outside_zone''"
| "failure_value STOP_INSIDE_ENTRY_ZONE = ''stop_inside_entry_zone''"
| "failure_value STOP_WRONG_SIDE = ''stop_wrong_side''"
| "failure_value TARGET_INSIDE_ENTRY_ZONE = ''target_inside_entry_zone''"
| "failure_value TARGET_WRONG_SIDE = ''target_wrong_side''"
| "failure_value DUPLICATE_TARGETS = ''duplicate_targets''"
| "failure_value TARGET_ORDER_INVALID = ''target_order_invalid''"
| "failure_value ZERO_RISK = ''zero_risk''"
| "failure_value NEGATIVE_RISK = ''negative_risk''"
| "failure_value ZERO_REWARD = ''zero_reward''"
| "failure_value NEGATIVE_REWARD = ''negative_reward''"
| "failure_value RR_BELOW_MINIMUM = ''rr_below_minimum''"

record TradePlanIntegrityResult =
  valid :: bool
  plan_reason :: string
  plan_direction :: "string option"
  plan_entry_low :: "rat option"
  plan_entry_high :: "rat option"
  plan_entry_reference :: "rat option"
  plan_stop_loss :: "rat option"
  plan_tp1 :: "rat option"
  plan_tp2 :: "rat option"
  plan_tp3 :: "rat option"
  risk_distance :: "rat option"
  reward_distance :: "rat option"
  plan_rr :: "rat option"
  rr_target :: string
  plan_entry_reference_type :: string
  plan_execution_cost :: rat

definition failed :: "string \<Rightarrow> TradePlanIntegrityResult" where
  "failed r = \<lparr>valid = False, plan_reason = r, plan_direction = None, plan_entry_low = None,
     plan_entry_high = None, plan_entry_reference = None, plan_stop_loss = None, plan_tp1 = None,
     plan_tp2 = None, plan_tp3 = None, risk_distance = None, reward_distance = None, plan_rr = None,
     rr_target = ''tp2'', plan_entry_reference_type = NA, plan_execution_cost = 0\<rparr>"

fun value_blank :: "py_value \<Rightarrow> bool" where
  "value_blank VNone = True"
| "value_blank (VText s) = (py_strip s = [] \<or> py_strip s = NA)"
| "value_blank (VDecimal d) = False"

fun value_decimal :: "py_value \<Rightarrow> py_decimal option" where
  "value_decimal VNone = decimal_of_string ''None''"
| "value_decimal (VText s) = decimal_of_string s"
| "value_decimal (VDecimal d) = Some d"

definition optional_decimal :: "py_value \<Rightarrow> string \<Rightarrow> bool \<Rightarrow> string + rat option" where
  "optional_decimal v name required =
     (if value_blank v then
        (if required then Inl (failure_value MISSING_COMPONENT @ '':'' @ name) else Inr None)
      else
        (case value_decimal v of
           None \<Rightarrow> Inl (failure_value MALFORMED_NUMERIC @ '':'' @ name)
         | Some (Finite x) \<Rightarrow> Inr (Some x)
         | Some _ \<Rightarrow> Inl (failure_value NON_FINITE_NUMERIC @ '':'' @ name)))"

text \<open>With \<open>required\<close> the parsed value is never \<open>None\<close>; that is the assertion of the source.\<close>

definition required_decimal :: "py_value \<Rightarrow> string \<Rightarrow> string + rat" where
  "required_decimal v name = ebind (optional_decimal v name True) (\<lambda>parsed. Inr (the parsed))"

lemma required_decimal_asserts: "optional_decimal v name True \<noteq> Inr None"
  by (auto simp: optional_decimal_def split: option.splits py_decimal.splits)

text \<open>The keyword arguments of \<open>validate_trade_plan\<close>, and the numbers read from them.\<close>

record trade_plan_args =
  arg_direction :: string
  arg_entry_low :: py_value
  arg_entry_high :: py_value
  arg_entry_reference :: py_value
  arg_stop_loss :: py_value
  arg_tp1 :: py_value
  arg_tp2 :: py_value
  arg_tp3 :: py_value
  arg_minimum_rr :: py_value
  arg_require_all_targets :: bool
  arg_entry_reference_type :: string
  arg_execution_cost :: py_value

record plan_numbers =
  num_low :: rat
  num_high :: rat
  num_entry :: rat
  num_stop :: rat
  num_targets :: "rat option list"
  num_minimum :: "rat option"
  num_cost :: rat

definition plan_inputs :: "trade_plan_args \<Rightarrow> string + plan_numbers" where
  "plan_inputs a =
     (let req = arg_require_all_targets a in
      ebind (required_decimal (arg_entry_low a) ''entry_low'') (\<lambda>low.
      ebind (required_decimal (arg_entry_high a) ''entry_high'') (\<lambda>high.
      ebind (required_decimal (arg_entry_reference a) ''entry_reference'') (\<lambda>entry.
      ebind (required_decimal (arg_stop_loss a) ''stop_loss'') (\<lambda>stop.
      ebind (optional_decimal (arg_tp1 a) ''tp1'' req) (\<lambda>t1.
      ebind (optional_decimal (arg_tp2 a) ''tp2'' req) (\<lambda>t2.
      ebind (optional_decimal (arg_tp3 a) ''tp3'' req) (\<lambda>t3.
      ebind (optional_decimal (arg_minimum_rr a) ''minimum_rr'' False) (\<lambda>minimum.
      ebind (required_decimal (arg_execution_cost a) ''execution_cost'') (\<lambda>cost.
        Inr \<lparr>num_low = low, num_high = high, num_entry = entry, num_stop = stop,
             num_targets = [t1, t2, t3], num_minimum = minimum, num_cost = cost\<rparr>))))))))))"

text \<open>\<open>present_targets\<close>: the targets that are not \<open>None\<close>, with their 1-based index.\<close>

definition present_targets :: "rat option list \<Rightarrow> (nat \<times> rat) list" where
  "present_targets ts = map (\<lambda>(i, t). (i, the t)) (filter (\<lambda>(i, t). t \<noteq> None) (enumerate 1 ts))"

definition tp_name :: "nat \<Rightarrow> string" where
  "tp_name i = ''tp'' @ nat_digits i"

definition named_prices :: "plan_numbers \<Rightarrow> (string \<times> rat) list" where
  "named_prices n =
     [(''entry_low'', num_low n), (''entry_high'', num_high n), (''entry_reference'', num_entry n),
      (''stop_loss'', num_stop n)] @ map (\<lambda>(i, t). (tp_name i, t)) (present_targets (num_targets n))"

fun check_positive :: "(string \<times> rat) list \<Rightarrow> string + unit" where
  "check_positive [] = Inr ()"
| "check_positive ((name, price) # ps) =
     (if price \<le> 0 then Inl (failure_value NON_POSITIVE_PRICE @ '':'' @ name) else check_positive ps)"

definition plan_risk :: "string \<Rightarrow> plan_numbers \<Rightarrow> string + rat" where
  "plan_risk side n =
     (let low = num_low n; high = num_high n; entry = num_entry n; stop = num_stop n;
          signed_risk = (if side = ''long'' then dec_sub entry stop else dec_sub stop entry) in
      ebind (eraise_if (signed_risk = 0) (failure_value ZERO_RISK)) (\<lambda>_.
      ebind (eraise_if (low \<le> stop \<and> stop \<le> high) (failure_value STOP_INSIDE_ENTRY_ZONE)) (\<lambda>_.
      ebind (eraise_if (if side = ''long'' then stop \<ge> high else stop \<le> low) (failure_value STOP_WRONG_SIDE)) (\<lambda>_.
      (let risk = (if side = ''long'' then dec_sub entry stop else dec_sub stop entry) in
      ebind (eraise_if (risk = 0) (failure_value ZERO_RISK)) (\<lambda>_.
      ebind (eraise_if (risk < 0) (failure_value NEGATIVE_RISK)) (\<lambda>_.
        Inr (dec_add risk (num_cost n)))))))))"

definition plan_reward :: "string \<Rightarrow> plan_numbers \<Rightarrow> string + rat option" where
  "plan_reward side n =
     (case num_targets n ! 1 of
        None \<Rightarrow> Inr None
      | Some t \<Rightarrow>
          (let reward = dec_sub (if side = ''long'' then dec_sub t (num_entry n) else dec_sub (num_entry n) t)
                          (num_cost n) in
           ebind (eraise_if (reward = 0) (failure_value ZERO_REWARD)) (\<lambda>_.
           ebind (eraise_if (reward < 0) (failure_value NEGATIVE_REWARD)) (\<lambda>_.
             Inr (Some reward)))))"

fun check_targets :: "string \<Rightarrow> rat \<Rightarrow> rat \<Rightarrow> (nat \<times> rat) list \<Rightarrow> string + unit" where
  "check_targets side low high [] = Inr ()"
| "check_targets side low high ((i, target) # ts) =
     (if low \<le> target \<and> target \<le> high then Inl (tp_name i @ ''_'' @ failure_value TARGET_INSIDE_ENTRY_ZONE)
      else if side = ''long'' \<and> target < low then Inl (tp_name i @ ''_'' @ failure_value TARGET_WRONG_SIDE)
      else if side = ''short'' \<and> target > high then Inl (tp_name i @ ''_'' @ failure_value TARGET_WRONG_SIDE)
      else check_targets side low high ts)"

definition check_target_order :: "string \<Rightarrow> rat list \<Rightarrow> string + unit" where
  "check_target_order side targets =
     (if length (remdups targets) \<noteq> length targets then Inl (failure_value DUPLICATE_TARGETS)
      else if length targets > 1
              \<and> \<not> list_all (\<lambda>(cur, following). if side = ''long'' then cur < following else cur > following)
                    (zip targets (tl targets))
      then Inl (failure_value TARGET_ORDER_INVALID)
      else Inr ())"

text \<open>The checks between parsing and the ratio, in the order of the source: risk and reward.\<close>

definition plan_checks :: "string \<Rightarrow> plan_numbers \<Rightarrow> string + rat \<times> rat option" where
  "plan_checks side n =
     ebind (eraise_if (num_cost n < 0) ''negative_execution_cost'') (\<lambda>_.
     ebind (check_positive (named_prices n)) (\<lambda>_.
     ebind (eraise_if (num_low n > num_high n) (failure_value ENTRY_ZONE_INVALID)) (\<lambda>_.
     ebind (eraise_if (\<not> (num_low n \<le> num_entry n \<and> num_entry n \<le> num_high n))
              (failure_value ENTRY_REFERENCE_OUTSIDE_ZONE)) (\<lambda>_.
     ebind (plan_risk side n) (\<lambda>risk.
     ebind (plan_reward side n) (\<lambda>reward.
     ebind (check_targets side (num_low n) (num_high n) (present_targets (num_targets n))) (\<lambda>_.
     ebind (check_target_order side (map snd (present_targets (num_targets n)))) (\<lambda>_.
       Inr (risk, reward)))))))))"

definition plan_result ::
  "bool \<Rightarrow> string \<Rightarrow> string \<Rightarrow> plan_numbers \<Rightarrow> rat \<Rightarrow> rat option \<Rightarrow> rat option \<Rightarrow> string \<Rightarrow> TradePlanIntegrityResult" where
  "plan_result ok r side n risk reward rr ref_type =
     \<lparr>valid = ok, plan_reason = r, plan_direction = Some side, plan_entry_low = Some (num_low n),
      plan_entry_high = Some (num_high n), plan_entry_reference = Some (num_entry n),
      plan_stop_loss = Some (num_stop n), plan_tp1 = num_targets n ! 0, plan_tp2 = num_targets n ! 1,
      plan_tp3 = num_targets n ! 2, risk_distance = Some risk, reward_distance = reward, plan_rr = rr,
      rr_target = ''tp2'', plan_entry_reference_type = ref_type, plan_execution_cost = num_cost n\<rparr>"

definition validate_trade_plan :: "trade_plan_args \<Rightarrow> TradePlanIntegrityResult" where
  "validate_trade_plan a =
     (let side = py_lower (py_strip (arg_direction a)); ref_type = arg_entry_reference_type a in
      if side \<noteq> ''long'' \<and> side \<noteq> ''short'' then failed (failure_value UNSUPPORTED_DIRECTION)
      else case plan_inputs a of
        Inl r \<Rightarrow> failed r
      | Inr n \<Rightarrow>
          (case plan_checks side n of
             Inl r \<Rightarrow> failed r
           | Inr (risk, reward) \<Rightarrow>
               (case reward of
                  Some w \<Rightarrow>
                    (let rr = dec_div w risk in
                     if (case num_minimum n of Some m \<Rightarrow> rr < m | None \<Rightarrow> False)
                     then plan_result False (failure_value RR_BELOW_MINIMUM) side n risk reward (Some rr) ref_type
                     else plan_result True NA side n risk reward (Some rr) ref_type)
                | None \<Rightarrow>
                    if num_minimum n \<noteq> None then failed (failure_value MISSING_COMPONENT @ '':tp2'')
                    else plan_result True NA side n risk reward None ref_type)))"

definition validate_public_trade_plan ::
  "string \<Rightarrow> py_value \<Rightarrow> py_value \<Rightarrow> py_value \<Rightarrow> py_value \<Rightarrow> py_value \<Rightarrow> py_value \<Rightarrow> py_value \<Rightarrow> py_value
     \<Rightarrow> TradePlanIntegrityResult" where
  "validate_public_trade_plan direction entry_low entry_high stop_loss tp1 tp2 tp3 minimum_rr execution_cost =
     (case ebind (required_decimal entry_low ''entry_low'') (\<lambda>low.
           ebind (required_decimal entry_high ''entry_high'') (\<lambda>high.
           ebind (required_decimal minimum_rr ''minimum_rr'') (\<lambda>minimum. Inr (low, high, minimum)))) of
        Inl r \<Rightarrow> failed r
      | Inr (low, high, minimum) \<Rightarrow>
          (let side = py_lower (py_strip direction) in
           validate_trade_plan
             \<lparr>arg_direction = side, arg_entry_low = VDecimal (Finite low), arg_entry_high = VDecimal (Finite high),
              arg_entry_reference = VDecimal (Finite (if side = ''long'' then high else low)),
              arg_stop_loss = stop_loss, arg_tp1 = tp1, arg_tp2 = tp2, arg_tp3 = tp3,
              arg_minimum_rr = VDecimal (Finite (max PUBLIC_TP2_MINIMUM_RR minimum)),
              arg_require_all_targets = True, arg_entry_reference_type = ''worst_entry_zone_edge'',
              arg_execution_cost = execution_cost\<rparr>))"

section \<open>What the validator accepts\<close>

text \<open>
  The declarative description. Prices are positive, the reference lies in the zone, the stop is on the
  losing side of the whole zone, every target on the winning side, and the targets move away from
  the zone one after the other.
\<close>

definition target_prices :: "plan_numbers \<Rightarrow> rat list" where
  "target_prices n = map the (filter (\<lambda>t. t \<noteq> None) (num_targets n))"

definition well_ordered :: "string \<Rightarrow> plan_numbers \<Rightarrow> bool" where
  "well_ordered side n \<longleftrightarrow>
     0 \<le> num_cost n \<and> 0 < num_low n \<and> num_low n \<le> num_entry n \<and> num_entry n \<le> num_high n
   \<and> 0 < num_stop n \<and> list_all (\<lambda>t. 0 < t) (target_prices n)
   \<and> (if side = ''long''
      then num_stop n < num_low n \<and> list_all (\<lambda>t. num_high n < t) (target_prices n)
           \<and> sorted_wrt (<) (target_prices n)
      else num_high n < num_stop n \<and> list_all (\<lambda>t. t < num_low n) (target_prices n)
           \<and> sorted_wrt (>) (target_prices n))"

definition net_risk :: "string \<Rightarrow> plan_numbers \<Rightarrow> rat" where
  "net_risk side n =
     dec_add (if side = ''long'' then dec_sub (num_entry n) (num_stop n) else dec_sub (num_stop n) (num_entry n))
       (num_cost n)"

definition net_reward :: "string \<Rightarrow> plan_numbers \<Rightarrow> rat option" where
  "net_reward side n =
     map_option (\<lambda>t. dec_sub (if side = ''long'' then dec_sub t (num_entry n) else dec_sub (num_entry n) t)
                       (num_cost n)) (num_targets n ! 1)"

definition plan_ok :: "string \<Rightarrow> plan_numbers \<Rightarrow> bool" where
  "plan_ok side n \<longleftrightarrow> well_ordered side n
     \<and> (case net_reward side n of
          None \<Rightarrow> num_minimum n = None
        | Some w \<Rightarrow> 0 < w \<and> (\<forall>m \<in> set_option (num_minimum n). m \<le> dec_div w (net_risk side n)))"

lemma map_snd_filter_enumerate:
  "map snd (map (\<lambda>(i, t). (i, the t)) (filter (\<lambda>(i, t). t \<noteq> None) (enumerate k ts)))
     = map the (filter (\<lambda>t. t \<noteq> None) ts)"
  by (induction ts arbitrary: k) auto

lemma snd_present_targets: "map snd (present_targets (num_targets n)) = target_prices n"
  unfolding present_targets_def target_prices_def by (rule map_snd_filter_enumerate)

lemma check_positive_iff: "check_positive ps = Inr u \<longleftrightarrow> list_all (\<lambda>p. 0 < p) (map snd ps)"
  by (induction ps rule: check_positive.induct) auto

lemma check_targets_iff:
  assumes "low \<le> high" and "side = ''long'' \<or> side = ''short''"
  shows "check_targets side low high ts = Inr u
     \<longleftrightarrow> list_all (\<lambda>t. if side = ''long'' then high < t else t < low) (map snd ts)"
  using assms by (induction side low high ts rule: check_targets.induct) auto

lemma zip_tl_successively: "list_all (\<lambda>(a, b). R a b) (zip xs (tl xs)) \<longleftrightarrow> successively R xs"
  by (induction R xs rule: successively.induct) auto

lemma check_target_order_iff:
  "check_target_order side ts = Inr u
     \<longleftrightarrow> (if side = ''long'' then sorted_wrt (<) ts else sorted_wrt (>) ts)"
proof -
  have d: "sorted_wrt (<) ts \<Longrightarrow> distinct ts" "sorted_wrt (>) ts \<Longrightarrow> distinct ts"
    by (auto simp: distinct_conv_nth sorted_wrt_iff_nth_less) (metis less_irrefl linorder_neqE_nat)+
  have s: "successively (<) ts \<longleftrightarrow> sorted_wrt (<) ts" "successively (>) ts \<longleftrightarrow> sorted_wrt (>) ts"
    by (simp_all add: successively_conv_sorted_wrt transp_def)
  have n: "sorted_wrt R ts" if "\<not> length ts > 1" for R
    using that by (cases ts; cases "tl ts") auto
  show ?thesis
    using d s n zip_tl_successively [of "(<)" ts] zip_tl_successively [of "(>)" ts]
    by (auto simp: check_target_order_def length_remdups_eq)
qed

lemma plan_risk_iff:
  assumes "num_low n \<le> num_entry n" and "num_entry n \<le> num_high n"
  shows "plan_risk side n = Inr r
     \<longleftrightarrow> (if side = ''long'' then num_stop n < num_low n else num_high n < num_stop n) \<and> r = net_risk side n"
  using assms by (auto simp: plan_risk_def net_risk_def Let_def py_dec)

lemma plan_reward_iff:
  "plan_reward side n = Inr w \<longleftrightarrow> w = net_reward side n \<and> (\<forall>x \<in> set_option w. 0 < x)"
  by (auto simp: plan_reward_def net_reward_def Let_def split: option.splits)

lemma plan_checks_iff:
  assumes "side = ''long'' \<or> side = ''short''"
  shows "plan_checks side n = Inr (r, w)
     \<longleftrightarrow> well_ordered side n \<and> r = net_risk side n \<and> w = net_reward side n \<and> (\<forall>x \<in> set_option w. 0 < x)"
proof (cases "num_low n \<le> num_entry n \<and> num_entry n \<le> num_high n")
  case True
  then have "num_low n \<le> num_high n" by linarith
  note iffs = check_targets_iff [OF this assms] plan_risk_iff [OF conjunct1 [OF True] conjunct2 [OF True]]
    plan_reward_iff check_target_order_iff check_positive_iff snd_present_targets
  have "map snd (named_prices n) = [num_low n, num_high n, num_entry n, num_stop n] @ target_prices n"
    by (simp add: named_prices_def snd_present_targets [symmetric] case_prod_unfold comp_def)
  then show ?thesis
    using True by (auto simp: plan_checks_def iffs well_ordered_def not_less)
next
  case False
  then show ?thesis by (auto simp: plan_checks_def well_ordered_def)
qed

lemma valid_simps [simp]:
  "\<not> valid (failed r)"
  "valid (plan_result ok r side n risk w rr t) = ok"
  by (simp_all add: failed_def plan_result_def)

lemma validate_trade_plan_iff:
  "valid (validate_trade_plan a) \<longleftrightarrow>
     (let side = py_lower (py_strip (arg_direction a)) in
      (side = ''long'' \<or> side = ''short'') \<and> (\<exists>n. plan_inputs a = Inr n \<and> plan_ok side n))"
proof -
  define side where "side = py_lower (py_strip (arg_direction a))"
  show ?thesis
  proof (cases "side = ''long'' \<or> side = ''short''")
    case side: True
    show ?thesis
    proof (cases "plan_inputs a")
      case (Inl r)
      with side show ?thesis by (auto simp: validate_trade_plan_def Let_def side_def [symmetric])
    next
      case (Inr n)
      have v: "valid (validate_trade_plan a) \<longleftrightarrow>
          (\<exists>r w. plan_checks side n = Inr (r, w) \<and>
             (case w of None \<Rightarrow> num_minimum n = None
              | Some x \<Rightarrow> \<forall>m \<in> set_option (num_minimum n). m \<le> dec_div x r))"
        using side Inr
        by (auto simp: validate_trade_plan_def Let_def side_def [symmetric] not_less
            split: sum.splits option.splits)
      show ?thesis
        using side Inr unfolding v plan_checks_iff [OF side]
        by (auto simp: plan_ok_def Let_def side_def [symmetric] split: option.splits)
    qed
  qed (auto simp: validate_trade_plan_def Let_def side_def [symmetric])
qed

text \<open>The numbers of an accepted plan are what the result reports.\<close>

lemma validate_trade_plan_reports:
  assumes "valid (validate_trade_plan a)" and "plan_inputs a = Inr n"
  shows "validate_trade_plan a =
     plan_result True NA (py_lower (py_strip (arg_direction a))) n
       (net_risk (py_lower (py_strip (arg_direction a))) n) (net_reward (py_lower (py_strip (arg_direction a))) n)
       (map_option (\<lambda>w. dec_div w (net_risk (py_lower (py_strip (arg_direction a))) n))
          (net_reward (py_lower (py_strip (arg_direction a))) n)) (arg_entry_reference_type a)"
proof -
  define side where "side = py_lower (py_strip (arg_direction a))"
  have side: "side = ''long'' \<or> side = ''short''"
    using assms(1) by (auto simp: validate_trade_plan_iff Let_def side_def)
  have "validate_trade_plan a = plan_result True NA side n (net_risk side n) (net_reward side n)
      (map_option (\<lambda>w. dec_div w (net_risk side n)) (net_reward side n)) (arg_entry_reference_type a)"
  proof (cases "plan_checks side n")
    case (Inl r)
    with assms side show ?thesis by (auto simp: validate_trade_plan_def Let_def side_def [symmetric])
  next
    case (Inr p)
    obtain r w where p: "p = (r, w)" by (cases p)
    with Inr have "r = net_risk side n" "w = net_reward side n" using plan_checks_iff [OF side] by auto
    with assms side Inr p show ?thesis
      by (auto simp: validate_trade_plan_def Let_def side_def [symmetric] split: option.splits if_splits)
  qed
  then show ?thesis by (simp add: side_def)
qed

text \<open>Moving the reference inside the zone away from its worst edge keeps a plan acceptable.\<close>

lemma net_risk_pos: "well_ordered side n \<Longrightarrow> 0 < net_risk side n"
  unfolding net_risk_def by (rule dec_add_pos) (auto simp: well_ordered_def py_dec)

lemma plan_ok_inside_zone:
  assumes ok: "plan_ok side n" and worst: "num_entry n = (if side = ''long'' then num_high n else num_low n)"
    and e: "num_low n \<le> e" "e \<le> num_high n"
  shows "plan_ok side (n\<lparr>num_entry := e\<rparr>)"
proof -
  let ?n = "n\<lparr>num_entry := e\<rparr>"
  have wo: "well_ordered side n" and wo': "well_ordered side ?n"
    using ok e by (auto simp: plan_ok_def well_ordered_def target_prices_def)
  have risk: "net_risk side ?n \<le> net_risk side n"
    using worst e by (auto simp: net_risk_def intro!: dec_add_mono dec_sub_mono)
  show ?thesis
  proof (cases "net_reward side n")
    case None
    with ok wo' show ?thesis by (auto simp: plan_ok_def net_reward_def)
  next
    case (Some w)
    then obtain t where t: "num_targets n ! 1 = Some t" by (auto simp: net_reward_def)
    define w' where "w' = dec_sub (if side = ''long'' then dec_sub t e else dec_sub e t) (num_cost n)"
    have w': "net_reward side ?n = Some w'" "w \<le> w'"
      using Some t worst e by (auto simp: net_reward_def w'_def intro!: dec_sub_mono)
    have "0 < w" using ok Some by (simp add: plan_ok_def)
    then have "dec_div w (net_risk side n) \<le> dec_div w' (net_risk side ?n)"
      using w'(2) risk net_risk_pos [OF wo'] by (intro dec_div_mono) simp_all
    with ok wo' Some w' \<open>0 < w\<close> show ?thesis by (auto simp: plan_ok_def)
  qed
qed

lemma required_decimal_Finite [simp]: "required_decimal (VDecimal (Finite x)) name = Inr x"
  by (simp add: required_decimal_def optional_decimal_def)

lemma optional_decimal_Finite [simp]: "optional_decimal (VDecimal (Finite x)) name r = Inr (Some x)"
  by (simp add: optional_decimal_def)

lemma plan_ok_lower_minimum:
  assumes "plan_ok side n" and "num_minimum n = Some m" and "m' \<le> m"
  shows "plan_ok side (n\<lparr>num_minimum := Some m'\<rparr>)"
  using assms
  by (auto simp: plan_ok_def well_ordered_def target_prices_def net_reward_def net_risk_def split: option.splits)

section \<open>Properties\<close>

text \<open>
  C6. \<open>validate_trade_plan\<close> accepts exactly the plans whose direction is long or short, whose numbers
  parse, and whose numbers are well ordered with a positive net reward at the second target and a
  net ratio that meets the requested minimum. The validator computes with rounded decimals; the
  ordering part of the description is on the exact prices.
\<close>

theorem validate_trade_plan_accepts:
  "valid (validate_trade_plan a) =
     (py_lower (py_strip (arg_direction a)) \<in> {''long'', ''short''}
      \<and> (\<exists>n. plan_inputs a = Inr n \<and> plan_ok (py_lower (py_strip (arg_direction a))) n))"
  by (auto simp: validate_trade_plan_iff Let_def)

text \<open>
  C4. A published plan is good at every price of its entry zone. When \<open>validate_public_trade_plan\<close> accepts a
  plan (it checks the worst edge of the zone only), then for each fill price between the two edges the
  strategy's own validator accepts the same plan with that price as its entry reference, and the
  net ratio it reports at the second target is at least 3.
\<close>

theorem public_plan_every_fill:
  assumes public: "valid (validate_public_trade_plan d lo hi sl t1 t2 t3 m c)"
    and low: "required_decimal lo ''entry_low'' = Inr low" and high: "required_decimal hi ''entry_high'' = Inr high"
    and fill: "low \<le> e" "e \<le> high"
  shows "\<exists>result rr. result = validate_trade_plan
       \<lparr>arg_direction = d, arg_entry_low = lo, arg_entry_high = hi, arg_entry_reference = VDecimal (Finite e),
        arg_stop_loss = sl, arg_tp1 = t1, arg_tp2 = t2, arg_tp3 = t3,
        arg_minimum_rr = VDecimal (Finite PUBLIC_TP2_MINIMUM_RR), arg_require_all_targets = True,
        arg_entry_reference_type = ''worst_entry_zone_edge'', arg_execution_cost = c\<rparr>
     \<and> valid result \<and> plan_rr result = Some rr \<and> 3 \<le> rr"
proof -
  define side where "side = py_lower (py_strip d)"
  define args where "args = (\<lambda>entry_low entry_high entry minimum.
      \<lparr>arg_direction = d, arg_entry_low = entry_low, arg_entry_high = entry_high,
        arg_entry_reference = VDecimal (Finite entry), arg_stop_loss = sl, arg_tp1 = t1, arg_tp2 = t2,
        arg_tp3 = t3, arg_minimum_rr = VDecimal (Finite minimum), arg_require_all_targets = True,
        arg_entry_reference_type = ''worst_entry_zone_edge'', arg_execution_cost = c\<rparr>)"
  obtain min n where side: "side \<in> {''long'', ''short''}"
    and n: "plan_inputs (args (VDecimal (Finite low)) (VDecimal (Finite high))
        (if side = ''long'' then high else low) (max PUBLIC_TP2_MINIMUM_RR min)) = Inr n" "plan_ok side n"
    using public low high
    by (auto simp: validate_public_trade_plan_def validate_trade_plan_iff Let_def side_def args_def plan_inputs_def
        split: sum.splits)
  let ?n = "n\<lparr>num_entry := e, num_minimum := Some PUBLIC_TP2_MINIMUM_RR\<rparr>"
  have nums: "num_low n = low" "num_high n = high" "num_entry n = (if side = ''long'' then high else low)"
      "num_minimum n = Some (max PUBLIC_TP2_MINIMUM_RR min)"
    using n(1) by (auto simp: plan_inputs_def args_def Let_def)
  have inputs: "plan_inputs (args lo hi e PUBLIC_TP2_MINIMUM_RR) = Inr ?n"
    using n(1) low high by (auto simp: plan_inputs_def args_def Let_def)
  have "plan_ok side (n\<lparr>num_entry := e\<rparr>)"
    using n(2) nums fill by (intro plan_ok_inside_zone) simp_all
  then have ok: "plan_ok side ?n" using nums by (intro plan_ok_lower_minimum [where m = "max PUBLIC_TP2_MINIMUM_RR min"]) simp_all
  have v: "valid (validate_trade_plan (args lo hi e PUBLIC_TP2_MINIMUM_RR))"
    using side ok inputs by (auto simp: validate_trade_plan_iff Let_def side_def args_def)
  obtain w where w: "net_reward side ?n = Some w" "3 \<le> dec_div w (net_risk side ?n)"
    using ok by (auto simp: plan_ok_def PUBLIC_TP2_MINIMUM_RR_def split: option.splits)
  have "plan_rr (validate_trade_plan (args lo hi e PUBLIC_TP2_MINIMUM_RR)) = Some (dec_div w (net_risk side ?n))"
    using w unfolding validate_trade_plan_reports [OF v inputs]
    by (simp add: plan_result_def args_def side_def)
  with v w(2) show ?thesis unfolding args_def by blast
qed

theorem public_plan_every_fill_witness:
  "\<exists>result rr. result = validate_trade_plan
       \<lparr>arg_direction = ''LONG'', arg_entry_low = VText ''100'', arg_entry_high = VText ''102'',
        arg_entry_reference = VDecimal (Finite 101), arg_stop_loss = VText ''98'', arg_tp1 = VText ''110'',
        arg_tp2 = VText ''116'', arg_tp3 = VText ''120'',
        arg_minimum_rr = VDecimal (Finite PUBLIC_TP2_MINIMUM_RR), arg_require_all_targets = True,
        arg_entry_reference_type = ''worst_entry_zone_edge'', arg_execution_cost = VText ''0.1''\<rparr>
     \<and> valid result \<and> plan_rr result = Some rr \<and> 3 \<le> rr"
proof (rule public_plan_every_fill [where m = "VText ''2.5''" and low = 100 and high = 102])
  show "valid (validate_public_trade_plan ''LONG'' (VText ''100'') (VText ''102'') (VText ''98'') (VText ''110'')
          (VText ''116'') (VText ''120'') (VText ''2.5'') (VText ''0.1''))" by code_simp
  show "required_decimal (VText ''100'') ''entry_low'' = Inr 100" by code_simp
  show "required_decimal (VText ''102'') ''entry_high'' = Inr 102" by code_simp
qed simp_all

text \<open>
  C21. Rounding prices for publication never reverses two of them, although the number of decimals
  depends on the price, and moves a price by at most half a unit of its last published place.
\<close>

theorem quantize_public_price_order:
  assumes "quantize_public_price x = Some x'" and "quantize_public_price y = Some y'" and "0 \<le> x" and "x \<le> y"
  shows "x' \<le> y' \<and> \<bar>x' - x\<bar> \<le> 1 / (2 * 10 ^ public_price_decimal_places x)"
proof
  note q = assms(1,2) [unfolded quantize_public_price_def]
  show "\<bar>x' - x\<bar> \<le> 1 / (2 * 10 ^ public_price_decimal_places x)"
    using half_up_error [OF q(1) assms(3)] .
  show "x' \<le> y'"
  proof (cases "public_price_decimal_places x = public_price_decimal_places y")
    case True
    with q assms show ?thesis by (auto intro: half_up_mono)
  next
    case False
    then obtain B b c where B: "x \<le> B" "B \<le> y" "B * 10 ^ public_price_decimal_places x = of_int b"
        "B * 10 ^ public_price_decimal_places y = of_int c"
      using places_boundary assms(3,4) by metis
    have "x' \<le> B" using half_up_side(1) [OF q(1) assms(3) B(3) B(1)] .
    also have "B \<le> y'" using half_up_side(2) [OF q(2) _ B(4) B(2)] assms(3,4) by linarith
    finally show ?thesis .
  qed
qed

theorem quantize_public_price_order_witness:
  "(99999 / 10000 :: rat) \<le> 1001 / 100 \<and> \<bar>99999 / 10000 - 9999949 / 1000000\<bar> \<le> (1 / 20000 :: rat)"
proof -
  have a: "quantize_public_price (9999949 / 1000000) = Some (99999 / 10000)" by code_simp
  have b: "quantize_public_price (10005 / 1000) = Some (1001 / 100)" by code_simp
  have c: "public_price_decimal_places (9999949 / 1000000) = 4" by code_simp
  show ?thesis using quantize_public_price_order [OF a b] by (simp add: c)
qed

end
