(* ===== verification/Lifecycle_Models.thy ===== *)
theory Lifecycle_Models
  imports Py_Prelude
begin

text \<open>
  The data of the setup lifecycle, \<open>app/lifecycle/models.py\<close>: states, transition reasons, the lifecycle
  record and its event and result models, with the normalization that their validators apply at
  construction. \<open>model_copy\<close> does not run validators, so an update of a record is a plain record update.
\<close>

section \<open>States\<close>

datatype SetupLifecycleState =
  DISCOVERED | REJECTED | WATCHLISTED | STALKING | TRIGGERED | CONFIRMED | ACTIONABLE_A_GRADE
| A_GRADE_WATCH | EXECUTING | MANAGING | TP_HIT | SL_HIT | BREAKEVEN | INVALIDATED | EXPIRED
| COOLDOWN | COOLED_DOWN | NO_LONGER_TRACKING | REMOVED | CANCELLED | CANCELED | ARCHIVED

primrec state_value :: "SetupLifecycleState \<Rightarrow> string" where
  "state_value DISCOVERED = ''DISCOVERED''"
| "state_value REJECTED = ''REJECTED''"
| "state_value WATCHLISTED = ''WATCHLISTED''"
| "state_value STALKING = ''STALKING''"
| "state_value TRIGGERED = ''TRIGGERED''"
| "state_value CONFIRMED = ''CONFIRMED''"
| "state_value ACTIONABLE_A_GRADE = ''ACTIONABLE_A_GRADE''"
| "state_value A_GRADE_WATCH = ''A_GRADE_WATCH''"
| "state_value EXECUTING = ''EXECUTING''"
| "state_value MANAGING = ''MANAGING''"
| "state_value TP_HIT = ''TP_HIT''"
| "state_value SL_HIT = ''SL_HIT''"
| "state_value BREAKEVEN = ''BREAKEVEN''"
| "state_value INVALIDATED = ''INVALIDATED''"
| "state_value EXPIRED = ''EXPIRED''"
| "state_value COOLDOWN = ''COOLDOWN''"
| "state_value COOLED_DOWN = ''COOLED_DOWN''"
| "state_value NO_LONGER_TRACKING = ''NO_LONGER_TRACKING''"
| "state_value REMOVED = ''REMOVED''"
| "state_value CANCELLED = ''CANCELLED''"
| "state_value CANCELED = ''CANCELED''"
| "state_value ARCHIVED = ''ARCHIVED''"

definition all_states :: "SetupLifecycleState list" where
  "all_states =
     [DISCOVERED, REJECTED, WATCHLISTED, STALKING, TRIGGERED, CONFIRMED, ACTIONABLE_A_GRADE,
      A_GRADE_WATCH, EXECUTING, MANAGING, TP_HIT, SL_HIT, BREAKEVEN, INVALIDATED, EXPIRED,
      COOLDOWN, COOLED_DOWN, NO_LONGER_TRACKING, REMOVED, CANCELLED, CANCELED, ARCHIVED]"

text \<open>\<open>SetupLifecycleState(text)\<close>: the member with that value; \<open>None\<close> is its \<open>ValueError\<close>.\<close>

definition state_of_value :: "string \<Rightarrow> SetupLifecycleState option" where
  "state_of_value s = find (\<lambda>st. state_value st = s) all_states"

definition ACTIVE_LIFECYCLE_MONITORING_STATES :: "SetupLifecycleState list" where
  "ACTIVE_LIFECYCLE_MONITORING_STATES =
     [EXECUTING, MANAGING, ACTIONABLE_A_GRADE, A_GRADE_WATCH, STALKING, TRIGGERED, CONFIRMED, WATCHLISTED]"

text \<open>A state argument is a member or a text.\<close>

datatype state_arg = StateArg SetupLifecycleState | TextArg string

fun normalize_state :: "state_arg \<Rightarrow> SetupLifecycleState option" where
  "normalize_state (StateArg st) = Some st"
| "normalize_state (TextArg s) = state_of_value (py_upper (py_strip s))"

definition lifecycle_requires_market_observation :: "state_arg \<Rightarrow> bool" where
  "lifecycle_requires_market_observation a =
     (case normalize_state a of
        None \<Rightarrow> False
      | Some st \<Rightarrow> st \<in> set ACTIVE_LIFECYCLE_MONITORING_STATES)"

fun list_index :: "'a list \<Rightarrow> 'a \<Rightarrow> nat option" where
  "list_index [] x = None"
| "list_index (y # ys) x = (if y = x then Some 0 else map_option Suc (list_index ys x))"

definition lifecycle_monitoring_priority :: "state_arg \<Rightarrow> nat" where
  "lifecycle_monitoring_priority a =
     (case normalize_state a of
        None \<Rightarrow> length ACTIVE_LIFECYCLE_MONITORING_STATES
      | Some st \<Rightarrow>
          (case list_index ACTIVE_LIFECYCLE_MONITORING_STATES st of
             Some i \<Rightarrow> i
           | None \<Rightarrow> length ACTIVE_LIFECYCLE_MONITORING_STATES))"

section \<open>Transition reasons\<close>

datatype SetupTransitionReason =
  R_INITIALIZED | R_DISCOVERED | R_REJECTED | R_CONFIRMATION_PENDING | R_MULTI_SCAN_CONFIRMED
| R_READINESS_IMPROVED | R_SWEEP_APPEARED | R_STRUCTURE_SHIFT_CONFIRMED | R_PULLBACK_RR_VALID
| R_ACTIONABLE_A_GRADE | R_A_GRADE_WATCH | R_VALID_TRADE_IDEA | R_ENTRY_ZONE_TOUCHED
| R_ENTRY_ACTIVATED | R_ENTRY_FILL_SIMULATED | R_SETUP_DECAYED | R_TAKE_PROFIT_HIT
| R_TP1_MILESTONE | R_TP2_MILESTONE | R_TP3_MILESTONE | R_STOP_LOSS_HIT | R_BREAKEVEN_STOP_HIT
| R_SETUP_INVALIDATED | R_SETUP_EXPIRED | R_COOLDOWN_STARTED | R_COOLDOWN_EXPIRED | R_REACTIVATED
| R_LEGACY_INVALID_STORED_PLAN_GEOMETRY | R_NO_CHANGE | R_INVALID_TRANSITION

primrec reason_value :: "SetupTransitionReason \<Rightarrow> string" where
  "reason_value R_INITIALIZED = ''Lifecycle initialized from current scan snapshot.''"
| "reason_value R_DISCOVERED = ''Setup discovered and awaiting stronger structure.''"
| "reason_value R_REJECTED = ''Setup rejected by current deterministic gates.''"
| "reason_value R_CONFIRMATION_PENDING = ''Setup is waiting for another consistent scan confirmation.''"
| "reason_value R_MULTI_SCAN_CONFIRMED = ''Setup passed required consecutive scan confirmations.''"
| "reason_value R_READINESS_IMPROVED = ''Readiness improved enough for watchlist.''"
| "reason_value R_SWEEP_APPEARED = ''Execution sweep appeared.''"
| "reason_value R_STRUCTURE_SHIFT_CONFIRMED = ''5m BOS/CHoCH confirmed after sweep.''"
| "reason_value R_PULLBACK_RR_VALID = ''Pullback zone and RR became valid.''"
| "reason_value R_ACTIONABLE_A_GRADE = ''Clean A-grade setup map is actionable but not fully confirmed.''"
| "reason_value R_A_GRADE_WATCH = ''A-grade setup mapped and waiting for limit zone.''"
| "reason_value R_VALID_TRADE_IDEA = ''Valid trade idea exists.''"
| "reason_value R_ENTRY_ZONE_TOUCHED = ''Entry zone touched by latest price range.''"
| "reason_value R_ENTRY_ACTIVATED = ''Entry activation recorded from a closed execution candle.''"
| "reason_value R_ENTRY_FILL_SIMULATED = ''Entry fill simulated or confirmed.''"
| "reason_value R_SETUP_DECAYED = ''Setup confidence decayed after no lifecycle progress.''"
| "reason_value R_TAKE_PROFIT_HIT = ''Take-profit outcome recorded.''"
| "reason_value R_TP1_MILESTONE = ''TP1 milestone recorded internally.''"
| "reason_value R_TP2_MILESTONE = ''TP2 milestone recorded internally.''"
| "reason_value R_TP3_MILESTONE = ''TP3 milestone recorded internally.''"
| "reason_value R_STOP_LOSS_HIT = ''Stop-loss outcome recorded.''"
| "reason_value R_BREAKEVEN_STOP_HIT = ''Reference breakeven stop reached after TP1.''"
| "reason_value R_SETUP_INVALIDATED = ''Setup invalidated by current structure or failed gate.''"
| "reason_value R_SETUP_EXPIRED = ''Setup expired before completion.''"
| "reason_value R_COOLDOWN_STARTED = ''Lifecycle moved into cooldown.''"
| "reason_value R_COOLDOWN_EXPIRED = ''Cooldown expired.''"
| "reason_value R_REACTIVATED = ''New structure reactivated archived setup.''"
| "reason_value R_LEGACY_INVALID_STORED_PLAN_GEOMETRY = ''legacy_invalid_stored_plan_geometry''"
| "reason_value R_NO_CHANGE = ''No lifecycle transition.''"
| "reason_value R_INVALID_TRANSITION = ''Invalid lifecycle transition rejected.''"

section \<open>Records\<close>

record SetupLifecycleRecord =
  lifecycle_id :: string
  symbol :: string
  mode :: string
  direction :: string
  current_state :: SetupLifecycleState
  previous_state :: "SetupLifecycleState option"
  first_seen_at :: string
  last_seen_at :: string
  last_transition_at :: string
  failed_gate :: string
  candidate_quality_grade :: string
  final_quality_grade :: string
  technical_score :: string
  opportunity_score :: string
  final_failed_gate :: string
  final_block_reason :: string
  target_integrity_status :: string
  target_failure :: string
  target_failure_severity :: string
  target_warning_reason :: string
  actionability_state :: string
  readiness_score :: int
  quality_score :: int
  edge_score :: string
  regime_state :: string
  action_label :: string
  invalidation_reason :: string
  cooldown_until :: "string option"
  archived_at :: "string option"
  entry_low :: string
  entry_high :: string
  stop_loss :: string
  tp1 :: string
  tp2 :: string
  tp3 :: string
  rr :: string
  invalidation_logic :: string
  confirmation_count :: int
  required_confirmation_cycles :: int
  quality_grade_first_seen :: string
  quality_grade_current :: string
  quality_grade_confirmed :: string
  confirmed_at :: "string option"
  decay_count :: int
  decay_reason :: string
  symbol_health_score_at_detection :: string
  symbol_health_penalty_cycles :: int
  setup_identity :: string
  structural_anchor :: string
  is_current :: bool
  setup_id :: "string option"
  plan_version_id :: "string option"
  economic_identity_reason :: "string option"
  runtime_epoch_id :: "string option"
  creation_origin_id :: "string option"

section \<open>Validators\<close>

text \<open>Construction of a model either yields the normalized model or raises \<open>ValidationError\<close>. The other error is that of a
  date-time addition that leaves the supported range.\<close>

datatype model_error = ValidationError | OverflowError

definition normalize_symbol :: "string \<Rightarrow> model_error + string" where
  "normalize_symbol s =
     (let normalized = py_upper (py_strip s) in if normalized = [] then Inl ValidationError else Inr normalized)"

definition normalize_text :: "string \<Rightarrow> string" where
  "normalize_text s = (let text = py_strip s in if text = [] then NA else text)"

definition normalize_optional_identity :: "string option \<Rightarrow> string option" where
  "normalize_optional_identity v =
     (case v of
        None \<Rightarrow> None
      | Some s \<Rightarrow> (let text = py_strip s in if text = [] \<or> py_upper text = NA then None else Some text))"

definition normalize_optional_prefix_evidence_json :: "string option \<Rightarrow> string option" where
  "normalize_optional_prefix_evidence_json v =
     (case v of None \<Rightarrow> None | Some s \<Rightarrow> (let text = py_strip s in if text = [] then None else Some text))"

definition score_in_range :: "int \<Rightarrow> bool" where
  "score_in_range n \<longleftrightarrow> 0 \<le> n \<and> n \<le> 100"

definition normalize_record_text :: "SetupLifecycleRecord \<Rightarrow> SetupLifecycleRecord" where
  "normalize_record_text r = r\<lparr>
     mode := normalize_text (mode r), direction := normalize_text (direction r),
     failed_gate := normalize_text (failed_gate r),
     candidate_quality_grade := normalize_text (candidate_quality_grade r),
     final_quality_grade := normalize_text (final_quality_grade r),
     technical_score := normalize_text (technical_score r),
     opportunity_score := normalize_text (opportunity_score r),
     final_failed_gate := normalize_text (final_failed_gate r),
     final_block_reason := normalize_text (final_block_reason r),
     target_integrity_status := normalize_text (target_integrity_status r),
     target_failure := normalize_text (target_failure r),
     target_failure_severity := normalize_text (target_failure_severity r),
     target_warning_reason := normalize_text (target_warning_reason r),
     actionability_state := normalize_text (actionability_state r),
     edge_score := normalize_text (edge_score r), regime_state := normalize_text (regime_state r),
     action_label := normalize_text (action_label r),
     invalidation_reason := normalize_text (invalidation_reason r),
     entry_low := normalize_text (entry_low r), entry_high := normalize_text (entry_high r),
     stop_loss := normalize_text (stop_loss r), tp1 := normalize_text (tp1 r),
     tp2 := normalize_text (tp2 r), tp3 := normalize_text (tp3 r), rr := normalize_text (rr r),
     invalidation_logic := normalize_text (invalidation_logic r),
     quality_grade_first_seen := normalize_text (quality_grade_first_seen r),
     quality_grade_current := normalize_text (quality_grade_current r),
     quality_grade_confirmed := normalize_text (quality_grade_confirmed r),
     decay_reason := normalize_text (decay_reason r),
     symbol_health_score_at_detection := normalize_text (symbol_health_score_at_detection r),
     setup_identity := normalize_text (setup_identity r),
     structural_anchor := normalize_text (structural_anchor r)\<rparr>"

definition construct_record :: "SetupLifecycleRecord \<Rightarrow> model_error + SetupLifecycleRecord" where
  "construct_record r =
     ebind (normalize_symbol (symbol r)) (\<lambda>sym.
     ebind (eraise_if (\<not> (score_in_range (readiness_score r) \<and> score_in_range (quality_score r)
              \<and> 0 \<le> confirmation_count r \<and> 1 \<le> required_confirmation_cycles r
              \<and> 0 \<le> decay_count r \<and> 0 \<le> symbol_health_penalty_cycles r)) ValidationError) (\<lambda>_.
       Inr ((normalize_record_text r)\<lparr>symbol := sym,
         setup_id := normalize_optional_identity (setup_id r),
         plan_version_id := normalize_optional_identity (plan_version_id r),
         economic_identity_reason := normalize_optional_identity (economic_identity_reason r),
         runtime_epoch_id := normalize_optional_identity (runtime_epoch_id r),
         creation_origin_id := normalize_optional_identity (creation_origin_id r)\<rparr>)))"

definition setup_generation_id :: "SetupLifecycleRecord \<Rightarrow> string" where
  "setup_generation_id r = lifecycle_id r"

record SetupLifecycleEvent =
  ev_lifecycle_id :: string
  ev_timestamp :: string
  ev_symbol :: string
  ev_from_state :: "SetupLifecycleState option"
  ev_to_state :: SetupLifecycleState
  ev_reason :: SetupTransitionReason
  ev_scan_run_id :: "string option"
  ev_readiness_score :: int
  ev_quality_score :: int
  ev_failed_gate :: string
  ev_notes :: string

definition construct_event :: "SetupLifecycleEvent \<Rightarrow> model_error + SetupLifecycleEvent" where
  "construct_event e =
     ebind (normalize_symbol (ev_symbol e)) (\<lambda>sym.
     ebind (eraise_if (\<not> (score_in_range (ev_readiness_score e) \<and> score_in_range (ev_quality_score e)))
              ValidationError) (\<lambda>_.
       Inr (e\<lparr>ev_symbol := sym, ev_failed_gate := normalize_text (ev_failed_gate e),
              ev_notes := normalize_text (ev_notes e)\<rparr>)))"

record SetupLifecycleOutcomeProgress =
  op_lifecycle_id :: string
  op_plan_identity :: string
  op_symbol :: string
  op_mode :: string
  op_direction :: string
  op_execution_timeframe :: string
  op_tracking_start_at :: "string option"
  op_evaluation_cursor_open_at :: "string option"
  op_evaluation_cursor_close_at :: "string option"
  op_entry_at :: "string option"
  op_tp1_at :: "string option"
  op_tp2_at :: "string option"
  op_tp3_at :: "string option"
  op_stop_at :: "string option"
  op_invalidated_at :: "string option"
  op_outcome_at :: "string option"
  op_terminal_outcome :: string
  op_integrity_status :: string
  op_diagnostic :: string
  op_metadata_json :: string
  op_first_evaluated_at :: string
  op_last_evaluated_at :: string
  op_plan_version_id :: "string option"
  op_last_eligibility_decision_at :: "string option"
  op_last_eligibility_prefix_evidence_json :: "string option"
  op_eligibility_cutoff_observed :: bool

definition construct_progress ::
  "SetupLifecycleOutcomeProgress \<Rightarrow> model_error + SetupLifecycleOutcomeProgress" where
  "construct_progress p =
     ebind (normalize_symbol (op_symbol p)) (\<lambda>sym.
       Inr (p\<lparr>op_symbol := sym, op_lifecycle_id := normalize_text (op_lifecycle_id p),
         op_plan_identity := normalize_text (op_plan_identity p), op_mode := normalize_text (op_mode p),
         op_direction := normalize_text (op_direction p),
         op_execution_timeframe := normalize_text (op_execution_timeframe p),
         op_terminal_outcome := normalize_text (op_terminal_outcome p),
         op_integrity_status := normalize_text (op_integrity_status p),
         op_diagnostic := normalize_text (op_diagnostic p),
         op_metadata_json := normalize_text (op_metadata_json p),
         op_plan_version_id := normalize_optional_identity (op_plan_version_id p),
         op_last_eligibility_decision_at := normalize_optional_identity (op_last_eligibility_decision_at p),
         op_last_eligibility_prefix_evidence_json :=
           normalize_optional_prefix_evidence_json (op_last_eligibility_prefix_evidence_json p)\<rparr>))"

record SetupTransitionResult =
  res_lifecycle_id :: string
  res_symbol :: string
  res_from_state :: "SetupLifecycleState option"
  res_to_state :: SetupLifecycleState
  res_reason :: SetupTransitionReason
  res_transitioned :: bool
  res_allowed :: bool
  res_notes :: string
  res_event :: "SetupLifecycleEvent option"
  res_record :: "SetupLifecycleRecord option"

record SetupOutcomeAnalyticsRecord =
  an_lifecycle_id :: string
  an_symbol :: string
  an_bias :: string
  an_first_seen_at :: string
  an_confirmed_at :: string
  an_entry_zone :: string
  an_stop_loss :: string
  an_tp1 :: string
  an_tp2 :: string
  an_tp3 :: string
  an_quality_at_first_detection :: string
  an_quality_at_confirmation :: string
  an_rr :: string
  an_lifecycle_path :: string
  an_final_outcome :: string
  an_failure_reason :: string
  an_outcome_reason :: string
  an_regime_context :: string
  an_symbol_health_at_detection :: string
  an_raw_payload_json :: string

definition construct_analytics :: "SetupOutcomeAnalyticsRecord \<Rightarrow> model_error + SetupOutcomeAnalyticsRecord" where
  "construct_analytics a =
     ebind (normalize_symbol (an_symbol a)) (\<lambda>sym.
       Inr (a\<lparr>an_symbol := sym, an_bias := normalize_text (an_bias a),
         an_confirmed_at := normalize_text (an_confirmed_at a), an_entry_zone := normalize_text (an_entry_zone a),
         an_stop_loss := normalize_text (an_stop_loss a), an_tp1 := normalize_text (an_tp1 a),
         an_tp2 := normalize_text (an_tp2 a), an_tp3 := normalize_text (an_tp3 a),
         an_quality_at_first_detection := normalize_text (an_quality_at_first_detection a),
         an_quality_at_confirmation := normalize_text (an_quality_at_confirmation a),
         an_rr := normalize_text (an_rr a), an_lifecycle_path := normalize_text (an_lifecycle_path a),
         an_failure_reason := normalize_text (an_failure_reason a),
         an_outcome_reason := normalize_text (an_outcome_reason a),
         an_regime_context := normalize_text (an_regime_context a),
         an_symbol_health_at_detection := normalize_text (an_symbol_health_at_detection a),
         an_raw_payload_json := normalize_text (an_raw_payload_json a)\<rparr>))"

section \<open>Normalization is idempotent\<close>

lemma all_states_complete: "st \<in> set all_states"
  by (cases st) (simp_all add: all_states_def)

lemma state_round_trip: "state_of_value (state_value st) = Some st"
  by (cases st) (simp_all add: state_of_value_def all_states_def)

lemma state_value_inject [simp]: "state_value a = state_value b \<longleftrightarrow> a = b"
  by (metis option.inject state_round_trip)

lemma normalize_text_idem [simp]: "normalize_text (normalize_text s) = normalize_text s"
  by (simp add: normalize_text_def Let_def)

lemma normalize_text_fixed: "py_strip s = s \<Longrightarrow> s \<noteq> [] \<Longrightarrow> normalize_text s = s"
  by (simp add: normalize_text_def Let_def)

lemma normalize_optional_identity_idem [simp]:
  "normalize_optional_identity (normalize_optional_identity v) = normalize_optional_identity v"
  by (auto simp: normalize_optional_identity_def Let_def split: option.splits if_splits)

lemma normalize_symbol_idem: "normalize_symbol s = Inr t \<Longrightarrow> normalize_symbol t = Inr t"
  by (auto simp: normalize_symbol_def Let_def split: if_splits)

lemma normalize_record_text_idem [simp]:
  "normalize_record_text (normalize_record_text r) = normalize_record_text r"
  by (simp add: normalize_record_text_def)

lemma normalize_record_text_other [simp]:
  "symbol (normalize_record_text r) = symbol r"
  "readiness_score (normalize_record_text r) = readiness_score r"
  "quality_score (normalize_record_text r) = quality_score r"
  "confirmation_count (normalize_record_text r) = confirmation_count r"
  "required_confirmation_cycles (normalize_record_text r) = required_confirmation_cycles r"
  "decay_count (normalize_record_text r) = decay_count r"
  "symbol_health_penalty_cycles (normalize_record_text r) = symbol_health_penalty_cycles r"
  "current_state (normalize_record_text r) = current_state r"
  by (simp_all add: normalize_record_text_def)

lemma normalize_record_text_ids [simp]:
  "normalize_record_text (r\<lparr>symbol := a, setup_id := b, plan_version_id := c, economic_identity_reason := d,
      runtime_epoch_id := e, creation_origin_id := f\<rparr>)
   = (normalize_record_text r)\<lparr>symbol := a, setup_id := b, plan_version_id := c,
      economic_identity_reason := d, runtime_epoch_id := e, creation_origin_id := f\<rparr>"
  by (simp add: normalize_record_text_def)

lemma construct_record_idem:
  assumes "construct_record r = Inr r'"
  shows "construct_record r' = Inr r'"
proof -
  obtain sym where sym: "normalize_symbol (symbol r) = Inr sym"
    and r': "r' = (normalize_record_text r)\<lparr>symbol := sym,
         setup_id := normalize_optional_identity (setup_id r),
         plan_version_id := normalize_optional_identity (plan_version_id r),
         economic_identity_reason := normalize_optional_identity (economic_identity_reason r),
         runtime_epoch_id := normalize_optional_identity (runtime_epoch_id r),
         creation_origin_id := normalize_optional_identity (creation_origin_id r)\<rparr>"
    using assms unfolding construct_record_def by auto
  then show ?thesis
    using assms normalize_symbol_idem [OF sym] by (simp add: construct_record_def)
qed

lemma list_index_less: "list_index xs x = Some i \<Longrightarrow> i < length xs \<and> xs ! i = x"
  by (induction xs arbitrary: i) (auto split: if_splits)

lemma list_index_None: "list_index xs x = None \<longleftrightarrow> x \<notin> set xs"
  by (induction xs) auto

lemma monitoring_priority_iff:
  "lifecycle_monitoring_priority a < length ACTIVE_LIFECYCLE_MONITORING_STATES
     \<longleftrightarrow> lifecycle_requires_market_observation a"
proof (cases "normalize_state a")
  case (Some st)
  show ?thesis
  proof (cases "list_index ACTIVE_LIFECYCLE_MONITORING_STATES st")
    case None
    then have "st \<notin> set ACTIVE_LIFECYCLE_MONITORING_STATES" by (metis list_index_None)
    then show ?thesis
      by (simp add: lifecycle_monitoring_priority_def lifecycle_requires_market_observation_def Some None)
  next
    case (Some i)
    with \<open>normalize_state a = Some st\<close> list_index_less [OF Some] show ?thesis
      by (auto simp: lifecycle_monitoring_priority_def lifecycle_requires_market_observation_def)
  qed
qed (simp add: lifecycle_monitoring_priority_def lifecycle_requires_market_observation_def)

end
