(* ===== verification/Outcome_Policy.thy ===== *)
theory Outcome_Policy
  imports Trade_Plan Lifecycle_Models
begin

text \<open>
  The stored plan of a lifecycle record, \<open>app/lifecycle/outcome_policy.py\<close>: its geometry, read and validated
  from the record's texts, and its content identity. The SHA-256 hex digest is the parameter
  \<open>sha256\<close>.
\<close>

section \<open>Texts and numbers\<close>

text \<open>\<open>_text\<close> of the lifecycle modules on a text value.\<close>

definition py_text :: "string \<Rightarrow> string" where
  "py_text v = (if v = [] then NA else let text = py_strip v in if text = [] then NA else text)"

definition policy_required_decimal :: "string \<Rightarrow> string \<Rightarrow> string + rat" where
  "policy_required_decimal v name =
     (if v = [] \<or> v = NA then Inl (''missing_'' @ name)
      else case decimal_of_string v of
        None \<Rightarrow> Inl (''invalid_'' @ name)
      | Some (Finite x) \<Rightarrow> Inr x
      | Some _ \<Rightarrow> Inl (''non_finite_'' @ name))"

definition policy_stored_invalidation :: "SetupLifecycleRecord \<Rightarrow> string" where
  "policy_stored_invalidation r =
     (if py_text (invalidation_logic r) \<noteq> NA then py_text (invalidation_logic r)
      else if py_text (invalidation_reason r) \<noteq> NA then py_text (invalidation_reason r)
      else NA)"

text \<open>\<open>format(number.normalize(), "f")\<close>; the value 0 prints as \<open>0\<close> whatever its sign.\<close>

definition identity_price :: "string \<Rightarrow> string" where
  "identity_price v =
     (let text = py_text v in
      if text = NA then NA
      else case decimal_of_string text of
        Some (Finite x) \<Rightarrow> dec_canonical x
      | _ \<Rightarrow> text)"

definition canonical_stored_price :: "string \<Rightarrow> string" where
  "canonical_stored_price v = identity_price v"

section \<open>Plan geometry\<close>

definition INVALID_STORED_PLAN_GEOMETRY :: string where
  "INVALID_STORED_PLAN_GEOMETRY = ''invalid_stored_plan_geometry''"

record StoredPlanGeometry =
  geo_direction :: string
  geo_entry_low :: rat
  geo_entry_high :: rat
  geo_stop_loss :: rat
  geo_tp1 :: rat
  geo_tp2 :: rat
  geo_tp3 :: rat

definition stored_plan_geometry :: "SetupLifecycleRecord \<Rightarrow> string + StoredPlanGeometry" where
  "stored_plan_geometry r =
     (let side = py_lower (py_text (direction r)) in
      ebind (eraise_if (side \<noteq> ''long'' \<and> side \<noteq> ''short'') (''unsupported_direction:'' @ direction r)) (\<lambda>_.
      ebind (policy_required_decimal (entry_low r) ''entry_low'') (\<lambda>low.
      ebind (policy_required_decimal (entry_high r) ''entry_high'') (\<lambda>high.
      ebind (policy_required_decimal (stop_loss r) ''stop_loss'') (\<lambda>stop.
      ebind (policy_required_decimal (tp1 r) ''tp1'') (\<lambda>t1.
      ebind (policy_required_decimal (tp2 r) ''tp2'') (\<lambda>t2.
      ebind (policy_required_decimal (tp3 r) ''tp3'') (\<lambda>t3.
      ebind (eraise_if (policy_stored_invalidation r = NA) ''missing_invalidation'') (\<lambda>_.
      ebind (eraise_if (low > high) ''entry_low_above_entry_high'') (\<lambda>_.
      ebind (eraise_if
         (\<not> valid (validate_trade_plan
            \<lparr>arg_direction = side, arg_entry_low = VDecimal (Finite low), arg_entry_high = VDecimal (Finite high),
             arg_entry_reference = VDecimal (Finite (if side = ''long'' then low else high)),
             arg_stop_loss = VDecimal (Finite stop), arg_tp1 = VDecimal (Finite t1),
             arg_tp2 = VDecimal (Finite t2), arg_tp3 = VDecimal (Finite t3), arg_minimum_rr = VNone,
             arg_require_all_targets = True, arg_entry_reference_type = ''favorable_zone_edge'',
             arg_execution_cost = VDecimal (Finite 0)\<rparr>))
         (if side = ''long'' then ''invalid_long_level_order'' else ''invalid_short_level_order'')) (\<lambda>_.
       Inr \<lparr>geo_direction = side, geo_entry_low = low, geo_entry_high = high, geo_stop_loss = stop,
            geo_tp1 = t1, geo_tp2 = t2, geo_tp3 = t3\<rparr>)))))))))))"

definition stored_plan_geometry_failure :: "SetupLifecycleRecord \<Rightarrow> string option" where
  "stored_plan_geometry_failure r = (case stored_plan_geometry r of Inl e \<Rightarrow> Some e | Inr _ \<Rightarrow> None)"

definition has_valid_stored_plan_geometry :: "SetupLifecycleRecord \<Rightarrow> bool" where
  "has_valid_stored_plan_geometry r = (stored_plan_geometry_failure r = None)"

section \<open>Plan identity\<close>

definition plan_identity_of :: "(string \<Rightarrow> string) \<Rightarrow> SetupLifecycleRecord \<Rightarrow> bool \<Rightarrow> string" where
  "plan_identity_of sha256 r normalize_numeric =
     (let price = (\<lambda>v. if normalize_numeric then identity_price v else py_text v);
          values = [lifecycle_id r, symbol r, mode r, direction r, price (entry_low r), price (entry_high r),
                    price (stop_loss r), price (tp1 r), price (tp2 r), price (tp3 r),
                    policy_stored_invalidation r]
      in ''plan-'' @ sha256 (py_join [CHR 0x1F] (map py_text values)))"

definition canonical_plan_identity :: "(string \<Rightarrow> string) \<Rightarrow> SetupLifecycleRecord \<Rightarrow> string" where
  "canonical_plan_identity sha256 r = plan_identity_of sha256 r True"

definition compatible_plan_identities :: "(string \<Rightarrow> string) \<Rightarrow> SetupLifecycleRecord \<Rightarrow> string list" where
  "compatible_plan_identities sha256 r =
     dict_fromkeys [canonical_plan_identity sha256 r, plan_identity_of sha256 r False]"

section \<open>What a valid stored geometry is\<close>

definition geometry_ordered :: "StoredPlanGeometry \<Rightarrow> bool" where
  "geometry_ordered g \<longleftrightarrow>
     geo_direction g = ''long'' \<and> 0 < geo_stop_loss g \<and> geo_stop_loss g < geo_entry_low g
       \<and> geo_entry_low g \<le> geo_entry_high g \<and> geo_entry_high g < geo_tp1 g
       \<and> geo_tp1 g < geo_tp2 g \<and> geo_tp2 g < geo_tp3 g
   \<or> geo_direction g = ''short'' \<and> 0 < geo_tp3 g \<and> geo_tp3 g < geo_tp2 g \<and> geo_tp2 g < geo_tp1 g
       \<and> geo_tp1 g < geo_entry_low g \<and> geo_entry_low g \<le> geo_entry_high g
       \<and> geo_entry_high g < geo_stop_loss g"

lemma py_text_strip [simp]: "py_strip (py_text v) = py_text v"
  by (simp add: py_text_def Let_def)

lemma py_text_nonempty [simp]: "py_text v \<noteq> []"
  by (simp add: py_text_def Let_def)

lemma py_text_idem [simp]: "py_text (py_text v) = py_text v"
  using py_text_nonempty [of v] unfolding py_text_def [of "py_text v"] by (simp add: Let_def)

lemma py_text_NA [simp]: "py_text NA = NA"
  by (simp add: py_text_def)

lemma py_text_normalize [simp]: "py_text (normalize_text v) = normalize_text v"
  by (simp add: py_text_def normalize_text_def Let_def)

lemma normalize_py_text [simp]: "normalize_text (py_text v) = py_text v"
  by (simp add: py_text_def normalize_text_def Let_def)

lemma py_strip_lower_text [simp]: "py_strip (py_lower (py_text v)) = py_lower (py_text v)"
  using py_strip_case(1) [of "py_text v"] by simp

lemma favorable_edge_valid:
  assumes "side = ''long'' \<or> side = ''short''" and "py_lower (py_strip side) = side" and "low \<le> high"
  shows "valid (validate_trade_plan
            \<lparr>arg_direction = side, arg_entry_low = VDecimal (Finite low), arg_entry_high = VDecimal (Finite high),
             arg_entry_reference = VDecimal (Finite (if side = ''long'' then low else high)),
             arg_stop_loss = VDecimal (Finite stop), arg_tp1 = VDecimal (Finite t1),
             arg_tp2 = VDecimal (Finite t2), arg_tp3 = VDecimal (Finite t3), arg_minimum_rr = VNone,
             arg_require_all_targets = True, arg_entry_reference_type = ''favorable_zone_edge'',
             arg_execution_cost = VDecimal (Finite 0)\<rparr>)
     \<longleftrightarrow> geometry_ordered \<lparr>geo_direction = side, geo_entry_low = low, geo_entry_high = high,
           geo_stop_loss = stop, geo_tp1 = t1, geo_tp2 = t2, geo_tp3 = t3\<rparr>"
proof -
  have none: "optional_decimal VNone ''minimum_rr'' False = Inr None" by (simp add: optional_decimal_def)
  have z: "0 < dec_sub x 0 \<longleftrightarrow> 0 < x" for x by (simp add: py_dec)
  show ?thesis
    using assms
    by (elim disjE)
       (auto simp: validate_trade_plan_iff plan_inputs_def none Let_def plan_ok_def well_ordered_def
         target_prices_def net_reward_def z py_dec geometry_ordered_def)
qed

lemma py_lower_side [simp]: "py_lower ''long'' = ''long''" "py_lower ''short'' = ''short''"
    "py_strip ''long'' = ''long''" "py_strip ''short'' = ''short''"
  by code_simp+

lemmas favorable_edge_sides =
  favorable_edge_valid [of "''long''", simplified] favorable_edge_valid [of "''short''", simplified]

lemma stored_plan_geometry_iff:
  "stored_plan_geometry r = Inr g \<longleftrightarrow>
     geo_direction g = py_lower (py_text (direction r))
   \<and> policy_required_decimal (entry_low r) ''entry_low'' = Inr (geo_entry_low g)
   \<and> policy_required_decimal (entry_high r) ''entry_high'' = Inr (geo_entry_high g)
   \<and> policy_required_decimal (stop_loss r) ''stop_loss'' = Inr (geo_stop_loss g)
   \<and> policy_required_decimal (tp1 r) ''tp1'' = Inr (geo_tp1 g)
   \<and> policy_required_decimal (tp2 r) ''tp2'' = Inr (geo_tp2 g)
   \<and> policy_required_decimal (tp3 r) ''tp3'' = Inr (geo_tp3 g)
   \<and> policy_stored_invalidation r \<noteq> NA \<and> geometry_ordered g"
  (is "?lhs \<longleftrightarrow> ?rhs")
proof
  assume ?lhs
  then have ord: "geometry_ordered g"
    by (auto simp: stored_plan_geometry_def Let_def favorable_edge_sides not_less)
  with \<open>?lhs\<close> show ?rhs by (auto simp: stored_plan_geometry_def Let_def)
next
  assume rhs: ?rhs
  then have "geo_direction g = ''long'' \<or> geo_direction g = ''short''" and "geo_entry_low g \<le> geo_entry_high g"
    by (auto simp: geometry_ordered_def)
  with rhs show ?lhs
    by (cases g) (auto simp: stored_plan_geometry_def Let_def favorable_edge_sides not_less)
qed

lemma stored_plan_geometry_ordered: "stored_plan_geometry r = Inr g \<Longrightarrow> geometry_ordered g"
  by (simp add: stored_plan_geometry_iff)

end
