(* ===== verification/Py_Time.thy ===== *)
theory Py_Time
  imports Py_Decimal
begin

text \<open>
  Python's \<open>datetime.datetime\<close> as the application uses it: proleptic Gregorian dates, microsecond
  clocks, a UTC offset or none, \<open>fromisoformat\<close> and \<open>isoformat\<close> in the extended ISO 8601 format (the
  format \<open>isoformat\<close> writes: \<open>YYYY-MM-DD\<close>, a separator, \<open>HH[:MM[:SS[.f]]]\<close>, an offset), addition of a
  \<open>timedelta\<close>, and comparison of aware values by the instant they denote. The basic and week-date
  notations that newer Python versions also read are not part of the model: they parse as errors.
\<close>

section \<open>Calendar\<close>

definition is_leap :: "nat \<Rightarrow> bool" where
  "is_leap y \<longleftrightarrow> y mod 4 = 0 \<and> (y mod 100 \<noteq> 0 \<or> y mod 400 = 0)"

definition days_in_month :: "nat \<Rightarrow> nat \<Rightarrow> nat" where
  "days_in_month y m =
     (if m = 2 then (if is_leap y then 29 else 28) else if m \<in> set [4, 6, 9, 11] then 30 else 31)"

fun days_before_month :: "nat \<Rightarrow> nat \<Rightarrow> nat" where
  "days_before_month y 0 = 0"
| "days_before_month y (Suc m) = (if m = 0 then 0 else days_before_month y m + days_in_month y m)"

text \<open>Days before the first of January of year \<open>Suc k\<close>.\<close>

definition days_before_year :: "nat \<Rightarrow> nat" where
  "days_before_year y = (y - 1) * 365 + (y - 1) div 4 - (y - 1) div 100 + (y - 1) div 400"

definition ymd2ord :: "nat \<Rightarrow> nat \<Rightarrow> nat \<Rightarrow> nat" where
  "ymd2ord y m d = days_before_year y + days_before_month y m + d"

fun year_down :: "nat \<Rightarrow> nat \<Rightarrow> nat" where
  "year_down n 0 = 0"
| "year_down n (Suc y) = (if days_before_year (Suc y) < n then Suc y else year_down n y)"

fun month_down :: "nat \<Rightarrow> nat \<Rightarrow> nat \<Rightarrow> nat" where
  "month_down y r 0 = 0"
| "month_down y r (Suc m) = (if days_before_month y (Suc m) < r then Suc m else month_down y r m)"

definition ord2ymd :: "nat \<Rightarrow> nat \<times> nat \<times> nat" where
  "ord2ymd n =
     (let y = year_down n (n div 365 + 1); r = n - days_before_year y; m = month_down y r 12
      in (y, m, r - days_before_month y m))"

definition valid_ymd :: "nat \<Rightarrow> nat \<Rightarrow> nat \<Rightarrow> bool" where
  "valid_ymd y m d \<longleftrightarrow> 1 \<le> y \<and> y \<le> 9999 \<and> 1 \<le> m \<and> m \<le> 12 \<and> 1 \<le> d \<and> d \<le> days_in_month y m"

lemma days_before_year_step:
  assumes "1 \<le> y"
  shows "days_before_year (Suc y) = days_before_year y + 337 + days_in_month y 2"
proof -
  obtain k where k: "y = Suc k" using assms by (cases y) auto
  have 4: "Suc k div 4 = k div 4 + (if Suc k mod 4 = 0 then 1 else 0)"
    and 100: "Suc k div 100 = k div 100 + (if Suc k mod 100 = 0 then 1 else 0)"
    and 400: "Suc k div 400 = k div 400 + (if Suc k mod 400 = 0 then 1 else 0)"
    by (simp_all add: div_Suc)
  have m: "Suc k mod 400 = 0 \<Longrightarrow> Suc k mod 100 = 0" "Suc k mod 100 = 0 \<Longrightarrow> Suc k mod 4 = 0"
    unfolding mod_eq_0_iff_dvd by (rule dvd_trans, simp_all)+
  have le: "k div 100 \<le> k div 4" by (simp add: div_le_mono2)
  show ?thesis
    unfolding k days_before_year_def days_in_month_def is_leap_def
    using le m by (simp add: 4 100 400) (auto simp: add.assoc)
qed

lemma days_before_year_mono: "x \<le> y \<Longrightarrow> days_before_year x \<le> days_before_year y"
proof (induction y)
  case (Suc y)
  show ?case
  proof (cases "x = Suc y \<or> y = 0")
    case True
    then show ?thesis using Suc.prems by (cases x) (auto simp: days_before_year_def)
  next
    case False
    then show ?thesis using Suc days_before_year_step [of y] by (cases x) auto
  qed
qed (simp add: days_before_year_def)

lemma days_before_month_vals:
  "days_before_month y 1 = 0" "days_before_month y 2 = 31"
  "days_before_month y 3 = 31 + days_in_month y 2" "days_before_month y 4 = 62 + days_in_month y 2"
  "days_before_month y 5 = 92 + days_in_month y 2" "days_before_month y 6 = 123 + days_in_month y 2"
  "days_before_month y 7 = 153 + days_in_month y 2" "days_before_month y 8 = 184 + days_in_month y 2"
  "days_before_month y 9 = 215 + days_in_month y 2" "days_before_month y 10 = 245 + days_in_month y 2"
  "days_before_month y 11 = 276 + days_in_month y 2" "days_before_month y 12 = 306 + days_in_month y 2"
  "days_before_month y 13 = 337 + days_in_month y 2"
  by (simp_all add: numeral_eq_Suc days_in_month_def)

lemma days_before_month_mono: "a \<le> b \<Longrightarrow> days_before_month y a \<le> days_before_month y b"
proof (induction b)
  case (Suc b)
  then show ?case by (cases "a = Suc b") (auto simp: le_Suc_eq)
qed simp

lemma year_down_eq:
  assumes "days_before_year y < n" and "n \<le> days_before_year (Suc y)" and "y \<le> b"
  shows "year_down n b = y"
  using assms(3)
proof (induction b)
  case 0
  with assms show ?case by simp
next
  case (Suc b)
  show ?case
  proof (cases "y = Suc b")
    case True
    then show ?thesis using assms(1) by simp
  next
    case False
    with Suc.prems have "y \<le> b" by simp
    moreover from this have "days_before_year (Suc y) \<le> days_before_year (Suc b)"
      by (intro days_before_year_mono) simp
    ultimately show ?thesis using Suc.IH assms(2) by simp
  qed
qed

lemma month_down_eq:
  assumes "days_before_month y m < r" and "r \<le> days_before_month y (Suc m)" and "m \<le> b"
  shows "month_down y r b = m"
  using assms(3)
proof (induction b)
  case 0
  with assms show ?case by simp
next
  case (Suc b)
  show ?case
  proof (cases "m = Suc b")
    case True
    then show ?thesis using assms(1) by simp
  next
    case False
    with Suc.prems have "m \<le> b" by simp
    moreover from this have "days_before_month y (Suc m) \<le> days_before_month y (Suc b)"
      by (intro days_before_month_mono) simp
    ultimately show ?thesis using Suc.IH assms(2) by (simp del: days_before_month.simps)
  qed
qed

lemma ymd2ord_bounds:
  assumes "valid_ymd y m d"
  shows "days_before_year y < ymd2ord y m d" and "ymd2ord y m d \<le> days_before_year (Suc y)"
proof -
  have m: "Suc m \<le> 13" "1 \<le> m" and d: "1 \<le> d" "d \<le> days_in_month y m" and y: "1 \<le> y"
    using assms by (auto simp: valid_ymd_def)
  show "days_before_year y < ymd2ord y m d" using d by (simp add: ymd2ord_def)
  have "days_before_month y m + d \<le> days_before_month y (Suc m)" using m d by simp
  also have "\<dots> \<le> days_before_month y 13" using m by (intro days_before_month_mono)
  also have "\<dots> = 337 + days_in_month y 2" by (rule days_before_month_vals)
  finally show "ymd2ord y m d \<le> days_before_year (Suc y)"
    using y by (simp add: ymd2ord_def days_before_year_step)
qed

theorem ord2ymd_ymd2ord:
  assumes "valid_ymd y m d"
  shows "ord2ymd (ymd2ord y m d) = (y, m, d)"
proof -
  let ?n = "ymd2ord y m d"
  have "(y - 1) * 365 \<le> days_before_year y"
    unfolding days_before_year_def by (simp add: div_le_mono2 trans_le_add1)
  then have "y - 1 \<le> ?n div 365"
    using ymd2ord_bounds(1) [OF assms] by (simp add: less_eq_div_iff_mult_less_eq)
  then have Y: "year_down ?n (?n div 365 + 1) = y"
    using ymd2ord_bounds [OF assms] by (intro year_down_eq) linarith+
  have r: "?n - days_before_year y = days_before_month y m + d" by (simp add: ymd2ord_def)
  have M: "month_down y (days_before_month y m + d) 12 = m"
    using assms by (intro month_down_eq) (auto simp: valid_ymd_def)
  show ?thesis unfolding ord2ymd_def Let_def Y r M by simp
qed

lemma year_down_correct:
  assumes "0 < n" and "n \<le> days_before_year (Suc b)" and "1 \<le> b"
  shows "1 \<le> year_down n b \<and> days_before_year (year_down n b) < n
    \<and> n \<le> days_before_year (Suc (year_down n b))"
  using assms(2,3)
proof (induction b)
  case (Suc b)
  show ?case
  proof (cases "days_before_year (Suc b) < n")
    case True
    with Suc.prems show ?thesis by simp
  next
    case False
    with assms(1) have "b \<noteq> 0" by (auto simp: days_before_year_def)
    with False Suc show ?thesis by simp
  qed
qed simp

lemma month_down_correct:
  assumes "0 < r" and "r \<le> days_before_month y (Suc b)" and "1 \<le> b"
  shows "1 \<le> month_down y r b \<and> month_down y r b \<le> b
    \<and> days_before_month y (month_down y r b) < r \<and> r \<le> days_before_month y (Suc (month_down y r b))"
  using assms(2,3)
proof (induction b)
  case (Suc b)
  show ?case
  proof (cases "days_before_month y (Suc b) < r")
    case True
    with Suc.prems show ?thesis by (simp del: days_before_month.simps)
  next
    case False
    with assms(1) have "b \<noteq> 0" by (auto split: if_splits)
    with False Suc show ?thesis by (simp del: days_before_month.simps)
  qed
qed simp

theorem ymd2ord_ord2ymd:
  assumes n: "0 < n" "n \<le> days_before_year 10000" and e: "ord2ymd n = (y, m, d)"
  shows "valid_ymd y m d" and "ymd2ord y m d = n"
proof -
  let ?b = "n div 365 + 1"
  have "n < 365 * (n div 365 + 1)" by (simp add: less_mult_imp_div_less dividend_less_times_div)
  also have "\<dots> \<le> days_before_year (Suc ?b)"
    unfolding days_before_year_def by (simp add: div_le_mono2 trans_le_add1)
  finally have yb: "n \<le> days_before_year (Suc ?b)" by simp
  have y: "y = year_down n ?b" and m: "m = month_down y (n - days_before_year y) 12"
    and d: "d = n - days_before_year y - days_before_month y m"
    using e by (auto simp: ord2ymd_def Let_def)
  have Y: "1 \<le> y" "days_before_year y < n" "n \<le> days_before_year (Suc y)"
    using year_down_correct [OF n(1) yb] by (simp_all add: y)
  have y9: "y \<le> 9999"
  proof (rule ccontr)
    assume "\<not> y \<le> 9999"
    then have "days_before_year 10000 \<le> days_before_year y" by (intro days_before_year_mono) simp
    with Y n show False by linarith
  qed
  let ?r = "n - days_before_year y"
  have r: "0 < ?r" "?r \<le> days_before_month y (Suc 12)"
    using Y days_before_year_step [of y] days_before_month_vals(13) [of y] by simp_all
  have M: "1 \<le> m" "m \<le> 12" "days_before_month y m < ?r" "?r \<le> days_before_month y (Suc m)"
    using month_down_correct [OF r] unfolding m by (simp_all del: days_before_month.simps)
  have "days_before_month y (Suc m) = days_before_month y m + days_in_month y m" using M(1) by simp
  then have D: "1 \<le> d" "d \<le> days_in_month y m" using M(3,4) d by linarith+
  show "valid_ymd y m d" using Y y9 M D by (simp add: valid_ymd_def)
  show "ymd2ord y m d = n" using M(3) Y(2) d by (simp add: ymd2ord_def)
qed

section \<open>Date-times\<close>

text \<open>
  A date-time is its local clock reading, in microseconds since midnight before the first of
  January of year 1 (day ordinal 1), and its UTC offset in microseconds, if it has one.
\<close>

record py_datetime =
  dt_local :: int
  dt_offset :: "int option"

definition us_per_day :: int where
  "us_per_day = 86400000000"

definition dt_max :: int where
  "dt_max = int (days_before_year 10000) * us_per_day"

definition valid_datetime :: "py_datetime \<Rightarrow> bool" where
  "valid_datetime t \<longleftrightarrow> 0 \<le> dt_local t \<and> dt_local t < dt_max
     \<and> (case dt_offset t of None \<Rightarrow> True | Some off \<Rightarrow> \<bar>off\<bar> < us_per_day)"

text \<open>The instant an aware value denotes.\<close>

definition dt_instant :: "py_datetime \<Rightarrow> int" where
  "dt_instant t = dt_local t - (case dt_offset t of None \<Rightarrow> 0 | Some off \<Rightarrow> off)"

definition dt_add_us :: "py_datetime \<Rightarrow> int \<Rightarrow> py_datetime option" where
  "dt_add_us t us =
     (let l = dt_local t + us in if 0 \<le> l \<and> l < dt_max then Some (t\<lparr>dt_local := l\<rparr>) else None)"

definition dt_drop_microseconds :: "py_datetime \<Rightarrow> py_datetime" where
  "dt_drop_microseconds t = t\<lparr>dt_local := dt_local t - dt_local t mod 1000000\<rparr>"

definition dt_assume_utc :: "py_datetime \<Rightarrow> py_datetime" where
  "dt_assume_utc t = (case dt_offset t of None \<Rightarrow> t\<lparr>dt_offset := Some 0\<rparr> | Some _ \<Rightarrow> t)"

definition dt_astimezone_utc :: "py_datetime \<Rightarrow> py_datetime" where
  "dt_astimezone_utc t = \<lparr>dt_local = dt_instant t, dt_offset = Some 0\<rparr>"

subsection \<open>isoformat\<close>

text \<open>A clock reading in microseconds, as \<open>HH:MM:SS[.ffffff]\<close>.\<close>

definition clock_text :: "nat \<Rightarrow> string" where
  "clock_text us =
     (let s = us div 1000000; f = us mod 1000000 in
      pad_digits 2 (s div 3600) @ '':'' @ pad_digits 2 (s div 60 mod 60) @ '':'' @ pad_digits 2 (s mod 60)
        @ (if f = 0 then [] else ''.'' @ pad_digits 6 f))"

definition offset_text :: "int \<Rightarrow> string" where
  "offset_text off =
     (let us = nat \<bar>off\<bar>; t = clock_text us in
      (if off < 0 then ''-'' else ''+'') @ (if us mod 60000000 = 0 then take 5 t else t))"

definition date_text :: "nat \<Rightarrow> string" where
  "date_text n =
     (let (y, m, d) = ord2ymd n in pad_digits 4 y @ ''-'' @ pad_digits 2 m @ ''-'' @ pad_digits 2 d)"

definition isoformat :: "py_datetime \<Rightarrow> string" where
  "isoformat t =
     date_text (nat (dt_local t div us_per_day) + 1) @ ''T'' @ clock_text (nat (dt_local t mod us_per_day))
       @ (case dt_offset t of None \<Rightarrow> [] | Some off \<Rightarrow> offset_text off)"

subsection \<open>fromisoformat\<close>

fun parse_date :: "string \<Rightarrow> nat option" where
  "parse_date [a, b, c, d, h1, e, f, h2, g, h] =
     (let y = digits_val [a, b, c, d]; m = digits_val [e, f]; dd = digits_val [g, h] in
      if h1 = CHR ''-'' \<and> h2 = CHR ''-'' \<and> list_all py_isdigit [a, b, c, d, e, f, g, h] \<and> valid_ymd y m dd
      then Some (ymd2ord y m dd) else None)"
| "parse_date _ = None"

definition hms_us :: "string \<Rightarrow> string \<Rightarrow> string \<Rightarrow> string \<Rightarrow> nat option" where
  "hms_us h m s f =
     (if list_all py_isdigit (h @ m @ s @ f) \<and> digits_val h < 24 \<and> digits_val m < 60 \<and> digits_val s < 60
      then Some (((digits_val h * 60 + digits_val m) * 60 + digits_val s) * 1000000
                 + digits_val (take 6 (f @ ''000000'')))
      else None)"

fun parse_clock :: "string \<Rightarrow> nat option" where
  "parse_clock [a, b] = hms_us [a, b] [] [] []"
| "parse_clock [a, b, p, c, d] = (if p = CHR '':'' then hms_us [a, b] [c, d] [] [] else None)"
| "parse_clock [a, b, p, c, d, q, e, f] =
     (if p = CHR '':'' \<and> q = CHR '':'' then hms_us [a, b] [c, d] [e, f] [] else None)"
| "parse_clock (a # b # p # c # d # q # e # f # r # g # gs) =
     (if p = CHR '':'' \<and> q = CHR '':'' \<and> (r = CHR ''.'' \<or> r = CHR '','')
      then hms_us [a, b] [c, d] [e, f] (g # gs) else None)"
| "parse_clock _ = None"

definition is_tz_start :: "char \<Rightarrow> bool" where
  "is_tz_start c \<longleftrightarrow> c = CHR ''+'' \<or> c = CHR ''-'' \<or> c = CHR ''Z''"

fun parse_offset :: "string \<Rightarrow> int option option" where
  "parse_offset [] = Some None"
| "parse_offset (c # cs) =
     (if c = CHR ''Z'' then (if cs = [] then Some (Some 0) else None)
      else map_option (\<lambda>us. Some (if c = CHR ''-'' then - int us else int us)) (parse_clock cs))"

text \<open>\<open>datetime.fromisoformat\<close>; \<open>None\<close> is its \<open>ValueError\<close>.\<close>

definition fromisoformat :: "string \<Rightarrow> py_datetime option" where
  "fromisoformat s =
     (case parse_date (take 10 s) of
        None \<Rightarrow> None
      | Some n \<Rightarrow>
          (case drop 10 s of
             [] \<Rightarrow> Some \<lparr>dt_local = (int n - 1) * us_per_day, dt_offset = None\<rparr>
           | sep # r \<Rightarrow>
               (case (parse_clock (takeWhile (Not \<circ> is_tz_start) r), parse_offset (dropWhile (Not \<circ> is_tz_start) r)) of
                  (Some us, Some off) \<Rightarrow>
                    Some \<lparr>dt_local = (int n - 1) * us_per_day + int us, dt_offset = off\<rparr>
                | _ \<Rightarrow> None)))"

text \<open>\<open>text.replace("Z", "+00:00")\<close>\<close>

definition replace_Z :: "string \<Rightarrow> string" where
  "replace_Z s = concat (map (\<lambda>c. if c = CHR ''Z'' then ''+00:00'' else [c]) s)"

subsection \<open>Reading what isoformat wrote\<close>

lemma pad2_cases:
  assumes "n < 100"
  obtains a b where "pad_digits 2 n = [a, b]" "py_isdigit a" "py_isdigit b" "digits_val [a, b] = n"
proof -
  have "length (pad_digits 2 n) = 2" by simp
  then obtain a b where ab: "pad_digits 2 n = [a, b]" by (auto simp: length_Suc_conv numeral_2_eq_2)
  moreover have "digits_val (pad_digits 2 n) = n" using assms by simp
  ultimately show ?thesis using that pad_digits_digits [of 2 n] by simp
qed

lemma pad4_cases:
  assumes "n < 10000"
  obtains a b c d where "pad_digits 4 n = [a, b, c, d]" "list_all py_isdigit [a, b, c, d]"
    "digits_val [a, b, c, d] = n"
proof -
  have "length (pad_digits 4 n) = Suc (Suc (Suc (Suc 0)))" by simp
  then obtain a b c d where ab: "pad_digits 4 n = [a, b, c, d]"
    unfolding length_Suc_conv length_0_conv by blast
  moreover have "digits_val (pad_digits 4 n) = n" using assms by simp
  ultimately show ?thesis using that pad_digits_digits [of 4 n] by simp
qed

lemma date_text_parse:
  assumes "0 < n" and "n \<le> days_before_year 10000"
  shows "parse_date (date_text n) = Some n" and "length (date_text n) = 10"
proof -
  obtain y m d where e: "ord2ymd n = (y, m, d)" by (cases "ord2ymd n") auto
  note v = ymd2ord_ord2ymd [OF assms e]
  have "days_in_month y m \<le> 31" by (simp add: days_in_month_def)
  then have b: "y < 10000" "m < 100" "d < 100" using v(1) by (simp_all add: valid_ymd_def)
  obtain a b c dd where Y: "pad_digits 4 y = [a, b, c, dd]" "list_all py_isdigit [a, b, c, dd]"
      "digits_val [a, b, c, dd] = y"
    using pad4_cases [OF b(1)] .
  obtain e1 e2 where M: "pad_digits 2 m = [e1, e2]" "py_isdigit e1" "py_isdigit e2" "digits_val [e1, e2] = m"
    using pad2_cases [OF b(2)] .
  obtain f1 f2 where D: "pad_digits 2 d = [f1, f2]" "py_isdigit f1" "py_isdigit f2" "digits_val [f1, f2] = d"
    using pad2_cases [OF b(3)] .
  have t: "date_text n = [a, b, c, dd, CHR ''-'', e1, e2, CHR ''-'', f1, f2]"
    by (simp add: date_text_def e Y(1) M(1) D(1))
  show "parse_date (date_text n) = Some n" using v Y(2,3) M D by (simp add: t)
  show "length (date_text n) = 10" by (simp add: t)
qed

lemma clock_split:
  fixes us :: nat
  defines "s \<equiv> us div 1000000"
  shows "((s div 3600 * 60 + s div 60 mod 60) * 60 + s mod 60) * 1000000 + us mod 1000000 = us"
proof -
  have "s div 3600 = s div 60 div 60" by (simp add: div_mult2_eq [symmetric])
  then have "(s div 3600 * 60 + s div 60 mod 60) * 60 + s mod 60 = s" by (simp add: div_mult_mod_eq)
  then show ?thesis by (simp add: s_def div_mult_mod_eq)
qed

lemma clock_text_shape:
  assumes "us < 86400000000"
  obtains a b c d e f fs where
    "clock_text us = [a, b, CHR '':'', c, d, CHR '':'', e, f] @ (if us mod 1000000 = 0 then [] else CHR ''.'' # fs)"
    "list_all py_isdigit ([a, b, c, d, e, f] @ fs)" "length fs = 6" "digits_val fs = us mod 1000000"
    "digits_val [a, b] = us div 1000000 div 3600" "digits_val [c, d] = us div 1000000 div 60 mod 60"
    "digits_val [e, f] = us div 1000000 mod 60"
proof -
  have h: "us div 1000000 div 3600 < 100" using assms by (simp add: less_mult_imp_div_less)
  obtain a b where H: "pad_digits 2 (us div 1000000 div 3600) = [a, b]" "py_isdigit a" "py_isdigit b"
      "digits_val [a, b] = us div 1000000 div 3600" using pad2_cases [OF h] .
  have m: "us div 1000000 div 60 mod 60 < 100" by (rule less_trans [OF mod_less_divisor]) simp_all
  obtain c d where M: "pad_digits 2 (us div 1000000 div 60 mod 60) = [c, d]" "py_isdigit c" "py_isdigit d"
      "digits_val [c, d] = us div 1000000 div 60 mod 60" using pad2_cases [OF m] .
  have s: "us div 1000000 mod 60 < 100" by (rule less_trans [OF mod_less_divisor]) simp_all
  obtain e f where S: "pad_digits 2 (us div 1000000 mod 60) = [e, f]" "py_isdigit e" "py_isdigit f"
      "digits_val [e, f] = us div 1000000 mod 60" using pad2_cases [OF s] .
  have "clock_text us = [a, b, CHR '':'', c, d, CHR '':'', e, f]
      @ (if us mod 1000000 = 0 then [] else CHR ''.'' # pad_digits 6 (us mod 1000000))"
    by (simp add: clock_text_def Let_def H(1) M(1) S(1))
  moreover have "list_all py_isdigit ([a, b, c, d, e, f] @ pad_digits 6 (us mod 1000000))"
    using H M S pad_digits_digits by simp
  moreover have "digits_val (pad_digits 6 (us mod 1000000)) = us mod 1000000" by simp
  ultimately show ?thesis using that [of a b c d e f "pad_digits 6 (us mod 1000000)"] H(4) M(4) S(4) by simp
qed

lemma hms_us_clock:
  assumes "list_all py_isdigit (h @ m @ s @ f)" and "us < 86400000000"
    and "digits_val h = us div 1000000 div 3600" and "digits_val m = us div 1000000 div 60 mod 60"
    and "digits_val s = us div 1000000 mod 60" and "digits_val (take 6 (f @ ''000000'')) = us mod 1000000"
  shows "hms_us h m s f = Some us"
proof -
  have "us div 1000000 div 3600 < 24" using assms(2) by (simp add: less_mult_imp_div_less)
  then show ?thesis using assms clock_split [of us] by (simp add: hms_us_def)
qed

lemma zero_digits: "digits_val ''000000'' = 0"
  by (simp add: digits_val_def digit_val_def)

lemma parse_clock_text:
  assumes "us < 86400000000"
  shows "parse_clock (clock_text us) = Some us"
proof -
  obtain a b c d e f fs where t: "clock_text us = [a, b, CHR '':'', c, d, CHR '':'', e, f]
      @ (if us mod 1000000 = 0 then [] else CHR ''.'' # fs)"
    and dg: "list_all py_isdigit ([a, b, c, d, e, f] @ fs)" and fs: "length fs = 6" "digits_val fs = us mod 1000000"
    and v: "digits_val [a, b] = us div 1000000 div 3600" "digits_val [c, d] = us div 1000000 div 60 mod 60"
      "digits_val [e, f] = us div 1000000 mod 60"
    using clock_text_shape [OF assms] .
  show ?thesis
  proof (cases "us mod 1000000 = 0")
    case True
    have "hms_us [a, b] [c, d] [e, f] [] = Some us"
      using dg assms v True by (intro hms_us_clock) (simp_all add: zero_digits)
    with True show ?thesis by (simp add: t)
  next
    case False
    have "hms_us [a, b] [c, d] [e, f] fs = Some us"
      using dg assms v fs by (intro hms_us_clock) simp_all
    moreover obtain g gs where "fs = g # gs" using fs by (cases fs) auto
    ultimately show ?thesis using False by (simp add: t)
  qed
qed

lemma minute_multiple:
  fixes us :: nat
  assumes "us mod 60000000 = 0"
  shows "us mod 1000000 = 0" and "us div 1000000 mod 60 = 0"
proof -
  obtain k where k: "us = 60000000 * k" using assms by (metis dvdE mod_eq_0_iff_dvd)
  then have "us = 1000000 * (60 * k)" by simp
  then show "us mod 1000000 = 0" and "us div 1000000 mod 60 = 0"
    by (simp_all only: mod_mult_self1_is_0) simp_all
qed

lemma parse_clock_minutes:
  assumes "us < 86400000000" and "us mod 60000000 = 0"
  shows "parse_clock (take 5 (clock_text us)) = Some us"
proof -
  note z = minute_multiple [OF assms(2)]
  obtain a b c d e f fs where t: "clock_text us = [a, b, CHR '':'', c, d, CHR '':'', e, f]
      @ (if us mod 1000000 = 0 then [] else CHR ''.'' # fs)"
    and dg: "list_all py_isdigit ([a, b, c, d, e, f] @ fs)" and fs: "length fs = 6" "digits_val fs = us mod 1000000"
    and v: "digits_val [a, b] = us div 1000000 div 3600" "digits_val [c, d] = us div 1000000 div 60 mod 60"
      "digits_val [e, f] = us div 1000000 mod 60"
    using clock_text_shape [OF assms(1)] .
  have "hms_us [a, b] [c, d] [] [] = Some us"
    using dg assms v z by (intro hms_us_clock) (simp_all add: zero_digits digits_val_def digit_val_def)
  then show ?thesis by (simp add: t z)
qed

lemma clock_text_chars:
  assumes "us < 86400000000"
  shows "\<forall>c \<in> set (clock_text us). (Not \<circ> is_tz_start) c"
proof -
  have digit: "\<not> is_tz_start c" if "py_isdigit c" for c
    using that by (auto simp: is_tz_start_def py_isdigit_def)
  obtain a b c d e f fs where t: "clock_text us = [a, b, CHR '':'', c, d, CHR '':'', e, f]
      @ (if us mod 1000000 = 0 then [] else CHR ''.'' # fs)"
    and dg: "list_all py_isdigit ([a, b, c, d, e, f] @ fs)"
    using clock_text_shape [OF assms] .
  show ?thesis using dg by (auto simp: t list_all_iff digit) (simp_all add: is_tz_start_def)
qed

lemma parse_offset_text:
  assumes "\<bar>off\<bar> < us_per_day"
  shows "parse_offset (offset_text off) = Some (Some off)"
proof -
  define us where "us = nat \<bar>off\<bar>"
  have "us < 86400000000" using assms by (simp add: us_per_day_def us_def)
  note p = parse_clock_text [OF this] parse_clock_minutes [OF this]
  have "(if off < 0 then - int us else int us) = off" by (simp add: us_def)
  with p show ?thesis unfolding offset_text_def Let_def us_def [symmetric] by (auto split: if_splits)
qed

lemma takeWhile_clock:
  assumes "us < 86400000000"
  shows "takeWhile (Not \<circ> is_tz_start) (clock_text us @ offset_text off) = clock_text us"
    and "dropWhile (Not \<circ> is_tz_start) (clock_text us @ offset_text off) = offset_text off"
    and "takeWhile (Not \<circ> is_tz_start) (clock_text us) = clock_text us"
    and "dropWhile (Not \<circ> is_tz_start) (clock_text us) = []"
  using clock_text_chars [OF assms]
  by (simp_all add: takeWhile_append dropWhile_append takeWhile_eq_all_conv)
     (simp_all add: offset_text_def Let_def is_tz_start_def)

theorem fromisoformat_isoformat:
  assumes "valid_datetime t"
  shows "fromisoformat (isoformat t) = Some t"
proof -
  define n where "n = nat (dt_local t div us_per_day) + 1"
  define us where "us = nat (dt_local t mod us_per_day)"
  have l: "0 \<le> dt_local t" "dt_local t < int (days_before_year 10000) * us_per_day"
    using assms by (simp_all add: valid_datetime_def dt_max_def)
  have u: "(0::int) < us_per_day" by (simp add: us_per_day_def)
  have q: "0 \<le> dt_local t div us_per_day" using l(1) u by (simp add: pos_imp_zdiv_nonneg_iff)
  have "dt_local t div us_per_day * us_per_day \<le> dt_local t"
    using div_mult_mod_eq [of "dt_local t" us_per_day] pos_mod_sign [OF u, of "dt_local t"] by linarith
  then have "dt_local t div us_per_day < int (days_before_year 10000)"
    using l(2) u by (metis mult_less_cancel_right_pos order_le_less_trans)
  then have n: "0 < n" "n \<le> days_before_year 10000"
    using q by (simp_all add: n_def nat_less_iff Suc_le_eq)
  have us: "us < 86400000000"
    using pos_mod_bound [OF u, of "dt_local t"] by (simp add: us_per_day_def us_def)
  have local: "(int n - 1) * us_per_day + int us = dt_local t"
    using q pos_mod_sign [OF u, of "dt_local t"] by (simp add: n_def us_def)
  note p = date_text_parse [OF n] parse_clock_text [OF us] takeWhile_clock [OF us] local
  have iso: "isoformat t = date_text n @ ''T'' @ clock_text us
      @ (case dt_offset t of None \<Rightarrow> [] | Some off \<Rightarrow> offset_text off)"
    by (simp only: isoformat_def n_def us_def)
  show ?thesis
  proof (cases "dt_offset t")
    case None
    then show ?thesis by (simp add: iso fromisoformat_def p)
  next
    case (Some off)
    then have "parse_offset (offset_text off) = Some (Some off)"
      using assms by (intro parse_offset_text) (simp add: valid_datetime_def)
    with Some show ?thesis by (simp add: iso fromisoformat_def p)
  qed
qed

text \<open>What is read has an offset of less than a day; what is written contains no \<open>Z\<close>.\<close>

lemma digits_val_bound: "list_all py_isdigit s \<Longrightarrow> digits_val s < 10 ^ length s"
proof (induction s rule: rev_induct)
  case (snoc c s)
  then have "digits_val s < 10 ^ length s" "digit_val c < 10" by (auto simp: py_isdigit_def digit_val_def)
  then show ?case by (simp add: digits_val_def)
qed (simp add: digits_val_def)

lemma hms_us_bound: "hms_us h m s f = Some us \<Longrightarrow> us < 86400000000"
proof -
  assume "hms_us h m s f = Some us"
  then have b: "digits_val h < 24" "digits_val m < 60" "digits_val s < 60" "list_all py_isdigit (take 6 (f @ ''000000''))"
    and us: "us = ((digits_val h * 60 + digits_val m) * 60 + digits_val s) * 1000000 + digits_val (take 6 (f @ ''000000''))"
    by (auto simp: hms_us_def list_all_iff py_isdigit_def split: if_splits dest!: in_set_takeD)
  have "digits_val (take 6 (f @ ''000000'')) < 10 ^ 6"
  proof -
    have "length (take 6 (f @ ''000000'')) = 6" by simp
    then show ?thesis using digits_val_bound [OF b(4)] by metis
  qed
  with b us show ?thesis by simp
qed

lemma parse_clock_bound: "parse_clock s = Some us \<Longrightarrow> us < 86400000000"
  by (induction s rule: parse_clock.induct) (auto split: if_splits dest: hms_us_bound)

lemma fromisoformat_offset:
  assumes "fromisoformat s = Some t" and "dt_offset t = Some off"
  shows "\<bar>off\<bar> < us_per_day"
proof -
  have "\<exists>cs. parse_offset cs = Some (Some off)"
    using assms by (auto simp: fromisoformat_def split: option.splits list.splits)
  then obtain cs where p: "parse_offset cs = Some (Some off)" ..
  show ?thesis
  proof (cases cs)
    case (Cons c cs')
    with p parse_clock_bound show ?thesis by (auto simp: us_per_day_def split: if_splits) 
  qed (use p in simp)
qed

lemma replace_Z_id: "CHR ''Z'' \<notin> set s \<Longrightarrow> replace_Z s = s"
  by (induction s) (auto simp: replace_Z_def)

lemma isoformat_no_Z: "CHR ''Z'' \<notin> set (isoformat t)"
proof -
  have digit: "CHR ''Z'' \<notin> set (pad_digits k n)" for k n
    using pad_digits_digits [of k n] by (auto simp: list_all_iff py_isdigit_def)
  then have clock: "CHR ''Z'' \<notin> set (clock_text us)" for us by (simp add: clock_text_def Let_def)
  then have "CHR ''Z'' \<notin> set (offset_text off)" for off
    by (auto simp: offset_text_def Let_def dest: in_set_takeD)
  with digit clock show ?thesis by (simp add: isoformat_def date_text_def split_beta Let_def split: option.splits)
qed

lemma isoformat_reread:
  assumes "valid_datetime t"
  shows "fromisoformat (replace_Z (isoformat t)) = Some t" "isoformat t \<noteq> NA"
proof -
  show "fromisoformat (replace_Z (isoformat t)) = Some t"
    using fromisoformat_isoformat [OF assms] by (simp add: replace_Z_id isoformat_no_Z)
  have "fromisoformat NA = None" by (simp add: fromisoformat_def)
  then show "isoformat t \<noteq> NA" using fromisoformat_isoformat [OF assms] by auto
qed

end
