(* ===== verification/Identity.thy ===== *)
theory Identity
  imports Outcome_Policy Py_Time
begin

text \<open>
  Setup identities. \<open>app/lifecycle/identity.py\<close>: the geometry identity text of a setup, the generation id
  minted at a lifecycle boundary and the rule that starts a new generation.
  \<open>app/lifecycle/economic_identity.py\<close>: the canonical fields, the two minted ids (\<open>setup_id\<close> for structural
  lineage, \<open>plan_version_id\<close> for plan economics) and how they are latched on a lifecycle record.
  The SHA-256 hex digest is the parameter \<open>sha256\<close>.
\<close>

section \<open>Generation identity\<close>

definition GENERATION_IDENTITY_VERSION :: string where
  "GENERATION_IDENTITY_VERSION = ''cci-lifecycle-generation-v1''"

definition id_text :: "string option \<Rightarrow> string" where
  "id_text v =
     (case v of
        None \<Rightarrow> NA
      | Some s \<Rightarrow> (let text = py_strip s in if text \<noteq> [] \<and> py_upper text \<noteq> NA then text else NA))"

definition id_symbol :: "string option \<Rightarrow> string" where
  "id_symbol v = (let text = id_text v in if text \<noteq> NA then py_upper text else NA)"

definition id_identity_text :: "string option \<Rightarrow> string" where
  "id_identity_text v = (let text = id_text v in if text \<noteq> NA then py_lower text else NA)"

definition setup_geometry_identity ::
  "string \<Rightarrow> string \<Rightarrow> string \<Rightarrow> string \<Rightarrow> string \<Rightarrow> string \<Rightarrow> string \<Rightarrow> string" where
  "setup_geometry_identity symb md dir low high stop inval =
     py_join ''|'' (map (\<lambda>v. id_text (Some v))
       [id_symbol (Some symb), id_identity_text (Some md), id_identity_text (Some dir), low, high, stop, inval])"

text \<open>\<open>fallback\<close> is the text that the factory (a fresh UUID by default) returns.\<close>

definition new_setup_generation_id ::
  "(string \<Rightarrow> string) \<Rightarrow> string option \<Rightarrow> string option \<Rightarrow> string option \<Rightarrow> string option \<Rightarrow> string \<Rightarrow> string" where
  "new_setup_generation_id sha256 symb md dir anchor_value fallback =
     (let anchor = id_text anchor_value in
      if anchor \<noteq> NA then
        take 32 (sha256 (py_join [CHR 0x1F]
          [GENERATION_IDENTITY_VERSION, id_symbol symb, id_identity_text md, id_identity_text dir, anchor]))
      else id_text (Some fallback))"

definition id_parse_timestamp :: "string option \<Rightarrow> py_datetime option" where
  "id_parse_timestamp v =
     (let text = id_text v in
      if text = NA then None
      else case fromisoformat (replace_Z text) of
        None \<Rightarrow> None
      | Some t \<Rightarrow> Some (if dt_offset t = None then dt_assume_utc t else dt_astimezone_utc t))"

definition timestamp_reached :: "string option \<Rightarrow> string option \<Rightarrow> bool" where
  "timestamp_reached v now =
     (case (id_parse_timestamp v, id_parse_timestamp now) of
        (Some expiry, Some current) \<Rightarrow> dt_instant current \<ge> dt_instant expiry
      | _ \<Rightarrow> False)"

definition generation_rotation_reason ::
  "SetupLifecycleRecord option \<Rightarrow> string option \<Rightarrow> bool \<Rightarrow> bool \<Rightarrow> string \<Rightarrow> string option" where
  "generation_rotation_reason rec observed_structural_anchor setup_observable terminal_observation now =
     (case rec of
        None \<Rightarrow> None
      | Some r \<Rightarrow>
          if \<not> setup_observable \<or> terminal_observation then None
          else
            (let observed_anchor = id_text observed_structural_anchor;
                 stored_anchor = id_text (Some (structural_anchor r)) in
             if observed_anchor \<noteq> NA \<and> stored_anchor \<noteq> NA then
               (if observed_anchor \<noteq> stored_anchor then Some ''new_structural_anchor'' else None)
             else if stored_anchor \<noteq> NA \<and> observed_anchor = NA then None
             else if current_state r = ARCHIVED then Some ''archived_lifecycle_new_setup''
             else if current_state r = COOLDOWN \<and> timestamp_reached (cooldown_until r) (Some now)
             then Some ''completed_cooldown_new_setup''
             else None))"

section \<open>Canonical identity fields\<close>

definition CANONICAL_SEPARATOR :: char where
  "CANONICAL_SEPARATOR = CHR 0x1F"

definition SETUP_ID_SCHEMA_VERSION :: string where
  "SETUP_ID_SCHEMA_VERSION = ''cci-setup-id-v1''"

definition PLAN_VERSION_ID_SCHEMA_VERSION :: string where
  "PLAN_VERSION_ID_SCHEMA_VERSION = ''cci-plan-version-v1''"

definition SETUP_ID_PREFIX :: string where
  "SETUP_ID_PREFIX = ''setup-''"

definition PLAN_VERSION_ID_PREFIX :: string where
  "PLAN_VERSION_ID_PREFIX = ''plan-version-''"

definition OPTIONAL_NULL_TOKEN :: string where
  "OPTIONAL_NULL_TOKEN = ''optional-null''"

datatype IdentityFieldKind = VALUE | REQUIRED_MISSING | OPTIONAL_NULL | FIELD_REJECTED

record CanonicalField =
  cf_name :: string
  cf_kind :: IdentityFieldKind
  cf_canonical :: "string option"
  cf_reason :: "string option"

record IdentityMintResult =
  mint_identity :: "string option"
  mint_available :: bool
  mint_reason :: "string option"
  mint_fields :: "CanonicalField list"

definition mint_unavailable :: "string \<Rightarrow> CanonicalField list \<Rightarrow> IdentityMintResult" where
  "mint_unavailable r fs = \<lparr>mint_identity = None, mint_available = False, mint_reason = Some r, mint_fields = fs\<rparr>"

definition field_value :: "string \<Rightarrow> string \<Rightarrow> CanonicalField" where
  "field_value name c = \<lparr>cf_name = name, cf_kind = VALUE, cf_canonical = Some c, cf_reason = None\<rparr>"

definition field_problem :: "IdentityFieldKind \<Rightarrow> string \<Rightarrow> string \<Rightarrow> CanonicalField" where
  "field_problem k name r = \<lparr>cf_name = name, cf_kind = k, cf_canonical = None, cf_reason = Some r\<rparr>"

datatype text_case = AsIs | Lower | Upper

definition identity_text :: "string option \<Rightarrow> text_case \<Rightarrow> string option" where
  "identity_text v c =
     (case v of
        None \<Rightarrow> None
      | Some s \<Rightarrow>
          (let text = py_strip s in
           if text = [] \<or> py_upper text = NA then None
           else Some (case c of Lower \<Rightarrow> py_lower text | Upper \<Rightarrow> py_upper text | AsIs \<Rightarrow> text)))"

definition separator_rejection :: "string \<Rightarrow> string \<Rightarrow> CanonicalField option" where
  "separator_rejection name text =
     (if CANONICAL_SEPARATOR \<notin> set text then None
      else Some (field_problem FIELD_REJECTED name (''canonical_separator_in_'' @ name)))"

definition required_symbol :: "string \<Rightarrow> string option \<Rightarrow> CanonicalField" where
  "required_symbol name v =
     (case identity_text v Upper of
        None \<Rightarrow> field_problem REQUIRED_MISSING name ''missing_symbol''
      | Some text \<Rightarrow>
          (case separator_rejection name text of Some f \<Rightarrow> f | None \<Rightarrow> field_value name text))"

definition required_direction :: "string \<Rightarrow> string option \<Rightarrow> CanonicalField" where
  "required_direction name v =
     (case identity_text v Lower of
        None \<Rightarrow> field_problem REQUIRED_MISSING name ''missing_direction''
      | Some text \<Rightarrow>
          (case separator_rejection name text of
             Some f \<Rightarrow> f
           | None \<Rightarrow>
               if text \<noteq> ''long'' \<and> text \<noteq> ''short'' then field_problem FIELD_REJECTED name (''invalid_'' @ name)
               else field_value name text))"

definition missing_text_reason :: "string \<Rightarrow> string" where
  "missing_text_reason name =
     (if name = ''instrument_venue'' then ''missing_instrument_venue''
      else if name = ''mode'' then ''missing_mode''
      else if name = ''structural_anchor'' then ''missing_structural_anchor''
      else if name = ''setup_id'' then ''setup_id_unavailable''
      else if name = ''invalidation'' then ''missing_invalidation''
      else ''missing_'' @ name)"

definition required_identity_text :: "string \<Rightarrow> string option \<Rightarrow> text_case \<Rightarrow> CanonicalField" where
  "required_identity_text name v c =
     (case identity_text v c of
        None \<Rightarrow> field_problem REQUIRED_MISSING name (missing_text_reason name)
      | Some text \<Rightarrow>
          (case separator_rejection name text of Some f \<Rightarrow> f | None \<Rightarrow> field_value name text))"

fun is_required_missing :: "py_value \<Rightarrow> bool" where
  "is_required_missing VNone = True"
| "is_required_missing (VText s) = (let text = py_strip s in text = [] \<or> py_upper text = NA)"
| "is_required_missing (VDecimal d) = False"

definition price_on_tick :: "rat \<Rightarrow> rat \<Rightarrow> bool" where
  "price_on_tick price tick_size =
     (let quotient = dec_div price tick_size in quotient = of_int (round_half_even quotient))"

definition required_price :: "string \<Rightarrow> py_value \<Rightarrow> rat option \<Rightarrow> CanonicalField" where
  "required_price name v tick_size =
     (if is_required_missing v then field_problem REQUIRED_MISSING name (''missing_'' @ name)
      else case (case v of VText raw \<Rightarrow> separator_rejection name raw | _ \<Rightarrow> None) of
        Some f \<Rightarrow> f
      | None \<Rightarrow>
          (case decimal_of_stripped v of
             None \<Rightarrow> field_problem FIELD_REJECTED name (''malformed_'' @ name)
           | Some (Finite number) \<Rightarrow>
               if (case tick_size of None \<Rightarrow> False | Some t \<Rightarrow> \<not> price_on_tick number t)
               then field_problem FIELD_REJECTED name (''off_tick_'' @ name)
               else field_value name (dec_canonical number)
           | Some _ \<Rightarrow> field_problem FIELD_REJECTED name (''non_finite_'' @ name)))"

text \<open>\<open>value in (None, "", NA)\<close>\<close>

definition tick_absent :: "py_value \<Rightarrow> bool" where
  "tick_absent v = (v = VNone \<or> v = VText [] \<or> v = VText NA)"

definition optional_tick_size :: "py_value \<Rightarrow> rat option" where
  "optional_tick_size v =
     (if tick_absent v then None
      else case decimal_of_stripped v of
        Some (Finite tick) \<Rightarrow> if tick \<le> 0 then None else Some tick
      | _ \<Rightarrow> None)"

fun first_blocking_reason :: "CanonicalField list \<Rightarrow> string option" where
  "first_blocking_reason [] = None"
| "first_blocking_reason (f # fs) =
     (if cf_kind f = VALUE \<or> cf_kind f = OPTIONAL_NULL then first_blocking_reason fs
      else case cf_reason f of
        Some r \<Rightarrow>
          if r \<noteq> [] then Some r
          else if cf_kind f = REQUIRED_MISSING then Some (''missing_'' @ cf_name f)
          else Some (''rejected_'' @ cf_name f)
      | None \<Rightarrow>
          if cf_kind f = REQUIRED_MISSING then Some (''missing_'' @ cf_name f)
          else Some (''rejected_'' @ cf_name f))"

text \<open>
  \<open>_canonical_value\<close> refuses (a \<open>RuntimeError\<close>) a field that is neither a value nor an optional null;
  \<open>None\<close> is that refusal.
\<close>

definition canonical_value :: "CanonicalField \<Rightarrow> string option" where
  "canonical_value f =
     (if cf_kind f = OPTIONAL_NULL then Some OPTIONAL_NULL_TOKEN
      else if cf_kind f \<noteq> VALUE then None
      else cf_canonical f)"

definition digest :: "(string \<Rightarrow> string) \<Rightarrow> string \<Rightarrow> string list \<Rightarrow> string" where
  "digest sha256 prefix parts = prefix @ sha256 (py_join [CANONICAL_SEPARATOR] parts)"

text \<open>The common tail of the two mints: block, or hash the canonical values.\<close>

definition mint_fields_id :: "(string \<Rightarrow> string) \<Rightarrow> string \<Rightarrow> CanonicalField list \<Rightarrow> IdentityMintResult" where
  "mint_fields_id sha256 prefix fs =
     (case first_blocking_reason fs of
        Some r \<Rightarrow> mint_unavailable r fs
      | None \<Rightarrow>
          \<lparr>mint_identity = Some (digest sha256 prefix (map (\<lambda>f. the (canonical_value f)) fs)),
           mint_available = True, mint_reason = None, mint_fields = fs\<rparr>)"

definition setup_id_fields ::
  "string option \<Rightarrow> string option \<Rightarrow> string option \<Rightarrow> string option \<Rightarrow> string option \<Rightarrow> CanonicalField list" where
  "setup_id_fields venue symb dir md anchor =
     [field_value ''schema_version'' SETUP_ID_SCHEMA_VERSION,
      required_identity_text ''instrument_venue'' venue Lower,
      required_symbol ''symbol'' symb,
      required_direction ''direction'' dir,
      required_identity_text ''mode'' md Lower,
      required_identity_text ''structural_anchor'' anchor AsIs]"

definition mint_setup_id ::
  "(string \<Rightarrow> string) \<Rightarrow> string option \<Rightarrow> string option \<Rightarrow> string option \<Rightarrow> string option \<Rightarrow> string option
     \<Rightarrow> IdentityMintResult" where
  "mint_setup_id sha256 venue symb dir md anchor =
     mint_fields_id sha256 SETUP_ID_PREFIX (setup_id_fields venue symb dir md anchor)"

record plan_economics =
  ec_setup_id :: "string option"
  ec_entry_low :: py_value
  ec_entry_high :: py_value
  ec_stop_loss :: py_value
  ec_tp1 :: py_value
  ec_tp2 :: py_value
  ec_tp3 :: py_value
  ec_invalidation :: "string option"
  ec_tick_size :: py_value

definition plan_version_fields :: "plan_economics \<Rightarrow> CanonicalField list" where
  "plan_version_fields e =
     (let tick = optional_tick_size (ec_tick_size e) in
      [field_value ''schema_version'' PLAN_VERSION_ID_SCHEMA_VERSION,
       required_identity_text ''setup_id'' (ec_setup_id e) AsIs,
       required_price ''entry_low'' (ec_entry_low e) tick,
       required_price ''entry_high'' (ec_entry_high e) tick,
       required_price ''stop_loss'' (ec_stop_loss e) tick,
       required_price ''tp1'' (ec_tp1 e) tick,
       required_price ''tp2'' (ec_tp2 e) tick,
       required_price ''tp3'' (ec_tp3 e) tick,
       required_identity_text ''invalidation'' (ec_invalidation e) AsIs])"

definition mint_plan_version_id :: "(string \<Rightarrow> string) \<Rightarrow> plan_economics \<Rightarrow> IdentityMintResult" where
  "mint_plan_version_id sha256 e =
     (if \<not> tick_absent (ec_tick_size e) \<and> optional_tick_size (ec_tick_size e) = None
      then mint_unavailable ''invalid_tick_size'' [field_problem FIELD_REJECTED ''tick_size'' ''invalid_tick_size'']
      else mint_fields_id sha256 PLAN_VERSION_ID_PREFIX (plan_version_fields e))"

section \<open>Latching the identities on a record\<close>

definition join_reasons :: "string list \<Rightarrow> string option" where
  "join_reasons reasons =
     (let unique = dict_fromkeys (filter (\<lambda>r. r \<noteq> []) reasons) in
      if unique = [] then None else Some (py_join '';'' unique))"

definition optional_latched_id :: "string option \<Rightarrow> string option" where
  "optional_latched_id v = identity_text v AsIs"

definition econ_stored_invalidation :: "SetupLifecycleRecord \<Rightarrow> string option" where
  "econ_stored_invalidation r =
     (case identity_text (Some (invalidation_logic r)) AsIs of
        Some text \<Rightarrow> Some text
      | None \<Rightarrow> identity_text (Some (invalidation_reason r)) AsIs)"

definition classify_plan_invalidation :: "string option \<Rightarrow> CanonicalField" where
  "classify_plan_invalidation v = required_identity_text ''invalidation'' v AsIs"

definition stored_plan_invalidation :: "SetupLifecycleRecord \<Rightarrow> string option" where
  "stored_plan_invalidation r =
     (case econ_stored_invalidation r of
        None \<Rightarrow> None
      | Some raw \<Rightarrow>
          (let f = classify_plan_invalidation (Some raw) in if cf_kind f \<noteq> VALUE then None else cf_canonical f))"

definition REASON_PLAN_VERSION_INVARIANT_VIOLATION :: string where
  "REASON_PLAN_VERSION_INVARIANT_VIOLATION = ''plan_version_invariant_violation''"

definition preserved_latched_plan_result :: "string \<Rightarrow> IdentityMintResult \<Rightarrow> IdentityMintResult" where
  "preserved_latched_plan_result latched_plan candidate =
     (if mint_available candidate \<and> mint_identity candidate = Some latched_plan
      then \<lparr>mint_identity = Some latched_plan, mint_available = True, mint_reason = None, mint_fields = []\<rparr>
      else \<lparr>mint_identity = Some latched_plan, mint_available = True,
            mint_reason = join_reasons [REASON_PLAN_VERSION_INVARIANT_VIOLATION,
              (case mint_reason candidate of Some r \<Rightarrow> r | None \<Rightarrow> [])],
            mint_fields = []\<rparr>)"

definition record_economics :: "SetupLifecycleRecord \<Rightarrow> string option \<Rightarrow> py_value \<Rightarrow> plan_economics" where
  "record_economics r sid tick =
     \<lparr>ec_setup_id = sid, ec_entry_low = VText (entry_low r), ec_entry_high = VText (entry_high r),
      ec_stop_loss = VText (stop_loss r), ec_tp1 = VText (tp1 r), ec_tp2 = VText (tp2 r), ec_tp3 = VText (tp3 r),
      ec_invalidation = econ_stored_invalidation r, ec_tick_size = tick\<rparr>"

definition or_else :: "'a option \<Rightarrow> 'a option \<Rightarrow> 'a option" where
  "or_else a b = (case a of Some x \<Rightarrow> Some x | None \<Rightarrow> b)"

definition latch_prior :: "SetupLifecycleRecord \<Rightarrow> SetupLifecycleRecord option \<Rightarrow> SetupLifecycleRecord" where
  "latch_prior r previous = (case previous of Some p \<Rightarrow> p | None \<Rightarrow> r)"

definition nonempty_reason :: "string option \<Rightarrow> string list" where
  "nonempty_reason v = (case v of Some x \<Rightarrow> if x \<noteq> [] then [x] else [] | None \<Rightarrow> [])"

text \<open>The setup id, the plan version id and the diagnostic that a record is left with.\<close>

definition latch_values ::
  "(string \<Rightarrow> string) \<Rightarrow> SetupLifecycleRecord \<Rightarrow> string option \<Rightarrow> bool \<Rightarrow> SetupLifecycleRecord option \<Rightarrow> py_value
     \<Rightarrow> string option \<times> string option \<times> string option" where
  "latch_values sha256 r instrument_venue plan_locked previous tick_size =
     (let prior = latch_prior r previous;
          latched_setup = or_else (optional_latched_id (setup_id prior)) (optional_latched_id (setup_id r));
          latched_plan = or_else (optional_latched_id (plan_version_id prior)) (optional_latched_id (plan_version_id r));
          setup_result =
            (case latched_setup of
               Some i \<Rightarrow> \<lparr>mint_identity = Some i, mint_available = True, mint_reason = None, mint_fields = []\<rparr>
             | None \<Rightarrow> mint_setup_id sha256 instrument_venue (Some (symbol r)) (Some (direction r)) (Some (mode r))
                         (Some (structural_anchor r)));
          sid = mint_identity setup_result;
          setup_reasons = (if \<not> mint_available setup_result then nonempty_reason (mint_reason setup_result) else []);
          candidate =
            (case sid of
               None \<Rightarrow> mint_unavailable ''setup_id_unavailable'' []
             | Some i \<Rightarrow> mint_plan_version_id sha256 (record_economics r (Some i) tick_size));
          plan_result =
            (case latched_plan of
               Some p \<Rightarrow> preserved_latched_plan_result p candidate
             | None \<Rightarrow>
                 if \<not> plan_locked then mint_unavailable ''plan_geometry_unlocked'' []
                 else if sid = None then candidate
                 else if \<not> has_valid_stored_plan_geometry r then mint_unavailable ''invalid_stored_plan_geometry'' []
                 else candidate)
      in (sid, if mint_available plan_result then mint_identity plan_result else None,
          join_reasons (setup_reasons @ nonempty_reason (mint_reason plan_result))))"

definition latch_economic_identities ::
  "(string \<Rightarrow> string) \<Rightarrow> SetupLifecycleRecord \<Rightarrow> string option \<Rightarrow> bool \<Rightarrow> SetupLifecycleRecord option \<Rightarrow> py_value
     \<Rightarrow> SetupLifecycleRecord" where
  "latch_economic_identities sha256 r instrument_venue plan_locked previous tick_size =
     (let (sid, pid, reason) = latch_values sha256 r instrument_venue plan_locked previous tick_size in
      if setup_id r = sid \<and> plan_version_id r = pid \<and> economic_identity_reason r = reason then r
      else r\<lparr>setup_id := sid, plan_version_id := pid, economic_identity_reason := reason\<rparr>)"

definition proven_progress_plan_version_id :: "(string \<Rightarrow> string) \<Rightarrow> SetupLifecycleRecord \<Rightarrow> string option" where
  "proven_progress_plan_version_id sha256 r =
     (case optional_latched_id (plan_version_id r) of
        None \<Rightarrow> None
      | Some stored \<Rightarrow>
          if py_in REASON_PLAN_VERSION_INVARIANT_VIOLATION
               (case economic_identity_reason r of Some x \<Rightarrow> x | None \<Rightarrow> []) then None
          else case optional_latched_id (setup_id r) of
            None \<Rightarrow> None
          | Some sid \<Rightarrow>
              (let candidate = mint_plan_version_id sha256 (record_economics r (Some sid) VNone) in
               if \<not> mint_available candidate \<or> mint_identity candidate \<noteq> Some stored then None else Some stored))"

section \<open>Canonical payloads\<close>

lemma sep_append_inject: "c \<notin> set x \<Longrightarrow> c \<notin> set y \<Longrightarrow> x @ c # r = y @ c # s \<longleftrightarrow> x = y \<and> r = s"
proof (induction x arbitrary: y)
  case Nil
  then show ?case by (cases y) auto
next
  case (Cons a x)
  then show ?case by (cases y) auto
qed

lemma py_join_inject:
  assumes "length xs = length ys" and "list_all (\<lambda>x. c \<notin> set x) xs" and "list_all (\<lambda>y. c \<notin> set y) ys"
  shows "py_join [c] xs = py_join [c] ys \<longleftrightarrow> xs = ys"
  using assms
proof (induction xs ys rule: list_induct2)
  case (Cons x xs y ys)
  then show ?case
    by (cases xs; cases ys) (auto simp: sep_append_inject)
qed simp

lemma digits_no_separator: "list_all py_isdigit s \<Longrightarrow> CANONICAL_SEPARATOR \<notin> set s"
  by (auto simp: list_all_iff CANONICAL_SEPARATOR_def py_isdigit_def)

lemma dec_canonical_no_separator: "CANONICAL_SEPARATOR \<notin> set (dec_canonical x)"
  using digits_no_separator [OF nat_digits_digits] digits_no_separator [OF pad_digits_digits]
  by (auto simp: dec_canonical_def dec_format_f_def Let_def CANONICAL_SEPARATOR_def)

lemma first_blocking_reason_None:
  "first_blocking_reason fs = None \<longleftrightarrow> list_all (\<lambda>f. cf_kind f = VALUE \<or> cf_kind f = OPTIONAL_NULL) fs"
  by (induction fs) (auto split: option.splits)

lemma field_value_simps [simp]:
  "cf_kind (field_value name c) = VALUE" "canonical_value (field_value name c) = Some c"
  "cf_kind (field_problem k name r) = k"
  by (simp_all add: field_value_def field_problem_def canonical_value_def)

text \<open>The fields of a mint: never an optional null, and a value field has a canonical text without separator.\<close>

definition field_ok :: "CanonicalField \<Rightarrow> string option \<Rightarrow> bool" where
  "field_ok f c \<longleftrightarrow> cf_kind f \<noteq> OPTIONAL_NULL
     \<and> (cf_kind f = VALUE \<longrightarrow> canonical_value f = c \<and> c \<noteq> None \<and> CANONICAL_SEPARATOR \<notin> set (the c))"

lemma required_identity_text_ok: "field_ok (required_identity_text name v c) (identity_text v c)"
  by (auto simp: field_ok_def required_identity_text_def separator_rejection_def split: option.splits)

lemma required_symbol_ok: "field_ok (required_symbol name v) (identity_text v Upper)"
  by (auto simp: field_ok_def required_symbol_def separator_rejection_def split: option.splits)

lemma required_direction_ok: "field_ok (required_direction name v) (identity_text v Lower)"
  by (auto simp: field_ok_def required_direction_def separator_rejection_def split: option.splits)

text \<open>The price that a field hashes: its value to 28 digits.\<close>

definition price_value :: "py_value \<Rightarrow> rat option" where
  "price_value v = (case decimal_of_stripped v of Some (Finite x) \<Rightarrow> Some (dec_round x) | _ \<Rightarrow> None)"

lemma required_price_ok:
  "field_ok (required_price name v t) (map_option dec_format_f (price_value v))"
  using dec_canonical_no_separator
  by (auto simp: field_ok_def required_price_def separator_rejection_def price_value_def dec_canonical_def
      split: option.splits py_decimal.splits py_value.splits)

lemma mint_fields_id_Some:
  assumes "mint_identity (mint_fields_id sha256 prefix fs) = Some i" and "list_all2 field_ok fs cs"
  shows "i = digest sha256 prefix (map the cs)" and "list_all (\<lambda>c. c \<noteq> None \<and> CANONICAL_SEPARATOR \<notin> set (the c)) cs"
proof -
  have nb: "first_blocking_reason fs = None" and i: "i = digest sha256 prefix (map (\<lambda>f. the (canonical_value f)) fs)"
    using assms(1) by (auto simp: mint_fields_id_def mint_unavailable_def split: option.splits)
  have "map canonical_value fs = cs \<and> list_all (\<lambda>c. c \<noteq> None \<and> CANONICAL_SEPARATOR \<notin> set (the c)) cs"
    using assms(2) nb unfolding first_blocking_reason_None
    by (induction rule: list_all2_induct) (auto simp: field_ok_def)
  with i show "i = digest sha256 prefix (map the cs)"
    and "list_all (\<lambda>c. c \<noteq> None \<and> CANONICAL_SEPARATOR \<notin> set (the c)) cs"
    by (auto simp: comp_def)
qed

text \<open>Two payloads of the same schema collide only where the digest does.\<close>

lemma digest_inject:
  assumes "digest sha256 prefix (map the cs) = digest sha256 prefix (map the ds)" and "length cs = length ds"
    and "list_all (\<lambda>c. c \<noteq> None \<and> CANONICAL_SEPARATOR \<notin> set (the c)) cs"
    and "list_all (\<lambda>c. c \<noteq> None \<and> CANONICAL_SEPARATOR \<notin> set (the c)) ds"
  shows "cs = ds \<or> (\<exists>p q. p \<noteq> q \<and> sha256 p = sha256 q)"
proof (cases "py_join [CANONICAL_SEPARATOR] (map the cs) = py_join [CANONICAL_SEPARATOR] (map the ds)")
  case True
  then have "map the cs = map the ds"
    using assms(2-4) by (subst (asm) py_join_inject) (auto simp: list_all_iff)
  then have "cs = ds"
    using assms(2-4) by (induction cs ds rule: list_induct2') auto
  then show ?thesis ..
next
  case False
  with assms(1) show ?thesis by (auto simp: digest_def)
qed

section \<open>What a plan version identifies\<close>

definition same_economics :: "plan_economics \<Rightarrow> plan_economics \<Rightarrow> bool" where
  "same_economics e e' \<longleftrightarrow>
     identity_text (ec_setup_id e) AsIs = identity_text (ec_setup_id e') AsIs
   \<and> price_value (ec_entry_low e) = price_value (ec_entry_low e')
   \<and> price_value (ec_entry_high e) = price_value (ec_entry_high e')
   \<and> price_value (ec_stop_loss e) = price_value (ec_stop_loss e')
   \<and> price_value (ec_tp1 e) = price_value (ec_tp1 e')
   \<and> price_value (ec_tp2 e) = price_value (ec_tp2 e')
   \<and> price_value (ec_tp3 e) = price_value (ec_tp3 e')
   \<and> identity_text (ec_invalidation e) AsIs = identity_text (ec_invalidation e') AsIs"

definition economics_texts :: "plan_economics \<Rightarrow> string option list" where
  "economics_texts e =
     [Some PLAN_VERSION_ID_SCHEMA_VERSION, identity_text (ec_setup_id e) AsIs,
      map_option dec_format_f (price_value (ec_entry_low e)), map_option dec_format_f (price_value (ec_entry_high e)),
      map_option dec_format_f (price_value (ec_stop_loss e)), map_option dec_format_f (price_value (ec_tp1 e)),
      map_option dec_format_f (price_value (ec_tp2 e)), map_option dec_format_f (price_value (ec_tp3 e)),
      identity_text (ec_invalidation e) AsIs]"

lemma schema_field_ok:
  "field_ok (field_value ''schema_version'' PLAN_VERSION_ID_SCHEMA_VERSION) (Some PLAN_VERSION_ID_SCHEMA_VERSION)"
  by (simp add: field_ok_def PLAN_VERSION_ID_SCHEMA_VERSION_def CANONICAL_SEPARATOR_def)

lemma plan_version_fields_ok: "list_all2 field_ok (plan_version_fields e) (economics_texts e)"
  by (simp add: plan_version_fields_def economics_texts_def Let_def schema_field_ok required_identity_text_ok
      required_price_ok)

lemma price_text_inject:
  "map_option dec_format_f (price_value v) = map_option dec_format_f (price_value w) \<longleftrightarrow> price_value v = price_value w"
  using dec_canonical_eq_iff
  by (auto simp: price_value_def dec_canonical_def split: option.splits py_decimal.splits)

lemma economics_texts_inject: "economics_texts e = economics_texts e' \<longleftrightarrow> same_economics e e'"
  by (auto simp: economics_texts_def same_economics_def price_text_inject)

lemma mint_plan_version_id_Some:
  assumes "mint_identity (mint_plan_version_id sha256 e) = Some i"
  shows "i = digest sha256 PLAN_VERSION_ID_PREFIX (map the (economics_texts e))"
    and "list_all (\<lambda>c. c \<noteq> None \<and> CANONICAL_SEPARATOR \<notin> set (the c)) (economics_texts e)"
proof -
  have "mint_identity (mint_fields_id sha256 PLAN_VERSION_ID_PREFIX (plan_version_fields e)) = Some i"
    using assms by (auto simp: mint_plan_version_id_def mint_unavailable_def split: if_splits)
  from mint_fields_id_Some [OF this plan_version_fields_ok]
  show "i = digest sha256 PLAN_VERSION_ID_PREFIX (map the (economics_texts e))"
    and "list_all (\<lambda>c. c \<noteq> None \<and> CANONICAL_SEPARATOR \<notin> set (the c)) (economics_texts e)" by auto
qed

text \<open>
  C22. A plan version id stands for the plan's economics and for nothing else. Two plans that mint an id
  get the same one exactly when their setup id, invalidation text and all six prices agree as
  numbers (however the prices are written), unless two different texts have the same SHA-256
  digest: the joined payload itself is free of collisions.
\<close>

theorem plan_version_id_identifies_economics:
  assumes "mint_identity (mint_plan_version_id sha256 e) = Some i"
    and "mint_identity (mint_plan_version_id sha256 e') = Some i'"
  shows "(same_economics e e' \<longrightarrow> i = i')
     \<and> (i = i' \<longrightarrow> same_economics e e' \<or> (\<exists>p q. p \<noteq> q \<and> sha256 p = sha256 q))"
proof -
  note e = mint_plan_version_id_Some [OF assms(1)] and e' = mint_plan_version_id_Some [OF assms(2)]
  have "length (economics_texts e) = length (economics_texts e')" by (simp add: economics_texts_def)
  note inj = digest_inject [OF _ this e(2) e'(2)]
  show ?thesis
    unfolding e(1) e'(1) economics_texts_inject [symmetric] using inj by metis
qed

theorem plan_version_id_identifies_economics_witness:
  "same_economics
     \<lparr>ec_setup_id = Some ''s'', ec_entry_low = VText ''3'', ec_entry_high = VText ''4'',
      ec_stop_loss = VText ''2'', ec_tp1 = VText ''5'', ec_tp2 = VText ''6'', ec_tp3 = VText ''7'',
      ec_invalidation = Some ''x'', ec_tick_size = VNone\<rparr>
     \<lparr>ec_setup_id = Some ''s'', ec_entry_low = VText ''3.0'', ec_entry_high = VText ''4'',
      ec_stop_loss = VText ''2'', ec_tp1 = VText ''5'', ec_tp2 = VText ''6'', ec_tp3 = VText ''7'',
      ec_invalidation = Some ''x'', ec_tick_size = VNone\<rparr>"
  (is "same_economics ?e ?e'")
proof -
  let ?i = "mint_identity (mint_plan_version_id (\<lambda>s. s) ?e)" and ?i' = "mint_identity (mint_plan_version_id (\<lambda>s. s) ?e')"
  let ?t = "PLAN_VERSION_ID_PREFIX @ py_join [CANONICAL_SEPARATOR]
      [PLAN_VERSION_ID_SCHEMA_VERSION, ''s'', ''3'', ''4'', ''2'', ''5'', ''6'', ''7'', ''x'']"
  have i: "?i = Some ?t" and i': "?i' = Some ?t" by code_simp+
  show ?thesis using plan_version_id_identifies_economics [OF i i'] by simp
qed

section \<open>Latching\<close>

lemma latch_eq:
  "latch_economic_identities sha256 r v l p t =
     r\<lparr>setup_id := fst (latch_values sha256 r v l p t), plan_version_id := fst (snd (latch_values sha256 r v l p t)),
       economic_identity_reason := snd (snd (latch_values sha256 r v l p t))\<rparr>"
  by (simp add: latch_economic_identities_def Let_def split: prod.splits)

lemma latch_other [simp]:
  "current_state (latch_economic_identities sha256 r v l p t) = current_state r"
  "stored_plan_geometry (latch_economic_identities sha256 r v l p t) = stored_plan_geometry r"
  by (simp_all add: latch_eq stored_plan_geometry_def policy_stored_invalidation_def)

lemma latched_setup_id:
  "setup_id (latch_economic_identities sha256 r v l p t) =
     (case or_else (optional_latched_id (setup_id (latch_prior r p))) (optional_latched_id (setup_id r)) of
        Some i \<Rightarrow> Some i
      | None \<Rightarrow> mint_identity (mint_setup_id sha256 v (Some (symbol r)) (Some (direction r)) (Some (mode r))
                  (Some (structural_anchor r))))"
  by (simp add: latch_eq latch_values_def Let_def split: option.splits)

lemma mint_plan_unavailable:
  "\<not> mint_available (mint_plan_version_id sha256 e) \<Longrightarrow> mint_identity (mint_plan_version_id sha256 e) = None"
  by (auto simp: mint_plan_version_id_def mint_fields_id_def mint_unavailable_def split: option.splits if_splits)

lemma latched_plan_version_id:
  "plan_version_id (latch_economic_identities sha256 r v l p t) =
     (case or_else (optional_latched_id (plan_version_id (latch_prior r p))) (optional_latched_id (plan_version_id r)) of
        Some i \<Rightarrow> Some i
      | None \<Rightarrow>
          if l \<and> has_valid_stored_plan_geometry r
          then (case setup_id (latch_economic_identities sha256 r v l p t) of
                  None \<Rightarrow> None
                | Some i \<Rightarrow> mint_identity (mint_plan_version_id sha256 (record_economics r (Some i) t)))
          else None)"
proof -
  define sid where "sid = setup_id (latch_economic_identities sha256 r v l p t)"
  have "fst (latch_values sha256 r v l p t) = sid" by (simp add: sid_def latch_eq)
  then have sid: "mint_identity (case or_else (optional_latched_id (setup_id (latch_prior r p))) (optional_latched_id (setup_id r)) of
               Some i \<Rightarrow> \<lparr>mint_identity = Some i, mint_available = True, mint_reason = None, mint_fields = []\<rparr>
             | None \<Rightarrow> mint_setup_id sha256 v (Some (symbol r)) (Some (direction r)) (Some (mode r))
                         (Some (structural_anchor r))) = sid"
    by (simp add: latch_values_def Let_def)
  show ?thesis
    unfolding sid_def [symmetric]
    by (cases "or_else (optional_latched_id (plan_version_id (latch_prior r p))) (optional_latched_id (plan_version_id r))";
        cases sid)
       (simp_all add: latch_eq latch_values_def Let_def sid preserved_latched_plan_result_def
         mint_unavailable_def mint_plan_unavailable)
qed

text \<open>
  A hexadecimal digest: what \<open>hexdigest()\<close> of SHA-256 returns. It has no surrounding white space, so
  that a minted id reads back unchanged.
\<close>

definition hex_char :: "char \<Rightarrow> bool" where
  "hex_char c \<longleftrightarrow> py_isdigit c \<or> c \<in> set ''abcdef''"

definition hex_digest :: "(string \<Rightarrow> string) \<Rightarrow> bool" where
  "hex_digest sha256 \<longleftrightarrow> (\<forall>s. length (sha256 s) = 64 \<and> list_all hex_char (sha256 s))"

lemma hex_char_not_space: "hex_char c \<Longrightarrow> \<not> py_isspace c"
  by (auto simp: hex_char_def py_isspace_def py_isdigit_def)

definition ids_normal :: "SetupLifecycleRecord \<Rightarrow> bool" where
  "ids_normal r \<longleftrightarrow> optional_latched_id (setup_id r) = setup_id r
     \<and> optional_latched_id (plan_version_id r) = plan_version_id r"

lemma identity_text_idem: "identity_text v AsIs = Some s \<Longrightarrow> identity_text (Some s) AsIs = Some s"
  by (auto simp: identity_text_def Let_def split: option.splits if_splits)

lemma optional_latched_id_idem:
  "optional_latched_id v = Some s \<Longrightarrow> optional_latched_id (Some s) = Some s" "optional_latched_id None = None"
  by (auto simp: optional_latched_id_def identity_text_idem) (simp add: identity_text_def)

lemma minted_id_normal:
  assumes "hex_digest sha256" and "prefix \<noteq> []" and "\<not> py_isspace (hd prefix)" and "5 < length prefix"
  shows "optional_latched_id (Some (digest sha256 prefix parts)) = Some (digest sha256 prefix parts)"
proof -
  let ?d = "sha256 (py_join [CANONICAL_SEPARATOR] parts)"
  have d: "length ?d = 64" "list_all hex_char ?d"
    using assms(1) unfolding hex_digest_def by blast+
  then have ne: "?d \<noteq> []" by auto
  with d(2) have "\<not> py_isspace (last ?d)" by (simp add: list_all_iff hex_char_not_space)
  with assms ne have strip: "py_strip (prefix @ ?d) = prefix @ ?d"
    by (simp add: py_strip_def strip_by_fixed)
  have "length (py_upper (prefix @ ?d)) \<noteq> length NA" using d(1) by (simp add: py_upper_def)
  then have "py_upper (prefix @ ?d) \<noteq> NA" by metis
  with strip ne show ?thesis
    by (simp add: optional_latched_id_def identity_text_def digest_def Let_def)
qed

lemma mint_setup_id_normal:
  assumes "hex_digest sha256" and "mint_identity (mint_setup_id sha256 v s d m a) = Some i"
  shows "optional_latched_id (Some i) = Some i"
proof -
  obtain parts where "i = digest sha256 SETUP_ID_PREFIX parts"
    using assms(2) by (auto simp: mint_setup_id_def mint_fields_id_def mint_unavailable_def split: option.splits)
  then show ?thesis
    using minted_id_normal [OF assms(1), of SETUP_ID_PREFIX parts] by (simp add: SETUP_ID_PREFIX_def py_isspace_def)
qed

lemma mint_plan_version_id_normal:
  assumes "hex_digest sha256" and "mint_identity (mint_plan_version_id sha256 e) = Some i"
  shows "optional_latched_id (Some i) = Some i"
  using mint_plan_version_id_Some(1) [OF assms(2)]
    minted_id_normal [OF assms(1), of PLAN_VERSION_ID_PREFIX "map the (economics_texts e)"]
  by (simp add: PLAN_VERSION_ID_PREFIX_def py_isspace_def)

lemma mint_fixed:
  assumes "hex_digest sha256"
  shows "optional_latched_id (mint_identity (mint_setup_id sha256 v s d m a)) = mint_identity (mint_setup_id sha256 v s d m a)"
    and "optional_latched_id (mint_identity (mint_plan_version_id sha256 e)) = mint_identity (mint_plan_version_id sha256 e)"
  using mint_setup_id_normal [OF assms, of v s d m a] mint_plan_version_id_normal [OF assms, of e]
  by (cases "mint_identity (mint_setup_id sha256 v s d m a)", auto simp: optional_latched_id_idem)
     (cases "mint_identity (mint_plan_version_id sha256 e)", auto simp: optional_latched_id_idem)

lemma latch_ids_normal:
  assumes "hex_digest sha256"
  shows "ids_normal (latch_economic_identities sha256 r v l q t)"
proof -
  have s: "optional_latched_id (setup_id (latch_economic_identities sha256 r v l q t))
      = setup_id (latch_economic_identities sha256 r v l q t)"
    unfolding latched_setup_id using mint_fixed [OF assms]
    by (auto simp: or_else_def optional_latched_id_idem split: option.splits)
  have "optional_latched_id (plan_version_id (latch_economic_identities sha256 r v l q t))
      = plan_version_id (latch_economic_identities sha256 r v l q t)"
    unfolding latched_plan_version_id using mint_fixed [OF assms]
    by (auto simp: or_else_def optional_latched_id_idem split: option.splits)
  with s show ?thesis by (simp add: ids_normal_def)
qed

end
