(* ===== verification/Observation.thy ===== *)
theory Observation
  imports Identity
begin

text \<open>
  What one scan observes of a setup, \<open>LifecycleObservation\<close> of \<open>app/lifecycle/state_machine.py\<close>, and the
  predicates of that module that read an observation alone: text and number helpers, the freshness
  checks it imports from \<open>app/data/candle_freshness.py\<close>, the blockers of a confirmation, watch readiness,
  quality grades and the states an observation asks for.
\<close>

section \<open>The observation\<close>

record LifecycleObservation =
  ob_symbol :: string
  ob_mode :: string
  ob_direction :: string
  ob_readiness_score :: int
  ob_readiness_label :: string
  ob_quality_score :: int
  ob_quality_grade :: string
  ob_entry_low :: string
  ob_entry_high :: string
  ob_stop_loss :: string
  ob_tp1 :: string
  ob_tp2 :: string
  ob_tp3 :: string
  ob_rr :: string
  ob_current_price :: string
  ob_latest_high :: string
  ob_latest_low :: string
  ob_edge_score :: string
  ob_failed_gate :: string
  ob_candidate_quality_grade :: string
  ob_final_quality_grade :: string
  ob_final_failed_gate :: string
  ob_final_block_reason :: string
  ob_target_integrity_status :: string
  ob_target_failure :: string
  ob_target_failure_severity :: string
  ob_target_warning_reason :: string
  ob_actionability_state :: string
  ob_regime_state :: string
  ob_action_label :: string
  ob_confirmation_timeframe :: string
  ob_invalidation_reason :: string
  ob_sweep_detected :: bool
  ob_structure_shift_detected :: bool
  ob_pullback_valid :: bool
  ob_rr_valid :: bool
  ob_valid_trade_idea :: bool
  ob_core_status :: string
  ob_setup_quality_state :: string
  ob_technical_score :: string
  ob_opportunity_score :: string
  ob_min_technical_score :: string
  ob_min_opportunity_score :: string
  ob_active_rejection_reason :: string
  ob_active_invalidation_reason :: string
  ob_data_health_failed :: bool
  ob_required_data_missing :: "string list"
  ob_required_data_unverified :: "string list"
  ob_optional_data_missing :: "string list"
  ob_optional_data_unverified :: "string list"
  ob_limit_fill_required :: bool
  ob_actionable_a_grade_candidate :: bool
  ob_a_grade_watch_candidate :: bool
  ob_actionable_grade_reason :: string
  ob_confirmation_block_reason :: string
  ob_lifecycle_promotion_reason :: string
  ob_entry_filled :: bool
  ob_tp_hit :: bool
  ob_sl_hit :: bool
  ob_invalidated :: bool
  ob_expired :: bool
  ob_closed_candle_outcomes_managed :: bool
  ob_structural_anchor :: string
  ob_instrument_venue :: string

text \<open>The dataclass defaults, for a symbol.\<close>

definition default_observation :: "string \<Rightarrow> LifecycleObservation" where
  "default_observation symb =
     \<lparr>ob_symbol = symb, ob_mode = NA, ob_direction = NA, ob_readiness_score = 0, ob_readiness_label = NA,
      ob_quality_score = 0, ob_quality_grade = NA, ob_entry_low = NA, ob_entry_high = NA, ob_stop_loss = NA,
      ob_tp1 = NA, ob_tp2 = NA, ob_tp3 = NA, ob_rr = NA, ob_current_price = NA, ob_latest_high = NA,
      ob_latest_low = NA, ob_edge_score = NA, ob_failed_gate = NA, ob_candidate_quality_grade = NA,
      ob_final_quality_grade = NA, ob_final_failed_gate = NA, ob_final_block_reason = NA,
      ob_target_integrity_status = NA, ob_target_failure = NA, ob_target_failure_severity = NA,
      ob_target_warning_reason = NA, ob_actionability_state = NA, ob_regime_state = NA, ob_action_label = NA,
      ob_confirmation_timeframe = NA, ob_invalidation_reason = NA, ob_sweep_detected = False,
      ob_structure_shift_detected = False, ob_pullback_valid = False, ob_rr_valid = False,
      ob_valid_trade_idea = False, ob_core_status = NA, ob_setup_quality_state = NA, ob_technical_score = NA,
      ob_opportunity_score = NA, ob_min_technical_score = ''50'', ob_min_opportunity_score = ''80'',
      ob_active_rejection_reason = NA, ob_active_invalidation_reason = NA, ob_data_health_failed = False,
      ob_required_data_missing = [], ob_required_data_unverified = [], ob_optional_data_missing = [],
      ob_optional_data_unverified = [], ob_limit_fill_required = False, ob_actionable_a_grade_candidate = False,
      ob_a_grade_watch_candidate = False, ob_actionable_grade_reason = NA, ob_confirmation_block_reason = NA,
      ob_lifecycle_promotion_reason = NA, ob_entry_filled = False, ob_tp_hit = False, ob_sl_hit = False,
      ob_invalidated = False, ob_expired = False, ob_closed_candle_outcomes_managed = False,
      ob_structural_anchor = NA, ob_instrument_venue = NA\<rparr>"

definition pullback_and_rr_valid :: "LifecycleObservation \<Rightarrow> bool" where
  "pullback_and_rr_valid ob = (ob_pullback_valid ob \<and> ob_rr_valid ob)"

section \<open>Texts, numbers, keys\<close>

definition text_or :: "string \<Rightarrow> string \<Rightarrow> string" where
  "text_or v dflt = (let text = py_text v in if text = NA then dflt else text)"

definition decimal_or_none :: "string \<Rightarrow> rat option" where
  "decimal_or_none v = (let text = py_text v in if text = NA then None else finite_decimal text)"

definition bounded_score :: "int option \<Rightarrow> int \<Rightarrow> int" where
  "bounded_score v dflt = (case v of None \<Rightarrow> dflt | Some score \<Rightarrow> max 0 (min 100 score))"

text \<open>\<open>key.replace("__", "_")\<close>: one left-to-right pass over non-overlapping occurrences.\<close>

fun replace_double_underscore :: "string \<Rightarrow> string" where
  "replace_double_underscore (a # b # s) =
     (if a = CHR ''_'' \<and> b = CHR ''_'' then CHR ''_'' # replace_double_underscore s
      else a # replace_double_underscore (b # s))"
| "replace_double_underscore s = s"

lemma replace_double_underscore_length: "length (replace_double_underscore s) \<le> length s"
  by (induction s rule: replace_double_underscore.induct) auto

lemma replace_double_underscore_less:
  "py_in ''__'' s \<Longrightarrow> length (replace_double_underscore s) < length s"
proof (induction s rule: replace_double_underscore.induct)
  case (1 a b s)
  have "py_in ''__'' (b # s)" if "\<not> (a = CHR ''_'' \<and> b = CHR ''_'')"
    using "1.prems" that by auto
  with 1 show ?case using replace_double_underscore_length [of s] by auto
qed auto

function collapse_underscores :: "string \<Rightarrow> string" where
  "collapse_underscores key =
     (if py_in ''__'' key then collapse_underscores (replace_double_underscore key) else key)"
  by pat_completeness auto
termination by (relation "measure length") (auto simp: replace_double_underscore_less)

declare collapse_underscores.simps [simp del]

definition status_key :: "string \<Rightarrow> string" where
  "status_key v =
     (let text = py_text v in
      if text = NA then []
      else strip_by (\<lambda>c. c = CHR ''_'')
             (collapse_underscores
               (py_replace_char (CHR '' '') (CHR ''_'') (py_replace_char (CHR ''-'') (CHR ''_'') (py_strip (py_lower text))))))"

definition sm_identity_text :: "string \<Rightarrow> string" where
  "sm_identity_text v = (let text = py_lower (py_text v) in if text \<noteq> py_lower NA then text else NA)"

definition grade_key :: "string \<Rightarrow> string" where
  "grade_key v = py_remove_char (CHR '' '') (py_lower (py_text v))"

text \<open>\<open>re.sub(r"\d+(?:\.\d+)?", "#", value)\<close>\<close>

function numeric_normalized_logic :: "string \<Rightarrow> string" where
  "numeric_normalized_logic [] = []"
| "numeric_normalized_logic (c # cs) =
     (if \<not> py_isdigit c then c # numeric_normalized_logic cs
      else let r = dropWhile py_isdigit cs in
        (case r of
           d # e # r' \<Rightarrow>
             if d = CHR ''.'' \<and> py_isdigit e then CHR ''#'' # numeric_normalized_logic (dropWhile py_isdigit r')
             else CHR ''#'' # numeric_normalized_logic r
         | _ \<Rightarrow> CHR ''#'' # numeric_normalized_logic r))"
  by pat_completeness auto
termination
proof (relation "measure length")
  show "\<And>c cs x x21 x22 x21a x22a. \<not> \<not> py_isdigit c \<Longrightarrow> x = dropWhile py_isdigit cs \<Longrightarrow>
       x = x21 # x22 \<Longrightarrow> x22 = x21a # x22a \<Longrightarrow> x21 = CHR ''.'' \<and> py_isdigit x21a \<Longrightarrow>
       (dropWhile py_isdigit x22a, c # cs) \<in> measure length"
  proof -
    fix c cs x x21 x22 x21a x22a
    assume "x = dropWhile py_isdigit cs" "x = x21 # x22" "x22 = x21a # x22a"
    then have "Suc (Suc (length x22a)) \<le> length cs" by (metis length_Cons length_dropWhile_le)
    then show "(dropWhile py_isdigit x22a, c # cs) \<in> measure length"
      using length_dropWhile_le [of py_isdigit x22a] by simp
  qed
qed (auto simp: less_Suc_eq_le length_dropWhile_le)

section \<open>Freshness\<close>

definition FRESHNESS_TOKEN :: string where
  "FRESHNESS_TOKEN = ''essential_candle_freshness''"

definition observation_texts :: "LifecycleObservation \<Rightarrow> string list" where
  "observation_texts ob =
     ob_required_data_missing ob @ ob_required_data_unverified ob
     @ [ob_failed_gate ob, ob_final_failed_gate ob, ob_final_block_reason ob]"

definition observation_has_essential_freshness_failure :: "LifecycleObservation \<Rightarrow> bool" where
  "observation_has_essential_freshness_failure ob = list_ex (py_in FRESHNESS_TOKEN) (observation_texts ob)"

definition freshness_failure_preserves_owner :: "LifecycleObservation \<Rightarrow> bool" where
  "freshness_failure_preserves_owner ob =
     (if \<not> observation_has_essential_freshness_failure ob then False
      else if list_ex (\<lambda>item. \<not> py_in FRESHNESS_TOKEN item)
                (ob_required_data_missing ob @ ob_required_data_unverified ob) then False
      else True)"

section \<open>Quality grades\<close>

definition MIN_CONFIRMATION_GRADES :: "string list" where
  "MIN_CONFIRMATION_GRADES = [''a+'', ''a'', ''a-'', ''b+'']"

definition quality_at_least_b_plus :: "string \<Rightarrow> int \<Rightarrow> bool" where
  "quality_at_least_b_plus grade score =
     (let key = grade_key grade in
      if key \<in> set MIN_CONFIRMATION_GRADES then True
      else if key \<noteq> [] then False
      else bounded_score (Some score) 0 \<ge> 75)"

definition quality_grade_or_score :: "LifecycleObservation \<Rightarrow> string" where
  "quality_grade_or_score ob =
     (let grade = py_text (ob_quality_grade ob); score = bounded_score (Some (ob_quality_score ob)) 0 in
      if grade \<noteq> NA then grade
      else if score \<ge> 90 then ''A+''
      else if score \<ge> 85 then ''A''
      else if score \<ge> 80 then ''A-''
      else if score \<ge> 75 then ''B+''
      else if score \<ge> 65 then ''B''
      else if score \<ge> 55 then ''B-''
      else ''Reject'')"

definition DECAY_GRADE_PATH :: "string list" where
  "DECAY_GRADE_PATH = [''a+'', ''a'', ''a-'', ''b+'']"

definition grade_label :: "string \<Rightarrow> string" where
  "grade_label key =
     (if key = ''a+'' then ''A+'' else if key = ''a'' then ''A'' else if key = ''a-'' then ''A-''
      else if key = ''b+'' then ''B+'' else NA)"

definition decayed_grade :: "string \<Rightarrow> string" where
  "decayed_grade v =
     (case list_index DECAY_GRADE_PATH (grade_key v) of
        None \<Rightarrow> NA
      | Some i \<Rightarrow>
          if i + 1 \<ge> length DECAY_GRADE_PATH then ''EXPIRED'' else grade_label (DECAY_GRADE_PATH ! (i + 1)))"

section \<open>Readiness\<close>

definition is_watch_ready :: "LifecycleObservation \<Rightarrow> bool" where
  "is_watch_ready ob =
     (let label = py_upper (py_text (ob_readiness_label ob)) in
      label = ''WATCH'' \<or> label = ''HOT WATCH'' \<or> label = ''VALID SETUP'' \<or> ob_readiness_score ob \<ge> 50)"

definition terminal_observation :: "LifecycleObservation \<Rightarrow> bool" where
  "terminal_observation ob = (ob_tp_hit ob \<or> ob_sl_hit ob \<or> ob_invalidated ob \<or> ob_expired ob)"

definition setup_observable :: "LifecycleObservation \<Rightarrow> bool" where
  "setup_observable ob =
     (if ob_valid_trade_idea ob \<or> pullback_and_rr_valid ob \<or> ob_actionable_a_grade_candidate ob
         \<or> ob_a_grade_watch_candidate ob then True
      else ob_sweep_detected ob \<or> is_watch_ready ob)"

section \<open>Confirmation blockers\<close>

definition CONFIRMED_MIN_RR :: rat where
  "CONFIRMED_MIN_RR = 3"

definition PUBLIC_WATCHLIST_MIN_RR :: rat where
  "PUBLIC_WATCHLIST_MIN_RR = 5 / 2"

definition MIN_TECHNICAL_SCORE :: rat where
  "MIN_TECHNICAL_SCORE = 50"

definition DEFAULT_MIN_OPPORTUNITY_SCORE :: rat where
  "DEFAULT_MIN_OPPORTUNITY_SCORE = 80"

definition CONFIRMED_ALLOWED_QUALITY_STATE_KEYS :: "string list" where
  "CONFIRMED_ALLOWED_QUALITY_STATE_KEYS = [''high_quality_trade'', ''valid_but_lower_quality'']"

definition CONFIRMED_REJECTED_STATUS_KEYS :: "string list" where
  "CONFIRMED_REJECTED_STATUS_KEYS =
     [''scan_error'', ''scanned_no_setup'', ''rejected_by_technical'', ''rejected_by_derivatives'',
      ''rejected_by_risk'', ''rejected_by_scoring'', ''rejected_by_regime'', ''failed'', ''near_miss'',
      ''no_setup'', ''rejected'']"

text \<open>A blocker text is a label and, after a colon, what it prints; here the constructor and its arguments.\<close>

datatype confirmation_blocker =
  core_status_blocked string | failed_confirmation_gate string | active_rejection_reason
| active_invalidation | required_data_missing "string list" | required_data_unverified "string list"
| data_health_failed | trade_idea_missing | missing_side | missing_entry_zone | missing_stop
| missing_invalidation | rr_missing | rr_below_min rat rat | confirmed_grade_below_min
| setup_quality_not_confirmed string | watchlist_near_miss_not_confirmed | technical_score_missing
| technical_score_below_min rat rat | opportunity_score_missing | opportunity_score_below_min rat rat

definition append_if :: "bool \<Rightarrow> 'a \<Rightarrow> 'a list" where
  "append_if c x = (if c then [x] else [])"

text \<open>\<open>x or d\<close> on an optional decimal: 0 counts as false.\<close>

definition decimal_or :: "rat option \<Rightarrow> rat \<Rightarrow> rat" where
  "decimal_or v d = (case v of Some x \<Rightarrow> if x \<noteq> 0 then x else d | None \<Rightarrow> d)"

definition score_blockers ::
  "rat option \<Rightarrow> rat \<Rightarrow> confirmation_blocker \<Rightarrow> (rat \<Rightarrow> rat \<Rightarrow> confirmation_blocker) \<Rightarrow> confirmation_blocker list" where
  "score_blockers v least missing below =
     (case v of None \<Rightarrow> [missing] | Some x \<Rightarrow> append_if (x < least) (below x least))"

definition confirmed_observation_blockers :: "LifecycleObservation \<Rightarrow> confirmation_blocker list" where
  "confirmed_observation_blockers ob =
     (let core_status = status_key (ob_core_status ob); failed_gate = status_key (ob_failed_gate ob);
          quality_state = status_key (ob_setup_quality_state ob) in
      dict_fromkeys
       (append_if (core_status \<in> set CONFIRMED_REJECTED_STATUS_KEYS) (core_status_blocked core_status)
      @ append_if (failed_gate \<noteq> []) (failed_confirmation_gate failed_gate)
      @ append_if (py_text (ob_active_rejection_reason ob) \<noteq> NA) active_rejection_reason
      @ append_if (py_text (ob_active_invalidation_reason ob) \<noteq> NA) active_invalidation
      @ append_if (ob_required_data_missing ob \<noteq> []) (required_data_missing (ob_required_data_missing ob))
      @ append_if (ob_required_data_unverified ob \<noteq> []) (required_data_unverified (ob_required_data_unverified ob))
      @ append_if (ob_data_health_failed ob
              \<and> \<not> (ob_required_data_missing ob \<noteq> [] \<or> ob_required_data_unverified ob \<noteq> [])) data_health_failed
      @ append_if (\<not> ob_valid_trade_idea ob) trade_idea_missing
      @ append_if (status_key (ob_direction ob) \<noteq> ''long'' \<and> status_key (ob_direction ob) \<noteq> ''short'') missing_side
      @ append_if (decimal_or_none (ob_entry_low ob) = None \<or> decimal_or_none (ob_entry_high ob) = None) missing_entry_zone
      @ append_if (decimal_or_none (ob_stop_loss ob) = None) missing_stop
      @ append_if (py_text (ob_invalidation_reason ob) = NA) missing_invalidation
      @ score_blockers (decimal_or_none (ob_rr ob)) CONFIRMED_MIN_RR rr_missing rr_below_min
      @ append_if (\<not> quality_at_least_b_plus (ob_quality_grade ob) (ob_quality_score ob)) confirmed_grade_below_min
      @ (if quality_state \<noteq> [] \<and> quality_state \<notin> set CONFIRMED_ALLOWED_QUALITY_STATE_KEYS
         then setup_quality_not_confirmed quality_state
              # append_if (quality_state = ''watchlist_near_miss'') watchlist_near_miss_not_confirmed
         else [])
      @ score_blockers (decimal_or_none (ob_technical_score ob))
          (decimal_or (decimal_or_none (ob_min_technical_score ob)) MIN_TECHNICAL_SCORE)
          technical_score_missing technical_score_below_min
      @ score_blockers (decimal_or_none (ob_opportunity_score ob))
          (decimal_or (decimal_or_none (ob_min_opportunity_score ob)) DEFAULT_MIN_OPPORTUNITY_SCORE)
          opportunity_score_missing opportunity_score_below_min))"

definition confirmed_observation_ready :: "LifecycleObservation \<Rightarrow> bool" where
  "confirmed_observation_ready ob = (confirmed_observation_blockers ob = [])"

definition confirmed_observation_block_reasons :: "LifecycleObservation \<Rightarrow> confirmation_blocker list" where
  "confirmed_observation_block_reasons ob = confirmed_observation_blockers ob"

fun active_blocker :: "confirmation_blocker \<Rightarrow> bool" where
  "active_blocker active_rejection_reason = True"
| "active_blocker active_invalidation = True"
| "active_blocker (core_status_blocked _) = True"
| "active_blocker (failed_confirmation_gate _) = True"
| "active_blocker data_health_failed = True"
| "active_blocker (required_data_missing _) = True"
| "active_blocker (required_data_unverified _) = True"
| "active_blocker _ = False"

definition confirmed_observation_invalidates_active_signal :: "LifecycleObservation \<Rightarrow> bool" where
  "confirmed_observation_invalidates_active_signal ob = list_ex active_blocker (confirmed_observation_blockers ob)"

definition valid_confirmed_observation :: "LifecycleObservation \<Rightarrow> bool" where
  "valid_confirmed_observation ob = (confirmed_observation_ready ob \<and> \<not> terminal_observation ob)"

definition confirmation_countable :: "LifecycleObservation \<Rightarrow> bool" where
  "confirmation_countable ob =
     (if observation_has_essential_freshness_failure ob then False
      else confirmed_observation_ready ob \<or> ob_actionable_a_grade_candidate ob \<or> ob_a_grade_watch_candidate ob)"

section \<open>The state an observation asks for\<close>

definition observed_state :: "LifecycleObservation \<Rightarrow> SetupLifecycleState" where
  "observed_state ob =
     (if ob_tp_hit ob then TP_HIT
      else if ob_sl_hit ob then SL_HIT
      else if observation_has_essential_freshness_failure ob then REJECTED
      else if ob_invalidated ob then INVALIDATED
      else if py_text (ob_active_invalidation_reason ob) \<noteq> NA then INVALIDATED
      else if ob_expired ob then EXPIRED
      else if confirmed_observation_ready ob then CONFIRMED
      else if ob_actionable_a_grade_candidate ob then ACTIONABLE_A_GRADE
      else if ob_a_grade_watch_candidate ob then A_GRADE_WATCH
      else if ob_sweep_detected ob \<and> ob_structure_shift_detected ob then TRIGGERED
      else if ob_sweep_detected ob then STALKING
      else if is_watch_ready ob then WATCHLISTED
      else if py_text (ob_failed_gate ob) \<noteq> NA then REJECTED
      else DISCOVERED)"

definition pre_confirmation_state :: "LifecycleObservation \<Rightarrow> SetupLifecycleState" where
  "pre_confirmation_state ob =
     (if ob_sweep_detected ob \<and> ob_structure_shift_detected ob then TRIGGERED
      else if ob_sweep_detected ob then STALKING
      else if is_watch_ready ob then WATCHLISTED
      else DISCOVERED)"

definition initial_reject_quality :: "LifecycleObservation \<Rightarrow> bool" where
  "initial_reject_quality ob = (\<not> quality_at_least_b_plus (ob_quality_grade ob) (ob_quality_score ob))"

definition initial_complete_trade_map :: "LifecycleObservation \<Rightarrow> bool" where
  "initial_complete_trade_map ob =
     list_all (\<lambda>v. decimal_or_none v \<noteq> None) [ob_entry_low ob, ob_entry_high ob, ob_stop_loss ob, ob_tp1 ob]"

definition initial_incomplete_or_rejected_plan :: "LifecycleObservation \<Rightarrow> bool" where
  "initial_incomplete_or_rejected_plan ob =
     (decimal_or_none (ob_rr ob) = None \<or> initial_reject_quality ob \<or> \<not> initial_complete_trade_map ob)"

definition INITIAL_PUBLIC_WATCHLIST_PENDING_GATES :: "string list" where
  "INITIAL_PUBLIC_WATCHLIST_PENDING_GATES =
     [''below_min_rr'', ''challenge_rr_below_3'', ''clean_trigger_pending'', ''confirmation_pending'',
      ''limit_zone_hold_pending'', ''limit_zone_not_touched'', ''entry_zone_not_touched'',
      ''entry_confirmation_missing'', ''missing_confirmation'', ''missing_confirmation_structure_shift'',
      ''pullback_confirmation_pending'', ''rr_below_minimum'', ''rr_too_low'', ''waiting_for_confirmation'']"

definition initial_public_watchlist_candidate :: "LifecycleObservation \<Rightarrow> bool" where
  "initial_public_watchlist_candidate ob =
     (let failed_gate = status_key (ob_failed_gate ob) in
      if failed_gate \<noteq> [] \<and> failed_gate \<notin> set INITIAL_PUBLIC_WATCHLIST_PENDING_GATES then False
      else if status_key (ob_direction ob) \<noteq> ''long'' \<and> status_key (ob_direction ob) \<noteq> ''short'' then False
      else if \<not> initial_complete_trade_map ob then False
      else if (case decimal_or_none (ob_rr ob) of None \<Rightarrow> True | Some ratio \<Rightarrow> ratio < PUBLIC_WATCHLIST_MIN_RR) then False
      else if \<not> quality_at_least_b_plus (ob_quality_grade ob) (ob_quality_score ob) then False
      else py_text (ob_invalidation_reason ob) \<noteq> NA)"

definition initial_trigger_blocked :: "LifecycleObservation \<Rightarrow> bool" where
  "initial_trigger_blocked ob =
     (if ob_entry_filled ob then False
      else if py_text (ob_failed_gate ob) = NA \<and> confirmation_countable ob then False
      else if py_text (ob_failed_gate ob) \<noteq> NA then True
      else if decimal_or_none (ob_rr ob) = None then True
      else if initial_reject_quality ob then True
      else if \<not> initial_complete_trade_map ob then True
      else if \<not> (ob_rr_valid ob \<or> ob_valid_trade_idea ob \<or> pullback_and_rr_valid ob) then True
      else False)"

definition initial_non_trigger_state :: "LifecycleObservation \<Rightarrow> SetupLifecycleState" where
  "initial_non_trigger_state ob =
     (if ob_invalidated ob then INVALIDATED
      else if ob_expired ob then EXPIRED
      else if initial_public_watchlist_candidate ob then (if ob_sweep_detected ob then STALKING else WATCHLISTED)
      else if py_text (ob_failed_gate ob) \<noteq> NA \<or> initial_incomplete_or_rejected_plan ob then REJECTED
      else if ob_sweep_detected ob then STALKING
      else if is_watch_ready ob then WATCHLISTED
      else DISCOVERED)"

definition initial_pre_confirmation_state :: "LifecycleObservation \<Rightarrow> SetupLifecycleState" where
  "initial_pre_confirmation_state ob =
     (let state = pre_confirmation_state ob in
      if state = TRIGGERED \<and> initial_trigger_blocked ob then initial_non_trigger_state ob else state)"

definition initial_state_for_observation :: "LifecycleObservation \<Rightarrow> SetupLifecycleState" where
  "initial_state_for_observation ob =
     (if observation_has_essential_freshness_failure ob then REJECTED
      else
        let target = observed_state ob in
        if target = ACTIONABLE_A_GRADE then ACTIONABLE_A_GRADE
        else if target = A_GRADE_WATCH then A_GRADE_WATCH
        else if target = EXECUTING \<or> target = MANAGING then CONFIRMED
        else if target = TRIGGERED \<and> initial_trigger_blocked ob then initial_non_trigger_state ob
        else target)"

definition invalidation_reason_of :: "LifecycleObservation \<Rightarrow> string" where
  "invalidation_reason_of ob =
     (if py_text (ob_invalidation_reason ob) \<noteq> NA then py_text (ob_invalidation_reason ob)
      else if py_text (ob_failed_gate ob) \<noteq> NA then py_text (ob_failed_gate ob)
      else NA)"

definition setup_identity_of :: "LifecycleObservation \<Rightarrow> string" where
  "setup_identity_of ob =
     setup_geometry_identity (ob_symbol ob) (ob_mode ob) (ob_direction ob) (ob_entry_low ob) (ob_entry_high ob)
       (ob_stop_loss ob) (ob_invalidation_reason ob)"

end
