(* ===== verification/State_Machine.thy ===== *)
theory State_Machine
  imports Observation
begin

text \<open>
  The setup lifecycle state machine, \<open>app/lifecycle/state_machine.py\<close>: the transition table, one recorded
  transition (\<open>transition_record\<close>), the update of a record by an observation, confirmation counting,
  confidence decay, and the whole step \<open>evaluate_lifecycle_transition\<close>, which takes the stored record (or none)
  and one observation to a transition result.
\<close>

section \<open>State sets and the transition table\<close>

definition ACTIVE_PROGRESSION :: "SetupLifecycleState list" where
  "ACTIVE_PROGRESSION =
     [DISCOVERED, WATCHLISTED, STALKING, TRIGGERED, CONFIRMED, ACTIONABLE_A_GRADE, A_GRADE_WATCH, EXECUTING, MANAGING]"

definition VALID_STATES :: "SetupLifecycleState list" where
  "VALID_STATES = [CONFIRMED, ACTIONABLE_A_GRADE, A_GRADE_WATCH, EXECUTING, MANAGING, TP_HIT, SL_HIT, BREAKEVEN]"

definition OUTCOME_STATES :: "SetupLifecycleState list" where
  "OUTCOME_STATES = [TP_HIT, SL_HIT, BREAKEVEN, INVALIDATED, EXPIRED]"

definition WATCH_PRIORITY_STATES :: "SetupLifecycleState list" where
  "WATCH_PRIORITY_STATES = drop 2 ACTIVE_LIFECYCLE_MONITORING_STATES"

definition DEFAULT_COOLDOWN_HOURS :: int where
  "DEFAULT_COOLDOWN_HOURS = 24"

definition DEFAULT_CONFIRMATION_CYCLES :: int where
  "DEFAULT_CONFIRMATION_CYCLES = 2"

definition DEFAULT_SETUP_MERGE_TOLERANCE_PCT :: rat where
  "DEFAULT_SETUP_MERGE_TOLERANCE_PCT = 1 / 2"

definition CONFIRMATION_GATED_STATES :: "SetupLifecycleState list" where
  "CONFIRMATION_GATED_STATES = [CONFIRMED, EXECUTING, MANAGING]"

definition DECAYABLE_STATES :: "SetupLifecycleState list" where
  "DECAYABLE_STATES = [WATCHLISTED, STALKING, TRIGGERED, CONFIRMED, ACTIONABLE_A_GRADE, A_GRADE_WATCH]"

definition CONFIDENCE_DECAY_TERMINAL_EXEMPT_STATES :: "SetupLifecycleState list" where
  "CONFIDENCE_DECAY_TERMINAL_EXEMPT_STATES = [CONFIRMED]"

definition ENTRY_TOUCH_MONITOR_STATES :: "SetupLifecycleState list" where
  "ENTRY_TOUCH_MONITOR_STATES = [WATCHLISTED, STALKING, ACTIONABLE_A_GRADE, A_GRADE_WATCH]"

definition ENTRY_TOUCH_REASON_REQUIRED_STATES :: "SetupLifecycleState list" where
  "ENTRY_TOUCH_REASON_REQUIRED_STATES = [WATCHLISTED, ACTIONABLE_A_GRADE, A_GRADE_WATCH]"

definition PLAN_LOCK_STATES :: "SetupLifecycleState list" where
  "PLAN_LOCK_STATES = [WATCHLISTED, STALKING, CONFIRMED, ACTIONABLE_A_GRADE, A_GRADE_WATCH, EXECUTING, MANAGING]"

definition FRESHNESS_OWNER_HOLD_STATES :: "SetupLifecycleState list" where
  "FRESHNESS_OWNER_HOLD_STATES = PLAN_LOCK_STATES @ [TRIGGERED]"

fun ALLOWED_TRANSITIONS :: "SetupLifecycleState \<Rightarrow> SetupLifecycleState list" where
  "ALLOWED_TRANSITIONS DISCOVERED = [WATCHLISTED, ACTIONABLE_A_GRADE, A_GRADE_WATCH, REJECTED]"
| "ALLOWED_TRANSITIONS REJECTED = [WATCHLISTED, ACTIONABLE_A_GRADE, A_GRADE_WATCH, ARCHIVED]"
| "ALLOWED_TRANSITIONS WATCHLISTED =
     [STALKING, TRIGGERED, CONFIRMED, ACTIONABLE_A_GRADE, A_GRADE_WATCH, REJECTED, EXPIRED]"
| "ALLOWED_TRANSITIONS STALKING =
     [TRIGGERED, CONFIRMED, WATCHLISTED, ACTIONABLE_A_GRADE, A_GRADE_WATCH, REJECTED, EXPIRED]"
| "ALLOWED_TRANSITIONS TRIGGERED = [CONFIRMED, ACTIONABLE_A_GRADE, A_GRADE_WATCH, STALKING, INVALIDATED, EXPIRED]"
| "ALLOWED_TRANSITIONS CONFIRMED = [ACTIONABLE_A_GRADE, A_GRADE_WATCH, EXECUTING, INVALIDATED, EXPIRED]"
| "ALLOWED_TRANSITIONS A_GRADE_WATCH = [ACTIONABLE_A_GRADE, TRIGGERED, CONFIRMED, INVALIDATED, EXPIRED, COOLDOWN]"
| "ALLOWED_TRANSITIONS ACTIONABLE_A_GRADE = [TRIGGERED, CONFIRMED, INVALIDATED, EXPIRED, COOLDOWN]"
| "ALLOWED_TRANSITIONS EXECUTING = [MANAGING, INVALIDATED, EXPIRED]"
| "ALLOWED_TRANSITIONS MANAGING = [TP_HIT, SL_HIT, BREAKEVEN, INVALIDATED, EXPIRED]"
| "ALLOWED_TRANSITIONS TP_HIT = [COOLDOWN]"
| "ALLOWED_TRANSITIONS SL_HIT = [COOLDOWN]"
| "ALLOWED_TRANSITIONS BREAKEVEN = [COOLDOWN]"
| "ALLOWED_TRANSITIONS INVALIDATED = [COOLDOWN]"
| "ALLOWED_TRANSITIONS EXPIRED = [COOLDOWN]"
| "ALLOWED_TRANSITIONS COOLDOWN = [ARCHIVED, WATCHLISTED]"
| "ALLOWED_TRANSITIONS ARCHIVED = [WATCHLISTED]"
| "ALLOWED_TRANSITIONS _ = []"

definition transition_allowed :: "SetupLifecycleState option \<Rightarrow> SetupLifecycleState \<Rightarrow> bool" where
  "transition_allowed from_state to_state =
     (case from_state of None \<Rightarrow> True | Some s \<Rightarrow> to_state \<in> set (ALLOWED_TRANSITIONS s))"

section \<open>Timestamps and cooldown\<close>

text \<open>\<open>now or now_utc_iso()\<close>; \<open>clock\<close> is the text the clock would give.\<close>

definition now_or :: "string option \<Rightarrow> string \<Rightarrow> string" where
  "now_or now clock = (case now of Some t \<Rightarrow> if t \<noteq> [] then t else clock | None \<Rightarrow> clock)"

definition parse_timestamp :: "string option \<Rightarrow> py_datetime option" where
  "parse_timestamp v =
     (case v of
        None \<Rightarrow> None
      | Some s \<Rightarrow>
          if s = NA then None
          else map_option dt_assume_utc (fromisoformat (replace_Z s)))"

definition cooldown_until_of ::
  "SetupLifecycleRecord \<Rightarrow> SetupLifecycleState \<Rightarrow> string \<Rightarrow> model_error + string option" where
  "cooldown_until_of r to_state timestamp =
     (if to_state \<noteq> COOLDOWN then Inr (if to_state = ARCHIVED then cooldown_until r else None)
      else case parse_timestamp (Some timestamp) of
        None \<Rightarrow> Inr (cooldown_until r)
      | Some t \<Rightarrow>
          (case dt_add_us t (DEFAULT_COOLDOWN_HOURS * 3600000000) of
             None \<Rightarrow> Inl OverflowError
           | Some u \<Rightarrow> Inr (Some (isoformat (dt_drop_microseconds u)))))"

definition cooldown_expired :: "string option \<Rightarrow> string \<Rightarrow> bool" where
  "cooldown_expired cooldown timestamp =
     (case cooldown of
        None \<Rightarrow> True
      | Some c \<Rightarrow>
          (case (parse_timestamp (Some c), parse_timestamp (Some timestamp)) of
             (Some expiry, Some current) \<Rightarrow> dt_instant current \<ge> dt_instant expiry
           | _ \<Rightarrow> False))"

section \<open>One recorded transition\<close>

text \<open>\<open>failed_gate\<close> is the optional argument of \<open>transition_record\<close>; \<open>_text(None)\<close> is \<open>NA\<close>.\<close>

definition opt_text :: "string option \<Rightarrow> string" where
  "opt_text v = (case v of None \<Rightarrow> NA | Some s \<Rightarrow> py_text s)"

definition transition_failed_gate ::
  "SetupLifecycleRecord \<Rightarrow> SetupLifecycleState \<Rightarrow> string option \<Rightarrow> string" where
  "transition_failed_gate r to_state gate =
     (if to_state = CONFIRMED \<and> opt_text gate = NA then NA
      else if opt_text gate = NA then failed_gate r else opt_text gate)"

definition entry_touch_transition_requires_touch_reason ::
  "SetupLifecycleState option \<Rightarrow> SetupLifecycleState \<Rightarrow> SetupTransitionReason \<Rightarrow> bool" where
  "entry_touch_transition_requires_touch_reason from_state to_state reason =
     ((case from_state of None \<Rightarrow> False | Some s \<Rightarrow> s \<in> set ENTRY_TOUCH_REASON_REQUIRED_STATES)
      \<and> to_state = TRIGGERED \<and> reason \<noteq> R_ENTRY_ZONE_TOUCHED)"

definition transition_record ::
  "SetupLifecycleRecord \<Rightarrow> SetupLifecycleState \<Rightarrow> SetupTransitionReason \<Rightarrow> string option \<Rightarrow> string \<Rightarrow> string option
     \<Rightarrow> int option \<Rightarrow> int option \<Rightarrow> string option \<Rightarrow> string \<Rightarrow> model_error + SetupTransitionResult" where
  "transition_record r to_state reason now clock scan_run_id readiness quality gate notes =
     (let timestamp = now_or now clock; event_failed_gate = transition_failed_gate r to_state gate in
      if current_state r = to_state then
        Inr \<lparr>res_lifecycle_id = lifecycle_id r, res_symbol = symbol r, res_from_state = Some (current_state r),
             res_to_state = to_state, res_reason = R_NO_CHANGE, res_transitioned = False, res_allowed = True,
             res_notes = reason_value R_NO_CHANGE, res_event = None,
             res_record = Some (r\<lparr>last_seen_at := timestamp,
               readiness_score := bounded_score readiness (readiness_score r),
               quality_score := bounded_score quality (quality_score r),
               failed_gate := event_failed_gate\<rparr>)\<rparr>
      else if \<not> transition_allowed (Some (current_state r)) to_state then
        Inr \<lparr>res_lifecycle_id = lifecycle_id r, res_symbol = symbol r, res_from_state = Some (current_state r),
             res_to_state = to_state, res_reason = R_INVALID_TRANSITION, res_transitioned = False,
             res_allowed = False,
             res_notes = state_value (current_state r) @ '' cannot move directly to '' @ state_value to_state @ ''.'',
             res_event = None, res_record = Some r\<rparr>
      else if entry_touch_transition_requires_touch_reason (Some (current_state r)) to_state reason then
        Inr \<lparr>res_lifecycle_id = lifecycle_id r, res_symbol = symbol r, res_from_state = Some (current_state r),
             res_to_state = to_state, res_reason = R_INVALID_TRANSITION, res_transitioned = False,
             res_allowed = False,
             res_notes = state_value (current_state r) @ '' can move directly to '' @ state_value to_state
               @ '' only after entry zone touch.'',
             res_event = None, res_record = Some r\<rparr>
      else
        ebind (construct_event
          \<lparr>ev_lifecycle_id = lifecycle_id r, ev_timestamp = timestamp, ev_symbol = symbol r,
           ev_from_state = Some (current_state r), ev_to_state = to_state, ev_reason = reason,
           ev_scan_run_id = scan_run_id, ev_readiness_score = bounded_score readiness (readiness_score r),
           ev_quality_score = bounded_score quality (quality_score r), ev_failed_gate = event_failed_gate,
           ev_notes = notes\<rparr>) (\<lambda>event.
        ebind (cooldown_until_of r to_state timestamp) (\<lambda>cooldown.
          Inr \<lparr>res_lifecycle_id = lifecycle_id r, res_symbol = symbol r, res_from_state = Some (current_state r),
               res_to_state = to_state, res_reason = reason, res_transitioned = True, res_allowed = True,
               res_notes = notes, res_event = Some event,
               res_record = Some (r\<lparr>current_state := to_state, previous_state := Some (current_state r),
                 last_seen_at := timestamp, last_transition_at := timestamp,
                 readiness_score := ev_readiness_score event, quality_score := ev_quality_score event,
                 failed_gate := ev_failed_gate event, cooldown_until := cooldown,
                 archived_at := (if to_state = ARCHIVED then Some timestamp else archived_at r)\<rparr>)\<rparr>)))"

section \<open>Prices, plans and consistency\<close>

definition entry_zone_touched :: "string \<Rightarrow> string \<Rightarrow> string \<Rightarrow> string \<Rightarrow> bool" where
  "entry_zone_touched latest_high latest_low low high =
     (case (decimal_or_none latest_high, decimal_or_none latest_low, decimal_or_none low, decimal_or_none high) of
        (Some candle_high, Some candle_low, Some zone_low, Some zone_high) \<Rightarrow>
          max candle_high candle_low \<ge> min zone_low zone_high \<and> min candle_high candle_low \<le> max zone_low zone_high
      | _ \<Rightarrow> False)"

definition price_in_zone :: "string \<Rightarrow> string \<Rightarrow> string \<Rightarrow> bool" where
  "price_in_zone price low high =
     (case (decimal_or_none price, decimal_or_none low, decimal_or_none high) of
        (Some p, Some zone_low, Some zone_high) \<Rightarrow> min zone_low zone_high \<le> p \<and> p \<le> max zone_low zone_high
      | _ \<Rightarrow> False)"

definition stored_monitoring_entry_zone_touched :: "SetupLifecycleRecord \<Rightarrow> LifecycleObservation \<Rightarrow> bool" where
  "stored_monitoring_entry_zone_touched r ob =
     (let observed_side = status_key (ob_direction ob);
          side = (if observed_side \<noteq> ''long'' \<and> observed_side \<noteq> ''short'' then status_key (direction r) else observed_side) in
      if current_state r \<notin> set ENTRY_TOUCH_MONITOR_STATES then False
      else if terminal_observation ob then False
      else if side \<noteq> ''long'' \<and> side \<noteq> ''short'' then False
      else if decimal_or_none (ob_current_price ob) \<noteq> None
      then price_in_zone (ob_current_price ob) (entry_low r) (entry_high r)
      else entry_zone_touched (ob_latest_high ob) (ob_latest_low ob) (entry_low r) (entry_high r))"

definition observation_with_stored_plan ::
  "LifecycleObservation \<Rightarrow> SetupLifecycleRecord \<Rightarrow> bool \<Rightarrow> LifecycleObservation" where
  "observation_with_stored_plan ob r filled =
     ob\<lparr>ob_entry_low := entry_low r, ob_entry_high := entry_high r, ob_stop_loss := stop_loss r,
        ob_tp1 := tp1 r, ob_tp2 := tp2 r, ob_tp3 := tp3 r, ob_rr := rr r,
        ob_invalidation_reason := invalidation_reason r, ob_entry_filled := filled,
        ob_limit_fill_required := True\<rparr>"

definition price_similar :: "string \<Rightarrow> string \<Rightarrow> rat \<Rightarrow> bool" where
  "price_similar left right tolerance_pct =
     (case (decimal_or_none left, decimal_or_none right) of
        (Some l, Some r) \<Rightarrow>
          (let reference = max (max (dec_round \<bar>l\<bar>) (dec_round \<bar>r\<bar>)) 1;
               tolerance = dec_div (dec_mul reference (max tolerance_pct 0)) 100
           in \<bar>dec_sub l r\<bar> \<le> tolerance)
      | _ \<Rightarrow> True)"

definition logic_similar :: "string \<Rightarrow> string \<Rightarrow> bool" where
  "logic_similar left right =
     (let left_key = status_key left; right_key = status_key right in
      if left_key = [] \<or> right_key = [] then True
      else if left_key = right_key then True
      else numeric_normalized_logic left_key = numeric_normalized_logic right_key)"

definition setup_consistent :: "SetupLifecycleRecord \<Rightarrow> LifecycleObservation \<Rightarrow> rat \<Rightarrow> bool" where
  "setup_consistent r ob tolerance_pct =
     (if symbol r \<noteq> py_upper (ob_symbol ob) then False
      else if sm_identity_text (mode r) \<noteq> sm_identity_text (ob_mode ob) then False
      else if sm_identity_text (direction r) \<noteq> sm_identity_text (ob_direction ob) then False
      else if \<not> price_similar (entry_low r) (ob_entry_low ob) tolerance_pct then False
      else if \<not> price_similar (entry_high r) (ob_entry_high ob) tolerance_pct then False
      else if \<not> price_similar (stop_loss r) (ob_stop_loss ob) tolerance_pct then False
      else logic_similar (if invalidation_logic r \<noteq> [] then invalidation_logic r else invalidation_reason r)
             (ob_invalidation_reason ob))"

definition stale_fragments :: "string list" where
  "stale_fragments =
     [''technical score'', ''opportunity score'', ''scanner minimum'', ''below scanner'', ''below minimum'',
      ''rr below'', ''risk/reward below'', ''missing required'', ''missing field'', ''no valid setup'', ''no setup'',
      ''near miss'', ''rejected setup'', ''setup rejected'', ''failed gate'', ''gate failed'', ''hard rejection'']"

definition stale_rejection_text :: "string \<Rightarrow> string \<Rightarrow> bool" where
  "stale_rejection_text v gate =
     (let text = py_text v; gate_text = py_text gate in
      if text = NA then False
      else if gate_text \<noteq> NA \<and> status_key text = status_key gate_text then True
      else list_ex (\<lambda>fragment. py_in fragment (py_lower text)) stale_fragments)"

definition plan_or_observed_value :: "SetupLifecycleRecord \<Rightarrow> string \<Rightarrow> string \<Rightarrow> string" where
  "plan_or_observed_value r stored observed =
     (if current_state r \<in> set PLAN_LOCK_STATES \<and> py_text stored \<noteq> NA then py_text stored
      else py_text observed)"

definition confirmed_invalidation_value :: "SetupLifecycleRecord \<Rightarrow> LifecycleObservation \<Rightarrow> bool \<Rightarrow> string" where
  "confirmed_invalidation_value r ob confirmed_snapshot_valid =
     (if confirmed_snapshot_valid \<and> stale_rejection_text (invalidation_reason r) (failed_gate r)
      then py_text (ob_invalidation_reason ob)
      else plan_or_observed_value r (invalidation_reason r) (invalidation_reason_of ob))"

definition confirmed_invalidation_logic :: "SetupLifecycleRecord \<Rightarrow> LifecycleObservation \<Rightarrow> bool \<Rightarrow> string" where
  "confirmed_invalidation_logic r ob confirmed_snapshot_valid =
     (if confirmed_snapshot_valid \<and> stale_rejection_text (invalidation_logic r) (failed_gate r)
      then py_text (ob_invalidation_reason ob)
      else plan_or_observed_value r (invalidation_logic r) (ob_invalidation_reason ob))"

section \<open>The record after an observation\<close>

definition required_confirmation_cycles_of :: "int \<Rightarrow> int \<Rightarrow> int" where
  "required_confirmation_cycles_of base penalty = max 1 base + max 0 penalty"

definition next_confirmation_count ::
  "SetupLifecycleRecord \<Rightarrow> LifecycleObservation \<Rightarrow> bool \<Rightarrow> int \<Rightarrow> int" where
  "next_confirmation_count r ob consistent required_cycles =
     (if terminal_observation ob then 0
      else if observation_has_essential_freshness_failure ob then
        (if current_state r \<in> set FRESHNESS_OWNER_HOLD_STATES then confirmation_count r else 0)
      else if \<not> confirmation_countable ob then
        (if setup_observable ob \<and> consistent then confirmation_count r else 0)
      else if consistent then min (confirmation_count r + 1) (max 1 required_cycles)
      else 1)"

definition current_quality_grade :: "SetupLifecycleRecord \<Rightarrow> string \<Rightarrow> string" where
  "current_quality_grade r observed_grade =
     (if decay_count r > 0 \<and> py_text (quality_grade_current r) \<noteq> NA then quality_grade_current r else observed_grade)"

definition record_with_observation ::
  "SetupLifecycleRecord \<Rightarrow> LifecycleObservation \<Rightarrow> string \<Rightarrow> rat \<Rightarrow> int \<Rightarrow> int \<Rightarrow> SetupLifecycleRecord" where
  "record_with_observation r ob timestamp setup_tolerance_pct required_cycles penalty_cycles =
     (let consistent = setup_consistent r ob setup_tolerance_pct;
          count = next_confirmation_count r ob consistent required_cycles;
          current_grade = current_quality_grade r (quality_grade_or_score ob);
          confirmed_snapshot_valid = valid_confirmed_observation ob;
          newly_confirmed = (count \<ge> required_cycles \<and> confirmation_count r < required_cycles \<and> confirmed_snapshot_valid)
      in r\<lparr>last_seen_at := timestamp,
           failed_gate := py_text (ob_failed_gate ob),
           candidate_quality_grade := py_text (ob_candidate_quality_grade ob),
           final_quality_grade := py_text (ob_final_quality_grade ob),
           technical_score := py_text (ob_technical_score ob),
           opportunity_score := py_text (ob_opportunity_score ob),
           final_failed_gate := py_text (ob_final_failed_gate ob),
           final_block_reason := py_text (ob_final_block_reason ob),
           target_integrity_status := py_text (ob_target_integrity_status ob),
           target_failure := py_text (ob_target_failure ob),
           target_failure_severity := py_text (ob_target_failure_severity ob),
           target_warning_reason := py_text (ob_target_warning_reason ob),
           actionability_state := py_text (ob_actionability_state ob),
           readiness_score := bounded_score (Some (ob_readiness_score ob)) (readiness_score r),
           quality_score := bounded_score (Some (ob_quality_score ob)) (quality_score r),
           edge_score := py_text (ob_edge_score ob),
           regime_state := py_text (ob_regime_state ob),
           action_label := py_text (ob_action_label ob),
           invalidation_reason := confirmed_invalidation_value r ob confirmed_snapshot_valid,
           entry_low := plan_or_observed_value r (entry_low r) (ob_entry_low ob),
           entry_high := plan_or_observed_value r (entry_high r) (ob_entry_high ob),
           stop_loss := plan_or_observed_value r (stop_loss r) (ob_stop_loss ob),
           tp1 := plan_or_observed_value r (tp1 r) (ob_tp1 ob),
           tp2 := plan_or_observed_value r (tp2 r) (ob_tp2 ob),
           tp3 := plan_or_observed_value r (tp3 r) (ob_tp3 ob),
           rr := plan_or_observed_value r (rr r) (ob_rr ob),
           invalidation_logic := confirmed_invalidation_logic r ob confirmed_snapshot_valid,
           confirmation_count := count,
           required_confirmation_cycles := required_cycles,
           quality_grade_current := current_grade,
           quality_grade_confirmed := (if newly_confirmed then current_grade else quality_grade_confirmed r),
           confirmed_at := (if newly_confirmed then Some timestamp else confirmed_at r),
           symbol_health_penalty_cycles := max (symbol_health_penalty_cycles r) (max 0 penalty_cycles),
           setup_identity := (if current_state r \<in> set PLAN_LOCK_STATES then setup_identity r else setup_identity_of ob),
           structural_anchor := (if py_text (structural_anchor r) \<noteq> NA then structural_anchor r
                                 else py_text (ob_structural_anchor ob))\<rparr>)"

section \<open>The next state\<close>

definition target_requires_confirmation :: "SetupLifecycleState \<Rightarrow> bool" where
  "target_requires_confirmation st = (st \<in> set CONFIRMATION_GATED_STATES)"

definition confirmation_gated_target ::
  "SetupLifecycleRecord \<Rightarrow> LifecycleObservation \<Rightarrow> SetupLifecycleState \<Rightarrow> SetupLifecycleState" where
  "confirmation_gated_target r ob target =
     (if \<not> target_requires_confirmation target then target
      else if confirmation_count r \<ge> required_confirmation_cycles r \<and> confirmed_observation_ready ob then target
      else pre_confirmation_state ob)"

definition active_setup_invalidated :: "SetupLifecycleState \<Rightarrow> SetupLifecycleState \<Rightarrow> bool" where
  "active_setup_invalidated st target =
     (st \<in> set [CONFIRMED, ACTIONABLE_A_GRADE, A_GRADE_WATCH, EXECUTING] \<and> target = REJECTED)"

definition watch_or_valid :: "SetupLifecycleState \<Rightarrow> bool" where
  "watch_or_valid target = (target \<in> set WATCH_PRIORITY_STATES \<or> target \<in> set VALID_STATES)"

definition next_state_for_observation ::
  "SetupLifecycleRecord \<Rightarrow> LifecycleObservation \<Rightarrow> string \<Rightarrow> SetupLifecycleState" where
  "next_state_for_observation r ob timestamp =
     (let cur = current_state r; target = confirmation_gated_target r ob (observed_state ob) in
      case cur of
        COOLDOWN \<Rightarrow>
          if cooldown_expired (cooldown_until r) timestamp
          then (if watch_or_valid target then WATCHLISTED else ARCHIVED) else cur
      | ARCHIVED \<Rightarrow> if watch_or_valid target then WATCHLISTED else cur
      | TP_HIT \<Rightarrow> COOLDOWN
      | SL_HIT \<Rightarrow> COOLDOWN
      | BREAKEVEN \<Rightarrow> COOLDOWN
      | INVALIDATED \<Rightarrow> COOLDOWN
      | EXPIRED \<Rightarrow> COOLDOWN
      | MANAGING \<Rightarrow>
          if ob_tp_hit ob then TP_HIT else if ob_sl_hit ob then SL_HIT
          else if ob_invalidated ob then INVALIDATED else if ob_expired ob then EXPIRED else cur
      | EXECUTING \<Rightarrow>
          if ob_invalidated ob then INVALIDATED else if ob_expired ob then EXPIRED
          else if ob_entry_filled ob then MANAGING else cur
      | CONFIRMED \<Rightarrow>
          if ob_invalidated ob \<or> active_setup_invalidated cur target
             \<or> confirmed_observation_invalidates_active_signal ob then INVALIDATED
          else if ob_expired ob then EXPIRED
          else if ob_actionable_a_grade_candidate ob \<and> \<not> ob_entry_filled ob then
            (if confirmed_observation_ready ob then cur else ACTIONABLE_A_GRADE)
          else if ob_a_grade_watch_candidate ob \<and> \<not> ob_entry_filled ob then
            (if confirmed_observation_ready ob then cur else A_GRADE_WATCH)
          else if ob_entry_filled ob then EXECUTING
          else if ob_valid_trade_idea ob then (if ob_limit_fill_required ob then cur else EXECUTING)
          else cur
      | A_GRADE_WATCH \<Rightarrow>
          if ob_invalidated ob \<or> target = REJECTED then INVALIDATED
          else if ob_expired ob then EXPIRED
          else if target = ACTIONABLE_A_GRADE then ACTIONABLE_A_GRADE
          else if ob_entry_filled ob then TRIGGERED
          else if target = CONFIRMED then CONFIRMED
          else cur
      | ACTIONABLE_A_GRADE \<Rightarrow>
          if ob_invalidated ob \<or> target = REJECTED then INVALIDATED
          else if ob_expired ob then EXPIRED
          else if ob_entry_filled ob then TRIGGERED
          else if target = CONFIRMED then CONFIRMED
          else cur
      | REJECTED \<Rightarrow>
          if target = ACTIONABLE_A_GRADE then ACTIONABLE_A_GRADE
          else if target = A_GRADE_WATCH then A_GRADE_WATCH
          else if watch_or_valid target then (if ob_readiness_score ob > readiness_score r then WATCHLISTED else cur)
          else cur
      | DISCOVERED \<Rightarrow>
          if target = REJECTED then REJECTED
          else if target = ACTIONABLE_A_GRADE then ACTIONABLE_A_GRADE
          else if target = A_GRADE_WATCH then A_GRADE_WATCH
          else if watch_or_valid target then WATCHLISTED
          else cur
      | WATCHLISTED \<Rightarrow>
          if ob_entry_filled ob \<and> \<not> ob_invalidated ob \<and> \<not> ob_expired ob \<and> target \<noteq> REJECTED then TRIGGERED
          else if target = REJECTED then REJECTED
          else if target = ACTIONABLE_A_GRADE then ACTIONABLE_A_GRADE
          else if target = A_GRADE_WATCH then A_GRADE_WATCH
          else if ob_sweep_detected ob then STALKING
          else cur
      | STALKING \<Rightarrow>
          if ob_entry_filled ob \<and> \<not> ob_invalidated ob \<and> \<not> ob_expired ob \<and> target \<noteq> REJECTED then TRIGGERED
          else if target = REJECTED then REJECTED
          else if target = ACTIONABLE_A_GRADE then ACTIONABLE_A_GRADE
          else if target = A_GRADE_WATCH then A_GRADE_WATCH
          else if ob_sweep_detected ob \<and> ob_structure_shift_detected ob then TRIGGERED
          else if \<not> ob_sweep_detected ob \<and> target = WATCHLISTED then WATCHLISTED
          else cur
      | TRIGGERED \<Rightarrow>
          if ob_invalidated ob \<or> target = REJECTED then INVALIDATED
          else if target = ACTIONABLE_A_GRADE then ACTIONABLE_A_GRADE
          else if target = A_GRADE_WATCH then A_GRADE_WATCH
          else if pullback_and_rr_valid ob \<or> ob_valid_trade_idea ob then
            (if target = CONFIRMED then CONFIRMED else target)
          else if ob_sweep_detected ob \<and> \<not> ob_structure_shift_detected ob then STALKING
          else cur
      | _ \<Rightarrow> cur)"

definition is_watchable_lifecycle_state :: "SetupLifecycleRecord \<Rightarrow> bool" where
  "is_watchable_lifecycle_state r =
     (if current_state r = ARCHIVED then False
      else if current_state r = COOLDOWN then False
      else current_state r \<in> set WATCH_PRIORITY_STATES)"

section \<open>Confidence decay\<close>

definition decay_text :: string where
  "decay_text = ''no price reaction or lifecycle progress''"

definition apply_decay_if_needed ::
  "SetupLifecycleRecord \<Rightarrow> SetupLifecycleRecord \<Rightarrow> LifecycleObservation \<Rightarrow> SetupLifecycleState
     \<Rightarrow> SetupLifecycleState \<times> SetupLifecycleRecord \<times> string" where
  "apply_decay_if_needed previous updated ob next_state =
     (if next_state \<noteq> current_state previous \<or> next_state \<notin> set DECAYABLE_STATES then (next_state, updated, NA)
      else if confirmation_count updated > confirmation_count previous then (next_state, updated, NA)
      else if setup_identity updated \<noteq> setup_identity previous then (next_state, updated, NA)
      else if ob_entry_filled ob \<or> terminal_observation ob then (next_state, updated, NA)
      else
        let next_grade = decayed_grade (quality_grade_current updated);
            decayed = updated\<lparr>decay_count := decay_count updated + 1, decay_reason := decay_text\<rparr> in
        if next_grade = NA then (next_state, updated, NA)
        else if next_grade = ''EXPIRED'' then
          (if next_state \<in> set CONFIDENCE_DECAY_TERMINAL_EXEMPT_STATES then (next_state, decayed, decay_text)
           else (EXPIRED, decayed\<lparr>quality_grade_current := ''Expired'', failed_gate := ''confidence_decay'',
                   invalidation_reason := decay_text\<rparr>, decay_text))
        else (next_state, decayed\<lparr>quality_grade_current := next_grade\<rparr>, decay_text))"

section \<open>Reasons and notes\<close>

definition reason_for_state :: "SetupLifecycleState \<Rightarrow> LifecycleObservation \<Rightarrow> bool \<Rightarrow> SetupTransitionReason" where
  "reason_for_state st ob initialized =
     (if initialized then R_INITIALIZED
      else case st of
        DISCOVERED \<Rightarrow> R_DISCOVERED
      | REJECTED \<Rightarrow> R_REJECTED
      | WATCHLISTED \<Rightarrow> R_READINESS_IMPROVED
      | STALKING \<Rightarrow> R_SWEEP_APPEARED
      | TRIGGERED \<Rightarrow> if ob_entry_filled ob then R_ENTRY_ZONE_TOUCHED else R_STRUCTURE_SHIFT_CONFIRMED
      | CONFIRMED \<Rightarrow> R_PULLBACK_RR_VALID
      | ACTIONABLE_A_GRADE \<Rightarrow> R_ACTIONABLE_A_GRADE
      | A_GRADE_WATCH \<Rightarrow> R_A_GRADE_WATCH
      | EXECUTING \<Rightarrow> if ob_entry_filled ob then R_ENTRY_ZONE_TOUCHED else R_VALID_TRADE_IDEA
      | MANAGING \<Rightarrow> R_ENTRY_FILL_SIMULATED
      | TP_HIT \<Rightarrow> R_TAKE_PROFIT_HIT
      | BREAKEVEN \<Rightarrow> R_BREAKEVEN_STOP_HIT
      | SL_HIT \<Rightarrow> R_STOP_LOSS_HIT
      | INVALIDATED \<Rightarrow> R_SETUP_INVALIDATED
      | EXPIRED \<Rightarrow> R_SETUP_EXPIRED
      | COOLDOWN \<Rightarrow> R_COOLDOWN_STARTED
      | ARCHIVED \<Rightarrow> R_COOLDOWN_EXPIRED
      | _ \<Rightarrow> R_NO_CHANGE)"

definition transition_notes :: "SetupTransitionReason \<Rightarrow> LifecycleObservation \<Rightarrow> string" where
  "transition_notes reason ob =
     (let timeframe = py_text (ob_confirmation_timeframe ob) in
      if reason = R_STRUCTURE_SHIFT_CONFIRMED \<and> timeframe \<noteq> NA
      then timeframe @ '' BOS/CHoCH confirmed after sweep.''
      else reason_value reason)"

section \<open>The lifecycle step\<close>

definition with_economic_identities ::
  "(string \<Rightarrow> string) \<Rightarrow> SetupTransitionResult \<Rightarrow> LifecycleObservation \<Rightarrow> SetupLifecycleRecord option
     \<Rightarrow> SetupTransitionResult" where
  "with_economic_identities sha256 result ob previous =
     (case res_record result of
        None \<Rightarrow> result
      | Some r \<Rightarrow>
          result\<lparr>res_record := Some (latch_economic_identities sha256 r (Some (ob_instrument_venue ob))
            (current_state r \<in> set PLAN_LOCK_STATES) previous VNone)\<rparr>)"

text \<open>The keyword arguments of \<open>evaluate_lifecycle_transition\<close>, and the clock it reads when \<open>now\<close> is absent.\<close>

record evaluation_args =
  ea_lifecycle_id :: string
  ea_now :: "string option"
  ea_clock :: string
  ea_scan_run_id :: "string option"
  ea_required_confirmation_cycles :: int
  ea_setup_tolerance_pct :: rat
  ea_symbol_health_score :: string
  ea_symbol_health_penalty_cycles :: int

definition ea_timestamp :: "evaluation_args \<Rightarrow> string" where
  "ea_timestamp a = now_or (ea_now a) (ea_clock a)"

definition ea_required_cycles :: "evaluation_args \<Rightarrow> int" where
  "ea_required_cycles a =
     required_confirmation_cycles_of (ea_required_confirmation_cycles a) (ea_symbol_health_penalty_cycles a)"

definition lower_or_NA :: "string \<Rightarrow> string" where
  "lower_or_NA v = (if py_text v \<noteq> NA then py_lower (py_text v) else NA)"

definition initial_lifecycle_state :: "LifecycleObservation \<Rightarrow> int \<Rightarrow> SetupLifecycleState \<times> int" where
  "initial_lifecycle_state ob required_cycles =
     (let freshness_blocked = observation_has_essential_freshness_failure ob;
          st = (if freshness_blocked then REJECTED else initial_state_for_observation ob);
          count = (if freshness_blocked then 0 else if confirmation_countable ob then 1 else 0)
      in (if target_requires_confirmation st \<and> count < required_cycles then initial_pre_confirmation_state ob else st,
          count))"

definition initial_record :: "LifecycleObservation \<Rightarrow> evaluation_args \<Rightarrow> SetupLifecycleRecord" where
  "initial_record ob a =
     (let timestamp = ea_timestamp a; required_cycles = ea_required_cycles a;
          (initial_state, count) = initial_lifecycle_state ob required_cycles;
          quality_grade = quality_grade_or_score ob;
          confirmed = (if initial_state \<in> set CONFIRMATION_GATED_STATES \<and> count \<ge> required_cycles
                       then Some timestamp else None);
          confirmed_snapshot_valid = (confirmed \<noteq> None \<and> valid_confirmed_observation ob)
      in \<lparr>lifecycle_id = ea_lifecycle_id a, symbol = ob_symbol ob, mode = lower_or_NA (ob_mode ob),
          direction = lower_or_NA (ob_direction ob), current_state = initial_state, previous_state = None,
          first_seen_at = timestamp, last_seen_at = timestamp, last_transition_at = timestamp,
          failed_gate = (if confirmed_snapshot_valid then NA else py_text (ob_failed_gate ob)),
          candidate_quality_grade = py_text (ob_candidate_quality_grade ob),
          final_quality_grade = py_text (ob_final_quality_grade ob),
          technical_score = py_text (ob_technical_score ob), opportunity_score = py_text (ob_opportunity_score ob),
          final_failed_gate = py_text (ob_final_failed_gate ob),
          final_block_reason = py_text (ob_final_block_reason ob),
          target_integrity_status = py_text (ob_target_integrity_status ob),
          target_failure = py_text (ob_target_failure ob),
          target_failure_severity = py_text (ob_target_failure_severity ob),
          target_warning_reason = py_text (ob_target_warning_reason ob),
          actionability_state = py_text (ob_actionability_state ob),
          readiness_score = bounded_score (Some (ob_readiness_score ob)) 0,
          quality_score = bounded_score (Some (ob_quality_score ob)) 0,
          edge_score = py_text (ob_edge_score ob), regime_state = py_text (ob_regime_state ob),
          action_label = py_text (ob_action_label ob),
          invalidation_reason = (if confirmed_snapshot_valid then py_text (ob_invalidation_reason ob)
                                 else invalidation_reason_of ob),
          cooldown_until = None,
          archived_at = (if initial_state = ARCHIVED then Some timestamp else None),
          entry_low = py_text (ob_entry_low ob), entry_high = py_text (ob_entry_high ob),
          stop_loss = py_text (ob_stop_loss ob), tp1 = py_text (ob_tp1 ob), tp2 = py_text (ob_tp2 ob),
          tp3 = py_text (ob_tp3 ob), rr = py_text (ob_rr ob),
          invalidation_logic = py_text (ob_invalidation_reason ob),
          confirmation_count = count, required_confirmation_cycles = required_cycles,
          quality_grade_first_seen = quality_grade, quality_grade_current = quality_grade,
          quality_grade_confirmed = (if confirmed_snapshot_valid then quality_grade else NA),
          confirmed_at = confirmed, decay_count = 0, decay_reason = NA,
          symbol_health_score_at_detection = py_text (ea_symbol_health_score a),
          symbol_health_penalty_cycles = max 0 (ea_symbol_health_penalty_cycles a),
          setup_identity = setup_identity_of ob, structural_anchor = py_text (ob_structural_anchor ob),
          is_current = True, setup_id = None, plan_version_id = None, economic_identity_reason = None,
          runtime_epoch_id = None, creation_origin_id = None\<rparr>)"

definition geometry_diagnostic_of :: "string \<Rightarrow> string" where
  "geometry_diagnostic_of failure = INVALID_STORED_PLAN_GEOMETRY @ '':'' @ failure"

definition reject_invalid_geometry :: "SetupLifecycleRecord \<Rightarrow> SetupLifecycleRecord" where
  "reject_invalid_geometry r =
     (case stored_plan_geometry_failure r of
        Some f \<Rightarrow>
          if current_state r \<in> set ACTIVE_LIFECYCLE_MONITORING_STATES
          then r\<lparr>current_state := REJECTED, failed_gate := geometry_diagnostic_of f, confirmed_at := None,
                 quality_grade_confirmed := NA\<rparr>
          else r
      | None \<Rightarrow> r)"

definition evaluate_initial ::
  "(string \<Rightarrow> string) \<Rightarrow> LifecycleObservation \<Rightarrow> evaluation_args \<Rightarrow> model_error + SetupTransitionResult" where
  "evaluate_initial sha256 ob a =
     ebind (construct_record (initial_record ob a)) (\<lambda>constructed.
       let new_record = reject_invalid_geometry constructed;
           initial_state = current_state new_record;
           reason = reason_for_state initial_state ob True in
       ebind (construct_event
         \<lparr>ev_lifecycle_id = ea_lifecycle_id a, ev_timestamp = ea_timestamp a, ev_symbol = ob_symbol ob,
          ev_from_state = None, ev_to_state = initial_state, ev_reason = reason,
          ev_scan_run_id = ea_scan_run_id a, ev_readiness_score = readiness_score new_record,
          ev_quality_score = quality_score new_record, ev_failed_gate = failed_gate new_record,
          ev_notes = transition_notes reason ob\<rparr>) (\<lambda>event.
       Inr (with_economic_identities sha256
         \<lparr>res_lifecycle_id = ea_lifecycle_id a, res_symbol = ob_symbol ob, res_from_state = None,
          res_to_state = initial_state, res_reason = ev_reason event, res_transitioned = True,
          res_allowed = True, res_notes = ev_notes event, res_event = Some event,
          res_record = Some new_record\<rparr> ob None)))"

text \<open>The state and record that the observation leads to, before the transition is recorded.\<close>

record step_plan =
  sp_next_state :: SetupLifecycleState
  sp_record :: SetupLifecycleRecord
  sp_geometry_diagnostic :: string
  sp_decay_reason :: string

definition plan_step ::
  "SetupLifecycleRecord \<Rightarrow> LifecycleObservation \<Rightarrow> evaluation_args \<Rightarrow> step_plan" where
  "plan_step r ob a =
     (let timestamp = ea_timestamp a;
          updated = record_with_observation r ob timestamp (ea_setup_tolerance_pct a) (ea_required_cycles a)
                      (ea_symbol_health_penalty_cycles a);
          wanted = next_state_for_observation updated ob timestamp;
          (gated, guarded, diagnostic) =
            (case stored_plan_geometry_failure updated of
               Some f \<Rightarrow>
                 if wanted \<in> set ACTIVE_LIFECYCLE_MONITORING_STATES then
                   (if transition_allowed (Some (current_state updated)) REJECTED then REJECTED
                    else current_state updated,
                    updated\<lparr>failed_gate := geometry_diagnostic_of f\<rparr>, geometry_diagnostic_of f)
                 else (wanted, updated, NA)
             | None \<Rightarrow> (wanted, updated, NA));
          (next_state, final, decay) = apply_decay_if_needed r guarded ob gated
      in \<lparr>sp_next_state = next_state, sp_record = final, sp_geometry_diagnostic = diagnostic, sp_decay_reason = decay\<rparr>)"

definition step_reason ::
  "SetupLifecycleRecord \<Rightarrow> LifecycleObservation \<Rightarrow> step_plan \<Rightarrow> SetupTransitionReason" where
  "step_reason r ob p =
     (let next_state = sp_next_state p; final = sp_record p in
      if sp_decay_reason p \<noteq> NA then (if next_state = EXPIRED then R_SETUP_EXPIRED else R_SETUP_DECAYED)
      else if next_state \<in> set CONFIRMATION_GATED_STATES
              \<and> confirmation_count final \<ge> required_confirmation_cycles final
              \<and> confirmation_count r < required_confirmation_cycles final \<and> next_state = CONFIRMED
      then R_MULTI_SCAN_CONFIRMED
      else if sp_geometry_diagnostic p \<noteq> NA \<and> next_state = current_state final then R_INVALID_TRANSITION
      else reason_for_state next_state ob False)"

definition unchanged_result ::
  "SetupLifecycleRecord \<Rightarrow> SetupTransitionReason \<Rightarrow> bool \<Rightarrow> string \<Rightarrow> SetupLifecycleRecord \<Rightarrow> SetupTransitionResult" where
  "unchanged_result r reason allowed notes kept =
     \<lparr>res_lifecycle_id = lifecycle_id r, res_symbol = symbol r, res_from_state = Some (current_state r),
      res_to_state = current_state r, res_reason = reason, res_transitioned = False, res_allowed = allowed,
      res_notes = notes, res_event = None, res_record = Some kept\<rparr>"

definition record_step ::
  "SetupLifecycleRecord \<Rightarrow> LifecycleObservation \<Rightarrow> evaluation_args \<Rightarrow> model_error + SetupTransitionResult" where
  "record_step r ob a =
     (let p = plan_step r ob a; reason = step_reason r ob p; diagnostic = sp_geometry_diagnostic p;
          final = sp_record p in
      transition_record final (sp_next_state p) reason (Some (ea_timestamp a)) (ea_clock a) (ea_scan_run_id a)
        (Some (ob_readiness_score ob)) (Some (ob_quality_score ob))
        (Some (if diagnostic \<noteq> NA then diagnostic
               else if sp_decay_reason p \<noteq> NA then failed_gate final else ob_failed_gate ob))
        (if diagnostic \<noteq> NA then diagnostic
         else if sp_next_state p \<noteq> current_state final then transition_notes reason ob
         else reason_value R_NO_CHANGE))"

text \<open>Without closed-candle outcomes, a touch of the stored entry zone counts as a fill of the stored plan.\<close>

definition effective_observation :: "SetupLifecycleRecord \<Rightarrow> LifecycleObservation \<Rightarrow> LifecycleObservation" where
  "effective_observation r ob =
     (if \<not> ob_closed_candle_outcomes_managed ob \<and> stored_monitoring_entry_zone_touched r ob
      then observation_with_stored_plan ob r True else ob)"

definition evaluate_existing ::
  "SetupLifecycleRecord \<Rightarrow> LifecycleObservation \<Rightarrow> evaluation_args \<Rightarrow> model_error + SetupTransitionResult \<times> LifecycleObservation" where
  "evaluate_existing r ob a =
     (case (if current_state r \<in> set ACTIVE_LIFECYCLE_MONITORING_STATES then stored_plan_geometry_failure r else None) of
        Some f \<Rightarrow> Inr (unchanged_result r R_INVALID_TRANSITION False (geometry_diagnostic_of f) r, ob)
      | None \<Rightarrow>
          if ob_closed_candle_outcomes_managed ob \<and> current_state r \<in> set [TP_HIT, SL_HIT, BREAKEVEN] then
            map_sum id (\<lambda>res. (res, ob))
              (transition_record r (current_state r) R_NO_CHANGE (Some (ea_timestamp a)) (ea_clock a) (ea_scan_run_id a)
                 (Some (readiness_score r)) (Some (quality_score r)) (Some (failed_gate r))
                 ''Canonical terminal lifecycle state is immutable.'')
          else
            let ob' = effective_observation r ob in
            if current_state r \<in> set FRESHNESS_OWNER_HOLD_STATES \<and> freshness_failure_preserves_owner ob'
               \<and> \<not> ob_tp_hit ob' \<and> \<not> ob_sl_hit ob' then
              Inr (unchanged_result r R_NO_CHANGE True ''essential_candle_freshness_discovery_hold''
                     (r\<lparr>last_seen_at := ea_timestamp a\<rparr>), ob')
            else map_sum id (\<lambda>res. (res, ob')) (record_step r ob' a))"

definition evaluate_lifecycle_transition ::
  "(string \<Rightarrow> string) \<Rightarrow> SetupLifecycleRecord option \<Rightarrow> LifecycleObservation \<Rightarrow> evaluation_args
     \<Rightarrow> model_error + SetupTransitionResult" where
  "evaluate_lifecycle_transition sha256 rec ob a =
     (case rec of
        None \<Rightarrow> evaluate_initial sha256 ob a
      | Some r \<Rightarrow>
          map_sum id (\<lambda>(res, ob'). with_economic_identities sha256 res ob' (Some r)) (evaluate_existing r ob a))"

end
