(* ===== verification/Lifecycle_Step.thy ===== *)
theory Lifecycle_Step
  imports State_Machine
begin

text \<open>
  What one lifecycle step does and what runs of the lifecycle keep. The abstract specification is the
  graph of allowed transitions; \<open>evaluate_lifecycle_transition\<close> refines it. The further
  properties are the plan lock, the confirmation gate, geometry of active records, latched identities,
  terminal states, cooldown and the audit events.
\<close>

section \<open>Frame lemmas\<close>

lemma record_with_observation_frame [simp]:
  "current_state (record_with_observation r ob t tol req pen) = current_state r"
  "symbol (record_with_observation r ob t tol req pen) = symbol r"
  "direction (record_with_observation r ob t tol req pen) = direction r"
  "decay_count (record_with_observation r ob t tol req pen) = decay_count r"
  "cooldown_until (record_with_observation r ob t tol req pen) = cooldown_until r"
  "setup_id (record_with_observation r ob t tol req pen) = setup_id r"
  "plan_version_id (record_with_observation r ob t tol req pen) = plan_version_id r"
  by (simp_all add: record_with_observation_def Let_def)

lemma record_with_observation_plan:
  "entry_low (record_with_observation r ob t tol req pen) = plan_or_observed_value r (entry_low r) (ob_entry_low ob)"
  "entry_high (record_with_observation r ob t tol req pen) = plan_or_observed_value r (entry_high r) (ob_entry_high ob)"
  "stop_loss (record_with_observation r ob t tol req pen) = plan_or_observed_value r (stop_loss r) (ob_stop_loss ob)"
  "tp1 (record_with_observation r ob t tol req pen) = plan_or_observed_value r (tp1 r) (ob_tp1 ob)"
  "tp2 (record_with_observation r ob t tol req pen) = plan_or_observed_value r (tp2 r) (ob_tp2 ob)"
  "tp3 (record_with_observation r ob t tol req pen) = plan_or_observed_value r (tp3 r) (ob_tp3 ob)"
  "rr (record_with_observation r ob t tol req pen) = plan_or_observed_value r (rr r) (ob_rr ob)"
  "setup_identity (record_with_observation r ob t tol req pen)
     = (if current_state r \<in> set PLAN_LOCK_STATES then setup_identity r else setup_identity_of ob)"
  by (simp_all add: record_with_observation_def Let_def)

lemma record_with_observation_scores:
  "readiness_score (record_with_observation r ob t tol req pen) = bounded_score (Some (ob_readiness_score ob)) (readiness_score r)"
  "quality_score (record_with_observation r ob t tol req pen) = bounded_score (Some (ob_quality_score ob)) (quality_score r)"
  "confirmation_count (record_with_observation r ob t tol req pen)
     = next_confirmation_count r ob (setup_consistent r ob tol) req"
  "required_confirmation_cycles (record_with_observation r ob t tol req pen) = req"
  "symbol_health_penalty_cycles (record_with_observation r ob t tol req pen)
     = max (symbol_health_penalty_cycles r) (max 0 pen)"
  by (simp_all add: record_with_observation_def Let_def)

lemma record_with_observation_invalidation:
  "invalidation_reason (record_with_observation r ob t tol req pen)
     = confirmed_invalidation_value r ob (valid_confirmed_observation ob)"
  "invalidation_logic (record_with_observation r ob t tol req pen)
     = confirmed_invalidation_logic r ob (valid_confirmed_observation ob)"
  by (simp_all add: record_with_observation_def Let_def)

text \<open>Decay never moves the record; it asks for \<open>EXPIRED\<close> at most, and never from \<open>CONFIRMED\<close>.\<close>

lemma apply_decay_cases:
  assumes "apply_decay_if_needed p u ob st = (st', u', why)"
  obtains (none) "st' = st" "u' = u" "why = NA"
  | (decayed) g where "why = decay_text" "st' = st" "st = current_state p" "st \<in> set DECAYABLE_STATES"
      "u' = u\<lparr>decay_count := decay_count u + 1, decay_reason := decay_text, quality_grade_current := g\<rparr>"
  | (expired) "why = decay_text" "st' = EXPIRED" "st = current_state p" "st \<in> set DECAYABLE_STATES" "st \<noteq> CONFIRMED"
      "u' = u\<lparr>decay_count := decay_count u + 1, decay_reason := decay_text, quality_grade_current := ''Expired'',
              failed_gate := ''confidence_decay'', invalidation_reason := decay_text\<rparr>"
proof -
  let ?a = "apply_decay_if_needed p u ob st" and ?g = "decayed_grade (quality_grade_current u)"
  let ?skip = "st \<noteq> current_state p \<or> st \<notin> set DECAYABLE_STATES \<or> confirmation_count u > confirmation_count p
     \<or> setup_identity u \<noteq> setup_identity p \<or> ob_entry_filled ob \<or> terminal_observation ob \<or> ?g = NA"
  note exempt = CONFIDENCE_DECAY_TERMINAL_EXEMPT_STATES_def
  consider ?skip | "\<not> ?skip" "?g = ''EXPIRED''" "st = CONFIRMED" | "\<not> ?skip" "?g = ''EXPIRED''" "st \<noteq> CONFIRMED"
    | "\<not> ?skip" "?g \<noteq> ''EXPIRED''" by blast
  then show thesis
  proof cases
    case 1
    then have "?a = (st, u, NA)" by (auto simp: apply_decay_if_needed_def Let_def)
    with assms none show ?thesis by simp
  next
    case 2
    then have "?a = (st, u\<lparr>decay_count := decay_count u + 1, decay_reason := decay_text\<rparr>, decay_text)"
      by (auto simp: apply_decay_if_needed_def exempt)
    with assms 2 show ?thesis by (intro decayed [of "quality_grade_current u"]) auto
  next
    case 3
    then have "?a = (EXPIRED, u\<lparr>decay_count := decay_count u + 1, decay_reason := decay_text,
        quality_grade_current := ''Expired'', failed_gate := ''confidence_decay'', invalidation_reason := decay_text\<rparr>,
        decay_text)"
      by (auto simp: apply_decay_if_needed_def exempt)
    with assms 3 show ?thesis by (intro expired) auto
  next
    case 4
    then have "?a = (st, u\<lparr>decay_count := decay_count u + 1, decay_reason := decay_text,
        quality_grade_current := ?g\<rparr>, decay_text)"
      by (auto simp: apply_decay_if_needed_def)
    with assms 4 show ?thesis by (intro decayed [of ?g]) auto
  qed
qed

lemma apply_decay_frame:
  assumes "apply_decay_if_needed p u ob st = (st', u', why)"
  shows "current_state u' = current_state u" "symbol u' = symbol u" "direction u' = direction u"
    "cooldown_until u' = cooldown_until u" "setup_id u' = setup_id u" "plan_version_id u' = plan_version_id u"
    "entry_low u' = entry_low u" "entry_high u' = entry_high u" "stop_loss u' = stop_loss u"
    "tp1 u' = tp1 u" "tp2 u' = tp2 u" "tp3 u' = tp3 u" "rr u' = rr u" "setup_identity u' = setup_identity u"
    "confirmation_count u' = confirmation_count u" "required_confirmation_cycles u' = required_confirmation_cycles u"
    "readiness_score u' = readiness_score u" "quality_score u' = quality_score u"
    "symbol_health_penalty_cycles u' = symbol_health_penalty_cycles u" "invalidation_logic u' = invalidation_logic u"
    "decay_count u \<le> decay_count u'"
  using assms by (cases rule: apply_decay_cases; simp)+

section \<open>Inversion of the step\<close>

definition updated_record :: "SetupLifecycleRecord \<Rightarrow> LifecycleObservation \<Rightarrow> evaluation_args \<Rightarrow> SetupLifecycleRecord" where
  "updated_record r ob a =
     record_with_observation r ob (ea_timestamp a) (ea_setup_tolerance_pct a) (ea_required_cycles a)
       (ea_symbol_health_penalty_cycles a)"

lemma plan_step_cases:
  assumes "plan_step r ob a = p"
  obtains st g where "apply_decay_if_needed r g ob st = (sp_next_state p, sp_record p, sp_decay_reason p)"
    "st = next_state_for_observation (updated_record r ob a) ob (ea_timestamp a) \<and> g = updated_record r ob a
       \<and> (st \<in> set ACTIVE_LIFECYCLE_MONITORING_STATES \<longrightarrow> has_valid_stored_plan_geometry (updated_record r ob a))
     \<or> st = (if transition_allowed (Some (current_state r)) REJECTED then REJECTED else current_state r)
       \<and> \<not> has_valid_stored_plan_geometry (updated_record r ob a)
       \<and> next_state_for_observation (updated_record r ob a) ob (ea_timestamp a) \<in> set ACTIVE_LIFECYCLE_MONITORING_STATES
       \<and> (\<exists>f. g = (updated_record r ob a)\<lparr>failed_gate := f\<rparr>)"
proof -
  let ?u = "updated_record r ob a"
  let ?w = "next_state_for_observation ?u ob (ea_timestamp a)"
  have cur: "current_state ?u = current_state r" by (simp add: updated_record_def)
  define guard where "guard =
      (case stored_plan_geometry_failure ?u of
         Some f \<Rightarrow>
           if ?w \<in> set ACTIVE_LIFECYCLE_MONITORING_STATES then
             (if transition_allowed (Some (current_state r)) REJECTED then REJECTED else current_state r,
              ?u\<lparr>failed_gate := geometry_diagnostic_of f\<rparr>, geometry_diagnostic_of f)
           else (?w, ?u, NA)
       | None \<Rightarrow> (?w, ?u, NA))"
  obtain st g d where gd: "guard = (st, g, d)" by (cases guard)
  obtain n f why where dec: "apply_decay_if_needed r g ob st = (n, f, why)" by (cases "apply_decay_if_needed r g ob st")
  have "p = \<lparr>sp_next_state = n, sp_record = f, sp_geometry_diagnostic = d, sp_decay_reason = why\<rparr>"
    using assms gd dec unfolding plan_step_def guard_def updated_record_def [symmetric] cur Let_def by simp
  with dec have "apply_decay_if_needed r g ob st = (sp_next_state p, sp_record p, sp_decay_reason p)" by simp
  then show ?thesis
    using that [of g st] gd
    by (auto simp: guard_def has_valid_stored_plan_geometry_def split: option.splits if_splits)
qed

lemma transition_record_cases:
  assumes "transition_record r st why now clock scan rdy qual gate msg = Inr res"
  obtains (same) "current_state r = st" "res_event res = None" "\<not> res_transitioned res"
      "res_record res = Some (r\<lparr>last_seen_at := now_or now clock, readiness_score := bounded_score rdy (readiness_score r),
         quality_score := bounded_score qual (quality_score r), failed_gate := transition_failed_gate r st gate\<rparr>)"
  | (refused) "res_event res = None" "\<not> res_transitioned res" "res_record res = Some r" "current_state r \<noteq> st"
  | (moved) ev cd where "current_state r \<noteq> st" "st \<in> set (ALLOWED_TRANSITIONS (current_state r))"
      "\<not> entry_touch_transition_requires_touch_reason (Some (current_state r)) st why"
      "res_event res = Some ev" "res_transitioned res" "ev_from_state ev = Some (current_state r)" "ev_to_state ev = st"
      "ev_reason ev = why" "cooldown_until_of r st (now_or now clock) = Inr cd"
      "ev_readiness_score ev = bounded_score rdy (readiness_score r)"
      "ev_quality_score ev = bounded_score qual (quality_score r)"
      "res_record res = Some (r\<lparr>current_state := st, previous_state := Some (current_state r),
         last_seen_at := now_or now clock, last_transition_at := now_or now clock,
         readiness_score := ev_readiness_score ev, quality_score := ev_quality_score ev,
         failed_gate := ev_failed_gate ev, cooldown_until := cd,
         archived_at := (if st = ARCHIVED then Some (now_or now clock) else archived_at r)\<rparr>)"
proof (cases "current_state r = st")
  case True
  then show ?thesis using assms by (intro same) (auto simp: transition_record_def Let_def)
next
  case ne: False
  show ?thesis
  proof (cases "transition_allowed (Some (current_state r)) st
      \<and> \<not> entry_touch_transition_requires_touch_reason (Some (current_state r)) st why")
    case False
    then show ?thesis
      using assms ne by (intro refused) (auto simp: transition_record_def Let_def split: if_splits)
  next
    case True
    let ?ev = "\<lparr>ev_lifecycle_id = lifecycle_id r, ev_timestamp = now_or now clock, ev_symbol = symbol r,
           ev_from_state = Some (current_state r), ev_to_state = st, ev_reason = why,
           ev_scan_run_id = scan, ev_readiness_score = bounded_score rdy (readiness_score r),
           ev_quality_score = bounded_score qual (quality_score r),
           ev_failed_gate = transition_failed_gate r st gate, ev_notes = msg\<rparr>"
    obtain ev cd where ev: "construct_event ?ev = Inr ev"
      and cd: "cooldown_until_of r st (now_or now clock) = Inr cd"
      using assms ne True by (auto simp: transition_record_def Let_def)
    have f: "ev_from_state ev = Some (current_state r)" "ev_to_state ev = st" "ev_reason ev = why"
      "ev_readiness_score ev = bounded_score rdy (readiness_score r)"
      "ev_quality_score ev = bounded_score qual (quality_score r)"
      using ev by (auto simp: construct_event_def)
    show ?thesis
      using assms ne True ev cd f
      by (intro moved [of ev cd]) (auto simp: transition_record_def Let_def transition_allowed_def)
  qed
qed

lemma evaluate_existing_cases:
  assumes "evaluate_existing r ob a = Inr (res, ob')"
  obtains (frozen) "current_state r \<in> set ACTIVE_LIFECYCLE_MONITORING_STATES" "\<not> has_valid_stored_plan_geometry r"
      "res_record res = Some r" "res_event res = None" "\<not> res_transitioned res"
  | (terminal) "ob_closed_candle_outcomes_managed ob" "current_state r \<in> {TP_HIT, SL_HIT, BREAKEVEN}"
      "res_event res = None" "\<not> res_transitioned res"
      "res_record res = Some (r\<lparr>last_seen_at := now_or (Some (ea_timestamp a)) (ea_clock a),
         readiness_score := bounded_score (Some (readiness_score r)) (readiness_score r),
         quality_score := bounded_score (Some (quality_score r)) (quality_score r),
         failed_gate := transition_failed_gate r (current_state r) (Some (failed_gate r))\<rparr>)"
  | (held) "current_state r \<in> set FRESHNESS_OWNER_HOLD_STATES" "freshness_failure_preserves_owner (effective_observation r ob)"
      "res_record res = Some (r\<lparr>last_seen_at := ea_timestamp a\<rparr>)" "res_event res = None" "\<not> res_transitioned res"
      "current_state r \<in> set ACTIVE_LIFECYCLE_MONITORING_STATES \<longrightarrow> has_valid_stored_plan_geometry r"
  | (stepped) "ob' = effective_observation r ob" "record_step r ob' a = Inr res"
      "current_state r \<in> set ACTIVE_LIFECYCLE_MONITORING_STATES \<longrightarrow> has_valid_stored_plan_geometry r"
      "\<not> (ob_closed_candle_outcomes_managed ob \<and> current_state r \<in> {TP_HIT, SL_HIT, BREAKEVEN})"
proof -
  let ?bad = "current_state r \<in> set ACTIVE_LIFECYCLE_MONITORING_STATES \<and> \<not> has_valid_stored_plan_geometry r"
  have sel: "(if current_state r \<in> set ACTIVE_LIFECYCLE_MONITORING_STATES then stored_plan_geometry_failure r else None)
      = (if ?bad then stored_plan_geometry_failure r else None)"
    by (auto simp: has_valid_stored_plan_geometry_def)
  show ?thesis
  proof (cases ?bad)
    case True
    then obtain f where "stored_plan_geometry_failure r = Some f" by (auto simp: has_valid_stored_plan_geometry_def)
    with True assms show ?thesis
      by (intro frozen) (auto simp: evaluate_existing_def sel unchanged_result_def)
  next
    case ok: False
    note ev = assms [unfolded evaluate_existing_def sel if_not_P [OF ok] option.case Let_def]
    let ?fin = "ob_closed_candle_outcomes_managed ob \<and> current_state r \<in> set [TP_HIT, SL_HIT, BREAKEVEN]"
    show ?thesis
    proof (cases ?fin)
      case True
      from ev have "transition_record r (current_state r) R_NO_CHANGE (Some (ea_timestamp a)) (ea_clock a) (ea_scan_run_id a)
                 (Some (readiness_score r)) (Some (quality_score r)) (Some (failed_gate r))
                 ''Canonical terminal lifecycle state is immutable.'' = Inr res"
        unfolding if_P [OF True]
        by (cases "transition_record r (current_state r) R_NO_CHANGE (Some (ea_timestamp a)) (ea_clock a) (ea_scan_run_id a)
                 (Some (readiness_score r)) (Some (quality_score r)) (Some (failed_gate r))
                 ''Canonical terminal lifecycle state is immutable.''") auto
      then show ?thesis
        by (rule transition_record_cases) (use True in \<open>auto intro: terminal\<close>)
    next
      case nt: False
      let ?o = "effective_observation r ob"
      let ?hold = "current_state r \<in> set FRESHNESS_OWNER_HOLD_STATES \<and> freshness_failure_preserves_owner ?o
               \<and> \<not> ob_tp_hit ?o \<and> \<not> ob_sl_hit ?o"
      show ?thesis
      proof (cases ?hold)
        case True
        with ev nt ok show ?thesis
          unfolding if_not_P [OF nt] if_P [OF True] by (intro held) (auto simp: unchanged_result_def)
      next
        case False
        from ev have "record_step r ?o a = Inr res \<and> ob' = ?o"
          unfolding if_not_P [OF nt] if_not_P [OF False] by (cases "record_step r ?o a") auto
        with nt ok show ?thesis by (intro stepped) auto
      qed
    qed
  qed
qed

lemma record_step_cases:
  assumes "record_step r ob a = Inr res"
  obtains p why gate msg where "plan_step r ob a = p" "why = step_reason r ob p"
    "transition_record (sp_record p) (sp_next_state p) why (Some (ea_timestamp a)) (ea_clock a) (ea_scan_run_id a)
       (Some (ob_readiness_score ob)) (Some (ob_quality_score ob)) gate msg = Inr res"
  using assms by (auto simp: record_step_def Let_def)

text \<open>The record a step leaves is that of \<open>evaluate_existing\<close> with the identities latched.\<close>

lemma evaluate_Some_cases:
  assumes "evaluate_lifecycle_transition sha256 (Some r) ob a = Inr res"
  obtains res0 ob' r0 where "evaluate_existing r ob a = Inr (res0, ob')" "res_record res0 = Some r0"
    "res_record res = Some (latch_economic_identities sha256 r0 (Some (ob_instrument_venue ob'))
       (current_state r0 \<in> set PLAN_LOCK_STATES) (Some r) VNone)"
    "res_event res = res_event res0" "res_transitioned res = res_transitioned res0"
proof -
  obtain res0 ob' where e: "evaluate_existing r ob a = Inr (res0, ob')"
    and res: "res = with_economic_identities sha256 res0 ob' (Some r)"
    using assms by (cases "evaluate_existing r ob a") (auto simp: evaluate_lifecycle_transition_def)
  have "\<exists>r0. res_record res0 = Some r0"
    using e
  proof (cases rule: evaluate_existing_cases)
    case stepped
    then show ?thesis by (elim record_step_cases transition_record_cases) auto
  qed auto
  then obtain r0 where "res_record res0 = Some r0" ..
  with e res that show ?thesis by (auto simp: with_economic_identities_def)
qed

section \<open>The record a step leaves\<close>

definition plan_values :: "SetupLifecycleRecord \<Rightarrow> string list" where
  "plan_values r = [entry_low r, entry_high r, stop_loss r, tp1 r, tp2 r, tp3 r, rr r]"

text \<open>What \<open>transition_record\<close>, decay and the identity latch keep of the updated record.\<close>

definition carries :: "SetupLifecycleRecord \<Rightarrow> SetupLifecycleRecord \<Rightarrow> bool" where
  "carries u r' \<longleftrightarrow> plan_values r' = plan_values u \<and> symbol r' = symbol u \<and> direction r' = direction u
     \<and> setup_identity r' = setup_identity u \<and> invalidation_logic r' = invalidation_logic u
     \<and> confirmation_count r' = confirmation_count u
     \<and> required_confirmation_cycles r' = required_confirmation_cycles u
     \<and> symbol_health_penalty_cycles r' = symbol_health_penalty_cycles u
     \<and> decay_count u \<le> decay_count r'
     \<and> (score_in_range (readiness_score u) \<longrightarrow> score_in_range (readiness_score r'))
     \<and> (score_in_range (quality_score u) \<longrightarrow> score_in_range (quality_score r'))"

lemma carries_refl: "carries r r"
  by (simp add: carries_def)

lemma carries_trans: "carries r s \<Longrightarrow> carries s t \<Longrightarrow> carries r t"
  by (auto simp: carries_def)

lemma bounded_score_range [simp]: "score_in_range (bounded_score (Some v) d)"
  by (simp add: bounded_score_def score_in_range_def)

lemma carries_latch: "carries r (latch_economic_identities sha256 r v l p t)"
  by (simp add: carries_def latch_eq plan_values_def)

lemma carries_transition:
  assumes "transition_record r st why now clock scan (Some rdy) (Some qual) gate msg = Inr res" and "res_record res = Some r'"
  shows "carries r r'" "invalidation_reason r' = invalidation_reason r" "setup_id r' = setup_id r"
    "plan_version_id r' = plan_version_id r"
  using assms by (cases rule: transition_record_cases; auto simp: carries_def plan_values_def)+

lemma carries_decay: "apply_decay_if_needed p u ob st = (st', u', why) \<Longrightarrow> carries u u'"
  using apply_decay_frame [of p u ob st st' u' why] by (simp add: carries_def plan_values_def)

lemma carries_geometry:
  assumes "carries u r'" and "invalidation_reason r' = invalidation_reason u"
  shows "stored_plan_geometry r' = stored_plan_geometry u"
  using assms by (simp add: carries_def plan_values_def stored_plan_geometry_def policy_stored_invalidation_def)

text \<open>What the field constraints of the model \<open>SetupLifecycleRecord\<close> demand.\<close>

definition record_valid :: "SetupLifecycleRecord \<Rightarrow> bool" where
  "record_valid r \<longleftrightarrow> normalize_symbol (symbol r) = Inr (symbol r)
     \<and> score_in_range (readiness_score r) \<and> score_in_range (quality_score r)
     \<and> 0 \<le> confirmation_count r \<and> 1 \<le> required_confirmation_cycles r
     \<and> 0 \<le> decay_count r \<and> 0 \<le> symbol_health_penalty_cycles r"

lemma record_valid_construct: "construct_record r = Inr c \<Longrightarrow> record_valid c"
  by (auto simp: construct_record_def record_valid_def normalize_symbol_idem)

lemma record_valid_carries: "record_valid u \<Longrightarrow> carries u r \<Longrightarrow> record_valid r"
  by (auto simp: record_valid_def carries_def)

text \<open>
  A step either keeps the plan and the state, or records the updated record. In the second case the
  record stays in its state or takes an allowed transition, asked for by the observation, by an
  invalid plan geometry or by decay.
\<close>

definition stepped_to :: "SetupLifecycleRecord \<Rightarrow> LifecycleObservation \<Rightarrow> evaluation_args \<Rightarrow> SetupLifecycleState \<Rightarrow> bool" where
  "stepped_to r ob a st \<longleftrightarrow>
     st = next_state_for_observation (updated_record r ob a) ob (ea_timestamp a)
       \<and> (st \<in> set ACTIVE_LIFECYCLE_MONITORING_STATES \<longrightarrow> has_valid_stored_plan_geometry (updated_record r ob a))
   \<or> st = REJECTED \<and> \<not> has_valid_stored_plan_geometry (updated_record r ob a)
   \<or> st = EXPIRED \<and> current_state r \<in> set DECAYABLE_STATES \<and> current_state r \<noteq> CONFIRMED"

lemma plan_step_target:
  assumes "plan_step r ob a = p"
  shows "carries (updated_record r ob a) (sp_record p)" "current_state (sp_record p) = current_state r"
    "setup_id (sp_record p) = setup_id r" "plan_version_id (sp_record p) = plan_version_id r"
    "cooldown_until (sp_record p) = cooldown_until r"
    "invalidation_reason (sp_record p) = invalidation_reason (updated_record r ob a)
       \<or> sp_next_state p = EXPIRED \<and> current_state r \<in> set DECAYABLE_STATES \<and> current_state r \<noteq> CONFIRMED"
    "stepped_to r ob a (sp_next_state p) \<or> sp_next_state p = current_state r"
proof -
  let ?u = "updated_record r ob a"
  have u: "current_state ?u = current_state r" "setup_id ?u = setup_id r" "plan_version_id ?u = plan_version_id r"
      "cooldown_until ?u = cooldown_until r" by (simp_all add: updated_record_def)
  obtain st g where dec: "apply_decay_if_needed r g ob st = (sp_next_state p, sp_record p, sp_decay_reason p)"
    and g: "st = next_state_for_observation ?u ob (ea_timestamp a) \<and> g = ?u
         \<and> (st \<in> set ACTIVE_LIFECYCLE_MONITORING_STATES \<longrightarrow> has_valid_stored_plan_geometry ?u)
       \<or> st = (if transition_allowed (Some (current_state r)) REJECTED then REJECTED else current_state r)
         \<and> \<not> has_valid_stored_plan_geometry ?u
         \<and> next_state_for_observation ?u ob (ea_timestamp a) \<in> set ACTIVE_LIFECYCLE_MONITORING_STATES
         \<and> (\<exists>f. g = ?u\<lparr>failed_gate := f\<rparr>)"
    by (rule plan_step_cases [OF assms])
  have same: "carries ?u g \<and> current_state g = current_state r \<and> setup_id g = setup_id r
      \<and> plan_version_id g = plan_version_id r \<and> cooldown_until g = cooldown_until r
      \<and> invalidation_reason g = invalidation_reason ?u"
  proof -
    consider "g = ?u" | f where "g = ?u\<lparr>failed_gate := f\<rparr>" using g by blast
    then show ?thesis by cases (simp_all add: u carries_def plan_values_def)
  qed
  show "carries ?u (sp_record p)" using same carries_decay [OF dec] carries_trans by blast
  show "current_state (sp_record p) = current_state r" "setup_id (sp_record p) = setup_id r"
    "plan_version_id (sp_record p) = plan_version_id r" "cooldown_until (sp_record p) = cooldown_until r"
    using same apply_decay_frame [OF dec] by simp_all
  show "invalidation_reason (sp_record p) = invalidation_reason ?u
      \<or> sp_next_state p = EXPIRED \<and> current_state r \<in> set DECAYABLE_STATES \<and> current_state r \<noteq> CONFIRMED"
    using dec same by (cases rule: apply_decay_cases) auto
  show "stepped_to r ob a (sp_next_state p) \<or> sp_next_state p = current_state r"
    using dec
  proof (cases rule: apply_decay_cases)
    case none
    with g show ?thesis by (auto simp: stepped_to_def split: if_splits)
  qed (auto simp: stepped_to_def)
qed

lemma decay_edge:
  "st \<in> set DECAYABLE_STATES \<Longrightarrow> st \<noteq> CONFIRMED \<Longrightarrow> EXPIRED \<in> set (ALLOWED_TRANSITIONS st)"
  by (auto simp: DECAYABLE_STATES_def)

text \<open>The event that records the move of a record from one state to another.\<close>

definition records_move :: "SetupLifecycleEvent option \<Rightarrow> SetupLifecycleState \<Rightarrow> SetupLifecycleState \<Rightarrow> bool" where
  "records_move e from_st to_st \<longleftrightarrow> (\<exists>ev. e = Some ev \<and> ev_from_state ev = Some from_st \<and> ev_to_state ev = to_st)"

lemma record_step_result:
  assumes "record_step r ob a = Inr res" and "res_record res = Some r'"
  shows "carries (updated_record r ob a) r'" (is ?carries)
    and "setup_id r' = setup_id r \<and> plan_version_id r' = plan_version_id r" (is ?ids)
    and "current_state r' \<noteq> EXPIRED \<Longrightarrow> invalidation_reason r' = invalidation_reason (updated_record r ob a)" (is "_ \<Longrightarrow> ?inval")
    and "current_state r' = current_state r \<and> \<not> res_transitioned res \<and> res_event res = None
           \<and> cooldown_until r' = cooldown_until r
       \<or> current_state r' \<noteq> current_state r \<and> current_state r' \<in> set (ALLOWED_TRANSITIONS (current_state r))
           \<and> stepped_to r ob a (current_state r') \<and> res_transitioned res
           \<and> records_move (res_event res) (current_state r) (current_state r')
           \<and> cooldown_until_of (sp_record (plan_step r ob a)) (current_state r') (now_or (Some (ea_timestamp a)) (ea_clock a)) = Inr (cooldown_until r')"
      (is ?move)
proof -
  obtain p why gate msg where p: "plan_step r ob a = p" and why: "why = step_reason r ob p"
    and tr: "transition_record (sp_record p) (sp_next_state p) why (Some (ea_timestamp a)) (ea_clock a) (ea_scan_run_id a)
       (Some (ob_readiness_score ob)) (Some (ob_quality_score ob)) gate msg = Inr res"
    using assms(1) by (rule record_step_cases)
  note pt = plan_step_target [OF p] and ct = carries_transition [OF tr assms(2)]
  show ?carries using pt(1) ct(1) by (rule carries_trans)
  show ?ids using pt ct by simp
  have "current_state r' = EXPIRED"
    if "sp_next_state p = EXPIRED" "current_state r \<in> set DECAYABLE_STATES" "current_state r \<noteq> CONFIRMED"
    using tr that pt(2) decay_edge [OF that(2,3)] assms(2)
    by (auto simp: transition_record_def Let_def transition_allowed_def entry_touch_transition_requires_touch_reason_def
        split: if_splits)
  with pt(6) ct(2) show "current_state r' \<noteq> EXPIRED \<Longrightarrow> ?inval" by auto
  from tr show ?move
  proof (cases rule: transition_record_cases)
    case moved
    with pt(2,7) assms(2) p show ?thesis by (auto simp: records_move_def)
  qed (use pt(2,5) assms(2) in auto)
qed

lemma lifecycle_step_cases:
  assumes "evaluate_lifecycle_transition sha256 (Some r) ob a = Inr res"
  obtains (kept) r' where "res_record res = Some r'" "carries r r'" "current_state r' = current_state r"
      "res_event res = None" "\<not> res_transitioned res" "invalidation_reason r' = invalidation_reason r"
      "cooldown_until r' = cooldown_until r"
      "current_state r \<in> set ACTIVE_LIFECYCLE_MONITORING_STATES \<and> \<not> has_valid_stored_plan_geometry r
        \<or> ob_closed_candle_outcomes_managed ob \<and> current_state r \<in> {TP_HIT, SL_HIT, BREAKEVEN}
        \<or> current_state r \<in> set FRESHNESS_OWNER_HOLD_STATES"
  | (stepped) r' eo where "res_record res = Some r'" "eo = effective_observation r ob"
      "current_state r \<in> set ACTIVE_LIFECYCLE_MONITORING_STATES \<longrightarrow> has_valid_stored_plan_geometry r"
      "\<not> (ob_closed_candle_outcomes_managed ob \<and> current_state r \<in> {TP_HIT, SL_HIT, BREAKEVEN})"
      "carries (updated_record r eo a) r'"
      "current_state r' \<noteq> EXPIRED \<Longrightarrow> invalidation_reason r' = invalidation_reason (updated_record r eo a)"
      "current_state r' = current_state r \<and> \<not> res_transitioned res \<and> res_event res = None
           \<and> cooldown_until r' = cooldown_until r
       \<or> current_state r' \<noteq> current_state r \<and> current_state r' \<in> set (ALLOWED_TRANSITIONS (current_state r))
           \<and> stepped_to r eo a (current_state r') \<and> res_transitioned res
           \<and> records_move (res_event res) (current_state r) (current_state r')
           \<and> cooldown_until_of (sp_record (plan_step r eo a)) (current_state r') (now_or (Some (ea_timestamp a)) (ea_clock a)) = Inr (cooldown_until r')"
proof -
  obtain res0 ob' r0 where e: "evaluate_existing r ob a = Inr (res0, ob')" and r0: "res_record res0 = Some r0"
    and latched: "res_record res = Some (latch_economic_identities sha256 r0 (Some (ob_instrument_venue ob'))
       (current_state r0 \<in> set PLAN_LOCK_STATES) (Some r) VNone)"
    and ev: "res_event res = res_event res0" "res_transitioned res = res_transitioned res0"
    by (rule evaluate_Some_cases [OF assms])
  define r' where "r' = latch_economic_identities sha256 r0 (Some (ob_instrument_venue ob'))
       (current_state r0 \<in> set PLAN_LOCK_STATES) (Some r) VNone"
  have r': "res_record res = Some r'" "carries r0 r'" "current_state r' = current_state r0"
      "invalidation_reason r' = invalidation_reason r0" "cooldown_until r' = cooldown_until r0"
    using latched by (simp_all add: r'_def carries_latch) (simp_all add: latch_eq)
  show ?thesis
    using e
  proof (cases rule: evaluate_existing_cases)
    case frozen
    with r0 r' ev show ?thesis by (intro kept [of r']) auto
  next
    case terminal
    then have "carries r r0" using r0 by (auto simp: carries_def plan_values_def)
    with terminal r0 r' ev show ?thesis using carries_trans by (intro kept [of r']) auto
  next
    case held
    then have "carries r r0" using r0 by (auto simp: carries_def plan_values_def)
    with held r0 r' ev show ?thesis using carries_trans by (intro kept [of r']) auto
  next
    case st: stepped
    note rs = record_step_result [OF st(2) r0]
    have "carries (updated_record r ob' a) r'" using rs(1) r'(2) by (rule carries_trans)
    with st rs r' ev show ?thesis by (intro stepped [of r' ob']) auto
  qed
qed

end
