(* ===== verification/Lifecycle_Sample.thy ===== *)
theory Lifecycle_Sample
  imports Lifecycle_Step
begin

text \<open>
  A concrete setup, its record and the observation that confirms it, with the evaluation of one step:
  the inputs on which the properties of the lifecycle are exercised.
\<close>

definition sample_digest :: "string \<Rightarrow> string" where
  "sample_digest _ = replicate 64 (CHR ''a'')"

definition sample_observation :: LifecycleObservation where
  "sample_observation = (default_observation ''BTCUSDT'')
     \<lparr>ob_mode := ''intraday'', ob_direction := ''long'', ob_readiness_score := 80, ob_quality_score := 88,
      ob_quality_grade := ''A'', ob_entry_low := ''100'', ob_entry_high := ''101'', ob_stop_loss := ''98'',
      ob_tp1 := ''104'', ob_tp2 := ''107'', ob_tp3 := ''112'', ob_rr := ''3.5'',
      ob_invalidation_reason := ''close below 98'', ob_valid_trade_idea := True, ob_technical_score := ''70'',
      ob_opportunity_score := ''85'', ob_structural_anchor := ''swing-98'', ob_instrument_venue := ''bybit''\<rparr>"

definition sample_args :: evaluation_args where
  "sample_args =
     \<lparr>ea_lifecycle_id = ''lc-1'', ea_now = Some ''2024-05-01T10:00:00+00:00'',
      ea_clock = ''2024-05-01T10:00:00+00:00'', ea_scan_run_id = None, ea_required_confirmation_cycles = 2,
      ea_setup_tolerance_pct = 1 / 2, ea_symbol_health_score = NA, ea_symbol_health_penalty_cycles = 0\<rparr>"

definition sample_record :: SetupLifecycleRecord where
  "sample_record =
     \<lparr>lifecycle_id = ''lc-1'', symbol = ''BTCUSDT'', mode = ''intraday'', direction = ''long'',
      current_state = A_GRADE_WATCH, previous_state = None, first_seen_at = ''2024-05-01T10:00:00+00:00'',
      last_seen_at = ''2024-05-01T10:00:00+00:00'', last_transition_at = ''2024-05-01T10:00:00+00:00'',
      failed_gate = NA, candidate_quality_grade = NA, final_quality_grade = NA, technical_score = ''70'',
      opportunity_score = ''85'', final_failed_gate = NA, final_block_reason = NA, target_integrity_status = NA,
      target_failure = NA, target_failure_severity = NA, target_warning_reason = NA, actionability_state = NA,
      readiness_score = 80, quality_score = 88, edge_score = NA, regime_state = NA, action_label = NA,
      invalidation_reason = ''close below 98'', cooldown_until = None, archived_at = None, entry_low = ''100'',
      entry_high = ''101'', stop_loss = ''98'', tp1 = ''104'', tp2 = ''107'', tp3 = ''112'', rr = ''3.5'',
      invalidation_logic = ''close below 98'', confirmation_count = 1, required_confirmation_cycles = 2,
      quality_grade_first_seen = ''A'', quality_grade_current = ''A'', quality_grade_confirmed = NA,
      confirmed_at = None, decay_count = 0, decay_reason = NA, symbol_health_score_at_detection = NA,
      symbol_health_penalty_cycles = 0, setup_identity = ''BTCUSDT|intraday|long|100|101|98|close below 98'',
      structural_anchor = ''swing-98'', is_current = True, setup_id = Some ''setup-1'',
      plan_version_id = Some ''plan-1'', economic_identity_reason = None, runtime_epoch_id = None,
      creation_origin_id = None\<rparr>"

definition result_holds :: "model_error + SetupTransitionResult \<Rightarrow> (SetupTransitionResult \<Rightarrow> SetupLifecycleRecord \<Rightarrow> bool) \<Rightarrow> bool" where
  "result_holds x p =
     (case x of Inl _ \<Rightarrow> False | Inr res \<Rightarrow> (case res_record res of None \<Rightarrow> False | Some r \<Rightarrow> p res r))"

lemma result_holdsE:
  assumes "result_holds x p"
  obtains res r where "x = Inr res" "res_record res = Some r" "p res r"
  using assms by (auto simp: result_holds_def split: sum.splits option.splits)

lemma sample_confirmed:
  "result_holds (evaluate_lifecycle_transition sample_digest (Some sample_record) sample_observation sample_args)
     (\<lambda>res r. res_transitioned res \<and> current_state r = CONFIRMED \<and> confirmation_count r = 2)"
  by code_simp

end
