(* ===== verification/Lifecycle_Runs.thy ===== *)
theory Lifecycle_Runs
  imports Lifecycle_Sample
begin

text \<open>
  Runs of the lifecycle. A scan evaluates the stored record on an observation and stores the record
  of the result (\<open>LifecycleService\<close>, \<open>upsert_record\<close>); an error leaves the stored record as it was.
  The abstract specification is the graph of allowed transitions; scans refine its edges and runs
  stay on its paths. The properties are the plan lock, the confirmation gate, the geometry of active
  records, the latched identities, the terminal states, the cooldown and the audit events.
\<close>

section \<open>The transition graph\<close>

inductive lifecycle_edge :: "SetupLifecycleState \<Rightarrow> SetupLifecycleState \<Rightarrow> bool" where
  "to_st \<in> set (ALLOWED_TRANSITIONS from_st) \<Longrightarrow> lifecycle_edge from_st to_st"

inductive_simps lifecycle_edge_simps [simp]: "lifecycle_edge s t"

lemma step_refines_edge:
  assumes "evaluate_lifecycle_transition sha256 (Some r) ob a = Inr res"
  obtains r' where "res_record res = Some r'"
    "if res_transitioned res
     then lifecycle_edge (current_state r) (current_state r') \<and> records_move (res_event res) (current_state r) (current_state r')
     else current_state r' = current_state r \<and> res_event res = None"
  using assms by (rule lifecycle_step_cases) (use that in auto)

text \<open>
  C9. One evaluation of a stored record refines the transition graph: it returns a record that either
  stays in its state, with no event, or takes an allowed transition, with an event that names both states.
\<close>

theorem evaluate_refines_transition_graph:
  assumes "evaluate_lifecycle_transition sha256 (Some r) ob a = Inr res"
  shows "\<exists>r'. res_record res = Some r' \<and>
    (if res_transitioned res
     then lifecycle_edge (current_state r) (current_state r') \<and> records_move (res_event res) (current_state r) (current_state r')
     else current_state r' = current_state r \<and> res_event res = None)"
  using assms by (rule step_refines_edge) blast

theorem evaluate_refines_transition_graph_witness:
  "\<exists>res r'. evaluate_lifecycle_transition sample_digest (Some sample_record) sample_observation sample_args = Inr res
     \<and> res_record res = Some r' \<and> lifecycle_edge A_GRADE_WATCH CONFIRMED \<and> current_state r' = CONFIRMED
     \<and> records_move (res_event res) A_GRADE_WATCH CONFIRMED"
proof -
  have "current_state sample_record = A_GRADE_WATCH" by (simp add: sample_record_def)
  with sample_confirmed evaluate_refines_transition_graph show ?thesis
    by (elim result_holdsE) (fastforce simp del: lifecycle_edge_simps)
qed

section \<open>Scans\<close>

type_synonym scan_input = "LifecycleObservation \<times> evaluation_args"

definition lifecycle_scan :: "(string \<Rightarrow> string) \<Rightarrow> SetupLifecycleRecord \<Rightarrow> scan_input \<Rightarrow> SetupLifecycleRecord" where
  "lifecycle_scan sha256 r i =
     (case evaluate_lifecycle_transition sha256 (Some r) (fst i) (snd i) of
        Inl _ \<Rightarrow> r
      | Inr res \<Rightarrow> (case res_record res of None \<Rightarrow> r | Some r' \<Rightarrow> r'))"

lemma lifecycle_scan_cases:
  obtains (error) e where "evaluate_lifecycle_transition sha256 (Some r) (fst i) (snd i) = Inl e"
      "lifecycle_scan sha256 r i = r"
  | (stored) res where "evaluate_lifecycle_transition sha256 (Some r) (fst i) (snd i) = Inr res"
      "res_record res = Some (lifecycle_scan sha256 r i)"
proof (cases "evaluate_lifecycle_transition sha256 (Some r) (fst i) (snd i)")
  case (Inl e)
  then show ?thesis by (intro error) (auto simp: lifecycle_scan_def)
next
  case (Inr res)
  then obtain r' where "res_record res = Some r'" by (rule step_refines_edge)
  with Inr show ?thesis by (intro stored) (auto simp: lifecycle_scan_def)
qed

lemma lifecycle_scan_edge:
  "current_state (lifecycle_scan sha256 r i) = current_state r
   \<or> lifecycle_edge (current_state r) (current_state (lifecycle_scan sha256 r i))"
proof (cases rule: lifecycle_scan_cases [of sha256 r i])
  case (stored res)
  then show ?thesis by (auto elim!: step_refines_edge split: if_splits simp del: lifecycle_edge_simps)
qed simp

interpretation graph: step_machine "lifecycle_scan sha256" "\<lambda>_. True" "\<lambda>r. lifecycle_edge\<^sup>*\<^sup>* s (current_state r)"
  for sha256 s
proof
  fix r :: SetupLifecycleRecord and i :: scan_input
  assume "lifecycle_edge\<^sup>*\<^sup>* s (current_state r)"
  then show "lifecycle_edge\<^sup>*\<^sup>* s (current_state (lifecycle_scan sha256 r i))"
    using lifecycle_scan_edge [of sha256 r i] by (metis rtranclp.rtrancl_into_rtrancl)
qed


section \<open>Confirmation\<close>

lemma pre_confirmation_not_gated: "pre_confirmation_state ob \<notin> {CONFIRMED, EXECUTING, MANAGING, TP_HIT, SL_HIT, BREAKEVEN}"
  by (simp add: pre_confirmation_state_def)

lemma next_state_confirmed:
  assumes "next_state_for_observation r ob t = CONFIRMED" and "current_state r \<noteq> CONFIRMED"
  shows "required_confirmation_cycles r \<le> confirmation_count r \<and> confirmed_observation_ready ob"
proof -
  have "confirmation_gated_target r ob (observed_state ob) = CONFIRMED"
    using assms
    by (cases "current_state r") (auto simp: next_state_for_observation_def Let_def split: if_splits)
  then show ?thesis
    using pre_confirmation_not_gated [of ob]
    by (auto simp: confirmation_gated_target_def target_requires_confirmation_def CONFIRMATION_GATED_STATES_def split: if_splits)
qed

lemma required_cycles_positive: "1 \<le> ea_required_cycles a"
  by (simp add: ea_required_cycles_def required_confirmation_cycles_of_def)

text \<open>What holds of a scan that confirms a record.\<close>

definition confirming_scan :: "SetupLifecycleRecord \<Rightarrow> scan_input \<Rightarrow> SetupLifecycleRecord \<Rightarrow> bool" where
  "confirming_scan r i r' \<longleftrightarrow> current_state r' = CONFIRMED
     \<and> confirmed_observation_ready (effective_observation r (fst i))
     \<and> required_confirmation_cycles r' = ea_required_cycles (snd i)
     \<and> ea_required_cycles (snd i) \<le> confirmation_count r'"

lemma evaluate_confirming:
  assumes "evaluate_lifecycle_transition sha256 (Some r) ob a = Inr res" and "res_record res = Some r'"
    and "current_state r \<noteq> CONFIRMED" and "current_state r' = CONFIRMED"
  shows "confirming_scan r (ob, a) r'"
  using assms(1)
proof (cases rule: lifecycle_step_cases)
  case (kept q)
  with assms show ?thesis by simp
next
  case (stepped q eo)
  let ?u = "updated_record r eo a"
  have q: "q = r'" using stepped assms(2) by simp
  have "next_state_for_observation ?u eo (ea_timestamp a) = CONFIRMED"
    using stepped(7) assms(3,4) q by (auto simp: stepped_to_def)
  moreover have "current_state ?u \<noteq> CONFIRMED" using assms(3) by (simp add: updated_record_def)
  ultimately have "required_confirmation_cycles ?u \<le> confirmation_count ?u \<and> confirmed_observation_ready eo"
    by (rule next_state_confirmed)
  with stepped(2,5) assms(4) q show ?thesis
    by (auto simp: confirming_scan_def carries_def updated_record_def record_with_observation_scores)
qed

lemma scan_confirming:
  assumes "current_state r \<noteq> CONFIRMED" and "current_state (lifecycle_scan sha256 r i) = CONFIRMED"
  shows "confirming_scan r i (lifecycle_scan sha256 r i)"
proof (cases rule: lifecycle_scan_cases [of sha256 r i])
  case (stored res)
  then show ?thesis using evaluate_confirming [OF stored(1)] assms by simp
qed (use assms in simp)

text \<open>What an observation without blockers offers.\<close>

lemma dict_fromkeys_Nil [simp]: "dict_fromkeys xs = [] \<longleftrightarrow> xs = []"
  by (cases xs) auto

lemma append_if_Nil [simp]: "append_if c x = [] \<longleftrightarrow> \<not> c"
  by (simp add: append_if_def)

lemma score_blockers_Nil [simp]: "score_blockers v least m b = [] \<longleftrightarrow> (\<exists>x. v = Some x \<and> least \<le> x)"
  by (auto simp: score_blockers_def not_less split: option.splits)

lemma confirmed_observation_ready_plan:
  assumes "confirmed_observation_ready ob"
  shows "ob_valid_trade_idea ob" "status_key (ob_direction ob) \<in> {''long'', ''short''}"
    "decimal_or_none (ob_entry_low ob) \<noteq> None" "decimal_or_none (ob_entry_high ob) \<noteq> None"
    "decimal_or_none (ob_stop_loss ob) \<noteq> None" "py_text (ob_invalidation_reason ob) \<noteq> NA"
    "\<exists>x. decimal_or_none (ob_rr ob) = Some x \<and> 3 \<le> x"
    "ob_required_data_missing ob = []" "ob_required_data_unverified ob = []" "\<not> ob_data_health_failed ob"
  using assms by (auto simp: confirmed_observation_ready_def confirmed_observation_blockers_def Let_def CONFIRMED_MIN_RR_def)

text \<open>
  C14. Confirmation gate. A stored record becomes \<open>CONFIRMED\<close> only on an observation with no confirmation
  blocker: a trade idea with a side, entry zone, stop and invalidation, a reward-to-risk ratio of at
  least 3, and no missing data; and only when the confirmation count has reached the required number
  of cycles, which is at least one.
\<close>

theorem confirmed_only_through_gate:
  assumes "evaluate_lifecycle_transition sha256 (Some r) ob a = Inr res" and "res_record res = Some r'"
    and "current_state r \<noteq> CONFIRMED" and "current_state r' = CONFIRMED"
  shows "let eo = effective_observation r ob in
     confirmed_observation_ready eo \<and> ob_valid_trade_idea eo
     \<and> status_key (ob_direction eo) \<in> {''long'', ''short''}
     \<and> decimal_or_none (ob_entry_low eo) \<noteq> None \<and> decimal_or_none (ob_entry_high eo) \<noteq> None
     \<and> decimal_or_none (ob_stop_loss eo) \<noteq> None \<and> py_text (ob_invalidation_reason eo) \<noteq> NA
     \<and> (\<exists>x. decimal_or_none (ob_rr eo) = Some x \<and> 3 \<le> x)
     \<and> ob_required_data_missing eo = [] \<and> ob_required_data_unverified eo = [] \<and> \<not> ob_data_health_failed eo
     \<and> 1 \<le> required_confirmation_cycles r' \<and> required_confirmation_cycles r' \<le> confirmation_count r'"
  using evaluate_confirming [OF assms] confirmed_observation_ready_plan [of "effective_observation r ob"]
    required_cycles_positive [of a]
  by (simp add: confirming_scan_def Let_def)

theorem confirmed_only_through_gate_witness:
  "\<exists>res r'. evaluate_lifecycle_transition sample_digest (Some sample_record) sample_observation sample_args = Inr res
     \<and> res_record res = Some r' \<and> current_state r' = CONFIRMED \<and> current_state sample_record \<noteq> CONFIRMED
     \<and> confirmed_observation_ready (effective_observation sample_record sample_observation)"
proof -
  have "current_state sample_record \<noteq> CONFIRMED" by (simp add: sample_record_def)
  with sample_confirmed confirmed_only_through_gate show ?thesis
    by (elim result_holdsE) (fastforce simp: Let_def)
qed

definition post_confirmation :: "SetupLifecycleState \<Rightarrow> bool" where
  "post_confirmation st \<longleftrightarrow> st \<in> {CONFIRMED, EXECUTING, MANAGING, TP_HIT, SL_HIT, BREAKEVEN}"

lemma post_confirmation_entry:
  "lifecycle_edge s t \<Longrightarrow> \<not> post_confirmation s \<Longrightarrow> post_confirmation t \<Longrightarrow> t = CONFIRMED"
  by (cases s) (auto simp: post_confirmation_def)



section \<open>Counting confirmations\<close>

lemma next_count_bound:
  "0 \<le> confirmation_count r \<Longrightarrow>
   0 \<le> next_confirmation_count r ob c n \<and> next_confirmation_count r ob c n \<le> confirmation_count r + 1"
  by (auto simp: next_confirmation_count_def)

lemma scan_count_bound:
  assumes "0 \<le> confirmation_count r"
  shows "0 \<le> confirmation_count (lifecycle_scan sha256 r i) \<and> confirmation_count (lifecycle_scan sha256 r i) \<le> confirmation_count r + 1"
proof (cases rule: lifecycle_scan_cases [of sha256 r i])
  case (stored res)
  from stored(1) show ?thesis
  proof (cases rule: lifecycle_step_cases)
    case (kept q)
    with stored assms show ?thesis by (simp add: carries_def)
  next
    case (stepped q eo)
    with stored assms show ?thesis
      by (simp add: carries_def updated_record_def record_with_observation_scores next_count_bound)
  qed
qed (use assms in simp)

lemma run_count_bound:
  "0 \<le> confirmation_count r \<Longrightarrow>
   confirmation_count (run (lifecycle_scan sha256) r scans) \<le> confirmation_count r + int (length scans)"
proof (induction scans arbitrary: r)
  case (Cons i scans)
  note bound = scan_count_bound [OF Cons.prems, of sha256 i]
  from bound Cons.IH [OF conjunct1 [OF bound]] show ?case by simp
qed simp



section \<open>The plan lock\<close>

text \<open>A stored value is kept when it is present; a missing one is filled.\<close>

definition value_locked :: "string \<Rightarrow> string \<Rightarrow> bool" where
  "value_locked stored new \<longleftrightarrow> (py_text stored \<noteq> NA \<longrightarrow> py_text new = py_text stored)"

lemma value_locked_refl [simp]: "value_locked v v"
  by (simp add: value_locked_def)

lemma updated_plan_locked:
  assumes "current_state r \<in> set PLAN_LOCK_STATES"
  shows "list_all2 value_locked (plan_values r) (plan_values (updated_record r ob a))"
    and "setup_identity (updated_record r ob a) = setup_identity r"
  using assms
  by (simp_all add: plan_values_def updated_record_def record_with_observation_plan plan_or_observed_value_def value_locked_def)

text \<open>
  C10. Plan lock. A step of a record in a plan-locked state, whatever is observed, keeps every price of
  the plan that is present (entry zone, stop, targets, reward-to-risk ratio) and the setup identity.
\<close>

theorem locked_plan_never_rewritten:
  assumes "evaluate_lifecycle_transition sha256 (Some r) ob a = Inr res" and "res_record res = Some r'"
    and "current_state r \<in> set PLAN_LOCK_STATES"
  shows "list_all2 value_locked (plan_values r) (plan_values r') \<and> setup_identity r' = setup_identity r"
  using assms(1)
proof (cases rule: lifecycle_step_cases)
  case (kept q)
  with assms(2) show ?thesis by (simp add: carries_def list_all2_same)
next
  case (stepped q eo)
  with assms(2) updated_plan_locked [OF assms(3)] show ?thesis by (simp add: carries_def)
qed

theorem locked_plan_never_rewritten_witness:
  "\<exists>res r'. evaluate_lifecycle_transition sample_digest (Some sample_record) sample_observation sample_args = Inr res
     \<and> res_record res = Some r' \<and> current_state sample_record \<in> set PLAN_LOCK_STATES
     \<and> list_all2 value_locked (plan_values sample_record) (plan_values r') \<and> setup_identity r' = setup_identity sample_record"
proof -
  have "current_state sample_record \<in> set PLAN_LOCK_STATES" by (simp add: sample_record_def PLAN_LOCK_STATES_def)
  with sample_confirmed locked_plan_never_rewritten show ?thesis by (elim result_holdsE) blast
qed

section \<open>The geometry of active records\<close>

lemma py_text_eq_NA: "py_text v = NA \<longleftrightarrow> py_strip v = [] \<or> py_strip v = NA"
  by (auto simp: py_text_def Let_def py_strip_def strip_by_def)

lemma policy_required_decimal_text:
  assumes "policy_required_decimal v name = Inr x"
  shows "py_text v \<noteq> NA \<and> policy_required_decimal (py_text v) name = Inr x"
proof -
  have "decimal_of_string v = Some (Finite x)" "v \<noteq> []"
    using assms by (auto simp: policy_required_decimal_def split: if_splits option.splits py_decimal.splits)
  moreover have "decimal_of_string v \<noteq> Some (Finite x)" if "py_strip v = [] \<or> py_strip v = NA"
  proof -
    have "decimal_of_string [] = None" "decimal_of_string NA = None" by code_simp+
    moreover have "decimal_of_string (py_strip v) = decimal_of_string v" by (simp add: decimal_of_string_def)
    ultimately show ?thesis using that by auto
  qed
  ultimately have "py_text v \<noteq> NA" "py_text v = py_strip v" "decimal_of_string (py_strip v) = Some (Finite x)" "py_strip v \<noteq> []"
    by (auto simp: py_text_eq_NA) (auto simp: py_text_def Let_def decimal_of_string_def)
  then show ?thesis by (auto simp: policy_required_decimal_def)
qed

lemma updated_invalidation:
  assumes "current_state r \<in> set PLAN_LOCK_STATES" and "policy_stored_invalidation r \<noteq> NA"
  shows "policy_stored_invalidation (updated_record r ob a) \<noteq> NA"
proof -
  let ?u = "updated_record r ob a"
  have observed: "py_text (ob_invalidation_reason ob) \<noteq> NA" if "valid_confirmed_observation ob"
    using that confirmed_observation_ready_plan(6) by (simp add: valid_confirmed_observation_def)
  have "py_text (invalidation_logic ?u) \<noteq> NA" if "py_text (invalidation_logic r) \<noteq> NA"
    using that assms(1) observed
    by (simp add: updated_record_def record_with_observation_invalidation confirmed_invalidation_logic_def plan_or_observed_value_def)
  moreover have "py_text (invalidation_reason ?u) \<noteq> NA" if "py_text (invalidation_reason r) \<noteq> NA"
    using that assms(1) observed
    by (simp add: updated_record_def record_with_observation_invalidation confirmed_invalidation_value_def plan_or_observed_value_def)
  ultimately show ?thesis using assms(2) by (auto simp: policy_stored_invalidation_def split: if_splits)
qed

lemma updated_geometry:
  assumes "current_state r \<in> set PLAN_LOCK_STATES" and "stored_plan_geometry r = Inr g"
  shows "stored_plan_geometry (updated_record r ob a) = Inr g"
proof -
  let ?u = "updated_record r ob a"
  have dir: "direction ?u = direction r" by (simp add: updated_record_def)
  have lock: "policy_required_decimal (plan_or_observed_value r v w) name = Inr x" if "policy_required_decimal v name = Inr x" for v w name x
    using policy_required_decimal_text [OF that] assms(1) by (simp add: plan_or_observed_value_def)
  show ?thesis
    using assms(2) updated_invalidation [OF assms(1), of ob a] unfolding stored_plan_geometry_iff dir
    by (simp add: updated_record_def record_with_observation_plan lock)
qed

lemma active_locked: "set ACTIVE_LIFECYCLE_MONITORING_STATES = insert TRIGGERED (set PLAN_LOCK_STATES)"
  by (auto simp: ACTIVE_LIFECYCLE_MONITORING_STATES_def PLAN_LOCK_STATES_def)

lemma active_not_final: "st \<in> set ACTIVE_LIFECYCLE_MONITORING_STATES \<Longrightarrow> st \<notin> {REJECTED, EXPIRED}"
  by (auto simp: ACTIVE_LIFECYCLE_MONITORING_STATES_def)

lemma valid_geometry_iff: "has_valid_stored_plan_geometry r \<longleftrightarrow> (\<exists>g. stored_plan_geometry r = Inr g \<and> geometry_ordered g)"
  using stored_plan_geometry_ordered
  by (auto simp: has_valid_stored_plan_geometry_def stored_plan_geometry_failure_def split: sum.splits)

lemma valid_geometry_cong:
  "stored_plan_geometry r = stored_plan_geometry q \<Longrightarrow> has_valid_stored_plan_geometry r = has_valid_stored_plan_geometry q"
  by (simp add: has_valid_stored_plan_geometry_def stored_plan_geometry_failure_def)

lemma initial_active_geometry:
  assumes "evaluate_initial sha256 ob a = Inr res" and "res_record res = Some r'"
    and "current_state r' \<in> set ACTIVE_LIFECYCLE_MONITORING_STATES"
  shows "has_valid_stored_plan_geometry r'"
proof -
  obtain c where "r' = latch_economic_identities sha256 (reject_invalid_geometry c) (Some (ob_instrument_venue ob))
      (current_state (reject_invalid_geometry c) \<in> set PLAN_LOCK_STATES) None VNone"
    using assms(1,2) by (auto simp: evaluate_initial_def Let_def with_economic_identities_def)
  then have same: "current_state r' = current_state (reject_invalid_geometry c)"
      "stored_plan_geometry r' = stored_plan_geometry (reject_invalid_geometry c)" by simp_all
  have "stored_plan_geometry_failure c = None"
    using assms(3) same(1) active_not_final
    by (auto simp: reject_invalid_geometry_def split: option.splits if_splits)
  then have "reject_invalid_geometry c = c" by (simp add: reject_invalid_geometry_def)
  with same(2) \<open>stored_plan_geometry_failure c = None\<close> show ?thesis
    by (simp add: has_valid_stored_plan_geometry_def stored_plan_geometry_failure_def)
qed

lemma existing_active_geometry:
  assumes "evaluate_lifecycle_transition sha256 (Some r) ob a = Inr res" and "res_record res = Some r'"
    and active: "current_state r' \<in> set ACTIVE_LIFECYCLE_MONITORING_STATES"
    and valid: "current_state r \<in> set ACTIVE_LIFECYCLE_MONITORING_STATES \<Longrightarrow> has_valid_stored_plan_geometry r"
    and trig: "\<not> (current_state r = TRIGGERED \<and> current_state r' = TRIGGERED)"
  shows "has_valid_stored_plan_geometry r'"
  using assms(1)
proof (cases rule: lifecycle_step_cases)
  case (kept q)
  with assms(2) have "stored_plan_geometry r' = stored_plan_geometry r" by (auto intro: carries_geometry)
  with kept assms show ?thesis by (auto dest: valid_geometry_cong)
next
  case (stepped q eo)
  let ?u = "updated_record r eo a"
  have q: "q = r'" using stepped(1) assms(2) by simp
  have ne: "current_state r' \<noteq> EXPIRED" "current_state r' \<noteq> REJECTED" using active_not_final [OF active] by auto
  have geo: "stored_plan_geometry r' = stored_plan_geometry ?u" using stepped(5,6) q ne by (auto intro: carries_geometry)
  have "has_valid_stored_plan_geometry ?u"
  proof (cases "current_state r' = current_state r")
    case True
    then have "current_state r \<in> set PLAN_LOCK_STATES" using active trig active_locked by auto
    moreover have "has_valid_stored_plan_geometry r" using True active valid by simp
    ultimately show ?thesis using updated_geometry by (auto simp: valid_geometry_iff)
  next
    case False
    then have "stepped_to r eo a (current_state r')" using stepped(7) q by simp
    then show ?thesis using ne active by (auto simp: stepped_to_def)
  qed
  with geo show ?thesis by (auto dest: valid_geometry_cong)
qed


lemma sample_record_valid: "has_valid_stored_plan_geometry sample_record"
  by code_simp


text \<open>A record that is active but whose stored plan is not well-formed is quarantined.\<close>

definition quarantined :: "SetupLifecycleState \<Rightarrow> string list \<Rightarrow> SetupLifecycleRecord \<Rightarrow> bool" where
  "quarantined st plan r \<longleftrightarrow> current_state r = st \<and> plan_values r = plan
     \<and> st \<in> set ACTIVE_LIFECYCLE_MONITORING_STATES \<and> \<not> has_valid_stored_plan_geometry r"

lemma scan_quarantined:
  assumes "quarantined st plan r"
  shows "quarantined st plan (lifecycle_scan sha256 r i)"
proof (cases rule: lifecycle_scan_cases [of sha256 r i])
  case (stored res)
  from stored(1) show ?thesis
  proof (cases rule: lifecycle_step_cases)
    case (kept q)
    then have "stored_plan_geometry q = stored_plan_geometry r" by (auto intro: carries_geometry)
    then have "has_valid_stored_plan_geometry q = has_valid_stored_plan_geometry r" by (rule valid_geometry_cong)
    moreover have "q = lifecycle_scan sha256 r i" using kept(1) stored(2) by simp
    ultimately show ?thesis using assms kept(2,3) by (simp add: quarantined_def carries_def)
  qed (use assms in \<open>auto simp: quarantined_def\<close>)
qed (use assms in simp)

interpretation quarantine: step_machine "lifecycle_scan sha256" "\<lambda>_. True" "quarantined st plan" for sha256 st plan
  by unfold_locales (rule scan_quarantined)

text \<open>
  C24. Quarantine. An active record whose stored plan is malformed is never moved and never given another
  plan by any sequence of scans: nothing is executed on it.
\<close>

theorem malformed_plan_is_quarantined:
  assumes "current_state r \<in> set ACTIVE_LIFECYCLE_MONITORING_STATES" and "\<not> has_valid_stored_plan_geometry r"
  shows "current_state (run (lifecycle_scan sha256) r scans) = current_state r
     \<and> plan_values (run (lifecycle_scan sha256) r scans) = plan_values r"
  using quarantine.run_inv [of "current_state r" "plan_values r" r scans sha256] assms
  by (simp add: quarantined_def list.pred_True)

definition malformed_record :: SetupLifecycleRecord where
  "malformed_record = sample_record\<lparr>tp1 := NA\<rparr>"

theorem malformed_plan_is_quarantined_witness:
  "current_state malformed_record \<in> set ACTIVE_LIFECYCLE_MONITORING_STATES \<and> \<not> has_valid_stored_plan_geometry malformed_record
   \<and> current_state (run (lifecycle_scan sample_digest) malformed_record [(sample_observation, sample_args)]) = A_GRADE_WATCH"
proof -
  have h: "current_state malformed_record = A_GRADE_WATCH" "current_state malformed_record \<in> set ACTIVE_LIFECYCLE_MONITORING_STATES"
      "\<not> has_valid_stored_plan_geometry malformed_record" by code_simp+
  with malformed_plan_is_quarantined [of malformed_record sample_digest "[(sample_observation, sample_args)]"] show ?thesis by simp
qed

end
