(* ===== verification/Lifecycle_Safety.thy ===== *)
theory Lifecycle_Safety
  imports Lifecycle_Runs
begin

text \<open>
  Invariants of lifecycle runs: the validity of the stored record, the latched economic identities,
  the states that closed-candle outcomes own, the exits of a confirmed record, the decayed quality
  grade and the cooldown.
\<close>

section \<open>Validity of the stored record\<close>

lemma record_valid_updated: "record_valid r \<Longrightarrow> record_valid (updated_record r ob a)"
  by (simp add: record_valid_def updated_record_def record_with_observation_scores next_count_bound
      required_cycles_positive)

lemma evaluate_record_valid:
  assumes "evaluate_lifecycle_transition sha256 (Some r) ob a = Inr res" "res_record res = Some r'" "record_valid r"
  shows "record_valid r'"
  using assms(1)
proof (cases rule: lifecycle_step_cases)
  case (kept q)
  with assms show ?thesis using record_valid_carries by simp
next
  case (stepped q eo)
  with assms record_valid_updated [OF assms(3), of eo a] show ?thesis using record_valid_carries by simp
qed

lemma initial_record_valid:
  assumes "evaluate_initial sha256 ob a = Inr res" "res_record res = Some r'"
  shows "record_valid r'"
proof -
  obtain c where c: "construct_record (initial_record ob a) = Inr c"
    and r': "r' = latch_economic_identities sha256 (reject_invalid_geometry c) (Some (ob_instrument_venue ob))
      (current_state (reject_invalid_geometry c) \<in> set PLAN_LOCK_STATES) None VNone"
    using assms by (auto simp: evaluate_initial_def Let_def with_economic_identities_def)
  have "carries c (reject_invalid_geometry c)"
    by (auto simp: reject_invalid_geometry_def carries_def plan_values_def split: option.splits)
  then have "carries c r'" using carries_latch carries_trans r' by blast
  then show ?thesis using record_valid_construct [OF c] record_valid_carries by blast
qed

lemma scan_record_valid: "record_valid r \<Longrightarrow> record_valid (lifecycle_scan sha256 r i)"
  by (cases rule: lifecycle_scan_cases [of sha256 r i]) (auto intro: evaluate_record_valid)

interpretation valid_records: step_machine "lifecycle_scan sha256" "\<lambda>_. True" record_valid for sha256
  by unfold_locales (rule scan_record_valid)

text \<open>A blank symbol is the only obstacle to the first evaluation of a setup.\<close>

lemma bounded_score_bounds [simp]: "0 \<le> bounded_score (Some v) d" "bounded_score (Some v) d \<le> 100"
  by (simp_all add: bounded_score_def)

lemma initial_count_nonneg: "0 \<le> snd (initial_lifecycle_state ob n)"
  by (simp add: initial_lifecycle_state_def Let_def)

lemma initial_record_fields:
  "symbol (initial_record ob a) = ob_symbol ob"
  "score_in_range (readiness_score (initial_record ob a))" "score_in_range (quality_score (initial_record ob a))"
  "confirmation_count (initial_record ob a) = snd (initial_lifecycle_state ob (ea_required_cycles a))"
  "required_confirmation_cycles (initial_record ob a) = ea_required_cycles a"
  "current_state (initial_record ob a) = fst (initial_lifecycle_state ob (ea_required_cycles a))"
  "decay_count (initial_record ob a) = 0"
  "symbol_health_penalty_cycles (initial_record ob a) = max 0 (ea_symbol_health_penalty_cycles a)"
  by (simp_all add: initial_record_def Let_def split_beta)

lemma construct_record_ok:
  assumes "normalize_symbol (symbol r) = Inr s"
    and "score_in_range (readiness_score r)" "score_in_range (quality_score r)" "0 \<le> confirmation_count r"
      "1 \<le> required_confirmation_cycles r" "0 \<le> decay_count r" "0 \<le> symbol_health_penalty_cycles r"
  obtains c where "construct_record r = Inr c"
  using assms by (auto simp: construct_record_def)

lemma construct_event_ok:
  assumes "normalize_symbol (ev_symbol e) = Inr s" "score_in_range (ev_readiness_score e)" "score_in_range (ev_quality_score e)"
  shows "\<exists>c. construct_event e = Inr c"
  using assms by (auto simp: construct_event_def)

lemma first_evaluation_returns:
  assumes "py_strip (ob_symbol ob) \<noteq> []"
  shows "\<exists>res. evaluate_lifecycle_transition sha256 None ob a = Inr res \<and> res_record res \<noteq> None"
proof -
  have sy: "normalize_symbol (ob_symbol ob) = Inr (py_upper (py_strip (ob_symbol ob)))"
    using assms by (simp add: normalize_symbol_def Let_def py_upper_def)
  then obtain c where c: "construct_record (initial_record ob a) = Inr c"
    by (rule construct_record_ok [of "initial_record ob a", unfolded initial_record_fields(1)])
       (simp_all add: initial_record_fields initial_count_nonneg required_cycles_positive)
  define n where "n = reject_invalid_geometry c"
  have "record_valid n"
    using record_valid_construct [OF c]
    by (auto simp: n_def reject_invalid_geometry_def record_valid_def split: option.splits)
  then have "score_in_range (readiness_score n)" "score_in_range (quality_score n)" by (simp_all add: record_valid_def)
  with sy obtain e where "construct_event \<lparr>ev_lifecycle_id = ea_lifecycle_id a, ev_timestamp = ea_timestamp a, ev_symbol = ob_symbol ob,
          ev_from_state = None, ev_to_state = current_state n, ev_reason = reason_for_state (current_state n) ob True,
          ev_scan_run_id = ea_scan_run_id a, ev_readiness_score = readiness_score n,
          ev_quality_score = quality_score n, ev_failed_gate = failed_gate n,
          ev_notes = transition_notes (reason_for_state (current_state n) ob True) ob\<rparr> = Inr e"
    using construct_event_ok by fastforce
  with c show ?thesis
    by (simp add: evaluate_lifecycle_transition_def evaluate_initial_def Let_def n_def with_economic_identities_def)
qed

text \<open>
  C29. The first evaluation of a setup returns a record exactly when the observed symbol is not blank; a
  blank symbol is a validation error.
\<close>

theorem first_evaluation_returns_iff:
  "(\<exists>res. evaluate_lifecycle_transition sha256 None ob a = Inr res \<and> res_record res \<noteq> None)
     \<longleftrightarrow> py_strip (ob_symbol ob) \<noteq> []"
proof
  assume "\<exists>res. evaluate_lifecycle_transition sha256 None ob a = Inr res \<and> res_record res \<noteq> None"
  then obtain c where "construct_record (initial_record ob a) = Inr c"
    by (auto simp: evaluate_lifecycle_transition_def evaluate_initial_def)
  then show "py_strip (ob_symbol ob) \<noteq> []"
    by (auto simp: construct_record_def initial_record_fields normalize_symbol_def Let_def py_upper_def split: if_splits)
qed (rule first_evaluation_returns)

text \<open>
  C20. Validity. The record that the first evaluation of a setup creates, and every record that scans make
  of it, satisfies the model's constraints: scores between 0 and 100, counts that are not negative, at
  least one required cycle, a normalized symbol.
\<close>

theorem records_stay_valid:
  assumes "evaluate_lifecycle_transition sha256 None ob a = Inr res" and "res_record res = Some r"
  shows "record_valid (run (lifecycle_scan sha256) r scans)"
  using valid_records.run_inv [of r scans sha256] initial_record_valid [of sha256 ob a res r] assms
  by (simp add: evaluate_lifecycle_transition_def list.pred_True)

theorem records_stay_valid_witness:
  "\<exists>res r. evaluate_lifecycle_transition sample_digest None sample_observation sample_args = Inr res
     \<and> res_record res = Some r
     \<and> record_valid (run (lifecycle_scan sample_digest) r [(sample_observation, sample_args)])"
proof -
  have "py_strip (ob_symbol sample_observation) \<noteq> []" by code_simp
  then show ?thesis
    using first_evaluation_returns [of sample_observation sample_digest sample_args] records_stay_valid by blast
qed

text \<open>A cooldown that starts now ends within the range of \<open>datetime\<close>.\<close>

definition cooldown_representable :: "string \<Rightarrow> bool" where
  "cooldown_representable t =
     (case parse_timestamp (Some t) of
        None \<Rightarrow> True
      | Some d \<Rightarrow> dt_add_us d (DEFAULT_COOLDOWN_HOURS * 3600000000) \<noteq> None)"

lemma cooldown_until_returns:
  assumes "cooldown_representable t"
  shows "\<exists>c. cooldown_until_of r st t = Inr c"
  using assms by (auto simp: cooldown_representable_def cooldown_until_of_def split: option.splits)

lemma transition_record_returns:
  assumes "normalize_symbol (symbol r) = Inr s" and "cooldown_representable (now_or now clock)"
  shows "\<exists>res. transition_record r st why now clock scan (Some x) (Some y) gate msg = Inr res"
proof -
  have "\<exists>e. construct_event
          \<lparr>ev_lifecycle_id = lifecycle_id r, ev_timestamp = now_or now clock, ev_symbol = symbol r,
           ev_from_state = Some (current_state r), ev_to_state = st, ev_reason = why,
           ev_scan_run_id = scan, ev_readiness_score = bounded_score (Some x) (readiness_score r),
           ev_quality_score = bounded_score (Some y) (quality_score r), ev_failed_gate = transition_failed_gate r st gate,
           ev_notes = msg\<rparr> = Inr e"
    using assms(1) by (intro construct_event_ok) simp_all
  with cooldown_until_returns [OF assms(2), of r st] show ?thesis
    by (auto simp: transition_record_def Let_def)
qed

lemma now_or_timestamp [simp]: "now_or (Some (ea_timestamp a)) (ea_clock a) = ea_timestamp a"
  by (auto simp: ea_timestamp_def now_or_def split: option.splits)

lemma evaluation_returns:
  assumes "record_valid r" and "cooldown_representable (ea_timestamp a)"
  shows "\<exists>res. evaluate_lifecycle_transition sha256 (Some r) ob a = Inr res"
proof -
  have sy: "normalize_symbol (symbol r) = Inr (symbol r)" using assms(1) by (simp add: record_valid_def)
  have kept: "\<exists>res. transition_record r (current_state r) R_NO_CHANGE (Some (ea_timestamp a)) (ea_clock a) (ea_scan_run_id a)
      (Some (readiness_score r)) (Some (quality_score r)) (Some (failed_gate r)) msg = Inr res" for msg
    using transition_record_returns [OF sy] assms(2) by simp
  have step: "\<exists>res. record_step r ob' a = Inr res" for ob'
  proof -
    have "carries (updated_record r ob' a) (sp_record (plan_step r ob' a))" by (rule plan_step_target) simp
    then have "symbol (sp_record (plan_step r ob' a)) = symbol r" by (simp add: carries_def updated_record_def)
    then show ?thesis using transition_record_returns assms(2) sy by (simp add: record_step_def Let_def)
  qed
  have "\<exists>x. evaluate_existing r ob a = Inr x"
    using kept [of "''Canonical terminal lifecycle state is immutable.''"] step [of "effective_observation r ob"]
    by (auto simp: evaluate_existing_def Let_def split: option.splits)
  then show ?thesis by (auto simp: evaluate_lifecycle_transition_def)
qed

lemma sample_time:
  "parse_timestamp (Some ''2024-05-01T10:00:00+00:00'') = Some \<lparr>dt_local = 63850154400000000, dt_offset = Some 0\<rparr>"
  by (simp add: parse_timestamp_def replace_Z_def dt_assume_utc_def us_per_day_def fromisoformat_def is_tz_start_def
      hms_us_def py_isdigit_def digits_val_def digit_val_def valid_ymd_def ymd2ord_def days_before_year_def
      days_in_month_def is_leap_def days_before_month_vals)

lemma sample_timestamp: "ea_timestamp sample_args = ''2024-05-01T10:00:00+00:00''"
  by (simp add: sample_args_def ea_timestamp_def now_or_def)

lemma sample_representable: "cooldown_representable (ea_timestamp sample_args)"
  by (simp add: cooldown_representable_def sample_timestamp sample_time dt_add_us_def DEFAULT_COOLDOWN_HOURS_def
      dt_max_def us_per_day_def days_before_year_def)

text \<open>
  C19. An evaluation of a valid stored record always returns a result, unless the observation comes so
  close to the last representable instant that a cooldown could not end.
\<close>

theorem evaluation_of_valid_record_returns:
  assumes "record_valid r" and "cooldown_representable (ea_timestamp a)"
  shows "\<exists>res. evaluate_lifecycle_transition sha256 (Some r) ob a = Inr res"
  using assms by (rule evaluation_returns)

theorem evaluation_of_valid_record_returns_witness:
  "record_valid sample_record \<and> cooldown_representable (ea_timestamp sample_args)
   \<and> (\<exists>res. evaluate_lifecycle_transition sample_digest (Some sample_record) sample_observation sample_args = Inr res)"
proof -
  have "record_valid sample_record" by code_simp
  then show ?thesis using sample_representable evaluation_of_valid_record_returns by blast
qed

section \<open>Closing and cooling down\<close>

text \<open>The states a record leaves for the cooldown; closed-candle outcomes own the first three.\<close>

definition closing :: "SetupLifecycleRecord \<Rightarrow> LifecycleObservation \<Rightarrow> bool" where
  "closing r ob \<longleftrightarrow> current_state r \<in> {INVALIDATED, EXPIRED}
     \<or> current_state r \<in> {TP_HIT, SL_HIT, BREAKEVEN} \<and> \<not> ob_closed_candle_outcomes_managed ob"

lemma next_closing:
  assumes "current_state r \<in> {TP_HIT, SL_HIT, BREAKEVEN, INVALIDATED, EXPIRED}"
  shows "next_state_for_observation r ob t = COOLDOWN"
  using assms by (cases "current_state r") (simp_all add: next_state_for_observation_def)

lemma closing_next:
  assumes "current_state r \<in> {TP_HIT, SL_HIT, BREAKEVEN, INVALIDATED, EXPIRED}"
  shows "sp_next_state (plan_step r ob a) = COOLDOWN"
proof -
  define p where "p = plan_step r ob a"
  have nxt: "next_state_for_observation (updated_record r ob a) ob (ea_timestamp a) = COOLDOWN"
    by (rule next_closing) (use assms in \<open>simp add: updated_record_def\<close>)
  obtain st g where dec: "apply_decay_if_needed r g ob st = (sp_next_state p, sp_record p, sp_decay_reason p)"
    and "st = COOLDOWN"
    by (rule plan_step_cases [OF p_def [symmetric]])
       (auto simp: nxt ACTIVE_LIFECYCLE_MONITORING_STATES_def)
  from dec \<open>st = COOLDOWN\<close> show ?thesis unfolding p_def [symmetric]
    by (cases rule: apply_decay_cases) (auto simp: DECAYABLE_STATES_def)
qed

lemma closing_evaluates:
  assumes "closing r ob" and "record_valid r" and "cooldown_representable (ea_timestamp a)"
  obtains res r' where "evaluate_lifecycle_transition sha256 (Some r) ob a = Inr res" "res_record res = Some r'"
    "current_state r' = COOLDOWN"
proof -
  have st: "current_state r \<in> {TP_HIT, SL_HIT, BREAKEVEN, INVALIDATED, EXPIRED}" using assms(1) by (auto simp: closing_def)
  define eo where "eo = effective_observation r ob"
  define p where "p = plan_step r eo a"
  have p: "sp_next_state p = COOLDOWN" "current_state (sp_record p) = current_state r"
    using closing_next [OF st] plan_step_target(2) by (simp_all add: p_def)
  have ex: "evaluate_existing r ob a = map_sum id (\<lambda>res. (res, eo)) (record_step r eo a)"
    using st assms(1)
    by (auto simp: evaluate_existing_def Let_def closing_def eo_def ACTIVE_LIFECYCLE_MONITORING_STATES_def
        FRESHNESS_OWNER_HOLD_STATES_def PLAN_LOCK_STATES_def)
  obtain res where ev: "evaluate_lifecycle_transition sha256 (Some r) ob a = Inr res"
    using evaluation_returns [OF assms(2,3)] by blast
  obtain res0 r0 where r0: "record_step r eo a = Inr res0" "res_record res0 = Some r0"
    and r': "res_record res = Some (latch_economic_identities sha256 r0 (Some (ob_instrument_venue eo))
       (current_state r0 \<in> set PLAN_LOCK_STATES) (Some r) VNone)"
    by (rule evaluate_Some_cases [OF ev]) (use ex in \<open>cases "record_step r eo a"; auto\<close>)
  from r0(1) obtain why gate msg where "transition_record (sp_record p) COOLDOWN why (Some (ea_timestamp a)) (ea_clock a)
      (ea_scan_run_id a) (Some (ob_readiness_score eo)) (Some (ob_quality_score eo)) gate msg = Inr res0"
    by (rule record_step_cases) (use p in \<open>auto simp: p_def\<close>)
  then have "current_state r0 = COOLDOWN"
    using st p r0(2)
    by (auto simp: transition_record_def Let_def transition_allowed_def entry_touch_transition_requires_touch_reason_def
        split: if_splits)
  with ev r' that show ?thesis by simp
qed

text \<open>
  A setup that is invalidated or expired, and one whose outcome is not owned by closed candles, enters
  its cooldown at the next scan.
\<close>

theorem closed_setup_cools_down:
  assumes "closing r ob" and "record_valid r" and "cooldown_representable (ea_timestamp a)"
  shows "current_state (lifecycle_scan sha256 r (ob, a)) = COOLDOWN"
  by (rule closing_evaluates [OF assms, of sha256]) (simp add: lifecycle_scan_def)

definition expired_record :: SetupLifecycleRecord where
  "expired_record = sample_record\<lparr>current_state := EXPIRED\<rparr>"

lemma expired_record_valid: "record_valid expired_record" "closing expired_record ob"
  by code_simp (simp add: closing_def expired_record_def)

theorem closed_setup_cools_down_witness:
  "closing expired_record sample_observation \<and> record_valid expired_record \<and> cooldown_representable (ea_timestamp sample_args)
   \<and> current_state (lifecycle_scan sample_digest expired_record (sample_observation, sample_args)) = COOLDOWN"
  using closed_setup_cools_down expired_record_valid sample_representable by blast

text \<open>A record in cooldown until an instant, and scans before it.\<close>

definition cooling_until :: "int \<Rightarrow> SetupLifecycleRecord \<Rightarrow> bool" where
  "cooling_until e r \<longleftrightarrow> current_state r = COOLDOWN
     \<and> (\<exists>c u. cooldown_until r = Some c \<and> parse_timestamp (Some c) = Some u \<and> dt_instant u = e)"

definition scan_before :: "int \<Rightarrow> scan_input \<Rightarrow> bool" where
  "scan_before e i =
     (case parse_timestamp (Some (ea_timestamp (snd i))) of None \<Rightarrow> True | Some t \<Rightarrow> dt_instant t < e)"

lemma next_cooling:
  assumes "current_state r = COOLDOWN" and "\<not> cooldown_expired (cooldown_until r) t"
  shows "next_state_for_observation r ob t = COOLDOWN"
  using assms by (simp add: next_state_for_observation_def)

lemma scan_cooling:
  assumes "cooling_until e r" and "scan_before e i"
  shows "cooling_until e (lifecycle_scan sha256 r i)"
proof (cases rule: lifecycle_scan_cases [of sha256 r i])
  case (stored res)
  obtain ob a where i: "i = (ob, a)" by (cases i)
  have cur: "current_state r = COOLDOWN" using assms(1) by (simp add: cooling_until_def)
  from stored(1) show ?thesis
  proof (cases rule: lifecycle_step_cases)
    case (kept q)
    with stored assms(1) show ?thesis by (simp add: cooling_until_def)
  next
    case (stepped q eo)
    let ?u = "updated_record r eo (snd i)"
    have q: "q = lifecycle_scan sha256 r i" using stepped(1) stored(2) by simp
    have "\<not> cooldown_expired (cooldown_until ?u) (ea_timestamp (snd i))"
      using assms by (auto simp: cooling_until_def scan_before_def cooldown_expired_def updated_record_def split: option.splits)
    then have "next_state_for_observation ?u eo (ea_timestamp (snd i)) = COOLDOWN"
      using cur by (intro next_cooling) (simp_all add: updated_record_def)
    then have "\<not> (stepped_to r eo (snd i) (current_state q) \<and> current_state q \<noteq> COOLDOWN
        \<and> current_state q \<in> set (ALLOWED_TRANSITIONS COOLDOWN))"
      using cur by (auto simp: stepped_to_def DECAYABLE_STATES_def)
    then have "current_state q = current_state r \<and> cooldown_until q = cooldown_until r"
      using stepped(7) cur by auto
    with q assms(1) show ?thesis by (simp add: cooling_until_def)
  qed
qed (use assms in simp)

interpretation cooldown: step_machine "lifecycle_scan sha256" "scan_before e" "cooling_until e" for sha256 e
  by unfold_locales (rule scan_cooling)

lemma parse_timestamp_offset:
  assumes "parse_timestamp (Some s) = Some t"
  obtains off where "dt_offset t = Some off" "\<bar>off\<bar> < us_per_day"
proof -
  obtain t0 where t0: "fromisoformat (replace_Z s) = Some t0" "t = dt_assume_utc t0"
    using assms by (auto simp: parse_timestamp_def split: if_splits)
  show ?thesis
  proof (cases "dt_offset t0")
    case None
    with t0 that [of 0] show ?thesis by (simp add: dt_assume_utc_def us_per_day_def)
  next
    case (Some off)
    with t0 that [of off] fromisoformat_offset [OF t0(1)] show ?thesis by (simp add: dt_assume_utc_def)
  qed
qed

text \<open>The end of the cooldown that starts at \<open>t\<close>: a day later, with the microseconds dropped.\<close>

definition cooldown_end :: "py_datetime \<Rightarrow> int" where
  "cooldown_end t = dt_instant t + 24 * 3600 * 1000000 - dt_local t mod 1000000"

lemma cooldown_entry:
  assumes "cooldown_until_of r COOLDOWN s = Inr c" and "parse_timestamp (Some s) = Some t"
  shows "\<exists>e u. c = Some e \<and> parse_timestamp (Some e) = Some u \<and> dt_instant u = cooldown_end t"
proof -
  obtain off where off: "dt_offset t = Some off" "\<bar>off\<bar> < us_per_day" using assms(2) by (rule parse_timestamp_offset)
  obtain u where u: "dt_add_us t (24 * 3600 * 1000000) = Some u" and c: "c = Some (isoformat (dt_drop_microseconds u))"
    using assms by (auto simp: cooldown_until_of_def DEFAULT_COOLDOWN_HOURS_def split: option.splits)
  have lu: "dt_local u = dt_local t + 24 * 3600 * 1000000" "dt_offset u = dt_offset t" "0 \<le> dt_local u" "dt_local u < dt_max"
    using u by (auto simp: dt_add_us_def Let_def split: if_splits)
  have m: "0 \<le> dt_local u mod 1000000" "dt_local u mod 1000000 \<le> dt_local u"
      "dt_local u mod 1000000 = dt_local t mod 1000000"
  proof -
    show "dt_local u mod 1000000 = dt_local t mod 1000000"
      unfolding lu(1) by (subst mod_add_eq [symmetric]) simp
  qed (use lu(3) zmod_le_nonneg_dividend in auto)
  let ?d = "dt_drop_microseconds u"
  have "valid_datetime ?d"
    using lu off m by (simp add: valid_datetime_def dt_drop_microseconds_def)
  from isoformat_reread [OF this] have "parse_timestamp (Some (isoformat ?d)) = Some (dt_assume_utc ?d)"
    by (simp add: parse_timestamp_def)
  moreover have "dt_instant (dt_assume_utc ?d) = cooldown_end t"
    using lu off m by (simp add: dt_assume_utc_def dt_drop_microseconds_def dt_instant_def cooldown_end_def)
  ultimately show ?thesis using c by blast
qed

lemma enters_cooling:
  assumes "evaluate_lifecycle_transition sha256 (Some r) ob a = Inr res" and "res_record res = Some r'"
    and "current_state r \<noteq> COOLDOWN" and "current_state r' = COOLDOWN"
    and "parse_timestamp (Some (ea_timestamp a)) = Some t"
  shows "cooling_until (cooldown_end t) r'"
  using assms(1)
proof (cases rule: lifecycle_step_cases)
  case (kept q)
  with assms show ?thesis by simp
next
  case (stepped q eo)
  have q: "q = r'" using stepped(1) assms(2) by simp
  from stepped(7) assms(3,4) q
  have "cooldown_until_of (sp_record (plan_step r eo a)) COOLDOWN (ea_timestamp a) = Inr (cooldown_until r')" by simp
  from cooldown_entry [OF this assms(5)] assms(4) show ?thesis by (auto simp: cooling_until_def)
qed

text \<open>
  C25. The cooldown lasts. A record that enters the cooldown on an observation at time \<open>t\<close> stays in it through any
  sequence of scans before \<open>t\<close> plus 24 hours (to the second): it is neither archived nor watched again earlier.
\<close>

theorem cooldown_lasts_a_day:
  assumes "evaluate_lifecycle_transition sha256 (Some r) ob a = Inr res" and "res_record res = Some r'"
    and "current_state r \<noteq> COOLDOWN" and "current_state r' = COOLDOWN"
    and "parse_timestamp (Some (ea_timestamp a)) = Some t"
    and "list_all (scan_before (cooldown_end t)) scans"
  shows "current_state (run (lifecycle_scan sha256) r' scans) = COOLDOWN"
  using cooldown.run_inv [OF enters_cooling [OF assms(1-5)] assms(6)] by (simp add: cooling_until_def)

theorem cooldown_lasts_a_day_witness:
  "\<exists>res r'. evaluate_lifecycle_transition sample_digest (Some expired_record) sample_observation sample_args = Inr res
     \<and> res_record res = Some r' \<and> current_state expired_record \<noteq> COOLDOWN \<and> current_state r' = COOLDOWN
     \<and> current_state (run (lifecycle_scan sample_digest) r' [(sample_observation, sample_args)]) = COOLDOWN"
proof -
  let ?t = "\<lparr>dt_local = 63850154400000000, dt_offset = Some 0\<rparr> :: py_datetime"
  obtain res r' where r': "evaluate_lifecycle_transition sample_digest (Some expired_record) sample_observation sample_args = Inr res"
      "res_record res = Some r'" "current_state r' = COOLDOWN"
    using closing_evaluates [OF expired_record_valid(2,1) sample_representable] .
  have pre: "current_state expired_record \<noteq> COOLDOWN" by (simp add: expired_record_def)
  have t: "parse_timestamp (Some (ea_timestamp sample_args)) = Some ?t" by (simp add: sample_timestamp sample_time)
  have "list_all (scan_before (cooldown_end ?t)) [(sample_observation, sample_args)]"
    by (simp add: scan_before_def t cooldown_end_def dt_instant_def)
  from cooldown_lasts_a_day [OF r'(1,2) pre r'(3) t this] r' pre show ?thesis by blast
qed

section \<open>Latched identities\<close>

lemma latch_keeps:
  assumes "ids_normal p"
  shows "setup_id p = Some i \<Longrightarrow> setup_id (latch_economic_identities sha256 r v l (Some p) t) = Some i"
    and "plan_version_id p = Some j \<Longrightarrow> plan_version_id (latch_economic_identities sha256 r v l (Some p) t) = Some j"
  using assms by (simp_all add: latched_setup_id latched_plan_version_id latch_prior_def ids_normal_def or_else_def)

definition latched_with :: "string option \<Rightarrow> string option \<Rightarrow> SetupLifecycleRecord \<Rightarrow> bool" where
  "latched_with i j r \<longleftrightarrow> ids_normal r \<and> (i \<noteq> None \<longrightarrow> setup_id r = i) \<and> (j \<noteq> None \<longrightarrow> plan_version_id r = j)"

lemma scan_latched:
  assumes "hex_digest sha256" and "latched_with i j r"
  shows "latched_with i j (lifecycle_scan sha256 r s)"
proof (cases rule: lifecycle_scan_cases [of sha256 r s])
  case (stored res)
  obtain r0 v l where l: "lifecycle_scan sha256 r s = latch_economic_identities sha256 r0 v l (Some r) VNone"
    by (rule evaluate_Some_cases [OF stored(1)]) (use stored(2) in auto)
  have "ids_normal r" using assms(2) by (simp add: latched_with_def)
  from latch_keeps [OF this] latch_ids_normal [OF assms(1)] assms(2) show ?thesis
    by (auto simp: latched_with_def l)
qed (use assms in simp)

interpretation identities: step_machine "lifecycle_scan sha256" "\<lambda>_. hex_digest sha256" "latched_with i j" for sha256 i j
  by unfold_locales (rule scan_latched)

text \<open>
  C26. Identities are latched. Once a record carries a setup identity or a plan version identity, no sequence of
  scans changes it, provided that the digests are the 64 hexadecimal digits that SHA-256 gives and that
  the stored identities are in the normal form in which they are stored.
\<close>

theorem latched_identities_never_change:
  assumes "hex_digest sha256" and "ids_normal r"
  shows "(setup_id r \<noteq> None \<longrightarrow> setup_id (run (lifecycle_scan sha256) r scans) = setup_id r)
     \<and> (plan_version_id r \<noteq> None \<longrightarrow> plan_version_id (run (lifecycle_scan sha256) r scans) = plan_version_id r)"
proof -
  have "latched_with (setup_id r) (plan_version_id r) r" using assms(2) by (simp add: latched_with_def)
  moreover have "list_all (\<lambda>_. hex_digest sha256) scans" using assms(1) by (simp add: list.pred_True)
  ultimately have "latched_with (setup_id r) (plan_version_id r) (run (lifecycle_scan sha256) r scans)"
    by (rule identities.run_inv)
  then show ?thesis by (simp add: latched_with_def)
qed

lemma sample_hex: "hex_digest sample_digest"
  by (simp add: hex_digest_def sample_digest_def hex_char_def list_all_iff)

theorem latched_identities_never_change_witness:
  "hex_digest sample_digest \<and> ids_normal sample_record
   \<and> setup_id (run (lifecycle_scan sample_digest) sample_record [(sample_observation, sample_args)]) = Some ''setup-1''
   \<and> plan_version_id (run (lifecycle_scan sample_digest) sample_record [(sample_observation, sample_args)]) = Some ''plan-1''"
proof -
  have n: "ids_normal sample_record" by code_simp
  have "setup_id sample_record = Some ''setup-1''" "plan_version_id sample_record = Some ''plan-1''"
    by (simp_all add: sample_record_def)
  then show ?thesis
    using latched_identities_never_change [OF sample_hex n, of "[(sample_observation, sample_args)]"] sample_hex n by simp
qed

section \<open>Outcomes owned by closed candles\<close>

definition settled :: "SetupLifecycleState \<Rightarrow> string list \<Rightarrow> SetupLifecycleRecord \<Rightarrow> bool" where
  "settled st plan r \<longleftrightarrow> st \<in> {TP_HIT, SL_HIT, BREAKEVEN} \<and> current_state r = st \<and> plan_values r = plan"

lemma scan_settled:
  assumes "settled st plan r" and "ob_closed_candle_outcomes_managed (fst i)"
  shows "settled st plan (lifecycle_scan sha256 r i)"
proof (cases rule: lifecycle_scan_cases [of sha256 r i])
  case (stored res)
  from stored(1) show ?thesis
  proof (cases rule: lifecycle_step_cases)
    case (kept q)
    then have "q = lifecycle_scan sha256 r i" using stored(2) by simp
    with kept(2,3) assms(1) show ?thesis by (simp add: settled_def carries_def)
  next
    case (stepped q eo)
    with assms show ?thesis by (auto simp: settled_def)
  qed
qed (use assms in simp)

interpretation outcomes_owned: step_machine "lifecycle_scan sha256" "\<lambda>i. ob_closed_candle_outcomes_managed (fst i)" "settled st plan"
  for sha256 st plan
  by unfold_locales (rule scan_settled)

text \<open>
  C27. Terminal outcomes are final. While closed-candle outcomes are managed, no sequence of scans moves a
  record out of \<open>TP_HIT\<close>, \<open>SL_HIT\<close> or \<open>BREAKEVEN\<close> or alters its plan.
\<close>

theorem terminal_outcome_is_final:
  assumes "current_state r \<in> {TP_HIT, SL_HIT, BREAKEVEN}"
    and "list_all (\<lambda>i. ob_closed_candle_outcomes_managed (fst i)) scans"
  shows "current_state (run (lifecycle_scan sha256) r scans) = current_state r
     \<and> plan_values (run (lifecycle_scan sha256) r scans) = plan_values r"
  using outcomes_owned.run_inv [of "current_state r" "plan_values r" r scans sha256] assms by (simp add: settled_def)

theorem terminal_outcome_is_final_witness:
  "let r = sample_record\<lparr>current_state := TP_HIT\<rparr>; i = (sample_observation\<lparr>ob_closed_candle_outcomes_managed := True\<rparr>, sample_args) in
   current_state (run (lifecycle_scan sample_digest) r [i, i]) = TP_HIT \<and> plan_values (run (lifecycle_scan sample_digest) r [i, i]) = plan_values r"
  using terminal_outcome_is_final [of "sample_record\<lparr>current_state := TP_HIT\<rparr>"
    "[(sample_observation\<lparr>ob_closed_candle_outcomes_managed := True\<rparr>, sample_args),
      (sample_observation\<lparr>ob_closed_candle_outcomes_managed := True\<rparr>, sample_args)]" sample_digest]
  by (simp add: Let_def)

section \<open>Exits of a confirmed record\<close>

lemma next_from_confirmed:
  assumes "current_state r = CONFIRMED" and "next_state_for_observation r ob t = st"
  shows "st = EXPIRED \<Longrightarrow> ob_expired ob"
    and "st = EXECUTING \<Longrightarrow> ob_entry_filled ob \<or> ob_valid_trade_idea ob \<and> \<not> ob_limit_fill_required ob"
    and "st = INVALIDATED \<Longrightarrow> ob_invalidated ob \<or> observed_state ob = REJECTED \<or> confirmed_observation_invalidates_active_signal ob"
    and "st \<in> {ACTIONABLE_A_GRADE, A_GRADE_WATCH} \<Longrightarrow> \<not> confirmed_observation_ready ob"
    and "st \<in> {CONFIRMED, EXPIRED, EXECUTING, INVALIDATED, ACTIONABLE_A_GRADE, A_GRADE_WATCH}"
  using assms
  by (auto simp: next_state_for_observation_def Let_def active_setup_invalidated_def confirmation_gated_target_def
      pre_confirmation_state_def split: if_splits)

text \<open>
  C28. How a confirmed record ends. A \<open>CONFIRMED\<close> record leaves its state only for cause: it expires only when
  the observation says so, never by confidence decay; it is executed only when the entry is filled or
  the idea needs no limit fill; it is invalidated only on an invalidation, a rejected observation or an
  active blocker; and it falls back to a watch state only when a confirmation blocker has appeared.
\<close>

theorem confirmed_exits_only_for_cause:
  assumes "evaluate_lifecycle_transition sha256 (Some r) ob a = Inr res" and "res_record res = Some r'"
    and "current_state r = CONFIRMED" and "current_state r' \<noteq> CONFIRMED"
  shows "let eo = effective_observation r ob in
     current_state r' = EXPIRED \<and> ob_expired eo
   \<or> current_state r' = EXECUTING \<and> (ob_entry_filled eo \<or> ob_valid_trade_idea eo \<and> \<not> ob_limit_fill_required eo)
   \<or> current_state r' = INVALIDATED
       \<and> (ob_invalidated eo \<or> observed_state eo = REJECTED \<or> confirmed_observation_invalidates_active_signal eo)
   \<or> current_state r' \<in> {ACTIONABLE_A_GRADE, A_GRADE_WATCH} \<and> \<not> confirmed_observation_ready eo"
  using assms(1)
proof (cases rule: lifecycle_step_cases)
  case (kept q)
  with assms show ?thesis by simp
next
  case (stepped q eo)
  let ?u = "updated_record r eo a"
  have q: "q = r'" using stepped(1) assms(2) by simp
  have cur: "current_state ?u = CONFIRMED" using assms(3) by (simp add: updated_record_def)
  have "next_state_for_observation ?u eo (ea_timestamp a) = current_state r'"
    using stepped(7) assms(3,4) q by (auto simp: stepped_to_def)
  from next_from_confirmed [OF cur this] assms(4) show ?thesis
    unfolding Let_def stepped(2) [symmetric] by auto
qed

definition invalidating_observation :: LifecycleObservation where
  "invalidating_observation = sample_observation\<lparr>ob_invalidated := True\<rparr>"

lemma sample_invalidated:
  "result_holds (evaluate_lifecycle_transition sample_digest (Some (sample_record\<lparr>current_state := CONFIRMED\<rparr>))
       invalidating_observation sample_args)
     (\<lambda>res r. current_state r = INVALIDATED)"
  by code_simp

theorem confirmed_exits_only_for_cause_witness:
  "\<exists>res r'. evaluate_lifecycle_transition sample_digest (Some (sample_record\<lparr>current_state := CONFIRMED\<rparr>))
         invalidating_observation sample_args = Inr res
     \<and> res_record res = Some r' \<and> current_state r' = INVALIDATED
     \<and> (let eo = effective_observation (sample_record\<lparr>current_state := CONFIRMED\<rparr>) invalidating_observation in
        ob_invalidated eo \<or> observed_state eo = REJECTED \<or> confirmed_observation_invalidates_active_signal eo)"
proof -
  obtain res r' where r': "evaluate_lifecycle_transition sample_digest (Some (sample_record\<lparr>current_state := CONFIRMED\<rparr>))
         invalidating_observation sample_args = Inr res" "res_record res = Some r'" "current_state r' = INVALIDATED"
    using sample_invalidated by (rule result_holdsE)
  with confirmed_exits_only_for_cause [OF r'(1,2)] show ?thesis by (auto simp: Let_def)
qed

section \<open>Two observations on the code\<close>

lemma strip_by_head:
  assumes "strip_by p s = c # cs"
  shows "\<not> p c"
proof -
  let ?t = "dropWhile p s"
  have "rev (dropWhile p (rev ?t)) @ rev (takeWhile p (rev ?t)) = ?t"
    by (metis rev_append rev_rev_ident takeWhile_dropWhile_id)
  then have "?t = c # cs @ rev (takeWhile p (rev ?t))" using assms by (simp add: strip_by_def)
  then show ?thesis by (metis hd_dropWhile list.distinct(1) list.sel(1))
qed

lemma grade_key_nonempty: "grade_key v \<noteq> []"
proof -
  obtain c cs where t: "py_text v = c # cs" by (cases "py_text v") simp_all
  then have "strip_by py_isspace (py_text v) = c # cs" using py_text_strip [of v] by (simp add: py_strip_def)
  then have "\<not> py_isspace c" by (rule strip_by_head)
  then have "\<not> py_isspace (lower_char c)" by simp
  then have "lower_char c \<noteq> CHR '' ''" by (auto simp: py_isspace_def)
  then show ?thesis by (simp add: grade_key_def t py_lower_def py_remove_char_def)
qed

text \<open>
  C30. The confirmation grade test looks at the grade only: the numeric quality score, which the test
  falls back to when the grade key is empty, never counts, since a missing grade has the key \<open>n/a\<close>.
\<close>

theorem quality_score_never_counts:
  "quality_at_least_b_plus grade score \<longleftrightarrow> grade_key grade \<in> set MIN_CONFIRMATION_GRADES"
  using grade_key_nonempty [of grade] by (simp add: quality_at_least_b_plus_def Let_def)

definition plan_dropping_observation :: LifecycleObservation where
  "plan_dropping_observation = (default_observation ''BTCUSDT'')\<lparr>ob_mode := ''intraday'', ob_direction := ''long'', ob_readiness_score := 60\<rparr>"

lemma triggered_loses_plan:
  "result_holds (evaluate_lifecycle_transition sample_digest (Some (sample_record\<lparr>current_state := TRIGGERED\<rparr>))
       plan_dropping_observation sample_args)
     (\<lambda>res r. current_state r = TRIGGERED \<and> \<not> has_valid_stored_plan_geometry r)"
  by code_simp

text \<open>
  C31. A triggered record is not protected. There is a \<open>TRIGGERED\<close> record with a valid plan that one scan leaves
  \<open>TRIGGERED\<close> with a malformed plan, and that no later scan moves: \<open>TRIGGERED\<close> is not a plan-locked state and has no
  transition to \<open>REJECTED\<close>.
\<close>

theorem triggered_plan_can_be_lost:
  "\<exists>r i. current_state r = TRIGGERED \<and> has_valid_stored_plan_geometry r
     \<and> (\<forall>scans. let r' = run (lifecycle_scan sample_digest) r (i # scans) in
          current_state r' = TRIGGERED \<and> \<not> has_valid_stored_plan_geometry r')"
proof -
  let ?r = "sample_record\<lparr>current_state := TRIGGERED\<rparr>" and ?i = "(plan_dropping_observation, sample_args)"
  let ?q = "lifecycle_scan sample_digest ?r ?i"
  have q: "current_state ?q = TRIGGERED" "\<not> has_valid_stored_plan_geometry ?q"
    using triggered_loses_plan by (auto elim!: result_holdsE simp: lifecycle_scan_def)
  then have "quarantined TRIGGERED (plan_values ?q) ?q"
    by (simp add: quarantined_def ACTIVE_LIFECYCLE_MONITORING_STATES_def)
  then have "quarantined TRIGGERED (plan_values ?q) (run (lifecycle_scan sample_digest) ?q scans)" for scans
    by (rule quarantine.run_inv) (simp add: list.pred_True)
  moreover have "has_valid_stored_plan_geometry ?r" by code_simp
  ultimately show ?thesis by (intro exI [of _ ?r] exI [of _ ?i]) (simp add: quarantined_def Let_def)
qed

end
