(* ===== verification/Py_Float.thy ===== *)
theory Py_Float
  imports Py_Decimal
begin

text \<open>
  Python's \<open>float\<close> where the application relies on it: the value of an operation on floats is the exact
  rational result rounded to the nearest binary64 number, ties to even (\<open>fl\<close>). Magnitudes stay in the normal
  range, so neither overflow nor subnormal numbers occur.
\<close>

definition p2 :: "int \<Rightarrow> rat" where
  "p2 e = (if 0 \<le> e then 2 ^ nat e else 1 / 2 ^ nat (- e))"

function int_bits :: "int \<Rightarrow> int" where
  "int_bits n = (if n \<le> 0 then 0 else int_bits (n div 2) + 1)"
  by pat_completeness auto
termination by (relation "measure nat") auto

declare int_bits.simps [simp del]

definition bin_exp :: "rat \<Rightarrow> int" where
  "bin_exp x = (let (p, q) = quotient_of \<bar>x\<bar>; d = int_bits p - int_bits q in if p2 d \<le> \<bar>x\<bar> then d else d - 1)"

definition fl :: "rat \<Rightarrow> rat" where
  "fl x = (if x = 0 then 0 else let u = p2 (bin_exp x - 52) in of_int (round_half_even (x / u)) * u)"

lemma p2_powi: "p2 e = 2 powi e"
  by (simp add: p2_def power_int_def inverse_eq_divide power_one_over)

lemma p2_pos [simp]: "0 < p2 e"
  by (simp add: p2_def)

lemma p2_add: "p2 (a + b) = p2 a * p2 b"
  by (simp add: p2_powi power_int_add)

lemma p2_diff: "p2 (a - b) = p2 a / p2 b"
  by (simp add: p2_powi power_int_diff)

lemma p2_mono: "a \<le> b \<Longrightarrow> p2 a \<le> p2 b"
  by (simp add: p2_powi power_int_increasing)

lemma p2_strict: "a < b \<Longrightarrow> p2 a < p2 b"
  by (simp add: p2_powi power_int_strict_increasing)

lemma p2_less_iff [simp]: "p2 a < p2 b \<longleftrightarrow> a < b"
  by (metis linorder_not_less p2_mono p2_strict)

lemma int_bits_bounds: "0 < n \<Longrightarrow> p2 (int_bits n - 1) \<le> of_int n \<and> of_int n < p2 (int_bits n)"
proof (induction n rule: int_bits.induct)
  case (1 n)
  let ?m = "n div 2"
  have n: "n = 2 * ?m \<or> n = 2 * ?m + 1" by presburger
  have b: "int_bits n = int_bits ?m + 1" using "1.prems" by (subst int_bits.simps) simp
  show ?case
  proof (cases "0 < ?m")
    case True
    then have IH: "p2 (int_bits ?m - 1) \<le> of_int ?m" "of_int ?m < p2 (int_bits ?m)" using 1 by auto
    have p: "p2 (int_bits ?m) = 2 * p2 (int_bits ?m - 1)" "p2 (int_bits ?m + 1) = 2 * p2 (int_bits ?m)"
      using p2_add [of 1 "int_bits ?m - 1"] p2_add [of "int_bits ?m" 1] by (simp_all add: p2_def)
    have k: "p2 (int_bits ?m) = of_int (2 ^ nat (int_bits ?m))" if "0 \<le> int_bits ?m" using that by (simp add: p2_def)
    have "0 \<le> int_bits ?m"
    proof (rule ccontr)
      assume "\<not> 0 \<le> int_bits ?m"
      then have "p2 (int_bits ?m) < p2 0" by simp
      then show False using IH(2) True by (simp add: p2_def [of 0])
    qed
    then have "?m + 1 \<le> 2 ^ nat (int_bits ?m)" using IH(2) k by (metis of_int_less_iff zless_imp_add1_zle)
    then have "of_int ?m + 1 \<le> p2 (int_bits ?m)" using k \<open>0 \<le> int_bits ?m\<close> by (metis of_int_1 of_int_add of_int_le_iff)
    moreover have "(of_int (2 * ?m) :: rat) \<le> of_int n" "(of_int n :: rat) \<le> of_int (2 * ?m + 1)"
      unfolding of_int_le_iff using n by linarith+
    ultimately show ?thesis using IH(1) p b by simp
  next
    case False
    then have "n = 1" using "1.prems" n by simp
    then show ?thesis by (simp add: int_bits.simps [of 1] int_bits.simps [of 0] p2_def)
  qed
qed


lemma bin_exp_bounds:
  assumes "x \<noteq> 0"
  shows "p2 (bin_exp x) \<le> \<bar>x\<bar>" and "\<bar>x\<bar> < p2 (bin_exp x + 1)"
proof -
  obtain p q where pq: "quotient_of \<bar>x\<bar> = (p, q)" by force
  then have q: "0 < q" and x: "\<bar>x\<bar> = of_int p / of_int q"
    by (simp_all add: quotient_of_denom_pos quotient_of_div)
  from assms have "0 < \<bar>x\<bar>" by simp
  then have p: "0 < p" using x q by (simp add: zero_less_divide_iff)
  let ?a = "int_bits p" and ?b = "int_bits q"
  note pb = int_bits_bounds [OF p] and qb = int_bits_bounds [OF q]
  have lo: "p2 (?a - ?b - 1) \<le> \<bar>x\<bar>"
  proof -
    have "p2 (?a - ?b - 1) = p2 (?a - 1) / p2 ?b" by (simp add: p2_diff [symmetric] algebra_simps)
    also have "\<dots> \<le> of_int p / of_int q" using pb qb p q by (intro frac_le) simp_all
    finally show ?thesis by (simp only: x)
  qed
  have hi: "\<bar>x\<bar> < p2 (?a - ?b + 1)"
  proof -
    have "of_int p / of_int q < p2 ?a / p2 (?b - 1)" using pb qb p by (intro frac_less) simp_all
    also have "\<dots> = p2 (?a - ?b + 1)" by (simp add: p2_diff [symmetric] algebra_simps)
    finally show ?thesis by (simp only: x)
  qed
  have e: "bin_exp x = (if p2 (?a - ?b) \<le> \<bar>x\<bar> then ?a - ?b else ?a - ?b - 1)"
    by (simp add: bin_exp_def pq Let_def)
  show "p2 (bin_exp x) \<le> \<bar>x\<bar>" using lo by (simp add: e)
  show "\<bar>x\<bar> < p2 (bin_exp x + 1)" using hi by (simp add: e)
qed

text \<open>The rounding error: half a unit of the last of 53 bits.\<close>

lemma fl_error:
  assumes "\<bar>x\<bar> < p2 k"
  shows "\<bar>fl x - x\<bar> \<le> p2 (k - 54)"
proof (cases "x = 0")
  case False
  define u where "u = p2 (bin_exp x - 52)"
  have u: "0 < u" by (simp add: u_def)
  have "fl x - x = (of_int (round_half_even (x / u)) - x / u) * u"
    using False u by (simp add: fl_def u_def [symmetric] left_diff_distrib)
  then have "\<bar>fl x - x\<bar> = \<bar>of_int (round_half_even (x / u)) - x / u\<bar> * u" using u by (simp add: abs_mult)
  also have "\<dots> \<le> 1 / 2 * u" using round_half_even_err [of "x / u"] u by (intro mult_right_mono) (simp_all add: abs_minus_commute)
  also have "\<dots> = p2 (bin_exp x - 53)" using p2_add [of "bin_exp x - 53" 1] by (simp add: u_def p2_def [of 1])
  also have "\<dots> \<le> p2 (k - 54)"
  proof -
    have "p2 (bin_exp x) < p2 k" using bin_exp_bounds(1) [OF False] assms by (rule order.strict_trans1)
    then show ?thesis by (intro p2_mono) simp
  qed
  finally show ?thesis .
qed (simp add: fl_def less_imp_le)

end
