(* ===== verification/Candle_Integrity.thy ===== *)
theory Candle_Integrity
  imports Py_Float Py_Time "HOL-Library.AList" "HOL-Library.Char_ord" "HOL-Library.List_Lexorder"
begin

text \<open>
  Candle integrity, \<open>app/data/candle_integrity.py\<close>: the timeframe of a candle, timestamps from any
  accepted value, the validation of the values of one candle and of a sequence of candles, the window
  of candles that were closed at a decision time, and the shadow diagnostics with their bounded log.

  A value that a candle field may hold is a \<open>py_any\<close>; a finite float is its exact value together with its
  \<open>str\<close> text. An aware UTC \<open>datetime\<close> is its instant in microseconds since year 1. The message of an error is
  left out; its reason, timeframe, index and counts are kept.
\<close>

section \<open>Values and candles\<close>

datatype py_float = FiniteFloat rat string | NonFiniteFloat

datatype py_any =
  ANone | ABool bool | AInt int | AFloat py_float | ADecimal py_decimal | AText string | ADatetime py_datetime | AOther

text \<open>A mapping, an object with attributes, or one of the values that cannot be a candle.\<close>

datatype candle_arg = CandleMapping "(string \<times> py_any) list" | CandleObject "(string \<times> py_any) list" | NotACandle

datatype CandleIntegrityReason =
  MISSING_OPEN_TIMESTAMP | INVALID_OPEN_TIMESTAMP | INVALID_CLOSE_TIMESTAMP | INVALID_TIMEFRAME | DUPLICATE_TIMESTAMP
| OUT_OF_ORDER | OVERLAPPING_INTERVAL | CONTINUITY_GAP | INSUFFICIENT_CLOSED_HISTORY | INVALID_CANDLE | MISSING_PRICE
| INVALID_PRICE | INVALID_OHLC_GEOMETRY | MISSING_VOLUME | INVALID_VOLUME

record CandleIntegrityError =
  cie_reason :: CandleIntegrityReason
  cie_timeframe :: string
  cie_index :: "nat option"
  cie_available_count :: "nat option"
  cie_required_count :: "int option"

text \<open>What these functions raise: the integrity error, a plain \<open>ValueError\<close> or an \<open>OverflowError\<close>.\<close>

datatype candle_exception = IntegrityError CandleIntegrityError | CandleValueError | CandleOverflowError

definition integrity_error :: "CandleIntegrityReason \<Rightarrow> string \<Rightarrow> nat option \<Rightarrow> candle_exception" where
  "integrity_error reason timeframe index =
     IntegrityError \<lparr>cie_reason = reason, cie_timeframe = timeframe, cie_index = index, cie_available_count = None,
       cie_required_count = None\<rparr>"

record CausalCandle =
  cc_source :: candle_arg
  cc_open_timestamp :: int
  cc_close_timestamp :: int
  cc_index :: "nat option"

record ClosedCandleWindow =
  win_candles :: "candle_arg list"
  win_timeline :: "CausalCandle list"
  win_decision_timestamp :: int
  win_excluded_unclosed_count :: nat

record ValidatedCandleValues =
  vc_open :: rat
  vc_high :: rat
  vc_low :: rat
  vc_close :: rat
  vc_volume :: "rat option"
  vc_quote_volume :: "rat option"
  vc_turnover :: "rat option"
  vc_trade_count :: "int option"

section \<open>Field access and parsing\<close>

fun candle_fields :: "candle_arg \<Rightarrow> (string \<times> py_any) list" where
  "candle_fields (CandleMapping fs) = fs"
| "candle_fields (CandleObject fs) = fs"
| "candle_fields NotACandle = []"

definition has_field :: "candle_arg \<Rightarrow> string \<Rightarrow> bool" where
  "has_field candle name = (map_of (candle_fields candle) name \<noteq> None)"

definition candle_field :: "candle_arg \<Rightarrow> string \<Rightarrow> py_any" where
  "candle_field candle name = (case map_of (candle_fields candle) name of None \<Rightarrow> ANone | Some v \<Rightarrow> v)"

fun any_missing :: "py_any \<Rightarrow> bool" where
  "any_missing ANone = True"
| "any_missing (AText s) = (s = [] \<or> s = NA)"
| "any_missing _ = False"

fun first_present_field :: "candle_arg \<Rightarrow> string list \<Rightarrow> py_any" where
  "first_present_field candle [] = ANone"
| "first_present_field candle (name # names) =
     (let v = candle_field candle name in if \<not> any_missing v then v else first_present_field candle names)"

fun parse_finite_decimal :: "py_any \<Rightarrow> rat option" where
  "parse_finite_decimal (ADecimal (Finite x)) = Some x"
| "parse_finite_decimal (AInt n) = Some (of_int n)"
| "parse_finite_decimal (AFloat (FiniteFloat x text)) = finite_decimal text"
| "parse_finite_decimal (AText s) =
     (let cleaned = py_strip s in
      if cleaned = [] \<or> py_upper cleaned = NA then None else finite_decimal cleaned)"
| "parse_finite_decimal _ = None"

fun parse_non_negative_int :: "py_any \<Rightarrow> int option" where
  "parse_non_negative_int (AInt n) = (if n \<ge> 0 then Some n else None)"
| "parse_non_negative_int (AText s) =
     (let cleaned = py_strip s in
      if cleaned = [] \<or> \<not> list_all py_isdigit cleaned then None else Some (digits_int cleaned))"
| "parse_non_negative_int _ = None"

section \<open>Timeframes and timestamps\<close>

definition us_per_minute :: int where
  "us_per_minute = 60 * 1000000"

fun unit_duration :: "char \<Rightarrow> int option" where
  "unit_duration c =
     (if c = CHR ''m'' then Some us_per_minute
      else if c = CHR ''h'' then Some (60 * us_per_minute)
      else if c = CHR ''d'' then Some us_per_day
      else if c = CHR ''w'' then Some (7 * us_per_day)
      else None)"

text \<open>
  \<open>^(?P<count>[1-9][0-9]*)(?P<unit>[mhdw])$\<close> on the whole text; a \<open>timedelta\<close> of a billion days or more overflows.
\<close>

definition timeframe_duration :: "string \<Rightarrow> candle_exception + int" where
  "timeframe_duration timeframe =
     (let normalized = py_lower (py_strip timeframe); count = butlast normalized;
          invalid = Inl (integrity_error INVALID_TIMEFRAME (if normalized \<noteq> [] then normalized else timeframe) None) in
      if normalized = [] \<or> count = [] \<or> \<not> list_all py_isdigit count \<or> hd count = CHR ''0'' then invalid
      else case unit_duration (last normalized) of
        None \<Rightarrow> invalid
      | Some unit \<Rightarrow>
          let duration = unit * digits_int count in
          if duration \<ge> 1000000000 * us_per_day then Inl CandleOverflowError else Inr duration)"

text \<open>Microseconds from year 1 to the epoch.\<close>

definition epoch_us :: int where
  "epoch_us = 719162 * us_per_day"

text \<open>
  \<open>datetime.fromtimestamp(seconds, tz=UTC)\<close> of a float: the whole seconds and the fraction scaled to
  microseconds in floating point and rounded half to even; \<open>None\<close> outside the years 1 to 9999.
\<close>

definition trunc_rat :: "rat \<Rightarrow> int" where
  "trunc_rat x = (if 0 \<le> x then \<lfloor>x\<rfloor> else \<lceil>x\<rceil>)"

definition fromtimestamp :: "rat \<Rightarrow> int option" where
  "fromtimestamp seconds =
     (let whole = trunc_rat seconds; micros = round_half_even (fl ((seconds - of_int whole) * 1000000));
          t = epoch_us + whole * 1000000 + micros in
      if 0 \<le> t \<and> t < dt_max then Some t else None)"

definition timestamp_of_ms :: "int \<Rightarrow> candle_exception + int" where
  "timestamp_of_ms n = (case fromtimestamp (fl (of_int n / 1000)) of None \<Rightarrow> Inl CandleValueError | Some t \<Rightarrow> Inr t)"

text \<open>A naive \<open>datetime\<close> is taken as UTC; an aware one is converted, which may leave the range.\<close>

definition timestamp_of_datetime :: "py_datetime \<Rightarrow> candle_exception + int" where
  "timestamp_of_datetime d =
     (case dt_offset d of
        None \<Rightarrow> Inr (dt_local d)
      | Some _ \<Rightarrow> if 0 \<le> dt_instant d \<and> dt_instant d < dt_max then Inr (dt_instant d) else Inl CandleOverflowError)"

text \<open>\<open>int(text)\<close> of a stripped text: a sign and digits, with single underscores between digits.\<close>

fun underscored_digits :: "string \<Rightarrow> bool" where
  "underscored_digits [] = False"
| "underscored_digits [c] = py_isdigit c"
| "underscored_digits (c # d # s) =
     (py_isdigit c \<and> (if d = CHR ''_'' then underscored_digits s else underscored_digits (d # s)))"

definition int_of_text :: "string \<Rightarrow> int option" where
  "int_of_text s =
     (let (neg, u) = split_sign s in
      if underscored_digits u
      then Some (let n = digits_int (py_remove_char (CHR ''_'') u) in if neg then - n else n) else None)"

fun normalize_utc_timestamp :: "py_any \<Rightarrow> candle_exception + int" where
  "normalize_utc_timestamp (ADatetime d) = timestamp_of_datetime d"
| "normalize_utc_timestamp (AInt n) = timestamp_of_ms n"
| "normalize_utc_timestamp (AFloat (FiniteFloat x text)) =
     (if x \<noteq> of_int \<lfloor>x\<rfloor> then Inl CandleValueError else timestamp_of_ms \<lfloor>x\<rfloor>)"
| "normalize_utc_timestamp (ADecimal (Finite x)) =
     (if x \<noteq> of_int \<lfloor>x\<rfloor> then Inl CandleValueError else timestamp_of_ms \<lfloor>x\<rfloor>)"
| "normalize_utc_timestamp (AText s) =
     (let cleaned = py_strip s in
      if cleaned = [] \<or> cleaned = NA then Inl CandleValueError
      else case int_of_text cleaned of
        Some n \<Rightarrow> timestamp_of_ms n
      | None \<Rightarrow>
          (case fromisoformat (replace_Z cleaned) of
             None \<Rightarrow> Inl CandleValueError
           | Some d \<Rightarrow> timestamp_of_datetime d))"
| "normalize_utc_timestamp _ = Inl CandleValueError"

definition epoch_milliseconds :: "int \<Rightarrow> int" where
  "epoch_milliseconds t =
     (let delta = t - epoch_us; days = delta div us_per_day; rest = delta mod us_per_day in
      days * 86400000 + rest div 1000000 * 1000 + rest mod 1000000 div 1000)"

text \<open>\<open>None\<close> stands for the text \<open>NA\<close> that an absent timestamp gives.\<close>

definition normalize_optional_timestamp_ms :: "py_any \<Rightarrow> candle_exception + int option" where
  "normalize_optional_timestamp_ms v =
     (if any_missing v then Inr None
      else ebind (normalize_utc_timestamp v) (\<lambda>t. Inr (Some (epoch_milliseconds t))))"

section \<open>One candle\<close>

text \<open>
  \<open>str(timeframe or _field(candle, "interval") or "unknown").strip().lower() or "unknown"\<close>; the interval of a candle is a
  text.
\<close>

definition values_timeframe :: "candle_arg \<Rightarrow> string option \<Rightarrow> string" where
  "values_timeframe candle timeframe =
     (let interval = (case candle_field candle ''interval'' of AText s \<Rightarrow> s | _ \<Rightarrow> []);
          chosen = (case timeframe of Some t \<Rightarrow> if t \<noteq> [] then t else interval | None \<Rightarrow> interval);
          text = py_lower (py_strip (if chosen \<noteq> [] then chosen else ''unknown'')) in
      if text \<noteq> [] then text else ''unknown'')"

definition blank_text :: "py_any \<Rightarrow> bool" where
  "blank_text v = (case v of AText s \<Rightarrow> py_strip s = [] | _ \<Rightarrow> False)"

text \<open>\<open>None\<close> or, after stripping, the text \<open>NA\<close>.\<close>

definition none_or_NA :: "py_any \<Rightarrow> bool" where
  "none_or_NA v = (case v of ANone \<Rightarrow> True | AText s \<Rightarrow> py_strip s = NA | _ \<Rightarrow> False)"

definition parsed_price :: "(CandleIntegrityReason \<Rightarrow> candle_exception) \<Rightarrow> candle_arg \<Rightarrow> string \<Rightarrow> candle_exception + rat" where
  "parsed_price err candle name =
     (if \<not> has_field candle name then Inl (err MISSING_PRICE)
      else let raw = candle_field candle name in
        if any_missing raw \<or> blank_text raw then Inl (err MISSING_PRICE)
        else case parse_finite_decimal raw of
          None \<Rightarrow> Inl (err INVALID_PRICE)
        | Some p \<Rightarrow> if p \<le> 0 then Inl (err INVALID_PRICE) else Inr p)"

definition non_negative_volume :: "(CandleIntegrityReason \<Rightarrow> candle_exception) \<Rightarrow> py_any \<Rightarrow> candle_exception + rat" where
  "non_negative_volume err raw =
     (if blank_text raw then Inl (err INVALID_VOLUME)
      else case parse_finite_decimal raw of
        None \<Rightarrow> Inl (err INVALID_VOLUME)
      | Some v \<Rightarrow> if v < 0 then Inl (err INVALID_VOLUME) else Inr v)"

definition parsed_volume ::
  "(CandleIntegrityReason \<Rightarrow> candle_exception) \<Rightarrow> candle_arg \<Rightarrow> bool \<Rightarrow> candle_exception + rat option" where
  "parsed_volume err candle require_volume =
     (let raw = candle_field candle ''volume'' in
      if \<not> has_field candle ''volume'' \<or> none_or_NA raw
      then (if require_volume then Inl (err MISSING_VOLUME) else Inr None)
      else map_sum id Some (non_negative_volume err raw))"

definition parsed_optional_volume ::
  "(CandleIntegrityReason \<Rightarrow> candle_exception) \<Rightarrow> candle_arg \<Rightarrow> string \<Rightarrow> candle_exception + rat option" where
  "parsed_optional_volume err candle name =
     (let raw = candle_field candle name in
      if \<not> has_field candle name \<or> none_or_NA raw then Inr None
      else map_sum id Some (non_negative_volume err raw))"

definition parsed_trade_count ::
  "(CandleIntegrityReason \<Rightarrow> candle_exception) \<Rightarrow> candle_arg \<Rightarrow> candle_exception + int option" where
  "parsed_trade_count err candle =
     (let raw = candle_field candle ''trade_count'' in
      if \<not> has_field candle ''trade_count'' \<or> none_or_NA raw then Inr None
      else case parse_non_negative_int raw of None \<Rightarrow> Inl (err INVALID_VOLUME) | Some n \<Rightarrow> Inr (Some n))"

definition validate_candle_values ::
  "candle_arg \<Rightarrow> nat option \<Rightarrow> string option \<Rightarrow> bool \<Rightarrow> candle_exception + ValidatedCandleValues" where
  "validate_candle_values candle index timeframe require_volume =
     (let err = (\<lambda>reason. integrity_error reason (values_timeframe candle timeframe) index) in
      ebind (eraise_if
        (case candle of
           NotACandle \<Rightarrow> True
         | CandleMapping _ \<Rightarrow> False
         | CandleObject _ \<Rightarrow> \<not> list_ex (has_field candle) [''open'', ''high'', ''low'', ''close''])
        (err INVALID_CANDLE)) (\<lambda>_.
      ebind (parsed_price err candle ''open'') (\<lambda>open_price.
      ebind (parsed_price err candle ''high'') (\<lambda>high_price.
      ebind (parsed_price err candle ''low'') (\<lambda>low_price.
      ebind (parsed_price err candle ''close'') (\<lambda>close_price.
      ebind (eraise_if
        (low_price > high_price \<or> \<not> (low_price \<le> open_price \<and> open_price \<le> high_price)
         \<or> \<not> (low_price \<le> close_price \<and> close_price \<le> high_price))
        (err INVALID_OHLC_GEOMETRY)) (\<lambda>_.
      ebind (parsed_volume err candle require_volume) (\<lambda>volume_value.
      ebind (parsed_optional_volume err candle ''quote_volume'') (\<lambda>quote_volume_value.
      ebind (parsed_optional_volume err candle ''turnover'') (\<lambda>turnover_value.
      ebind (parsed_trade_count err candle) (\<lambda>trade_count_value.
        Inr \<lparr>vc_open = open_price, vc_high = high_price, vc_low = low_price, vc_close = close_price,
             vc_volume = volume_value, vc_quote_volume = quote_volume_value, vc_turnover = turnover_value,
             vc_trade_count = trade_count_value\<rparr>)))))))))))"

section \<open>A sequence of candles\<close>

fun integrity_from_value_error :: "CandleIntegrityReason \<Rightarrow> string \<Rightarrow> nat \<Rightarrow> candle_exception + int \<Rightarrow> candle_exception + int" where
  "integrity_from_value_error reason timeframe index (Inl CandleValueError) = Inl (integrity_error reason timeframe (Some index))"
| "integrity_from_value_error reason timeframe index r = r"

definition candle_close ::
  "candle_arg \<Rightarrow> string \<Rightarrow> nat \<Rightarrow> int \<Rightarrow> candle_exception + int" where
  "candle_close candle timeframe index derived_close =
     (let raw_close = first_present_field candle [''close_timestamp'', ''closed_at''] in
      if any_missing raw_close then Inr derived_close
      else
        ebind (integrity_from_value_error INVALID_CLOSE_TIMESTAMP timeframe index (normalize_utc_timestamp raw_close)) (\<lambda>close.
        ebind (eraise_if (close < derived_close - 1000 \<or> close > derived_close)
          (integrity_error INVALID_CLOSE_TIMESTAMP timeframe (Some index))) (\<lambda>_. Inr close)))"

definition check_order ::
  "bool \<Rightarrow> string \<Rightarrow> int \<Rightarrow> nat \<Rightarrow> int option \<Rightarrow> int \<Rightarrow> candle_exception + unit" where
  "check_order require_continuity timeframe duration index previous_open open_timestamp =
     (case previous_open of
        None \<Rightarrow> Inr ()
      | Some previous \<Rightarrow>
          if open_timestamp = previous then Inl (integrity_error DUPLICATE_TIMESTAMP timeframe (Some index))
          else if open_timestamp < previous then Inl (integrity_error OUT_OF_ORDER timeframe (Some index))
          else if open_timestamp < previous + duration then Inl (integrity_error OVERLAPPING_INTERVAL timeframe (Some index))
          else if require_continuity \<and> open_timestamp \<noteq> previous + duration
          then Inl (integrity_error CONTINUITY_GAP timeframe (Some index))
          else Inr ())"

record sequence_args =
  sa_timeframe :: string
  sa_duration :: int
  sa_require_continuity :: bool
  sa_require_volume :: bool
  sa_validate_values :: bool

text \<open>The body of the loop for one candle, and the loop.\<close>

definition causal_candle ::
  "sequence_args \<Rightarrow> nat \<Rightarrow> int option \<Rightarrow> candle_arg \<Rightarrow> candle_exception + CausalCandle" where
  "causal_candle a index previous_open candle =
     ebind (eraise_if (candle = NotACandle) (integrity_error INVALID_CANDLE (sa_timeframe a) (Some index))) (\<lambda>_.
     let raw_open = first_present_field candle [''timestamp'', ''open_timestamp'', ''opened_at''] in
     ebind (eraise_if (any_missing raw_open) (integrity_error MISSING_OPEN_TIMESTAMP (sa_timeframe a) (Some index))) (\<lambda>_.
     ebind (integrity_from_value_error INVALID_OPEN_TIMESTAMP (sa_timeframe a) index (normalize_utc_timestamp raw_open))
       (\<lambda>open_timestamp.
     ebind (eraise_if (open_timestamp + sa_duration a \<ge> dt_max)
       (integrity_error INVALID_OPEN_TIMESTAMP (sa_timeframe a) (Some index))) (\<lambda>_.
     ebind (candle_close candle (sa_timeframe a) index (open_timestamp + sa_duration a)) (\<lambda>close_timestamp.
     ebind (check_order (sa_require_continuity a) (sa_timeframe a) (sa_duration a) index previous_open open_timestamp) (\<lambda>_.
     ebind (if sa_validate_values a
            then map_sum id (\<lambda>_. ()) (validate_candle_values candle (Some index) (Some (sa_timeframe a)) (sa_require_volume a))
            else Inr ()) (\<lambda>_.
       Inr \<lparr>cc_source = candle, cc_open_timestamp = open_timestamp, cc_close_timestamp = close_timestamp,
            cc_index = Some index\<rparr>)))))))"

fun sequence_loop ::
  "sequence_args \<Rightarrow> nat \<Rightarrow> int option \<Rightarrow> candle_arg list \<Rightarrow> candle_exception + CausalCandle list" where
  "sequence_loop a index previous_open [] = Inr []"
| "sequence_loop a index previous_open (candle # candles) =
     ebind (causal_candle a index previous_open candle) (\<lambda>item.
     ebind (sequence_loop a (Suc index) (Some (cc_open_timestamp item)) candles) (\<lambda>items. Inr (item # items)))"

definition validate_candle_sequence ::
  "candle_arg list \<Rightarrow> string \<Rightarrow> bool \<Rightarrow> bool \<Rightarrow> bool \<Rightarrow> candle_exception + CausalCandle list" where
  "validate_candle_sequence candles timeframe require_continuity require_volume validate_values =
     (let normalized_timeframe = py_lower (py_strip timeframe) in
      ebind (timeframe_duration normalized_timeframe) (\<lambda>duration.
        sequence_loop \<lparr>sa_timeframe = normalized_timeframe, sa_duration = duration,
          sa_require_continuity = require_continuity, sa_require_volume = require_volume,
          sa_validate_values = validate_values\<rparr> 0 None candles))"

fun validate_items :: "string \<Rightarrow> bool \<Rightarrow> CausalCandle list \<Rightarrow> candle_exception + unit" where
  "validate_items timeframe require_volume [] = Inr ()"
| "validate_items timeframe require_volume (item # items) =
     ebind (validate_candle_values (cc_source item) (cc_index item) (Some timeframe) require_volume) (\<lambda>_.
       validate_items timeframe require_volume items)"

definition closed_candles_as_of ::
  "candle_arg list \<Rightarrow> string \<Rightarrow> py_any \<Rightarrow> int \<Rightarrow> bool \<Rightarrow> bool \<Rightarrow> bool \<Rightarrow> candle_exception + ClosedCandleWindow" where
  "closed_candles_as_of candles timeframe decision_timestamp minimum_closed_history require_continuity require_volume validate_values =
     ebind (eraise_if (minimum_closed_history < 0) CandleValueError) (\<lambda>_.
     let normalized_timeframe = py_lower (py_strip timeframe) in
     ebind (normalize_utc_timestamp decision_timestamp) (\<lambda>decision_utc.
     ebind (validate_candle_sequence candles normalized_timeframe require_continuity require_volume False) (\<lambda>timeline.
     let eligible = filter (\<lambda>item. cc_close_timestamp item \<le> decision_utc) timeline in
     ebind (if validate_values then validate_items normalized_timeframe require_volume eligible else Inr ()) (\<lambda>_.
     ebind (eraise_if (int (length eligible) < minimum_closed_history)
       (IntegrityError \<lparr>cie_reason = INSUFFICIENT_CLOSED_HISTORY, cie_timeframe = normalized_timeframe, cie_index = None,
          cie_available_count = Some (length eligible), cie_required_count = Some minimum_closed_history\<rparr>)) (\<lambda>_.
       Inr \<lparr>win_candles = map cc_source eligible, win_timeline = eligible, win_decision_timestamp = decision_utc,
            win_excluded_unclosed_count = length timeline - length eligible\<rparr>)))))"

section \<open>Shadow diagnostics\<close>

record CandleShadowDiagnostic =
  csd_rule_version :: string
  csd_consumer :: string
  csd_source :: string
  csd_timeframe :: string
  csd_observation_kind :: string
  csd_sample_count :: nat
  csd_old_decision :: string
  csd_new_decision :: string
  csd_would_flag_under_strict_shadow :: bool
  csd_disagreement_count :: nat
  csd_reason_counts :: "(string \<times> nat) list"
  csd_sampled_indices :: "(string \<times> nat list) list"
  csd_promotion_evidence_required :: "string list"
  csd_total_flag_count :: nat

definition SHADOW_RULE_VERSION :: string where
  "SHADOW_RULE_VERSION = ''candle-integrity-shadow-v1''"

definition MAX_SHADOW_SAMPLE_INDICES :: nat where
  "MAX_SHADOW_SAMPLE_INDICES = 10"

definition MAX_RECORDED_SHADOW_DIAGNOSTICS :: nat where
  "MAX_RECORDED_SHADOW_DIAGNOSTICS = 256"

record shadow_state =
  ss_reason_counts :: "(string \<times> nat) list"
  ss_sampled_indices :: "(string \<times> nat list) list"
  ss_disagreeing :: "nat list"
  ss_rejected :: nat

definition shadow_record :: "nat \<Rightarrow> string \<Rightarrow> shadow_state \<Rightarrow> shadow_state" where
  "shadow_record idx reason s =
     (let count = (case map_of (ss_reason_counts s) reason of None \<Rightarrow> 0 | Some n \<Rightarrow> n);
          bucket = (case map_of (ss_sampled_indices s) reason of None \<Rightarrow> [] | Some b \<Rightarrow> b) in
      s\<lparr>ss_reason_counts := AList.update reason (count + 1) (ss_reason_counts s),
        ss_sampled_indices := AList.update reason
          (if length bucket < MAX_SHADOW_SAMPLE_INDICES then bucket @ [idx] else bucket) (ss_sampled_indices s),
        ss_disagreeing := List.insert idx (ss_disagreeing s)\<rparr>)"

definition zero_volume_flags :: "ValidatedCandleValues \<Rightarrow> string list" where
  "zero_volume_flags v =
     (if vc_volume v = Some 0
      then (if vc_open v = vc_high v \<and> vc_high v = vc_low v \<and> vc_low v = vc_close v
            then [''flat_zero_volume_bar''] else [''positive_range_zero_volume_bar''])
      else [])"

fun quote_flags :: "rat option \<Rightarrow> rat option list \<Rightarrow> string list" where
  "quote_flags volume [] = []"
| "quote_flags volume (opt_quote # rest) =
     (case (volume, opt_quote) of
        (Some v, Some q) \<Rightarrow>
          if v = 0 \<and> q > 0 then [''quote_volume_positive_on_zero_base_volume'']
          else if v > 0 \<and> q = 0 then [''quote_volume_zero_on_positive_base_volume'']
          else quote_flags volume rest
      | _ \<Rightarrow> quote_flags volume rest)"

definition range_flags :: "ValidatedCandleValues \<Rightarrow> string list" where
  "range_flags v =
     (if vc_low v > 0 \<and> dec_div (dec_sub (vc_high v) (vc_low v)) (vc_low v) > 10 then [''extreme_range_to_low_ratio''] else [])"

text \<open>The timestamp rules; an exception ends them and keeps what was recorded before it.\<close>

definition timestamp_flags :: "int \<Rightarrow> candle_arg \<Rightarrow> string list" where
  "timestamp_flags duration_ms candle =
     (let raw_open = first_present_field candle [''timestamp'', ''open_timestamp'', ''opened_at''];
          raw_close = first_present_field candle [''close_timestamp'', ''closed_at''] in
      if duration_ms \<le> 0 \<or> any_missing raw_open then []
      else case normalize_utc_timestamp raw_open of
        Inl _ \<Rightarrow> []
      | Inr open_dt \<Rightarrow>
          (if epoch_milliseconds open_dt mod duration_ms \<noteq> 0 then [''unanchored_open_timestamp''] else [])
          @ (if any_missing raw_close then []
             else case normalize_utc_timestamp raw_close of
               Inl _ \<Rightarrow> []
             | Inr close_dt \<Rightarrow>
                 if open_dt + duration_ms * 1000 \<ge> dt_max then []
                 else if close_dt > open_dt + duration_ms * 1000 then [''close_timestamp_exceeds_scheduled_close'']
                 else []))"

definition shadow_step :: "string \<Rightarrow> int \<Rightarrow> shadow_state \<Rightarrow> nat \<times> candle_arg \<Rightarrow> shadow_state" where
  "shadow_step timeframe duration_ms s item =
     (let (index, candle) = item in
      case validate_candle_values candle (Some index) (Some timeframe) False of
        Inl _ \<Rightarrow> s\<lparr>ss_rejected := ss_rejected s + 1\<rparr>
      | Inr v \<Rightarrow>
          fold (shadow_record index)
            (zero_volume_flags v @ quote_flags (vc_volume v) [vc_quote_volume v, vc_turnover v]
             @ range_flags v @ timestamp_flags duration_ms candle) s)"

definition evaluate_candle_shadow_diagnostics ::
  "candle_arg list \<Rightarrow> string \<Rightarrow> string \<Rightarrow> string \<Rightarrow> bool \<Rightarrow> candle_exception + CandleShadowDiagnostic" where
  "evaluate_candle_shadow_diagnostics candles timeframe consumer source synthetic_fixture =
     (let text = py_lower (py_strip timeframe); normalized_timeframe = (if text \<noteq> [] then text else ''unknown'') in
      ebind (case timeframe_duration normalized_timeframe of
               Inr duration \<Rightarrow> Inr (trunc_rat (fl (fl (of_int duration / 1000000) * 1000)))
             | Inl (IntegrityError _) \<Rightarrow> Inr 0
             | Inl e \<Rightarrow> Inl e) (\<lambda>duration_ms.
        let s = run (shadow_step normalized_timeframe duration_ms)
                  \<lparr>ss_reason_counts = [], ss_sampled_indices = [], ss_disagreeing = [], ss_rejected = 0\<rparr>
                  (enumerate 0 candles);
            disagreement_count = length (ss_disagreeing s) in
        Inr \<lparr>csd_rule_version = SHADOW_RULE_VERSION, csd_consumer = consumer, csd_source = source,
             csd_timeframe = normalized_timeframe,
             csd_observation_kind = (if synthetic_fixture then ''synthetic_fixture'' else ''exchange_observation''),
             csd_sample_count = length candles,
             csd_old_decision = (if ss_rejected s > 0 then ''reject'' else ''pass''),
             csd_new_decision = (if ss_rejected s > 0 then ''reject''
                                 else if disagreement_count > 0 then ''shadow_flag'' else ''pass''),
             csd_would_flag_under_strict_shadow = (disagreement_count > 0),
             csd_disagreement_count = disagreement_count,
             csd_reason_counts = sort_key fst (ss_reason_counts s),
             csd_sampled_indices = sort_key fst (ss_sampled_indices s),
             csd_promotion_evidence_required =
               [''Cross-venue Binance USD-M and Bybit Linear empirical frequency audit over >=30 days'',
                ''Zero false-rejection proof on legitimate low-liquidity closed intervals'',
                ''Explicit Astra review approval before promoting any shadow rule to a hard gate''],
             csd_total_flag_count = sum_list (map snd (ss_reason_counts s))\<rparr>))"

text \<open>The log of recorded diagnostics: the oldest makes room.\<close>

definition record_diagnostic :: "CandleShadowDiagnostic list \<Rightarrow> CandleShadowDiagnostic \<Rightarrow> CandleShadowDiagnostic list" where
  "record_diagnostic recorded d =
     (if length recorded \<ge> MAX_RECORDED_SHADOW_DIAGNOSTICS then drop 1 recorded else recorded) @ [d]"

text \<open>The whole call, with the log it may append to.\<close>

definition evaluate_and_record_diagnostics ::
  "CandleShadowDiagnostic list \<Rightarrow> bool \<Rightarrow> candle_arg list \<Rightarrow> string \<Rightarrow> string \<Rightarrow> string \<Rightarrow> bool
     \<Rightarrow> candle_exception + CandleShadowDiagnostic \<times> CandleShadowDiagnostic list" where
  "evaluate_and_record_diagnostics recorded keep candles timeframe consumer source synthetic_fixture =
     ebind (evaluate_candle_shadow_diagnostics candles timeframe consumer source synthetic_fixture) (\<lambda>d.
       Inr (d, if keep then record_diagnostic recorded d else recorded))"

definition get_recorded_candle_shadow_diagnostics :: "CandleShadowDiagnostic list \<Rightarrow> CandleShadowDiagnostic list" where
  "get_recorded_candle_shadow_diagnostics recorded = recorded"

definition clear_recorded_candle_shadow_diagnostics :: "CandleShadowDiagnostic list \<Rightarrow> CandleShadowDiagnostic list" where
  "clear_recorded_candle_shadow_diagnostics recorded = []"

section \<open>Optional metadata\<close>

definition validate_optional_candle_metadata :: "candle_arg \<Rightarrow> candle_exception + unit" where
  "validate_optional_candle_metadata candle =
     (let err = (\<lambda>_. CandleValueError);
          close_check = (\<lambda>name. if \<not> has_field candle name \<or> any_missing (candle_field candle name) then Inr 0
                                else normalize_utc_timestamp (candle_field candle name)) in
      ebind (parsed_optional_volume err candle ''quote_volume'') (\<lambda>_.
      ebind (parsed_optional_volume err candle ''turnover'') (\<lambda>_.
      ebind (parsed_trade_count err candle) (\<lambda>_.
      ebind (close_check ''close_timestamp'') (\<lambda>_.
      ebind (close_check ''closed_at'') (\<lambda>_. Inr ()))))))"

section \<open>Properties of timeframes and timestamps\<close>

lemma digits_int_pos:
  assumes "list_all py_isdigit s" and "s \<noteq> []" and "hd s \<noteq> CHR ''0''"
  shows "1 \<le> digits_int s"
proof -
  obtain c cs where s: "s = [c] @ cs" using assms(2) by (cases s) auto
  have "digit_val c \<noteq> 0"
  proof
    assume "digit_val c = 0"
    then have "c = digit_char 0" using assms(1) s digit_char_digit_val [of c] by simp
    also have "digit_char 0 = CHR ''0''" by code_simp
    finally have "c = CHR ''0''" .
    then show False using assms(3) s by simp
  qed
  then have "1 \<le> digits_val [c]" by (simp add: digits_val_def)
  then have "1 \<le> digits_val s" unfolding s digits_val_append by (simp add: Suc_leI)
  then show ?thesis by (simp add: digits_int)
qed

lemma timeframe_duration_minimum:
  assumes "timeframe_duration tf = Inr d"
  shows "us_per_minute \<le> d"
proof -
  let ?t = "py_lower (py_strip tf)"
  obtain u where u: "unit_duration (last ?t) = Some u" "d = u * digits_int (butlast ?t)"
    and c: "butlast ?t \<noteq> []" "list_all py_isdigit (butlast ?t)" "hd (butlast ?t) \<noteq> CHR ''0''"
    using assms by (auto simp: timeframe_duration_def Let_def split: if_splits option.splits)
  have "us_per_minute \<le> u" using u(1) by (auto simp: us_per_minute_def us_per_day_def split: if_splits)
  moreover have "1 \<le> digits_int (butlast ?t)" using c by (intro digits_int_pos)
  ultimately show ?thesis
    using mult_mono [of us_per_minute u 1 "digits_int (butlast ?t)"] by (simp add: u(2) us_per_minute_def)
qed

lemma timeframe_normalized: "timeframe_duration (py_lower (py_strip tf)) = Inr d \<longleftrightarrow> timeframe_duration tf = Inr d"
  by (auto simp: timeframe_duration_def Let_def split: if_splits option.splits)

lemma round_half_even_near:
  assumes "\<bar>r - of_int k\<bar> < 1 / 2"
  shows "round_half_even r = k"
proof -
  have "\<bar>of_int (round_half_even r) - of_int k :: rat\<bar> < 1"
    using round_half_even_err [of r] assms by linarith
  then have "\<bar>round_half_even r - k\<bar> < 1" by (metis of_int_1 of_int_abs of_int_diff of_int_less_iff)
  then show ?thesis by linarith
qed

lemma fl_nonneg: "0 \<le> x \<Longrightarrow> 0 \<le> fl x"
  using round_half_even_lower [of 0 "x / p2 (bin_exp x - 52)"]
  by (simp add: fl_def Let_def less_imp_le)

lemma near_half:
  fixes d z k f :: rat
  assumes "z - k = d * 1000000" and "\<bar>d\<bar> \<le> 1 / 4194304" and "\<bar>f - z\<bar> \<le> 1 / 17179869184"
  shows "\<bar>f - k\<bar> < 1 / 2"
  using assms by linarith

lemma timestamp_of_ms_exact:
  assumes "0 \<le> n" and "n < 2 ^ 32 * 1000"
  shows "timestamp_of_ms n = Inr (epoch_us + n * 1000)"
proof -
  define x where "x = (of_int n / 1000 :: rat)"
  define w where "w = \<lfloor>fl x\<rfloor>"
  define z where "z = (fl x - of_int w) * 1000000"
  have "of_int n < (of_int (2 ^ 32 * 1000) :: rat)" using assms(2) by (simp only: of_int_less_iff)
  then have x: "0 \<le> x" "x < p2 32" using assms(1) by (simp_all add: x_def p2_def divide_less_eq)
  have ex: "\<bar>fl x - x\<bar> \<le> 1 / 4194304" using fl_error [of x 32] x by (simp add: p2_def)
  have "0 \<le> fl x - of_int w \<and> fl x - of_int w < 1" unfolding w_def by linarith
  then have z: "0 \<le> z" "z < 1000000" by (auto simp: z_def)
  then have ez: "\<bar>fl z - z\<bar> \<le> 1 / 17179869184" using fl_error [of z 20] by (simp add: p2_def)
  define k where "k = (of_int (n * 1000 - w * 1000000) :: rat)"
  have "z - k = (fl x - x) * 1000000" by (simp add: z_def x_def k_def field_simps)
  from near_half [OF this ex ez] have "\<bar>fl z - k\<bar> < 1 / 2" .
  then have "\<bar>fl z - of_int (n * 1000 - w * 1000000)\<bar> < 1 / 2" by (simp only: k_def)
  then have m: "round_half_even (fl z) = n * 1000 - w * 1000000" by (rule round_half_even_near)
  have "trunc_rat (fl x) = w" using fl_nonneg [OF x(1)] by (simp add: trunc_rat_def w_def)
  moreover have "0 \<le> epoch_us + n * 1000 \<and> epoch_us + n * 1000 < dt_max"
    using assms by (simp add: epoch_us_def us_per_day_def dt_max_def days_before_year_def)
  ultimately have "fromtimestamp (fl x) = Some (epoch_us + n * 1000)"
    using m by (simp add: fromtimestamp_def z_def)
  then show ?thesis by (simp add: timestamp_of_ms_def x_def)
qed

lemma epoch_milliseconds_inverse: "epoch_milliseconds (epoch_us + n * 1000) = n"
proof -
  define m where "m = n mod 86400000"
  have "n * 1000 mod us_per_day = m * 1000" "n * 1000 div us_per_day = n div 86400000"
    using mod_mult_mult2 [of n 1000 86400000] div_mult_mult2 [of 1000 n 86400000] by (simp_all add: us_per_day_def m_def)
  moreover have "m * 1000 div 1000000 = m div 1000" "m * 1000 mod 1000000 = m mod 1000 * 1000"
    using mod_mult_mult2 [of m 1000 1000] div_mult_mult2 [of 1000 m 1000] by simp_all
  ultimately have "epoch_milliseconds (epoch_us + n * 1000) = n div 86400000 * 86400000 + (m div 1000 * 1000 + m mod 1000)"
    by (simp add: epoch_milliseconds_def Let_def)
  then show ?thesis by (simp add: m_def)
qed

text \<open>
  C34. Epoch milliseconds survive. Although a millisecond timestamp goes through a binary floating point
  division and back, from 1970 to the year 2106 the normalized timestamp is exact and gives the
  same milliseconds back; so distinct candle opens stay distinct.
\<close>

theorem timestamp_ms_roundtrip:
  assumes "0 \<le> n" and "n < 2 ^ 32 * 1000"
  shows "normalize_utc_timestamp (AInt n) = Inr (epoch_us + n * 1000)
     \<and> normalize_optional_timestamp_ms (AInt n) = Inr (Some n)"
  using timestamp_of_ms_exact [OF assms]
  by (simp add: normalize_optional_timestamp_ms_def epoch_milliseconds_inverse)

theorem timestamp_ms_roundtrip_witness:
  "(0::int) \<le> 1714557600000 \<and> (1714557600000::int) < 2 ^ 32 * 1000
   \<and> normalize_optional_timestamp_ms (AInt 1714557600000) = Inr (Some 1714557600000)"
  using timestamp_ms_roundtrip [of 1714557600000] by simp

section \<open>Properties of candles\<close>

lemma map_sum_Inr: "map_sum id f x = Inr y \<Longrightarrow> (\<And>z. x = Inr z \<Longrightarrow> y = f z \<Longrightarrow> thesis) \<Longrightarrow> thesis"
  by (cases x) auto

text \<open>
  What an accepted candle is: positive prices with low at most open and close, these at most high, and
  volumes and trade counts that are not negative; the base volume is present when it is required.
\<close>

theorem validated_candle_values_geometry:
  assumes "validate_candle_values candle index timeframe require_volume = Inr v"
  shows "0 < vc_low v \<and> vc_low v \<le> vc_open v \<and> vc_open v \<le> vc_high v \<and> vc_low v \<le> vc_close v \<and> vc_close v \<le> vc_high v
     \<and> (\<forall>x. vc_volume v = Some x \<or> vc_quote_volume v = Some x \<or> vc_turnover v = Some x \<longrightarrow> 0 \<le> x)
     \<and> (\<forall>k. vc_trade_count v = Some k \<longrightarrow> 0 \<le> k) \<and> (require_volume \<longrightarrow> vc_volume v \<noteq> None)"
proof -
  have price: "parsed_price err candle name = Inr p \<Longrightarrow> 0 < p" for err name p
    by (auto simp: parsed_price_def Let_def split: if_splits option.splits)
  have nonneg: "map_sum id Some (non_negative_volume err raw) = Inr (Some x) \<Longrightarrow> 0 \<le> x" for err raw x
    by (cases "non_negative_volume err raw") (auto simp: non_negative_volume_def split: if_splits option.splits)
  have vol: "parsed_volume err candle rv = Inr (Some x) \<Longrightarrow> 0 \<le> x" for err rv x
    using nonneg by (auto simp: parsed_volume_def Let_def split: if_splits)
  have req: "parsed_volume err candle True = Inr w \<Longrightarrow> \<exists>y. w = Some y" for err w
    by (auto simp: parsed_volume_def Let_def map_sum.simps split: if_splits elim!: map_sum_Inr)
  have opt: "parsed_optional_volume err candle name = Inr (Some x) \<Longrightarrow> 0 \<le> x" for err name x
    using nonneg by (auto simp: parsed_optional_volume_def Let_def split: if_splits)
  have "digits_int s \<ge> 0" for s by (simp add: digits_int)
  then have count: "parsed_trade_count err candle = Inr (Some k) \<Longrightarrow> 0 \<le> k" for err k
    by (auto simp: parsed_trade_count_def Let_def split: if_splits option.splits elim!: parse_non_negative_int.elims)
  show ?thesis
    using assms by (auto simp: validate_candle_values_def Let_def intro: price vol opt count req)
qed

definition sample_candle :: "int \<Rightarrow> candle_arg" where
  "sample_candle ts = CandleMapping
     [(''timestamp'', AInt ts), (''open'', AText ''100''), (''high'', AText ''104.5''), (''low'', AText ''99''),
      (''close'', AText ''101''), (''volume'', AText ''12'')]"

theorem validated_candle_values_geometry_witness:
  "\<exists>v. validate_candle_values (sample_candle 0) (Some 0) (Some ''5m'') True = Inr v \<and> 0 < vc_low v
     \<and> vc_low v \<le> vc_open v \<and> vc_volume v \<noteq> None"
proof -
  have "case validate_candle_values (sample_candle 0) (Some 0) (Some ''5m'') True of Inl _ \<Rightarrow> False | Inr _ \<Rightarrow> True"
    by code_simp
  then obtain v where v: "validate_candle_values (sample_candle 0) (Some 0) (Some ''5m'') True = Inr v"
    by (auto split: sum.splits)
  from validated_candle_values_geometry [OF v] v show ?thesis by auto
qed

section \<open>Properties of sequences\<close>

text \<open>A candle follows another: no overlap, and no gap when continuity is required.\<close>

definition follows :: "bool \<Rightarrow> int \<Rightarrow> CausalCandle \<Rightarrow> CausalCandle \<Rightarrow> bool" where
  "follows continuity duration x y \<longleftrightarrow> cc_open_timestamp x + duration \<le> cc_open_timestamp y
     \<and> (continuity \<longrightarrow> cc_open_timestamp y = cc_open_timestamp x + duration)"

definition closes_on_time :: "int \<Rightarrow> CausalCandle \<Rightarrow> bool" where
  "closes_on_time duration x \<longleftrightarrow> cc_open_timestamp x + duration - 1000 \<le> cc_close_timestamp x
     \<and> cc_close_timestamp x \<le> cc_open_timestamp x + duration"

lemma candle_close_bounds:
  "candle_close c tf i d = Inr t \<Longrightarrow> d - 1000 \<le> t \<and> t \<le> d"
  by (auto simp: candle_close_def Let_def split: if_splits)

lemma causal_candle_ok:
  assumes "causal_candle a i prev c = Inr x" and "0 < sa_duration a"
  shows "cc_source x = c" "cc_index x = Some i" "closes_on_time (sa_duration a) x"
    "prev = Some p \<Longrightarrow> p + sa_duration a \<le> cc_open_timestamp x
       \<and> (sa_require_continuity a \<longrightarrow> cc_open_timestamp x = p + sa_duration a)"
    "sa_validate_values a \<Longrightarrow> \<exists>v. validate_candle_values c (Some i) (Some (sa_timeframe a)) (sa_require_volume a) = Inr v"
proof -
  obtain t where close: "candle_close c (sa_timeframe a) i (cc_open_timestamp x + sa_duration a) = Inr (cc_close_timestamp x)"
    and order: "check_order (sa_require_continuity a) (sa_timeframe a) (sa_duration a) i prev (cc_open_timestamp x) = Inr t"
    and src: "cc_source x = c" "cc_index x = Some i"
    and vals: "sa_validate_values a \<Longrightarrow> \<exists>v. validate_candle_values c (Some i) (Some (sa_timeframe a)) (sa_require_volume a) = Inr v"
    using assms(1) by (auto simp: causal_candle_def Let_def split: if_splits elim!: map_sum_Inr)
  show "closes_on_time (sa_duration a) x" using candle_close_bounds [OF close] by (simp add: closes_on_time_def)
  show "prev = Some p \<Longrightarrow> p + sa_duration a \<le> cc_open_timestamp x
       \<and> (sa_require_continuity a \<longrightarrow> cc_open_timestamp x = p + sa_duration a)"
    using order by (auto simp: check_order_def split: if_splits)
  show "cc_source x = c" "cc_index x = Some i" by (rule src)+
  show "sa_validate_values a \<Longrightarrow> \<exists>v. validate_candle_values c (Some i) (Some (sa_timeframe a)) (sa_require_volume a) = Inr v"
    by (rule vals)
qed

lemma sequence_loop_ok:
  assumes "sequence_loop a i prev cs = Inr xs" and "0 < sa_duration a"
  shows "map cc_source xs = cs \<and> map cc_index xs = map Some [i..<i + length cs]
     \<and> list_all (closes_on_time (sa_duration a)) xs \<and> successively (follows (sa_require_continuity a) (sa_duration a)) xs
     \<and> (\<forall>p. prev = Some p \<longrightarrow> list_all (\<lambda>x. p + sa_duration a \<le> cc_open_timestamp x) xs)"
  using assms(1)
proof (induction cs arbitrary: i prev xs)
  case (Cons c cs)
  then obtain x ys where x: "causal_candle a i prev c = Inr x"
    and ys: "sequence_loop a (Suc i) (Some (cc_open_timestamp x)) cs = Inr ys" and xs: "xs = x # ys" by auto
  note ok = causal_candle_ok [OF x assms(2)] and IH = Cons.IH [OF ys]
  have "follows (sa_require_continuity a) (sa_duration a) x y" if "ys = y # zs" for y zs
  proof -
    from that ys obtain c' where "causal_candle a (Suc i) (Some (cc_open_timestamp x)) c' = Inr y" by (cases cs) auto
    from causal_candle_ok(4) [OF this assms(2) refl] show ?thesis by (simp add: follows_def)
  qed
  then have "successively (follows (sa_require_continuity a) (sa_duration a)) xs"
    using IH xs by (cases ys) auto
  moreover have "list_all (\<lambda>z. p + sa_duration a \<le> cc_open_timestamp z) xs" if "prev = Some p" for p
    using ok(4) [OF that] IH xs assms(2) by (fastforce simp: list_all_iff)
  moreover have "[i..<i + length (c # cs)] = i # [Suc i..<Suc i + length cs]"
    by (subst upt_conv_Cons) simp_all
  ultimately show ?case using IH xs ok by simp
qed simp

lemma validate_candle_sequence_loop:
  assumes "validate_candle_sequence cs tf cont vol vals = Inr xs"
  obtains d where "timeframe_duration tf = Inr d" "us_per_minute \<le> d"
    "sequence_loop \<lparr>sa_timeframe = py_lower (py_strip tf), sa_duration = d, sa_require_continuity = cont,
       sa_require_volume = vol, sa_validate_values = vals\<rparr> 0 None cs = Inr xs"
  using assms timeframe_duration_minimum
  by (auto simp: validate_candle_sequence_def Let_def timeframe_normalized)

text \<open>
  C33. A validated sequence is a timeline. Validation returns the candles in their order, numbered, each
  closing at the boundary of its timeframe or one millisecond before it, and each opening at or after the
  close boundary of the one before: no duplicates, no reordering, no overlap, and no gap when continuity is
  required.
\<close>

theorem validated_sequence_is_timeline:
  assumes "validate_candle_sequence cs tf cont vol vals = Inr xs"
  shows "\<exists>d. timeframe_duration tf = Inr d \<and> 0 < d \<and> map cc_source xs = cs
     \<and> map cc_index xs = map Some [0..<length cs] \<and> list_all (closes_on_time d) xs \<and> successively (follows cont d) xs"
proof -
  obtain d where d: "timeframe_duration tf = Inr d" "us_per_minute \<le> d"
    "sequence_loop \<lparr>sa_timeframe = py_lower (py_strip tf), sa_duration = d, sa_require_continuity = cont,
       sa_require_volume = vol, sa_validate_values = vals\<rparr> 0 None cs = Inr xs"
    using assms by (rule validate_candle_sequence_loop)
  then have "0 < d" by (simp add: us_per_minute_def)
  with sequence_loop_ok [OF d(3)] d(1) show ?thesis by auto
qed

text \<open>The closes of a timeline increase, so the closed candles are its first ones.\<close>

lemma closes_increase:
  assumes "successively (follows cont d) xs" and "list_all (closes_on_time d) xs" and "1000 < d"
  shows "sorted_wrt (\<lambda>x y. cc_close_timestamp x < cc_close_timestamp y) xs"
proof -
  have "transp (\<lambda>x y. cc_close_timestamp x < cc_close_timestamp y)" by (auto intro: transpI)
  moreover have "successively (\<lambda>x y. cc_close_timestamp x < cc_close_timestamp y) xs"
    using assms by (induction xs rule: induct_list012) (auto simp: follows_def closes_on_time_def)
  ultimately show ?thesis using successively_conv_sorted_wrt by blast
qed

lemma filter_sorted_takeWhile:
  fixes f :: "'a \<Rightarrow> int"
  assumes "sorted_wrt (\<lambda>x y. f x < f y) xs"
  shows "filter (\<lambda>x. f x \<le> t) xs = takeWhile (\<lambda>x. f x \<le> t) xs"
  using assms
proof (induction xs)
  case (Cons x xs)
  show ?case
  proof (cases "f x \<le> t")
    case False
    then have "filter (\<lambda>x. f x \<le> t) xs = []" using Cons.prems by (auto simp: filter_empty_conv)
    with False show ?thesis by simp
  qed (use Cons in auto)
qed simp

lemma filter_take_prefix:
  assumes "filter P xs = takeWhile P xs" and "length (takeWhile P xs) \<le> k"
  shows "filter P (take k xs) = takeWhile P xs"
proof -
  define n where "n = length (takeWhile P xs)"
  have n: "takeWhile P xs = take n xs" unfolding n_def by (rule takeWhile_eq_take)
  have T: "filter P (take n xs) = take n xs" unfolding n [symmetric] by (auto simp: filter_id_conv dest: set_takeWhileD)
  have "filter P (take n xs @ drop n xs) = take n xs" using assms(1) n by simp
  then have "filter P (drop n xs) = []" by (simp only: filter_append T append_self_conv)
  then have "filter P (take (k - n) (drop n xs)) = []" by (auto simp: filter_empty_conv dest: in_set_takeD)
  moreover have "take k xs = take n xs @ take (k - n) (drop n xs)"
    using assms(2) n_def by (metis le_add_diff_inverse take_add)
  ultimately show ?thesis using T n by simp
qed

text \<open>The parts of a call that returns a window.\<close>

lemma closed_candles_cases:
  assumes "closed_candles_as_of cs tf dec m cont vol vals = Inr w"
  obtains t xs d where "normalize_utc_timestamp dec = Inr t" "0 \<le> m" "timeframe_duration tf = Inr d" "1000 < d"
    "validate_candle_sequence cs (py_lower (py_strip tf)) cont vol False = Inr xs"
    "map cc_source xs = cs" "list_all (closes_on_time d) xs" "successively (follows cont d) xs"
    "filter (\<lambda>x. cc_close_timestamp x \<le> t) xs = takeWhile (\<lambda>x. cc_close_timestamp x \<le> t) xs"
    "vals \<longrightarrow> validate_items (py_lower (py_strip tf)) vol (takeWhile (\<lambda>x. cc_close_timestamp x \<le> t) xs) = Inr ()"
    "m \<le> int (length (takeWhile (\<lambda>x. cc_close_timestamp x \<le> t) xs))"
    "w = \<lparr>win_candles = map cc_source (takeWhile (\<lambda>x. cc_close_timestamp x \<le> t) xs),
          win_timeline = takeWhile (\<lambda>x. cc_close_timestamp x \<le> t) xs, win_decision_timestamp = t,
          win_excluded_unclosed_count = length xs - length (takeWhile (\<lambda>x. cc_close_timestamp x \<le> t) xs)\<rparr>"
proof -
  obtain t xs where t: "normalize_utc_timestamp dec = Inr t" "0 \<le> m"
    and xs: "validate_candle_sequence cs (py_lower (py_strip tf)) cont vol False = Inr xs"
    and rest: "vals \<longrightarrow> validate_items (py_lower (py_strip tf)) vol (filter (\<lambda>x. cc_close_timestamp x \<le> t) xs) = Inr ()"
      "m \<le> int (length (filter (\<lambda>x. cc_close_timestamp x \<le> t) xs))"
      "w = \<lparr>win_candles = map cc_source (filter (\<lambda>x. cc_close_timestamp x \<le> t) xs),
          win_timeline = filter (\<lambda>x. cc_close_timestamp x \<le> t) xs, win_decision_timestamp = t,
          win_excluded_unclosed_count = length xs - length (filter (\<lambda>x. cc_close_timestamp x \<le> t) xs)\<rparr>"
    using assms by (auto simp: closed_candles_as_of_def Let_def not_less split: if_splits)
  obtain d where d: "timeframe_duration (py_lower (py_strip tf)) = Inr d" "us_per_minute \<le> d"
    and loop: "sequence_loop \<lparr>sa_timeframe = py_lower (py_strip (py_lower (py_strip tf))), sa_duration = d,
      sa_require_continuity = cont, sa_require_volume = vol, sa_validate_values = False\<rparr> 0 None cs = Inr xs"
    using xs by (rule validate_candle_sequence_loop)
  have d0: "1000 < d" using d(2) by (simp add: us_per_minute_def)
  with sequence_loop_ok [OF loop] have ok: "map cc_source xs = cs" "list_all (closes_on_time d) xs" "successively (follows cont d) xs"
    by simp_all
  have "filter (\<lambda>x. cc_close_timestamp x \<le> t) xs = takeWhile (\<lambda>x. cc_close_timestamp x \<le> t) xs"
    by (rule filter_sorted_takeWhile) (rule closes_increase [OF ok(3,2) d0])
  with that t xs rest d(1) d0 ok show ?thesis by (simp add: timeframe_normalized)
qed

text \<open>
  C32. No look-ahead. The window of a decision time is a prefix of the candles: it holds exactly the candles that
  had closed by then, every candle it leaves out closes after the decision, at least the required number
  of candles is there, and the count of excluded candles is right.
\<close>

theorem closed_window_is_causal:
  assumes "closed_candles_as_of cs tf dec m cont vol vals = Inr w"
  shows "\<exists>t xs n. normalize_utc_timestamp dec = Inr t \<and> win_decision_timestamp w = t
     \<and> validate_candle_sequence cs (py_lower (py_strip tf)) cont vol False = Inr xs
     \<and> n \<le> length cs \<and> win_candles w = take n cs \<and> win_timeline w = take n xs \<and> m \<le> int n
     \<and> win_excluded_unclosed_count w = length cs - n
     \<and> (\<forall>x \<in> set (take n xs). cc_close_timestamp x \<le> t) \<and> (\<forall>x \<in> set (drop n xs). t < cc_close_timestamp x)"
proof -
  obtain t xs d where t: "normalize_utc_timestamp dec = Inr t"
    and xs: "validate_candle_sequence cs (py_lower (py_strip tf)) cont vol False = Inr xs" "map cc_source xs = cs"
    and f: "filter (\<lambda>x. cc_close_timestamp x \<le> t) xs = takeWhile (\<lambda>x. cc_close_timestamp x \<le> t) xs"
    and m: "m \<le> int (length (takeWhile (\<lambda>x. cc_close_timestamp x \<le> t) xs))"
    and w: "w = \<lparr>win_candles = map cc_source (takeWhile (\<lambda>x. cc_close_timestamp x \<le> t) xs),
          win_timeline = takeWhile (\<lambda>x. cc_close_timestamp x \<le> t) xs, win_decision_timestamp = t,
          win_excluded_unclosed_count = length xs - length (takeWhile (\<lambda>x. cc_close_timestamp x \<le> t) xs)\<rparr>"
    by (rule closed_candles_cases [OF assms])
  define n where "n = length (takeWhile (\<lambda>x. cc_close_timestamp x \<le> t) xs)"
  have n: "takeWhile (\<lambda>x. cc_close_timestamp x \<le> t) xs = take n xs" unfolding n_def by (rule takeWhile_eq_take)
  have len: "length xs = length cs" using xs(2) by (metis length_map)
  have "filter (\<lambda>x. cc_close_timestamp x \<le> t) (take n xs @ drop n xs) = take n xs" using f n by simp
  moreover have "filter (\<lambda>x. cc_close_timestamp x \<le> t) (take n xs) = take n xs"
    unfolding n [symmetric] by (auto simp: filter_id_conv dest: set_takeWhileD)
  ultimately have "filter (\<lambda>x. cc_close_timestamp x \<le> t) (drop n xs) = []" by (simp only: filter_append append_self_conv)
  then have "\<forall>x \<in> set (drop n xs). t < cc_close_timestamp x" by (auto simp: filter_empty_conv not_le)
  moreover have "\<forall>x \<in> set (take n xs). cc_close_timestamp x \<le> t" unfolding n [symmetric] by (auto dest: set_takeWhileD)
  moreover have nl: "n \<le> length cs" using length_takeWhile_le [of _ xs] len by (simp add: n_def)
  moreover have "map cc_source (take n xs) = take n cs" using xs(2) by (simp add: take_map [symmetric])
  moreover have "w = \<lparr>win_candles = map cc_source (take n xs), win_timeline = take n xs, win_decision_timestamp = t,
      win_excluded_unclosed_count = length cs - n\<rparr>" "m \<le> int n"
    using w m nl unfolding n by (simp_all add: len min_absorb2)
  ultimately show ?thesis using t xs(1) by (intro exI [of _ t] exI [of _ xs] exI [of _ n]) simp
qed

lemma sequence_loop_prefix:
  "sequence_loop a i prev (cs @ ds) = Inr xs \<Longrightarrow> sequence_loop a i prev cs = Inr (take (length cs) xs)"
  by (induction cs arbitrary: i prev xs) auto

lemma validate_candle_sequence_prefix:
  "validate_candle_sequence (cs @ ds) tf cont vol vals = Inr xs
   \<Longrightarrow> validate_candle_sequence cs tf cont vol vals = Inr (take (length cs) xs)"
  by (auto simp: validate_candle_sequence_def Let_def dest: sequence_loop_prefix)

lemma closed_window_prefix:
  assumes "closed_candles_as_of (cs @ ds) tf dec m cont vol vals = Inr w"
    and "length (win_candles w) \<le> length cs"
  shows "\<exists>w'. closed_candles_as_of cs tf dec m cont vol vals = Inr w' \<and> win_candles w' = win_candles w
     \<and> win_timeline w' = win_timeline w \<and> win_decision_timestamp w' = win_decision_timestamp w"
proof -
  obtain t xs d where t: "normalize_utc_timestamp dec = Inr t" "0 \<le> m"
    and xs: "validate_candle_sequence (cs @ ds) (py_lower (py_strip tf)) cont vol False = Inr xs"
    and f: "filter (\<lambda>x. cc_close_timestamp x \<le> t) xs = takeWhile (\<lambda>x. cc_close_timestamp x \<le> t) xs"
    and v: "vals \<longrightarrow> validate_items (py_lower (py_strip tf)) vol (takeWhile (\<lambda>x. cc_close_timestamp x \<le> t) xs) = Inr ()"
    and m: "m \<le> int (length (takeWhile (\<lambda>x. cc_close_timestamp x \<le> t) xs))"
    and w: "w = \<lparr>win_candles = map cc_source (takeWhile (\<lambda>x. cc_close_timestamp x \<le> t) xs),
          win_timeline = takeWhile (\<lambda>x. cc_close_timestamp x \<le> t) xs, win_decision_timestamp = t,
          win_excluded_unclosed_count = length xs - length (takeWhile (\<lambda>x. cc_close_timestamp x \<le> t) xs)\<rparr>"
    by (rule closed_candles_cases [OF assms(1)])
  let ?ys = "take (length cs) xs" and ?closed = "\<lambda>x. cc_close_timestamp x \<le> t"
  have ys: "validate_candle_sequence cs (py_lower (py_strip tf)) cont vol False = Inr ?ys"
    using xs by (rule validate_candle_sequence_prefix)
  have n: "length (takeWhile ?closed xs) \<le> length cs" using assms(2) w by simp
  from filter_take_prefix [OF f this] have "filter ?closed ?ys = takeWhile ?closed xs" .
  with t ys v m w show ?thesis by (simp add: closed_candles_as_of_def Let_def)
qed

text \<open>
  Candles that have not closed do not matter: dropping candles at the end of the sequence that are outside the
  window leaves the window, its timeline and the decision time unchanged.
\<close>

theorem unclosed_candles_do_not_matter:
  assumes "closed_candles_as_of (cs @ ds) tf dec m cont vol vals = Inr w"
    and "length (win_candles w) \<le> length cs"
  shows "\<exists>w'. closed_candles_as_of cs tf dec m cont vol vals = Inr w' \<and> win_candles w' = win_candles w
     \<and> win_timeline w' = win_timeline w \<and> win_decision_timestamp w' = win_decision_timestamp w"
  using assms by (rule closed_window_prefix)

section \<open>A concrete window\<close>

lemma dt_max_value [code]: "dt_max = 315537897600000000"
  by (simp add: dt_max_def days_before_year_def us_per_day_def)

definition sample_candles :: "candle_arg list" where
  "sample_candles = [sample_candle 1714557600000, sample_candle 1714557900000, sample_candle 1714558200000]"

definition window_candles :: "candle_exception + ClosedCandleWindow \<Rightarrow> nat" where
  "window_candles r = (case r of Inl _ \<Rightarrow> 0 | Inr w \<Rightarrow> length (win_candles w))"

lemma sample_window: "window_candles (closed_candles_as_of sample_candles ''5m'' (AInt 1714558200000) 2 True True True) = 2"
  by code_simp

lemma sample_window_returns:
  obtains w where "closed_candles_as_of sample_candles ''5m'' (AInt 1714558200000) 2 True True True = Inr w"
    "length (win_candles w) = 2"
  using sample_window by (auto simp: window_candles_def split: sum.splits)

lemma sample_sequence_returns:
  obtains xs where "validate_candle_sequence sample_candles ''5m'' True True True = Inr xs"
proof -
  have "case validate_candle_sequence sample_candles ''5m'' True True True of Inl _ \<Rightarrow> False | Inr _ \<Rightarrow> True" by code_simp
  then show ?thesis using that by (auto split: sum.splits)
qed

theorem validated_sequence_is_timeline_witness:
  "\<exists>xs d. validate_candle_sequence sample_candles ''5m'' True True True = Inr xs \<and> timeframe_duration ''5m'' = Inr d
     \<and> map cc_source xs = sample_candles \<and> successively (follows True d) xs"
  by (rule sample_sequence_returns) (use validated_sequence_is_timeline in blast)

theorem closed_window_is_causal_witness:
  "\<exists>w n. closed_candles_as_of sample_candles ''5m'' (AInt 1714558200000) 2 True True True = Inr w
     \<and> win_candles w = take n sample_candles \<and> n = 2 \<and> win_excluded_unclosed_count w = 1"
proof -
  obtain w where w: "closed_candles_as_of sample_candles ''5m'' (AInt 1714558200000) 2 True True True = Inr w"
    "length (win_candles w) = 2" by (rule sample_window_returns)
  from closed_window_is_causal [OF w(1)] obtain n where n: "n \<le> length sample_candles" "win_candles w = take n sample_candles"
    "win_excluded_unclosed_count w = length sample_candles - n" by blast
  moreover have "n = 2" using n(1,2) w(2) by simp
  ultimately show ?thesis using w(1) by (auto simp: sample_candles_def)
qed

theorem unclosed_candles_do_not_matter_witness:
  "\<exists>w w'. closed_candles_as_of (take 2 sample_candles @ drop 2 sample_candles) ''5m'' (AInt 1714558200000) 2 True True True = Inr w
     \<and> closed_candles_as_of (take 2 sample_candles) ''5m'' (AInt 1714558200000) 2 True True True = Inr w'
     \<and> win_candles w' = win_candles w"
proof -
  obtain w where w: "closed_candles_as_of (take 2 sample_candles @ drop 2 sample_candles) ''5m'' (AInt 1714558200000) 2 True True True = Inr w"
    "length (win_candles w) \<le> length (take 2 sample_candles)"
    by (rule sample_window_returns) (simp add: sample_candles_def)
  from unclosed_candles_do_not_matter [OF w] w(1) show ?thesis by blast
qed

section \<open>The log of diagnostics\<close>

interpretation diagnostics_log: step_machine record_diagnostic "\<lambda>_. True" "\<lambda>recorded. length recorded \<le> 256"
  by unfold_locales (simp add: record_diagnostic_def MAX_RECORDED_SHADOW_DIAGNOSTICS_def)

lemma record_diagnostic_suffix:
  "record_diagnostic (drop (length ds - 256) ds) d = drop (length (ds @ [d]) - 256) (ds @ [d])"
proof (cases "256 \<le> length ds")
  case True
  then have "1 + (length ds - 256) = length ds - 255" by simp
  then have "drop 1 (drop (length ds - 256) ds) = drop (length ds - 255) ds" by (simp only: drop_drop)
  with True show ?thesis by (simp add: record_diagnostic_def MAX_RECORDED_SHADOW_DIAGNOSTICS_def)
next
  case False
  then show ?thesis by (simp add: record_diagnostic_def MAX_RECORDED_SHADOW_DIAGNOSTICS_def)
qed

text \<open>
  The log of shadow diagnostics is bounded and recent: after any number of recorded diagnostics it holds exactly
  the last 256 of them, in order.
\<close>

theorem diagnostics_log_keeps_last:
  "length (run record_diagnostic [] ds) \<le> 256 \<and> run record_diagnostic [] ds = drop (length ds - 256) ds"
proof
  show "length (run record_diagnostic [] ds) \<le> 256" by (rule diagnostics_log.run_inv) (simp_all add: list.pred_True)
  show "run record_diagnostic [] ds = drop (length ds - 256) ds"
  proof (induction ds rule: rev_induct)
    case (snoc d ds)
    then show ?case by (simp only: run_append run.simps record_diagnostic_suffix)
  qed simp
qed

text \<open>No reason keeps more than ten sampled indices, whatever is scanned.\<close>

definition samples_bounded :: "shadow_state \<Rightarrow> bool" where
  "samples_bounded s \<longleftrightarrow> (\<forall>(k, b) \<in> set (ss_sampled_indices s). length b \<le> MAX_SHADOW_SAMPLE_INDICES)"

lemma shadow_record_bounded:
  assumes "samples_bounded s"
  shows "samples_bounded (shadow_record idx reason s)"
proof -
  let ?m = "ss_sampled_indices s"
  have old: "length b \<le> MAX_SHADOW_SAMPLE_INDICES" if "map_of ?m reason = Some b" for b
    using assms map_of_SomeD [OF that] by (auto simp: samples_bounded_def)
  have upd: "set (AList.update k v m) \<subseteq> insert (k, v) (set m)" for k v and m :: "(string \<times> nat list) list"
    by (induction m) auto
  have "length (let bucket = (case map_of ?m reason of None \<Rightarrow> [] | Some b \<Rightarrow> b) in
      if length bucket < MAX_SHADOW_SAMPLE_INDICES then bucket @ [idx] else bucket) \<le> MAX_SHADOW_SAMPLE_INDICES"
    using old by (auto simp: Let_def split: option.splits)
  then show ?thesis
    using upd [of reason _ ?m] assms unfolding samples_bounded_def shadow_record_def Let_def by fastforce
qed

lemma shadow_step_bounded: "samples_bounded s \<Longrightarrow> samples_bounded (shadow_step tf dms s item)"
proof -
  have fold: "samples_bounded s \<Longrightarrow> samples_bounded (fold (shadow_record i) rs s)" for i rs s
    by (induction rs arbitrary: s) (auto intro: shadow_record_bounded)
  assume "samples_bounded s"
  then show ?thesis
    using fold by (auto simp: shadow_step_def Let_def samples_bounded_def [of "s\<lparr>ss_rejected := _\<rparr>"] samples_bounded_def [of s]
        split: prod.splits sum.splits)
qed

interpretation shadow_samples: step_machine "shadow_step tf duration_ms" "\<lambda>_. True" samples_bounded for tf duration_ms
  by unfold_locales (rule shadow_step_bounded)

definition candle_rejected :: "string \<Rightarrow> nat \<times> candle_arg \<Rightarrow> bool" where
  "candle_rejected tf item = (case validate_candle_values (snd item) (Some (fst item)) (Some tf) False of Inl _ \<Rightarrow> True | Inr _ \<Rightarrow> False)"

lemma shadow_fold_rejected: "ss_rejected (fold (shadow_record i) rs s) = ss_rejected s"
  by (induction rs arbitrary: s) (auto simp: shadow_record_def Let_def)

lemma shadow_run_rejected:
  "ss_rejected (run (shadow_step tf dms) s items) = ss_rejected s + length (filter (candle_rejected tf) items)"
proof (induction items arbitrary: s)
  case (Cons item items)
  have "ss_rejected (shadow_step tf dms s item) = ss_rejected s + (if candle_rejected tf item then 1 else 0)"
    by (cases item) (auto simp: shadow_step_def candle_rejected_def shadow_fold_rejected split: sum.splits)
  with Cons show ?case by simp
qed simp

text \<open>
  C35. Shadow diagnostics only observe. The strict decision rejects a batch exactly when the enforced decision does, which
  is when some candle fails the enforced validation; and no rule keeps more than ten sample indices.
\<close>

theorem shadow_diagnostics_only_observe:
  assumes "evaluate_candle_shadow_diagnostics cs tf consumer source synthetic = Inr d"
  shows "(csd_new_decision d = ''reject'') = (csd_old_decision d = ''reject'')
     \<and> (csd_old_decision d = ''reject'' \<longleftrightarrow> list_ex (candle_rejected (csd_timeframe d)) (enumerate 0 cs))
     \<and> (\<forall>(reason, idxs) \<in> set (csd_sampled_indices d). length idxs \<le> 10)"
proof -
  let ?s0 = "\<lparr>ss_reason_counts = [], ss_sampled_indices = [], ss_disagreeing = [], ss_rejected = 0\<rparr>"
  obtain dms where d: "csd_old_decision d = (if ss_rejected (run (shadow_step (csd_timeframe d) dms) ?s0 (enumerate 0 cs)) > 0 then ''reject'' else ''pass'')"
      "csd_new_decision d \<in> (if ss_rejected (run (shadow_step (csd_timeframe d) dms) ?s0 (enumerate 0 cs)) > 0 then {''reject''} else {''pass'', ''shadow_flag''})"
      "set (csd_sampled_indices d) = set (ss_sampled_indices (run (shadow_step (csd_timeframe d) dms) ?s0 (enumerate 0 cs)))"
    using assms by (auto simp: evaluate_candle_shadow_diagnostics_def Let_def split: sum.splits candle_exception.splits)
  have "samples_bounded (run (shadow_step (csd_timeframe d) dms) ?s0 (enumerate 0 cs))"
    by (rule shadow_samples.run_inv) (simp_all add: samples_bounded_def list.pred_True)
  moreover have "0 < length (filter (candle_rejected (csd_timeframe d)) (enumerate 0 cs))
      \<longleftrightarrow> list_ex (candle_rejected (csd_timeframe d)) (enumerate 0 cs)"
    by (auto simp: list_ex_iff filter_empty_conv)
  ultimately show ?thesis
    using d by (auto simp: shadow_run_rejected samples_bounded_def MAX_SHADOW_SAMPLE_INDICES_def split: if_splits)
qed

theorem shadow_diagnostics_only_observe_witness:
  "\<exists>d. evaluate_candle_shadow_diagnostics [NotACandle] ''5x'' ''replay'' ''unknown'' True = Inr d
     \<and> csd_new_decision d = csd_old_decision d \<and> csd_old_decision d = ''reject''"
proof -
  have "case evaluate_candle_shadow_diagnostics [NotACandle] ''5x'' ''replay'' ''unknown'' True of Inl _ \<Rightarrow> False | Inr d \<Rightarrow> csd_old_decision d = ''reject''"
    by code_simp
  then obtain d where "evaluate_candle_shadow_diagnostics [NotACandle] ''5x'' ''replay'' ''unknown'' True = Inr d" "csd_old_decision d = ''reject''"
    by (auto split: sum.splits)
  with shadow_diagnostics_only_observe show ?thesis by fastforce
qed

end
