(* ===== verification/Py_Json.thy ===== *)
theory Py_Json
  imports Py_Decimal "HOL-Library.AList" "HOL-Library.Char_ord" "HOL-Library.List_Lexorder"
begin

text \<open>
  JSON values as Python's \<open>json\<close> module reads and writes them.

  A JSON text is represented by the value it denotes. A text that prints a decimal is the value
  \<open>JDecimal\<close>; a text made of two printed decimals with a colon between them is \<open>JDecimalPair\<close>. A float keeps the text that
  \<open>repr\<close> gives. An object is the list of its items; its keys are distinct.
\<close>

datatype json =
  JNull | JBool bool | JNumber int | JFloat rat string | JText string | JDecimal rat | JDecimalPair rat rat
| JArray "json list" | JObject "(string \<times> json) list"

section \<open>Dictionaries\<close>

definition dict_update :: "(string \<times> json) list \<Rightarrow> (string \<times> json) list \<Rightarrow> (string \<times> json) list" where
  "dict_update d items = fold (\<lambda>(k, v). AList.update k v) items d"

definition json_get :: "(string \<times> json) list \<Rightarrow> string \<Rightarrow> json" where
  "json_get d k = (case map_of d k of Some v \<Rightarrow> v | None \<Rightarrow> JNull)"

definition is_object :: "json \<Rightarrow> bool" where
  "is_object v = (case v of JObject _ \<Rightarrow> True | _ \<Rightarrow> False)"

definition is_array :: "json \<Rightarrow> bool" where
  "is_array v = (case v of JArray _ \<Rightarrow> True | _ \<Rightarrow> False)"

definition object_fields :: "json \<Rightarrow> (string \<times> json) list" where
  "object_fields v = (case v of JObject d \<Rightarrow> d | _ \<Rightarrow> [])"

definition vget :: "json \<Rightarrow> string \<Rightarrow> json" where
  "vget v key = json_get (object_fields v) key"

section \<open>Texts\<close>

definition int_text :: "int \<Rightarrow> string" where
  "int_text n = (if n < 0 then CHR ''-'' # int_digits (- n) else int_digits n)"

text \<open>
  \<open>str(value)\<close> of a JSON value. Of a container only its opening bracket is kept: such a text is never blank and
  never a number or a timestamp.
\<close>

fun json_str :: "json \<Rightarrow> string" where
  "json_str JNull = ''None''"
| "json_str (JBool b) = (if b then ''True'' else ''False'')"
| "json_str (JNumber n) = int_text n"
| "json_str (JFloat x s) = s"
| "json_str (JText s) = s"
| "json_str (JDecimal x) = dec_canonical x"
| "json_str (JDecimalPair x y) = dec_canonical x @ '':'' @ dec_canonical y"
| "json_str (JArray vs) = ''[''"
| "json_str (JObject d) = ''{''"

text \<open>\<open>json.dumps(value, sort_keys=True, separators=(",", ":"))\<close>, which escapes everything but printable ASCII.\<close>

definition hex_digit :: "nat \<Rightarrow> char" where
  "hex_digit n = (if n < 10 then digit_char n else char_of (87 + n))"

definition escape_char :: "char \<Rightarrow> string" where
  "escape_char c =
     (let n = (of_char c :: nat) in
      if c = CHR 0x22 \<or> c = CHR 0x5C then [CHR 0x5C, c]
      else if n = 8 then [CHR 0x5C, CHR ''b''] else if n = 9 then [CHR 0x5C, CHR ''t'']
      else if n = 10 then [CHR 0x5C, CHR ''n''] else if n = 12 then [CHR 0x5C, CHR ''f'']
      else if n = 13 then [CHR 0x5C, CHR ''r'']
      else if 32 \<le> n \<and> n \<le> 126 then [c]
      else [CHR 0x5C, CHR ''u'', CHR ''0'', CHR ''0'', hex_digit (n div 16), hex_digit (n mod 16)])"

definition quote_text :: "string \<Rightarrow> string" where
  "quote_text s = CHR 0x22 # concat (map escape_char s) @ [CHR 0x22]"

fun json_dumps :: "json \<Rightarrow> string" where
  "json_dumps JNull = ''null''"
| "json_dumps (JBool b) = (if b then ''true'' else ''false'')"
| "json_dumps (JNumber n) = int_text n"
| "json_dumps (JFloat x s) = s"
| "json_dumps (JText s) = quote_text s"
| "json_dumps (JDecimal x) = quote_text (dec_canonical x)"
| "json_dumps (JDecimalPair x y) = quote_text (dec_canonical x @ '':'' @ dec_canonical y)"
| "json_dumps (JArray vs) = ''['' @ py_join '','' (map json_dumps vs) @ '']''"
| "json_dumps (JObject d) =
     ''{'' @ py_join '','' (map snd (sort_key fst (map (\<lambda>(k, v). (k, quote_text k @ '':'' @ json_dumps v)) d))) @ ''}''"

section \<open>Facts\<close>

lemma map_of_dict_update: "map_of (dict_update d items) = map_of d ++ map_of (rev items)"
proof (induction items arbitrary: d)
  case (Cons kv items)
  obtain k v where kv: "kv = (k, v)" by (cases kv)
  have "dict_update d (kv # items) = dict_update (AList.update k v d) items" by (simp add: dict_update_def kv)
  moreover have "map_of (AList.update k v d) = map_of d ++ [k \<mapsto> v]" by (auto simp: update_conv' fun_upd_def map_add_def)
  moreover have "map_of (rev (kv # items)) = [k \<mapsto> v] ++ map_of (rev items)" by (simp add: kv)
  ultimately show ?case by (simp only: Cons map_add_assoc)
qed (simp add: dict_update_def)

lemma vget_JObject [simp]: "vget (JObject d) k = json_get d k"
  by (simp add: vget_def object_fields_def)

lemma is_object_JObject [simp]: "is_object (JObject d)"
  by (simp add: is_object_def)

lemma json_get_Cons [simp]: "json_get ((k, v) # d) k' = (if k = k' then v else json_get d k')"
  by (simp add: json_get_def)

lemma json_get_Nil [simp]: "json_get [] k = JNull"
  by (simp add: json_get_def)

end
