(* ===== verification/Outcome_Progress.thy ===== *)
theory Outcome_Progress
  imports State_Machine Candle_Integrity Py_Json
begin

text \<open>
  Outcome progress of a lifecycle: its metadata, the binding of a progress row to a plan version
  (\<open>app/lifecycle/plan_version_binding.py\<close>), the candle side of \<open>app/lifecycle/outcome_policy.py\<close> and the breakeven
  policy (\<open>app/lifecycle/breakeven.py\<close>).
\<close>

section \<open>Metadata\<close>

text \<open>
  A progress row with its metadata: \<open>op_metadata\<close> is the value of the text \<open>metadata_json\<close>, \<open>None\<close> when the text
  is not JSON; \<open>op_prefix_evidence\<close> is the value of the text \<open>last_eligibility_prefix_evidence_json\<close>, \<open>None\<close> for a null.
\<close>

record outcome_progress = SetupLifecycleOutcomeProgress +
  op_metadata :: "json option"
  op_prefix_evidence :: "json option"

definition progress_metadata :: "outcome_progress \<Rightarrow> (string \<times> json) list" where
  "progress_metadata p = (case op_metadata p of Some (JObject d) \<Rightarrow> d | _ \<Rightarrow> [])"

definition with_metadata :: "outcome_progress \<Rightarrow> (string \<times> json) list \<Rightarrow> outcome_progress" where
  "with_metadata p d = p\<lparr>op_metadata := Some (JObject d)\<rparr>"

fun any_of_json :: "json \<Rightarrow> py_any" where
  "any_of_json JNull = ANone"
| "any_of_json (JBool b) = ABool b"
| "any_of_json (JNumber n) = AInt n"
| "any_of_json (JFloat x s) = AFloat (FiniteFloat x s)"
| "any_of_json (JText s) = AText s"
| "any_of_json (JDecimal x) = AText (dec_canonical x)"
| "any_of_json _ = AOther"

text \<open>
  The exceptions of the outcome code: a \<open>ValueError\<close> with its text, the \<open>ValueError\<close> of a candle range with
  what it prints, an exception of the timestamp code, or one of the models.
\<close>

datatype outcome_exception =
  OutcomeValueError string | CandleRangeError string int "(string \<times> json) list"
| TimestampError candle_exception | OutcomeModelError model_error | OutcomeTypeError

definition lift_timestamp :: "candle_exception + 'a \<Rightarrow> outcome_exception + 'a" where
  "lift_timestamp r = map_sum TimestampError id r"

definition lift_model :: "model_error + 'a \<Rightarrow> outcome_exception + 'a" where
  "lift_model r = map_sum OutcomeModelError id r"

text \<open>The text of a UTC timestamp.\<close>

definition utc_iso :: "int \<Rightarrow> string" where
  "utc_iso t = isoformat \<lparr>dt_local = t, dt_offset = Some 0\<rparr>"

section \<open>Plan version binding\<close>

definition PLAN_VERSION_BINDING_AWAITING :: string where
  "PLAN_VERSION_BINDING_AWAITING = ''awaiting_proven_plan_version''"

definition PLAN_VERSION_BINDING_BOUND_AT_CREATION :: string where
  "PLAN_VERSION_BINDING_BOUND_AT_CREATION = ''bound_at_creation''"

definition PLAN_VERSION_BINDING_BOUND_FORWARD :: string where
  "PLAN_VERSION_BINDING_BOUND_FORWARD = ''bound_forward_to_proven_plan_version''"

definition PLAN_VERSION_BINDING_UNRESOLVED :: string where
  "PLAN_VERSION_BINDING_UNRESOLVED = ''unresolved''"

definition PLAN_VERSION_BINDING_KEY :: string where
  "PLAN_VERSION_BINDING_KEY = ''plan_version_binding''"

record PlanVersionBindDecision =
  bd_progress :: outcome_progress
  bd_bound :: bool
  bd_reason :: string

definition bd_latched_plan_version_id :: "SetupLifecycleRecord \<Rightarrow> string option" where
  "bd_latched_plan_version_id r =
     (case plan_version_id r of
        None \<Rightarrow> None
      | Some v \<Rightarrow> (let text = py_strip v in if text = [] \<or> py_upper text = NA then None else Some text))"

definition initial_plan_version_binding :: "(string \<Rightarrow> string) \<Rightarrow> SetupLifecycleRecord \<Rightarrow> string" where
  "initial_plan_version_binding sha256 r =
     (if proven_progress_plan_version_id sha256 r \<noteq> None then PLAN_VERSION_BINDING_BOUND_AT_CREATION
      else if py_in REASON_PLAN_VERSION_INVARIANT_VIOLATION (case economic_identity_reason r of Some x \<Rightarrow> x | None \<Rightarrow> [])
      then PLAN_VERSION_BINDING_UNRESOLVED
      else if bd_latched_plan_version_id r = None then PLAN_VERSION_BINDING_AWAITING
      else PLAN_VERSION_BINDING_UNRESOLVED)"

definition binding_marker :: "outcome_progress \<Rightarrow> json" where
  "binding_marker p = json_get (progress_metadata p) PLAN_VERSION_BINDING_KEY"

definition with_binding_marker :: "outcome_progress \<Rightarrow> string \<Rightarrow> outcome_progress" where
  "with_binding_marker p marker =
     with_metadata p (AList.update PLAN_VERSION_BINDING_KEY (JText marker) (progress_metadata p))"

definition bind_progress_to_proven_plan_version ::
  "(string \<Rightarrow> string) \<Rightarrow> outcome_progress \<Rightarrow> SetupLifecycleRecord \<Rightarrow> PlanVersionBindDecision" where
  "bind_progress_to_proven_plan_version sha256 p r =
     (let unchanged = (\<lambda>reason. \<lparr>bd_progress = p, bd_bound = False, bd_reason = reason\<rparr>) in
      if op_lifecycle_id p \<noteq> lifecycle_id r then unchanged ''different_lifecycle''
      else case op_plan_version_id p of
        Some stored \<Rightarrow>
          (case proven_progress_plan_version_id sha256 r of
             None \<Rightarrow> unchanged ''preserved_unproven_economics''
           | Some proven \<Rightarrow> if stored = proven then unchanged ''preserved'' else unchanged ''wrong_plan_version'')
      | None \<Rightarrow>
          (case proven_progress_plan_version_id sha256 r of
             None \<Rightarrow> unchanged ''unresolved''
           | Some proven \<Rightarrow>
               if binding_marker p \<noteq> JText PLAN_VERSION_BINDING_AWAITING then unchanged ''unresolved_legacy''
               else if op_plan_identity p \<noteq> canonical_plan_identity sha256 r then unchanged ''economics_mismatch''
               else \<lparr>bd_progress = (with_binding_marker p PLAN_VERSION_BINDING_BOUND_FORWARD)\<lparr>op_plan_version_id := Some proven\<rparr>,
                     bd_bound = True, bd_reason = ''bound_forward''\<rparr>))"

definition without_binding_provenance :: "outcome_progress \<Rightarrow> outcome_progress" where
  "without_binding_provenance p =
     (with_metadata p (AList.delete PLAN_VERSION_BINDING_KEY (progress_metadata p)))\<lparr>op_plan_version_id := None\<rparr>"

definition with_plan_version :: "outcome_progress \<Rightarrow> string option \<Rightarrow> outcome_progress" where
  "with_plan_version p v = (if op_plan_version_id p = v then p else p\<lparr>op_plan_version_id := v\<rparr>)"

definition bind_existing_null_row ::
  "(string \<Rightarrow> string) \<Rightarrow> outcome_progress \<Rightarrow> SetupLifecycleRecord \<Rightarrow> outcome_progress \<Rightarrow> outcome_progress" where
  "bind_existing_null_row sha256 p r existing =
     (let decision = bind_progress_to_proven_plan_version sha256 existing r;
          identity_matches = (op_plan_identity p = op_plan_identity existing
            \<and> op_plan_identity existing = canonical_plan_identity sha256 r) in
      if bd_bound decision \<and> identity_matches \<and> op_plan_version_id (bd_progress decision) \<noteq> None
      then (with_binding_marker p PLAN_VERSION_BINDING_BOUND_FORWARD)
             \<lparr>op_plan_version_id := op_plan_version_id (bd_progress decision)\<rparr>
      else if identity_matches \<and> binding_marker existing = JText PLAN_VERSION_BINDING_AWAITING
      then (with_binding_marker p PLAN_VERSION_BINDING_AWAITING)\<lparr>op_plan_version_id := None\<rparr>
      else without_binding_provenance p)"

definition resolve_persisted_plan_version ::
  "(string \<Rightarrow> string) \<Rightarrow> outcome_progress \<Rightarrow> SetupLifecycleRecord \<Rightarrow> outcome_progress option \<Rightarrow> outcome_progress" where
  "resolve_persisted_plan_version sha256 p r existing =
     (let existing_id = Option.bind existing op_plan_version_id in
      if op_lifecycle_id p \<noteq> lifecycle_id r then with_plan_version p existing_id
      else if existing_id \<noteq> None then with_plan_version p existing_id
      else case existing of
        Some e \<Rightarrow> bind_existing_null_row sha256 p r e
      | None \<Rightarrow>
          (let proven = proven_progress_plan_version_id sha256 r;
               identity_matches = (op_plan_identity p = canonical_plan_identity sha256 r);
               incoming = op_plan_version_id p in
           if incoming \<noteq> None \<and> incoming = proven \<and> identity_matches then p
           else if \<not> identity_matches then without_binding_provenance p
           else if incoming \<noteq> None then with_plan_version p None
           else p))"

section \<open>Candles against a plan\<close>

fun any_required_decimal :: "py_any \<Rightarrow> string \<Rightarrow> outcome_exception + rat" where
  "any_required_decimal (ABool b) name = Inl (OutcomeValueError (''invalid_'' @ name))"
| "any_required_decimal ANone name = Inl (OutcomeValueError (''missing_'' @ name))"
| "any_required_decimal (AText s) name = map_sum OutcomeValueError id (policy_required_decimal s name)"
| "any_required_decimal (AInt n) name = Inr (of_int n)"
| "any_required_decimal (AFloat (FiniteFloat x s)) name = map_sum OutcomeValueError id (policy_required_decimal s name)"
| "any_required_decimal (AFloat NonFiniteFloat) name = Inl (OutcomeValueError (''non_finite_'' @ name))"
| "any_required_decimal (ADecimal (Finite x)) name = Inr x"
| "any_required_decimal (ADecimal _) name = Inl (OutcomeValueError (''non_finite_'' @ name))"
| "any_required_decimal _ name = Inl (OutcomeValueError (''invalid_'' @ name))"

definition range_price_check :: "CausalCandle \<Rightarrow> rat \<Rightarrow> rat \<Rightarrow> string \<Rightarrow> outcome_exception + unit" where
  "range_price_check causal high low name =
     (let raw = candle_field (cc_source causal) name in
      if none_or_NA raw then Inr ()
      else if blank_text raw
      then Inl (CandleRangeError ''invalid_ohlc_range'' (cc_open_timestamp causal) [(name, JText ''blank'')])
      else ebind (any_required_decimal raw (''candle_'' @ name)) (\<lambda>price.
        eraise_if (price \<le> 0 \<or> \<not> (low \<le> price \<and> price \<le> high))
          (CandleRangeError ''invalid_ohlc_range'' (cc_open_timestamp causal)
            [(name, JDecimal price), (''high'', JDecimal high), (''low'', JDecimal low)])))"

definition range_volume_check :: "CausalCandle \<Rightarrow> string \<Rightarrow> outcome_exception + unit" where
  "range_volume_check causal name =
     (let raw = candle_field (cc_source causal) name in
      if none_or_NA raw then Inr ()
      else if blank_text raw then Inl (CandleRangeError (''invalid_'' @ name) (cc_open_timestamp causal) [])
      else ebind (any_required_decimal raw (''candle_'' @ name)) (\<lambda>vol.
        eraise_if (vol < 0) (CandleRangeError (''invalid_'' @ name) (cc_open_timestamp causal) [(name, JDecimal vol)])))"

definition candle_range :: "CausalCandle \<Rightarrow> outcome_exception + rat \<times> rat" where
  "candle_range causal =
     ebind (any_required_decimal (candle_field (cc_source causal) ''high'') ''candle_high'') (\<lambda>high.
     ebind (any_required_decimal (candle_field (cc_source causal) ''low'') ''candle_low'') (\<lambda>low.
     ebind (eraise_if (high \<le> 0 \<or> low \<le> 0 \<or> high < low)
       (CandleRangeError ''invalid_ohlc_range'' (cc_open_timestamp causal) [(''high'', JDecimal high), (''low'', JDecimal low)])) (\<lambda>_.
     ebind (range_price_check causal high low ''open'') (\<lambda>_.
     ebind (range_price_check causal high low ''close'') (\<lambda>_.
     ebind (range_volume_check causal ''volume'') (\<lambda>_.
     ebind (range_volume_check causal ''quote_volume'') (\<lambda>_.
     ebind (range_volume_check causal ''turnover'') (\<lambda>_. Inr (high, low)))))))))"

definition entry_touched :: "rat \<Rightarrow> rat \<Rightarrow> StoredPlanGeometry \<Rightarrow> bool" where
  "entry_touched high low g = (high \<ge> geo_entry_low g \<and> low \<le> geo_entry_high g)"

definition stop_touched :: "rat \<Rightarrow> rat \<Rightarrow> StoredPlanGeometry \<Rightarrow> bool" where
  "stop_touched high low g =
     (if geo_direction g = ''long'' then low \<le> geo_stop_loss g else high \<ge> geo_stop_loss g)"

definition target_touched :: "rat \<Rightarrow> rat \<Rightarrow> StoredPlanGeometry \<Rightarrow> rat \<Rightarrow> bool" where
  "target_touched high low g target = (if geo_direction g = ''long'' then high \<ge> target else low \<le> target)"

definition newly_touched_targets ::
  "rat \<Rightarrow> rat \<Rightarrow> StoredPlanGeometry \<Rightarrow> outcome_progress \<Rightarrow> (nat \<times> rat) list" where
  "newly_touched_targets high low g p =
     map (\<lambda>(hit_at, n, target). (n, target))
       (filter (\<lambda>(hit_at, n, target). hit_at = None \<and> target_touched high low g target)
         [(op_tp1_at p, 1, geo_tp1 g), (op_tp2_at p, 2, geo_tp2 g), (op_tp3_at p, 3, geo_tp3 g)])"

section \<open>Breakeven\<close>

definition BREAKEVEN_POLICY :: string where
  "BREAKEVEN_POLICY = ''tp1_entry_zone_midpoint_breakeven_v2''"

definition BREAKEVEN_KEY :: string where
  "BREAKEVEN_KEY = ''stop_management''"

definition reference_price :: "StoredPlanGeometry \<Rightarrow> rat" where
  "reference_price g = dec_div (dec_add (geo_entry_low g) (geo_entry_high g)) 2"

text \<open>\<open>Decimal(str(value))\<close>\<close>

fun json_decimal :: "json \<Rightarrow> py_decimal option" where
  "json_decimal (JNumber n) = Some (Finite (of_int n))"
| "json_decimal (JFloat x s) = decimal_of_string s"
| "json_decimal (JText s) = decimal_of_string s"
| "json_decimal (JDecimal x) = Some (Finite x)"
| "json_decimal _ = None"

definition binding_keys :: "string list" where
  "binding_keys =
     [''policy'', ''reference_type'', ''reference_price'', ''adopted_at'', ''effective_from_candle_open_at'', ''prior_policy'',
      ''actual_fill_or_net_pnl_claim'']"

definition check_stop_binding :: "(string \<times> json) list \<Rightarrow> StoredPlanGeometry \<Rightarrow> outcome_exception + unit" where
  "check_stop_binding binding g =
     ebind (eraise_if (json_get binding ''policy'' \<noteq> JText BREAKEVEN_POLICY)
       (OutcomeValueError ''unsupported_stop_management_policy'')) (\<lambda>_.
     ebind (case json_decimal (json_get binding ''reference_price'') of
              None \<Rightarrow> Inl (OutcomeValueError ''invalid_stop_management_reference'')
            | Some d \<Rightarrow> eraise_if (d \<noteq> Finite (reference_price g)) (OutcomeValueError ''stop_management_reference_changed'')) (\<lambda>_.
     ebind (eraise_if (json_get binding ''reference_type'' \<noteq> JText ''entry_zone_midpoint'')
       (OutcomeValueError ''invalid_stop_management_reference_type'')) (\<lambda>_.
     ebind (eraise_if (set (map fst binding) \<noteq> set binding_keys) (OutcomeValueError ''incomplete_stop_management_binding'')) (\<lambda>_.
     ebind (lift_timestamp (normalize_utc_timestamp (any_of_json (json_get binding ''adopted_at'')))) (\<lambda>_.
     ebind (eraise_if (json_get binding ''actual_fill_or_net_pnl_claim'' \<noteq> JBool False)
       (OutcomeValueError ''invalid_stop_management_claim'')) (\<lambda>_.
     ebind (eraise_if (json_get binding ''prior_policy'' \<noteq> JText ''fixed_original_stop'')
       (OutcomeValueError ''unsupported_prior_stop_policy'')) (\<lambda>_.
     ebind (eraise_if (json_get binding ''effective_from_candle_open_at'' = JNull)
       (OutcomeValueError ''missing_stop_policy_adoption_boundary'')) (\<lambda>_.
     ebind (lift_timestamp (normalize_utc_timestamp (any_of_json (json_get binding ''effective_from_candle_open_at'')))) (\<lambda>_.
       Inr ())))))))))"

definition new_stop_binding :: "StoredPlanGeometry \<Rightarrow> string \<Rightarrow> int \<Rightarrow> json" where
  "new_stop_binding g evaluated_at cutoff =
     JObject [(''policy'', JText BREAKEVEN_POLICY), (''reference_type'', JText ''entry_zone_midpoint''),
       (''reference_price'', JDecimal (reference_price g)), (''adopted_at'', JText evaluated_at),
       (''effective_from_candle_open_at'', JText (utc_iso cutoff)), (''prior_policy'', JText ''fixed_original_stop''),
       (''actual_fill_or_net_pnl_claim'', JBool False)]"

definition bind_stop_policy ::
  "outcome_progress \<Rightarrow> StoredPlanGeometry \<Rightarrow> py_any \<Rightarrow> string \<Rightarrow> outcome_exception + outcome_progress" where
  "bind_stop_policy p g decision_timestamp evaluated_at =
     (case op_metadata p of
        None \<Rightarrow> Inl (OutcomeValueError ''invalid_json'')
      | Some (JObject metadata) \<Rightarrow>
          (case map_of metadata BREAKEVEN_KEY of
             Some (JObject binding) \<Rightarrow> map_sum id (\<lambda>_. p) (check_stop_binding binding g)
           | Some _ \<Rightarrow> Inl (OutcomeValueError ''unsupported_stop_management_policy'')
           | None \<Rightarrow>
               ebind (lift_timestamp (normalize_utc_timestamp decision_timestamp)) (\<lambda>decided.
               ebind (lift_timestamp (normalize_utc_timestamp (AText evaluated_at))) (\<lambda>_.
               ebind (case op_evaluation_cursor_close_at p of
                        None \<Rightarrow> Inr decided
                      | Some c \<Rightarrow> map_sum id (max decided) (lift_timestamp (normalize_utc_timestamp (AText c)))) (\<lambda>cutoff.
                 Inr (with_metadata p (AList.update BREAKEVEN_KEY (new_stop_binding g evaluated_at cutoff) metadata))))))
      | Some _ \<Rightarrow> Inl (OutcomeValueError ''invalid_stop_policy_metadata''))"

definition protection_active :: "outcome_progress \<Rightarrow> py_any \<Rightarrow> outcome_exception + bool" where
  "protection_active p candle_open =
     (case op_tp1_at p of
        None \<Rightarrow> Inr False
      | Some tp1_text \<Rightarrow>
          (case op_metadata p of
             None \<Rightarrow> Inl (OutcomeValueError ''invalid_json'')
           | Some (JObject metadata) \<Rightarrow>
               (case json_get metadata BREAKEVEN_KEY of
                  JObject binding \<Rightarrow>
                    if json_get binding ''policy'' \<noteq> JText BREAKEVEN_POLICY then Inr False
                    else
                      ebind (lift_timestamp (normalize_utc_timestamp candle_open)) (\<lambda>opened.
                      ebind (lift_timestamp (normalize_utc_timestamp (AText tp1_text))) (\<lambda>tp1_time.
                      if opened < tp1_time then Inr False
                      else let boundary = json_get binding ''effective_from_candle_open_at'' in
                        if boundary = JNull then Inr False
                        else ebind (lift_timestamp (normalize_utc_timestamp (any_of_json boundary))) (\<lambda>b. Inr (opened \<ge> b))))
                | _ \<Rightarrow> Inr False)
           | Some _ \<Rightarrow> Inl OutcomeTypeError))"

definition reference_stop_touched :: "rat \<Rightarrow> rat \<Rightarrow> StoredPlanGeometry \<Rightarrow> bool" where
  "reference_stop_touched high low g =
     (if geo_direction g = ''long'' then low \<le> reference_price g else high \<ge> reference_price g)"

text \<open>\<open>normalize_utc_timestamp\<close> of an optional text.\<close>

definition optional_time :: "string option \<Rightarrow> outcome_exception + int" where
  "optional_time v = lift_timestamp (normalize_utc_timestamp (case v of None \<Rightarrow> ANone | Some s \<Rightarrow> AText s))"

definition validate_breakeven_outcome :: "outcome_progress \<Rightarrow> StoredPlanGeometry \<Rightarrow> outcome_exception + unit" where
  "validate_breakeven_outcome p g =
     ebind (eraise_if (op_metadata p = None) (OutcomeValueError ''invalid_json'')) (\<lambda>_.
     ebind (eraise_if (map_of (progress_metadata p) BREAKEVEN_KEY = None) (OutcomeValueError ''missing_stop_management_binding'')) (\<lambda>_.
     ebind (bind_stop_policy p g (AText (op_last_evaluated_at p)) (op_last_evaluated_at p)) (\<lambda>_.
     ebind (eraise_if (op_entry_at p = None \<or> op_tp1_at p = None \<or> op_stop_at p = None)
       (OutcomeValueError ''missing_breakeven_milestones'')) (\<lambda>_.
     ebind (eraise_if (op_tp3_at p \<noteq> None \<or> op_invalidated_at p \<noteq> None) (OutcomeValueError ''conflicting_breakeven_terminal'')) (\<lambda>_.
     ebind (case op_evaluation_cursor_open_at p of None \<Rightarrow> Inr False | Some c \<Rightarrow> protection_active p (AText c)) (\<lambda>protected.
     ebind (eraise_if (\<not> protected) (OutcomeValueError ''breakeven_precedes_protection'')) (\<lambda>_.
     ebind (optional_time (op_entry_at p)) (\<lambda>entry.
     ebind (optional_time (op_tp1_at p)) (\<lambda>tp1_time.
     ebind (optional_time (op_stop_at p)) (\<lambda>stop.
     ebind (eraise_if (\<not> (entry < tp1_time \<and> tp1_time < stop)) (OutcomeValueError ''invalid_breakeven_milestone_order'')) (\<lambda>_.
     ebind (eraise_if (op_outcome_at p \<noteq> op_stop_at p \<or> op_evaluation_cursor_close_at p \<noteq> op_stop_at p)
       (OutcomeValueError ''breakeven_terminal_cursor_mismatch'')) (\<lambda>_.
     if op_tp2_at p = None then Inr ()
     else ebind (optional_time (op_tp2_at p)) (\<lambda>tp2_time.
       eraise_if (\<not> (tp1_time \<le> tp2_time \<and> tp2_time < stop)) (OutcomeValueError ''invalid_breakeven_tp2_order''))))))))))))))"

end
