(* ===== verification/Prefix_Evidence.thy ===== *)
theory Prefix_Evidence
  imports Outcome_Progress
begin

text \<open>
  The evidence of one pass over closed candles: \<open>app/lifecycle/prefix_disposition_evidence.py\<close>.

  An envelope is the JSON object of its fields. A stored text is either such a value or a text that is
  not JSON. \<open>_parsed_utc\<close> catches a \<open>ValueError\<close> only, so a check may raise the \<open>OverflowError\<close> of a timestamp whose
  offset leaves the years 1 to 9999.
\<close>

section \<open>Constants\<close>

definition PREFIX_EVIDENCE_CONTRACT_VERSION :: string where
  "PREFIX_EVIDENCE_CONTRACT_VERSION = ''cci-eligibility-prefix-evidence-v1''"

datatype prefix_disposition =
  NO_ELIGIBLE_CLOSED_CANDLES | WAITING_FOR_TRACKING_START | NO_NEW_PENDING_CANDLES | PENDING_SUFFIX_EXHAUSTED
| POLICY_TERMINAL | POST_FILTER_BLOCKED | PROCESSING_ABORTED

fun disposition_value :: "prefix_disposition \<Rightarrow> string" where
  "disposition_value NO_ELIGIBLE_CLOSED_CANDLES = ''NO_ELIGIBLE_CLOSED_CANDLES''"
| "disposition_value WAITING_FOR_TRACKING_START = ''WAITING_FOR_TRACKING_START''"
| "disposition_value NO_NEW_PENDING_CANDLES = ''NO_NEW_PENDING_CANDLES''"
| "disposition_value PENDING_SUFFIX_EXHAUSTED = ''PENDING_SUFFIX_EXHAUSTED''"
| "disposition_value POLICY_TERMINAL = ''POLICY_TERMINAL''"
| "disposition_value POST_FILTER_BLOCKED = ''POST_FILTER_BLOCKED''"
| "disposition_value PROCESSING_ABORTED = ''PROCESSING_ABORTED''"

definition PREFIX_DISPOSITIONS :: "prefix_disposition list" where
  "PREFIX_DISPOSITIONS =
     [NO_ELIGIBLE_CLOSED_CANDLES, WAITING_FOR_TRACKING_START, NO_NEW_PENDING_CANDLES, PENDING_SUFFIX_EXHAUSTED,
      POLICY_TERMINAL, POST_FILTER_BLOCKED, PROCESSING_ABORTED]"

definition disposition_of :: "json \<Rightarrow> prefix_disposition option" where
  "disposition_of v = find (\<lambda>d. v = JText (disposition_value d)) PREFIX_DISPOSITIONS"

definition WINDOW_KEYS :: "string list" where
  "WINDOW_KEYS = [''count'', ''first_open_at'', ''last_open_at'', ''last_close_at'']"

definition PENDING_KEYS :: "string list" where
  "PENDING_KEYS = [''established'', ''count'', ''first_open_at'', ''last_open_at'', ''last_close_at'', ''expected_next_open_at'',
     ''unknown_reason'']"

definition COMPLETED_KEYS :: "string list" where
  "COMPLETED_KEYS = [''count'', ''last_open_at'', ''last_close_at'']"

definition CURSOR_KEYS :: "string list" where
  "CURSOR_KEYS = [''open_at'', ''close_at'']"

definition ENVELOPE_KEYS :: "string list" where
  "ENVELOPE_KEYS =
     [''contract_version'', ''lifecycle_id'', ''plan_identity'', ''applied_cutoff'', ''execution_timeframe'', ''tracking_start_at'',
      ''cursor_before'', ''supplied_window'', ''pending_suffix'', ''completed_work'', ''cursor_after'', ''disposition'',
      ''pending_suffix_exhausted'']"

section \<open>The pass\<close>

record PrefixPassEvidence =
  pe_execution_timeframe :: string
  pe_applied_cutoff :: string
  pe_supplied :: "CausalCandle list"
  pe_cursor_before_open_at :: "string option"
  pe_cursor_before_close_at :: "string option"
  pe_pending :: "CausalCandle list option"
  pe_expected_next_open_at :: "int option"
  pe_pending_unknown_reason :: "string option"
  pe_disposition :: "prefix_disposition option"
  pe_completed :: "CausalCandle list"

definition mark_pending :: "PrefixPassEvidence \<Rightarrow> CausalCandle list \<Rightarrow> int option \<Rightarrow> PrefixPassEvidence" where
  "mark_pending ev pending expected_next_open =
     ev\<lparr>pe_pending := Some pending, pe_expected_next_open_at := expected_next_open, pe_pending_unknown_reason := None\<rparr>"

definition record_completed :: "PrefixPassEvidence \<Rightarrow> CausalCandle \<Rightarrow> PrefixPassEvidence" where
  "record_completed ev causal = ev\<lparr>pe_completed := pe_completed ev @ [causal]\<rparr>"

definition text_or_none :: "string \<Rightarrow> string option" where
  "text_or_none s = (let text = py_strip s in if text = [] \<or> py_upper text = NA then None else Some text)"

definition start_prefix_pass_evidence :: "outcome_progress \<Rightarrow> ClosedCandleWindow \<Rightarrow> string \<Rightarrow> PrefixPassEvidence" where
  "start_prefix_pass_evidence p window execution_timeframe =
     \<lparr>pe_execution_timeframe = py_lower (py_strip execution_timeframe),
      pe_applied_cutoff = utc_iso (win_decision_timestamp window), pe_supplied = win_timeline window,
      pe_cursor_before_open_at = Option.bind (op_evaluation_cursor_open_at p) text_or_none,
      pe_cursor_before_close_at = Option.bind (op_evaluation_cursor_close_at p) text_or_none,
      pe_pending = None, pe_expected_next_open_at = None, pe_pending_unknown_reason = Some ''pending_rules_not_evaluated'',
      pe_disposition = None, pe_completed = []\<rparr>"

section \<open>Values of an envelope\<close>

definition optional_text :: "json \<Rightarrow> string option" where
  "optional_text v = (if v = JNull then None else text_or_none (json_str v))"

definition required_text_ok :: "json \<Rightarrow> bool" where
  "required_text_ok v = (optional_text v \<noteq> None)"

fun non_negative_int :: "json \<Rightarrow> bool" where
  "non_negative_int (JNumber n) = (n \<ge> 0)"
| "non_negative_int _ = False"

fun json_count :: "json \<Rightarrow> int" where
  "json_count (JNumber n) = n"
| "json_count _ = 0"

text \<open>A text that is not a timestamp gives \<open>None\<close>.\<close>

definition parsed_utc :: "json \<Rightarrow> outcome_exception + int option" where
  "parsed_utc v =
     (case optional_text v of
        None \<Rightarrow> Inr None
      | Some text \<Rightarrow>
          (case normalize_utc_timestamp (AText text) of
             Inr t \<Rightarrow> Inr (Some t)
           | Inl CandleOverflowError \<Rightarrow> Inl (TimestampError CandleOverflowError)
           | Inl _ \<Rightarrow> Inr None))"

definition valid_timestamp :: "json \<Rightarrow> outcome_exception + bool" where
  "valid_timestamp v = ebind (parsed_utc v) (\<lambda>t. Inr (t \<noteq> None))"

text \<open>A sequence of checks that each return \<open>False\<close> when they fail.\<close>

fun all_checks :: "('e + bool) list \<Rightarrow> 'e + bool" where
  "all_checks [] = Inr True"
| "all_checks (c # cs) = ebind c (\<lambda>ok. if ok then all_checks cs else Inr False)"

text \<open>The values of several timestamps; \<open>None\<close> when one of them is missing.\<close>

fun parsed_all :: "json list \<Rightarrow> outcome_exception + int option list" where
  "parsed_all [] = Inr []"
| "parsed_all (v # vs) = ebind (parsed_utc v) (\<lambda>t. ebind (parsed_all vs) (\<lambda>ts. Inr (t # ts)))"

definition on_bounds :: "json list \<Rightarrow> (int list \<Rightarrow> bool) \<Rightarrow> outcome_exception + bool" where
  "on_bounds vs check = ebind (parsed_all vs) (\<lambda>ts. Inr (list_all (\<lambda>t. t \<noteq> None) ts \<and> check (map the ts)))"

definition has_keys :: "json \<Rightarrow> string list \<Rightarrow> bool" where
  "has_keys v keys = (is_object v \<and> set (map fst (object_fields v)) = set keys)"

section \<open>Checks of an envelope\<close>

definition valid_window :: "json \<Rightarrow> string list option \<Rightarrow> outcome_exception + bool" where
  "valid_window v extra_allowed =
     all_checks
       [Inr (is_object v),
        Inr (case extra_allowed of
               None \<Rightarrow> set (map fst (object_fields v)) = set WINDOW_KEYS
             | Some extra \<Rightarrow> set WINDOW_KEYS \<subseteq> set (map fst (object_fields v))
                 \<and> set (map fst (object_fields v)) \<subseteq> set WINDOW_KEYS \<union> set extra),
        Inr (non_negative_int (vget v ''count'')),
        if json_count (vget v ''count'') = 0
        then Inr (vget v ''first_open_at'' = JNull \<and> vget v ''last_open_at'' = JNull \<and> vget v ''last_close_at'' = JNull)
        else on_bounds [vget v ''first_open_at'', vget v ''last_open_at'', vget v ''last_close_at'']
               (\<lambda>ts. ts ! 0 \<le> ts ! 1 \<and> ts ! 1 \<le> ts ! 2)]"

definition optional_utc_equal :: "json \<Rightarrow> json \<Rightarrow> outcome_exception + bool" where
  "optional_utc_equal left right =
     (if optional_text left = None \<and> optional_text right = None then Inr True
      else on_bounds [left, right] (\<lambda>ts. ts ! 0 = ts ! 1))"

definition cursor_pairs_equivalent :: "json \<Rightarrow> json \<Rightarrow> outcome_exception + bool" where
  "cursor_pairs_equivalent left right =
     (if left = JNull \<and> right = JNull then Inr True
      else all_checks
        [Inr (is_object left \<and> is_object right),
         optional_utc_equal (vget left ''open_at'') (vget right ''open_at''),
         optional_utc_equal (vget left ''close_at'') (vget right ''close_at'')])"

definition cursor_matches_completed :: "json \<Rightarrow> json \<Rightarrow> outcome_exception + bool" where
  "cursor_matches_completed cursor_after completed =
     all_checks
       [Inr (is_object cursor_after),
        optional_utc_equal (vget cursor_after ''open_at'') (vget completed ''last_open_at''),
        optional_utc_equal (vget cursor_after ''close_at'') (vget completed ''last_close_at'')]"

definition valid_cursor_pair :: "json \<Rightarrow> outcome_exception + bool" where
  "valid_cursor_pair v =
     (if v = JNull then Inr True
      else all_checks
        [Inr (has_keys v CURSOR_KEYS), Inr (vget v ''open_at'' \<noteq> JNull \<and> vget v ''close_at'' \<noteq> JNull),
         on_bounds [vget v ''open_at'', vget v ''close_at''] (\<lambda>ts. ts ! 0 \<le> ts ! 1)])"

definition causal_windows_contained :: "json \<Rightarrow> outcome_exception + bool" where
  "causal_windows_contained payload =
     (let supplied = vget payload ''supplied_window''; pending = vget payload ''pending_suffix'';
          supplied_count = vget supplied ''count''; pending_count = vget pending ''count'' in
      all_checks
        [Inr (is_object supplied \<and> is_object pending),
         if non_negative_int supplied_count \<and> json_count supplied_count > 0
         then on_bounds [vget payload ''applied_cutoff'', vget supplied ''last_close_at''] (\<lambda>ts. ts ! 1 \<le> ts ! 0)
         else Inr True,
         if vget pending ''established'' \<noteq> JBool True \<or> \<not> non_negative_int pending_count \<or> json_count pending_count = 0
         then Inr True
         else on_bounds [vget supplied ''first_open_at'', vget supplied ''last_open_at'', vget supplied ''last_close_at'',
                vget pending ''first_open_at'', vget pending ''last_open_at'', vget pending ''last_close_at'']
              (\<lambda>ts. ts ! 0 \<le> ts ! 3 \<and> ts ! 4 \<le> ts ! 1 \<and> ts ! 5 \<le> ts ! 2 \<and> ts ! 4 = ts ! 1 \<and> ts ! 5 = ts ! 2)])"

text \<open>The table of the dispositions: supplied, pending and completed counts and the claim of exhaustion.\<close>

fun disposition_consistent :: "prefix_disposition \<Rightarrow> int \<Rightarrow> bool \<Rightarrow> json \<Rightarrow> int \<Rightarrow> json \<Rightarrow> bool" where
  "disposition_consistent NO_ELIGIBLE_CLOSED_CANDLES supplied_count established pending_count completed_count exhausted =
     (supplied_count = 0 \<and> \<not> established \<and> pending_count = JNull \<and> completed_count = 0 \<and> exhausted = JNull)"
| "disposition_consistent NO_NEW_PENDING_CANDLES supplied_count established pending_count completed_count exhausted =
     (supplied_count \<ge> 1 \<and> established \<and> pending_count = JNumber 0 \<and> completed_count = 0 \<and> exhausted = JBool True)"
| "disposition_consistent WAITING_FOR_TRACKING_START supplied_count established pending_count completed_count exhausted =
     (supplied_count \<ge> 1 \<and> established \<and> pending_count = JNumber 0 \<and> completed_count = 0 \<and> exhausted = JNull)"
| "disposition_consistent POST_FILTER_BLOCKED supplied_count established pending_count completed_count exhausted =
     (supplied_count \<ge> 1 \<and> completed_count = 0 \<and> exhausted = JNull)"
| "disposition_consistent PENDING_SUFFIX_EXHAUSTED supplied_count established pending_count completed_count exhausted =
     (established \<and> non_negative_int pending_count \<and> json_count pending_count \<ge> 1
      \<and> completed_count = json_count pending_count \<and> exhausted = JBool True)"
| "disposition_consistent PROCESSING_ABORTED supplied_count established pending_count completed_count exhausted =
     (established \<and> non_negative_int pending_count \<and> json_count pending_count \<ge> 1
      \<and> exhausted = JBool False \<and> completed_count < json_count pending_count)"
| "disposition_consistent POLICY_TERMINAL supplied_count established pending_count completed_count exhausted =
     (established \<and> non_negative_int pending_count \<and> json_count pending_count \<ge> 1
      \<and> 1 \<le> completed_count \<and> completed_count \<le> json_count pending_count
      \<and> exhausted = JBool (completed_count = json_count pending_count))"

definition semantically_consistent_envelope :: "json \<Rightarrow> outcome_exception + bool" where
  "semantically_consistent_envelope payload =
     (let pending = vget payload ''pending_suffix''; completed = vget payload ''completed_work'';
          supplied = vget payload ''supplied_window''; established = (vget pending ''established'' = JBool True);
          pending_count = vget pending ''count''; completed_count = vget completed ''count'';
          supplied_count = vget supplied ''count'' in
      all_checks
        [Inr (is_object pending \<and> is_object completed \<and> is_object supplied),
         Inr (non_negative_int completed_count \<and> non_negative_int supplied_count),
         Inr (\<not> (established \<and> non_negative_int pending_count \<and> json_count supplied_count < json_count pending_count)),
         causal_windows_contained payload,
         if json_count completed_count = 0
         then cursor_pairs_equivalent (vget payload ''cursor_before'') (vget payload ''cursor_after'')
         else cursor_matches_completed (vget payload ''cursor_after'') completed,
         if established \<and> non_negative_int pending_count \<and> json_count pending_count > 0 \<and> json_count completed_count > 0
         then on_bounds [vget pending ''first_open_at'', vget pending ''last_open_at'', vget pending ''last_close_at'',
                vget completed ''last_open_at'', vget completed ''last_close_at'']
              (\<lambda>ts. ts ! 0 \<le> ts ! 3 \<and> ts ! 3 \<le> ts ! 1 \<and> ts ! 0 \<le> ts ! 4 \<and> ts ! 4 \<le> ts ! 2)
         else Inr True,
         Inr (case disposition_of (vget payload ''disposition'') of
                None \<Rightarrow> False
              | Some d \<Rightarrow> disposition_consistent d (json_count supplied_count) established pending_count
                  (json_count completed_count) (vget payload ''pending_suffix_exhausted''))])"

text \<open>Membership of a frozen set, which raises a \<open>TypeError\<close> on a value that cannot be hashed.\<close>

definition disposition_check :: "json \<Rightarrow> outcome_exception + bool" where
  "disposition_check v =
     (if is_object v \<or> is_array v then Inl OutcomeTypeError else Inr (disposition_of v \<noteq> None))"

definition valid_pending :: "json \<Rightarrow> outcome_exception + bool" where
  "valid_pending pending =
     (let expected = vget pending ''expected_next_open_at'';
          expected_ok = (if expected = JNull then Inr True else valid_timestamp expected) in
      all_checks
        ([Inr (has_keys pending PENDING_KEYS), Inr (vget pending ''established'' = JBool True \<or> vget pending ''established'' = JBool False)]
         @ (if vget pending ''established'' = JBool True
            then [valid_window pending (Some (filter (\<lambda>k. k \<notin> set WINDOW_KEYS) PENDING_KEYS)),
                  Inr (vget pending ''unknown_reason'' = JNull), expected_ok]
            else [Inr (vget pending ''count'' = JNull),
                  Inr (vget pending ''first_open_at'' = JNull \<and> vget pending ''last_open_at'' = JNull
                    \<and> vget pending ''last_close_at'' = JNull),
                  Inr (required_text_ok (vget pending ''unknown_reason'')), expected_ok])))"

definition valid_completed :: "json \<Rightarrow> outcome_exception + bool" where
  "valid_completed completed =
     all_checks
       [Inr (has_keys completed COMPLETED_KEYS), Inr (non_negative_int (vget completed ''count'')),
        if json_count (vget completed ''count'') = 0
        then Inr (vget completed ''last_open_at'' = JNull \<and> vget completed ''last_close_at'' = JNull)
        else on_bounds [vget completed ''last_open_at'', vget completed ''last_close_at''] (\<lambda>ts. ts ! 0 \<le> ts ! 1)]"

definition structurally_valid_envelope :: "json \<Rightarrow> outcome_exception + bool" where
  "structurally_valid_envelope payload =
     (let pending = vget payload ''pending_suffix''; completed = vget payload ''completed_work'';
          exhausted = vget payload ''pending_suffix_exhausted'' in
      all_checks
        [Inr (has_keys payload ENVELOPE_KEYS),
         Inr (vget payload ''contract_version'' = JText PREFIX_EVIDENCE_CONTRACT_VERSION),
         Inr (required_text_ok (vget payload ''lifecycle_id'')), Inr (required_text_ok (vget payload ''plan_identity'')),
         valid_timestamp (vget payload ''applied_cutoff''), Inr (required_text_ok (vget payload ''execution_timeframe'')),
         if vget payload ''tracking_start_at'' = JNull then Inr True else valid_timestamp (vget payload ''tracking_start_at''),
         valid_cursor_pair (vget payload ''cursor_before''), valid_cursor_pair (vget payload ''cursor_after''),
         valid_window (vget payload ''supplied_window'') None, valid_pending pending, valid_completed completed,
         Inr (\<not> (vget pending ''established'' = JBool True \<and> non_negative_int (vget pending ''count'')
           \<and> json_count (vget completed ''count'') > json_count (vget pending ''count''))),
         disposition_check (vget payload ''disposition''),
         Inr (exhausted = JNull \<or> exhausted = JBool True \<or> exhausted = JBool False),
         semantically_consistent_envelope payload])"

section \<open>Building and reading an envelope\<close>

definition pending_suffix_exhausted :: "prefix_disposition \<Rightarrow> bool \<Rightarrow> nat option \<Rightarrow> nat \<Rightarrow> json" where
  "pending_suffix_exhausted disposition pending_established pending_count completed_count =
     (if disposition = NO_NEW_PENDING_CANDLES then JBool True
      else if disposition \<in> set [NO_ELIGIBLE_CLOSED_CANDLES, WAITING_FOR_TRACKING_START, POST_FILTER_BLOCKED] then JNull
      else if \<not> pending_established \<or> pending_count = None then JNull
      else if disposition = PROCESSING_ABORTED then JBool False
      else if disposition = PENDING_SUFFIX_EXHAUSTED then JBool True
      else JBool (Some completed_count = pending_count))"

definition opt_json :: "string option \<Rightarrow> json" where
  "opt_json v = (case v of None \<Rightarrow> JNull | Some s \<Rightarrow> JText s)"

definition iso_json :: "int option \<Rightarrow> json" where
  "iso_json t = opt_json (map_option utc_iso t)"

definition window_bounds :: "CausalCandle list \<Rightarrow> (string \<times> json) list" where
  "window_bounds candles =
     (if candles = []
      then [(''count'', JNumber 0), (''first_open_at'', JNull), (''last_open_at'', JNull), (''last_close_at'', JNull)]
      else [(''count'', JNumber (int (length candles))),
            (''first_open_at'', JText (utc_iso (cc_open_timestamp (hd candles)))),
            (''last_open_at'', JText (utc_iso (cc_open_timestamp (last candles)))),
            (''last_close_at'', JText (utc_iso (cc_close_timestamp (last candles))))])"

definition pending_bounds :: "CausalCandle list option \<Rightarrow> int option \<Rightarrow> string option \<Rightarrow> (string \<times> json) list" where
  "pending_bounds candles expected_next_open_at unknown_reason =
     (case candles of
        None \<Rightarrow>
          [(''established'', JBool False), (''count'', JNull), (''first_open_at'', JNull), (''last_open_at'', JNull),
           (''last_close_at'', JNull), (''expected_next_open_at'', iso_json expected_next_open_at),
           (''unknown_reason'', JText (case unknown_reason of
              Some r \<Rightarrow> if r \<noteq> [] then r else ''pending_rules_not_evaluated'' | None \<Rightarrow> ''pending_rules_not_evaluated''))]
      | Some cs \<Rightarrow>
          [(''established'', JBool True)] @ window_bounds cs
          @ [(''expected_next_open_at'', iso_json expected_next_open_at), (''unknown_reason'', JNull)])"

definition cursor_pair :: "string option \<Rightarrow> string option \<Rightarrow> json" where
  "cursor_pair open_at close_at =
     (if open_at = None \<and> close_at = None then JNull
      else JObject [(''open_at'', opt_json open_at), (''close_at'', opt_json close_at)])"

definition completed_bounds :: "CausalCandle list \<Rightarrow> json" where
  "completed_bounds completed =
     JObject [(''count'', JNumber (int (length completed))),
       (''last_open_at'', if completed = [] then JNull else JText (utc_iso (cc_open_timestamp (last completed)))),
       (''last_close_at'', if completed = [] then JNull else JText (utc_iso (cc_close_timestamp (last completed))))]"

definition envelope :: "outcome_progress \<Rightarrow> PrefixPassEvidence \<Rightarrow> prefix_disposition \<Rightarrow> json" where
  "envelope p ev disposition =
     JObject
       [(''contract_version'', JText PREFIX_EVIDENCE_CONTRACT_VERSION), (''lifecycle_id'', JText (op_lifecycle_id p)),
        (''plan_identity'', JText (op_plan_identity p)), (''applied_cutoff'', JText (pe_applied_cutoff ev)),
        (''execution_timeframe'', JText (pe_execution_timeframe ev)),
        (''tracking_start_at'', opt_json (Option.bind (op_tracking_start_at p) text_or_none)),
        (''cursor_before'', cursor_pair (pe_cursor_before_open_at ev) (pe_cursor_before_close_at ev)),
        (''supplied_window'', JObject (window_bounds (pe_supplied ev))),
        (''pending_suffix'', JObject (pending_bounds (pe_pending ev) (pe_expected_next_open_at ev)
           (if pe_pending ev \<noteq> None then None else pe_pending_unknown_reason ev))),
        (''completed_work'', completed_bounds (pe_completed ev)),
        (''cursor_after'', cursor_pair (Option.bind (op_evaluation_cursor_open_at p) text_or_none)
           (Option.bind (op_evaluation_cursor_close_at p) text_or_none)),
        (''disposition'', JText (disposition_value disposition)),
        (''pending_suffix_exhausted'', pending_suffix_exhausted disposition (pe_pending ev \<noteq> None)
           (map_option length (pe_pending ev)) (length (pe_completed ev)))]"

definition build_prefix_evidence_payload ::
  "outcome_progress \<Rightarrow> PrefixPassEvidence \<Rightarrow> outcome_exception + json option" where
  "build_prefix_evidence_payload p ev =
     (case pe_disposition ev of
        None \<Rightarrow> Inr None
      | Some disposition \<Rightarrow>
          ebind (structurally_valid_envelope (envelope p ev disposition)) (\<lambda>ok.
            Inr (if ok then Some (envelope p ev disposition) else None)))"

definition serialize_prefix_evidence :: "json option \<Rightarrow> outcome_exception + json option" where
  "serialize_prefix_evidence payload =
     (case payload of
        None \<Rightarrow> Inr None
      | Some v \<Rightarrow> ebind (structurally_valid_envelope v) (\<lambda>ok. Inr (if ok then Some v else None)))"

definition bind_prefix_disposition ::
  "outcome_progress \<Rightarrow> PrefixPassEvidence \<Rightarrow> prefix_disposition option \<Rightarrow> outcome_exception + outcome_progress" where
  "bind_prefix_disposition p ev disposition =
     (let ev' = (if disposition \<noteq> None then ev\<lparr>pe_disposition := disposition\<rparr> else ev) in
      ebind (build_prefix_evidence_payload p ev') (\<lambda>payload.
      ebind (serialize_prefix_evidence payload) (\<lambda>stored. Inr (p\<lparr>op_prefix_evidence := stored\<rparr>))))"

text \<open>A stored text: the JSON value it denotes, or a text that is not JSON.\<close>

datatype stored_json = StoredJson json | StoredText string

datatype prefix_evidence_status = PES_unavailable | PES_known | PES_malformed | PES_conflicting

record prefix_diagnosis =
  pd_status :: prefix_evidence_status
  pd_payload :: "json option"
  pd_conflicts :: "(string \<times> string) list"
  pd_disposition :: json
  pd_pending_suffix_exhausted :: json

text \<open>\<open>str(value or "")\<close>\<close>

fun text_or_empty :: "json \<Rightarrow> string" where
  "text_or_empty JNull = []"
| "text_or_empty (JBool b) = (if b then json_str (JBool b) else [])"
| "text_or_empty (JNumber n) = (if n = 0 then [] else json_str (JNumber n))"
| "text_or_empty (JFloat x s) = (if x = 0 then [] else s)"
| "text_or_empty (JArray vs) = (if vs = [] then [] else json_str (JArray vs))"
| "text_or_empty (JObject d) = (if d = [] then [] else json_str (JObject d))"
| "text_or_empty v = json_str v"

definition owner_conflicts ::
  "json \<Rightarrow> string \<Rightarrow> string \<Rightarrow> string option \<Rightarrow> string option \<Rightarrow> (string \<times> string) list" where
  "owner_conflicts payload owner_id plan_identity applied_cutoff execution_timeframe =
     (if vget payload ''lifecycle_id'' \<noteq> JText owner_id then [(''lifecycle_id'', ''envelope_owner_mismatch'')] else [])
     @ (if vget payload ''plan_identity'' \<noteq> JText plan_identity then [(''plan_identity'', ''envelope_owner_mismatch'')] else [])
     @ (if Option.bind applied_cutoff text_or_none \<noteq> optional_text (vget payload ''applied_cutoff'')
        then [(''applied_cutoff'', ''envelope_cutoff_mismatch'')] else [])
     @ (case Option.bind execution_timeframe text_or_none of
          None \<Rightarrow> []
        | Some timeframe \<Rightarrow>
            if py_lower (py_strip (text_or_empty (vget payload ''execution_timeframe''))) \<noteq> py_lower timeframe
            then [(''execution_timeframe'', ''envelope_timeframe_mismatch'')] else [])"

definition unclaimed :: "prefix_evidence_status \<Rightarrow> json option \<Rightarrow> (string \<times> string) list \<Rightarrow> prefix_diagnosis" where
  "unclaimed status payload conflicts =
     \<lparr>pd_status = status, pd_payload = payload, pd_conflicts = conflicts, pd_disposition = JNull,
      pd_pending_suffix_exhausted = JNull\<rparr>"

definition diagnose_prefix_evidence ::
  "stored_json option \<Rightarrow> string \<Rightarrow> string \<Rightarrow> string option \<Rightarrow> string option \<Rightarrow> outcome_exception + prefix_diagnosis" where
  "diagnose_prefix_evidence raw_json owner_id plan_identity applied_cutoff execution_timeframe =
     (let field = ''last_eligibility_prefix_evidence_json'' in
      case raw_json of
        None \<Rightarrow> Inr (unclaimed PES_unavailable None [])
      | Some (StoredText s) \<Rightarrow>
          Inr (if text_or_none s = None then unclaimed PES_unavailable None []
               else unclaimed PES_malformed None [(field, ''not_json_object'')])
      | Some (StoredJson v) \<Rightarrow>
          ebind (if is_object v then structurally_valid_envelope v else Inr False) (\<lambda>ok.
          if \<not> ok
          then Inr (unclaimed PES_malformed (if is_object v then Some v else None) [(field, ''invalid_envelope_structure'')])
          else
            let conflicts = owner_conflicts v owner_id plan_identity applied_cutoff execution_timeframe in
            Inr (if conflicts \<noteq> [] then unclaimed PES_conflicting (Some v) conflicts
                 else \<lparr>pd_status = PES_known, pd_payload = Some v, pd_conflicts = [],
                   pd_disposition = vget v ''disposition'',
                   pd_pending_suffix_exhausted = vget v ''pending_suffix_exhausted''\<rparr>)))"

end
