(* ===== verification/Outcome_Engine.thy ===== *)
theory Outcome_Engine
  imports Prefix_Evidence
begin

text \<open>
  The closed-candle outcome engine: \<open>app/lifecycle/outcome_events.py\<close> and \<open>app/lifecycle/outcomes.py\<close>.

  The repository is modelled by what the engine reads from it (arguments) and by the ordered list of its
  writes (results); an exception leaves no result. \<open>env_exc_text\<close> is the text of an exception that the models or the
  timestamp code raise; it only goes into diagnostics. Arithmetic on timestamps raises an \<open>OverflowError\<close> outside the years
  1 to 9999.
\<close>

section \<open>Environment and writes\<close>

record outcome_env =
  env_sha256 :: "string \<Rightarrow> string"
  env_exc_text :: "outcome_exception \<Rightarrow> string"
  env_clock :: string
  env_evaluated_at :: string
  env_scan_run_id :: "string option"
  env_plan_identity :: string

datatype repository_write =
  UpsertRecord SetupLifecycleRecord | InsertEvent SetupLifecycleEvent | UpsertProgress outcome_progress

section \<open>Events\<close>

definition event_notes ::
  "outcome_env \<Rightarrow> string \<Rightarrow> CausalCandle \<Rightarrow> string \<Rightarrow> json \<Rightarrow> (string \<times> json) list \<Rightarrow> string" where
  "event_notes env event_type causal policy_reason level evidence =
     json_dumps (JObject (dict_update
       [(''candle_close_at'', JText (utc_iso (cc_close_timestamp causal))),
        (''candle_open_at'', JText (utc_iso (cc_open_timestamp causal))),
        (''event_type'', JText event_type), (''level'', level), (''plan_identity'', JText (env_plan_identity env)),
        (''policy_reason'', JText policy_reason),
        (''source'', JText ''canonical_lifecycle_closed_execution_candles'')] evidence))"

fun entry_next_state :: "SetupLifecycleState \<Rightarrow> SetupLifecycleState option" where
  "entry_next_state WATCHLISTED = Some TRIGGERED"
| "entry_next_state STALKING = Some TRIGGERED"
| "entry_next_state ACTIONABLE_A_GRADE = Some TRIGGERED"
| "entry_next_state A_GRADE_WATCH = Some TRIGGERED"
| "entry_next_state TRIGGERED = Some CONFIRMED"
| "entry_next_state CONFIRMED = Some EXECUTING"
| "entry_next_state EXECUTING = Some MANAGING"
| "entry_next_state _ = None"

definition result_writes :: "SetupTransitionResult \<Rightarrow> SetupLifecycleRecord \<Rightarrow> repository_write list" where
  "result_writes t r = UpsertRecord r # (case res_event t of None \<Rightarrow> [] | Some ev \<Rightarrow> [InsertEvent ev])"

text \<open>The loop \<open>for _ in range(4)\<close>, with the number of rounds left.\<close>

fun advance_rounds ::
  "outcome_env \<Rightarrow> CausalCandle \<Rightarrow> nat \<Rightarrow> SetupLifecycleRecord
     \<Rightarrow> outcome_exception + SetupLifecycleRecord \<times> SetupTransitionResult list \<times> repository_write list" where
  "advance_rounds env causal 0 current = Inr (current, [], [])"
| "advance_rounds env causal (Suc n) current =
     (case entry_next_state (current_state current) of
        None \<Rightarrow> Inr (current, [], [])
      | Some target \<Rightarrow>
          ebind (lift_model (transition_record current target
            (if target = TRIGGERED then R_ENTRY_ZONE_TOUCHED else R_ENTRY_FILL_SIMULATED)
            (Some (env_evaluated_at env)) (env_clock env) (env_scan_run_id env) None None None
            (event_notes env ''entry_state_progression'' causal
               ''simulated_price_contact; no exchange fill or user execution is verified'' (JText NA) []))) (\<lambda>t.
          case res_record t of
            None \<Rightarrow> Inr (current, [], [])
          | Some r \<Rightarrow>
              if \<not> res_allowed t \<or> \<not> res_transitioned t then Inr (current, [], [])
              else if current_state r = MANAGING then Inr (r, [t], result_writes t r)
              else ebind (advance_rounds env causal n r) (\<lambda>(q, ts, ws). Inr (q, t # ts, result_writes t r @ ws))))"

definition advance_to_managing ::
  "outcome_env \<Rightarrow> SetupLifecycleRecord \<Rightarrow> CausalCandle
     \<Rightarrow> outcome_exception + SetupLifecycleRecord \<times> SetupTransitionResult list \<times> repository_write list" where
  "advance_to_managing env r causal = advance_rounds env causal 4 r"

definition record_terminal_transition ::
  "outcome_env \<Rightarrow> SetupLifecycleRecord \<Rightarrow> SetupLifecycleState \<Rightarrow> SetupTransitionReason \<Rightarrow> string \<Rightarrow> CausalCandle \<Rightarrow> string \<Rightarrow> json
     \<Rightarrow> outcome_exception + SetupLifecycleRecord \<times> SetupTransitionResult \<times> repository_write list" where
  "record_terminal_transition env r to_state reason event_type causal policy_reason level =
     ebind (lift_model (transition_record r to_state reason (Some (env_evaluated_at env)) (env_clock env)
       (env_scan_run_id env) None None None (event_notes env event_type causal policy_reason level []))) (\<lambda>t.
     let rejected = Inl (OutcomeValueError (''outcome_transition_rejected:'' @ state_value (current_state r) @ ''->''
       @ state_value to_state)) in
     case res_record t of
       None \<Rightarrow> rejected
     | Some r' \<Rightarrow>
         if \<not> res_allowed t \<or> \<not> res_transitioned t then rejected else Inr (r', t, result_writes t r'))"

definition record_stop ::
  "outcome_env \<Rightarrow> SetupLifecycleRecord \<Rightarrow> outcome_progress \<Rightarrow> StoredPlanGeometry \<Rightarrow> CausalCandle \<Rightarrow> string \<Rightarrow> bool
     \<Rightarrow> outcome_exception + SetupLifecycleRecord \<times> SetupTransitionResult \<times> outcome_progress \<times> repository_write list" where
  "record_stop env r p g causal ambiguity_reason breakeven =
     (let outcome = (if breakeven then BREAKEVEN else SL_HIT);
          candle_close = utc_iso (cc_close_timestamp causal) in
      ebind (record_terminal_transition env r outcome (if breakeven then R_BREAKEVEN_STOP_HIT else R_STOP_LOSS_HIT)
        (if breakeven then ''terminal_breakeven'' else ''terminal_sl_hit'') causal ambiguity_reason
        (JDecimal (if breakeven then reference_price g else geo_stop_loss g))) (\<lambda>(r', t, ws).
        Inr (r', t, p\<lparr>op_stop_at := Some candle_close, op_outcome_at := Some candle_close,
               op_terminal_outcome := state_value outcome\<rparr>, ws)))"

definition insert_milestone_event ::
  "outcome_env \<Rightarrow> SetupLifecycleRecord \<Rightarrow> SetupTransitionReason \<Rightarrow> string \<Rightarrow> CausalCandle \<Rightarrow> json \<Rightarrow> (string \<times> json) list
     \<Rightarrow> outcome_exception + repository_write list" where
  "insert_milestone_event env r reason event_type causal level evidence =
     ebind (lift_model (construct_event
       \<lparr>ev_lifecycle_id = lifecycle_id r, ev_timestamp = env_evaluated_at env, ev_symbol = symbol r,
        ev_from_state = Some (current_state r), ev_to_state = current_state r, ev_reason = reason,
        ev_scan_run_id = env_scan_run_id env, ev_readiness_score = readiness_score r, ev_quality_score = quality_score r,
        ev_failed_gate = NA, ev_notes = event_notes env event_type causal NA level evidence\<rparr>)) (\<lambda>ev.
       Inr [InsertEvent ev])"

definition target_reason :: "nat \<Rightarrow> SetupTransitionReason" where
  "target_reason n = (if n = 1 then R_TP1_MILESTONE else if n = 2 then R_TP2_MILESTONE else R_TP3_MILESTONE)"

section \<open>Progress updates\<close>

definition INTEGRITY_VERIFIED :: string where "INTEGRITY_VERIFIED = ''Verified''"
definition INTEGRITY_UNVERIFIED :: string where "INTEGRITY_UNVERIFIED = ''Unverified''"
definition INTEGRITY_FAILED :: string where "INTEGRITY_FAILED = ''Failed''"
definition ENTRY_CAUSALITY_CONTRACT :: string where "ENTRY_CAUSALITY_CONTRACT = ''fully_post_boundary_closed_candle_v1''"
definition ENTRY_EVIDENCE_TYPE :: string where "ENTRY_EVIDENCE_TYPE = ''fully_post_boundary_closed_execution_candle_range''"

definition OUTCOME_ELIGIBLE_STATES :: "SetupLifecycleState list" where
  "OUTCOME_ELIGIBLE_STATES =
     [WATCHLISTED, STALKING, TRIGGERED, CONFIRMED, ACTIONABLE_A_GRADE, A_GRADE_WATCH, EXECUTING, MANAGING]"

definition TERMINAL_OUTCOME_STATES :: "SetupLifecycleState list" where
  "TERMINAL_OUTCOME_STATES = [TP_HIT, SL_HIT, BREAKEVEN, INVALIDATED, EXPIRED]"

definition integrity_failure :: "outcome_progress \<Rightarrow> string \<Rightarrow> string \<Rightarrow> string \<Rightarrow> outcome_progress" where
  "integrity_failure p status diagnostic evaluated_at =
     (with_metadata p (AList.update ''last_integrity_diagnostic'' (JText diagnostic) (progress_metadata p)))
       \<lparr>op_integrity_status := status, op_diagnostic := diagnostic, op_last_evaluated_at := evaluated_at\<rparr>"

text \<open>\<open>int(value)\<close> of a metadata value.\<close>

fun json_int :: "json \<Rightarrow> outcome_exception + int" where
  "json_int (JNumber n) = Inr n"
| "json_int (JBool b) = Inr (if b then 1 else 0)"
| "json_int (JFloat x s) = Inr (trunc_rat x)"
| "json_int (JText s) =
     (case int_of_text (py_strip s) of Some n \<Rightarrow> Inr n | None \<Rightarrow> Inl (OutcomeValueError ''invalid literal for int()''))"
| "json_int _ = Inl OutcomeTypeError"

definition with_cursor ::
  "outcome_progress \<Rightarrow> CausalCandle \<Rightarrow> string \<Rightarrow> int \<Rightarrow> outcome_exception + outcome_progress" where
  "with_cursor p causal evaluated_at processed_candles =
     (let metadata = progress_metadata p in
      ebind (case map_of metadata ''processed_candle_count'' of None \<Rightarrow> Inr 0 | Some v \<Rightarrow> json_int v) (\<lambda>count.
        Inr ((with_metadata p (dict_update metadata
          [(''processed_candle_count'', JNumber (count + processed_candles)),
           (''last_candle_open_at'', JText (utc_iso (cc_open_timestamp causal))),
           (''last_candle_close_at'', JText (utc_iso (cc_close_timestamp causal)))]))
          \<lparr>op_evaluation_cursor_open_at := Some (utc_iso (cc_open_timestamp causal)),
           op_evaluation_cursor_close_at := Some (utc_iso (cc_close_timestamp causal)),
           op_integrity_status := INTEGRITY_VERIFIED, op_diagnostic := NA, op_last_evaluated_at := evaluated_at\<rparr>)))"

text \<open>\<open>_text\<close> of a metadata value.\<close>

fun metadata_text :: "json \<Rightarrow> json" where
  "metadata_text JNull = JText NA"
| "metadata_text (JDecimal x) = JDecimal x"
| "metadata_text v = JText (py_text (json_str v))"

definition entry_evidence ::
  "SetupLifecycleRecord \<Rightarrow> outcome_progress \<Rightarrow> CausalCandle \<Rightarrow> rat \<Rightarrow> rat \<Rightarrow> StoredPlanGeometry \<Rightarrow> string \<Rightarrow> string
     \<Rightarrow> (string \<times> json) list" where
  "entry_evidence r p causal candle_high candle_low g entry_at evaluated_at =
     (let metadata = progress_metadata p in
      [(''lifecycle_id'', JText (lifecycle_id r)), (''symbol'', JText (symbol r)), (''direction'', JText (direction r)),
       (''entry_low'', JDecimal (geo_entry_low g)), (''entry_high'', JDecimal (geo_entry_high g)),
       (''tracking_boundary_timestamp'', metadata_text (json_get metadata ''tracking_boundary_timestamp'')),
       (''tracking_boundary_source'', metadata_text (json_get metadata ''tracking_boundary_source'')),
       (''causal_candle_open'', JText (utc_iso (cc_open_timestamp causal))),
       (''causal_candle_close'', JText (utc_iso (cc_close_timestamp causal))),
       (''candle_high'', JDecimal candle_high), (''candle_low'', JDecimal candle_low),
       (''entry_evidence_type'', JText ENTRY_EVIDENCE_TYPE), (''execution_semantics'', JText ''simulated_price_contact''),
       (''exchange_fill_verified'', JText ''false''), (''user_execution_confirmed'', JText ''false''),
       (''structural_confirmation_from_touch'', JText ''false''),
       (''economic_plan_version_id'',
          JText (case plan_version_id r of Some v \<Rightarrow> if v \<noteq> [] then v else NA | None \<Rightarrow> NA)),
       (''entry_evidence_eligibility_decision'', JText ''fully_post_boundary''), (''entry_at'', JText entry_at),
       (''evaluated_at'', JText evaluated_at)])"

definition with_entry_evidence :: "outcome_progress \<Rightarrow> string \<Rightarrow> (string \<times> json) list \<Rightarrow> outcome_progress" where
  "with_entry_evidence p entry_at evidence =
     (with_metadata p (dict_update (progress_metadata p) evidence))\<lparr>op_entry_at := Some entry_at\<rparr>"

section \<open>One candle\<close>

record outcome_state =
  os_record :: SetupLifecycleRecord
  os_progress :: outcome_progress
  os_transitions :: "SetupTransitionResult list"
  os_processed :: nat
  os_aborted :: bool
  os_writes :: "repository_write list"
  os_evidence :: PrefixPassEvidence

definition os_add :: "outcome_state \<Rightarrow> SetupTransitionResult list \<Rightarrow> repository_write list \<Rightarrow> outcome_state" where
  "os_add s ts ws = s\<lparr>os_transitions := os_transitions s @ ts, os_writes := os_writes s @ ws\<rparr>"

text \<open>The stop of the plan, recorded on the state.\<close>

definition apply_stop ::
  "outcome_env \<Rightarrow> StoredPlanGeometry \<Rightarrow> CausalCandle \<Rightarrow> string \<Rightarrow> bool \<Rightarrow> outcome_state \<Rightarrow> outcome_exception + outcome_state" where
  "apply_stop env g causal ambiguity_reason breakeven s =
     ebind (record_stop env (os_record s) (os_progress s) g causal ambiguity_reason breakeven) (\<lambda>(r, t, p, ws).
       Inr ((os_add s [t] ws)\<lparr>os_record := r, os_progress := p\<rparr>))"

text \<open>A candle that touches the entry zone of a plan that has not been entered; the flag says to break.\<close>

definition apply_entry ::
  "outcome_env \<Rightarrow> StoredPlanGeometry \<Rightarrow> CausalCandle \<Rightarrow> rat \<Rightarrow> rat \<Rightarrow> outcome_state
     \<Rightarrow> outcome_exception + outcome_state \<times> bool" where
  "apply_entry env g causal high low s =
     (let candle_close = utc_iso (cc_close_timestamp causal);
          evidence = entry_evidence (os_record s) (os_progress s) causal high low g candle_close (env_evaluated_at env);
          progress = with_entry_evidence (os_progress s) candle_close evidence in
      ebind (insert_milestone_event env (os_record s) R_ENTRY_ACTIVATED ''entry_activated'' causal
        (JDecimalPair (geo_entry_low g) (geo_entry_high g)) evidence) (\<lambda>milestone.
      ebind (advance_to_managing env (os_record s) causal) (\<lambda>(r, ts, ws).
      let s' = (os_add s ts (milestone @ ws))\<lparr>os_record := r, os_progress := progress\<rparr> in
      if current_state r \<noteq> MANAGING
      then Inr (s'\<lparr>os_progress := integrity_failure progress INTEGRITY_FAILED
             (''entry_state_progression_failed:state='' @ state_value (current_state r)) (env_evaluated_at env),
             os_aborted := True\<rparr>, True)
      else if stop_touched high low g
      then ebind (apply_stop env g causal ''entry_and_stop_same_candle_stop_wins'' False s') (\<lambda>s''. Inr (s'', False))
      else Inr (s', False))))"

fun set_target_at :: "nat \<Rightarrow> string \<Rightarrow> outcome_progress \<Rightarrow> outcome_progress" where
  "set_target_at n t p =
     (if n = 1 then p\<lparr>op_tp1_at := Some t\<rparr> else if n = 2 then p\<lparr>op_tp2_at := Some t\<rparr> else p\<lparr>op_tp3_at := Some t\<rparr>)"

fun target_name :: "nat \<Rightarrow> string" where
  "target_name n = (if n = 1 then ''tp1_hit'' else if n = 2 then ''tp2_hit'' else ''tp3_hit'')"

fun apply_targets ::
  "outcome_env \<Rightarrow> CausalCandle \<Rightarrow> (nat \<times> rat) list \<Rightarrow> outcome_state \<Rightarrow> outcome_exception + outcome_state" where
  "apply_targets env causal [] s = Inr s"
| "apply_targets env causal ((n, target) # rest) s =
     ebind (insert_milestone_event env (os_record s) (target_reason n) (target_name n) causal (JDecimal target) []) (\<lambda>ws.
       apply_targets env causal rest
         ((os_add s [] ws)\<lparr>os_progress := set_target_at n (utc_iso (cc_close_timestamp causal)) (os_progress s)\<rparr>))"

text \<open>A candle after the entry: the stop in force wins over targets; the third target is terminal.\<close>

definition apply_managed ::
  "outcome_env \<Rightarrow> StoredPlanGeometry \<Rightarrow> CausalCandle \<Rightarrow> rat \<Rightarrow> rat \<Rightarrow> outcome_state \<Rightarrow> outcome_exception + outcome_state" where
  "apply_managed env g causal high low s =
     (let touched = newly_touched_targets high low g (os_progress s);
          candle_close = utc_iso (cc_close_timestamp causal) in
      ebind (protection_active (os_progress s)
        (ADatetime \<lparr>dt_local = cc_open_timestamp causal, dt_offset = Some 0\<rparr>)) (\<lambda>breakeven_active.
      if (if breakeven_active then reference_stop_touched high low g else stop_touched high low g)
      then apply_stop env g causal
             (if touched \<noteq> [] then ''post_entry_stop_and_target_same_candle_stop_wins'' else NA) breakeven_active s
      else
        ebind (apply_targets env causal touched s) (\<lambda>s'.
        if op_tp3_at (os_progress s') = None then Inr s'
        else
          ebind (record_terminal_transition env (os_record s') TP_HIT R_TAKE_PROFIT_HIT ''terminal_tp_hit'' causal NA (JText NA))
            (\<lambda>(r, t, ws).
            Inr ((os_add s' [t] ws)\<lparr>os_record := r,
              os_progress := (os_progress s')\<lparr>op_terminal_outcome := state_value TP_HIT, op_outcome_at := Some candle_close\<rparr>\<rparr>)))))"

definition advance_cursor ::
  "outcome_env \<Rightarrow> CausalCandle \<Rightarrow> outcome_state \<Rightarrow> outcome_exception + outcome_state" where
  "advance_cursor env causal s =
     ebind (with_cursor (os_progress s) causal (env_evaluated_at env) 1) (\<lambda>p.
       Inr (s\<lparr>os_progress := p, os_evidence := record_completed (os_evidence s) causal\<rparr>))"

text \<open>The body of the loop over pending candles; the flag says that the loop breaks.\<close>

definition process_candle ::
  "outcome_env \<Rightarrow> StoredPlanGeometry \<Rightarrow> outcome_state \<Rightarrow> CausalCandle \<times> rat \<times> rat
     \<Rightarrow> outcome_exception + outcome_state \<times> bool" where
  "process_candle env g s item =
     (let (causal, high, low) = item; s0 = s\<lparr>os_processed := os_processed s + 1\<rparr> in
      ebind (if op_entry_at (os_progress s) = None
             then (if entry_touched high low g then apply_entry env g causal high low s0 else Inr (s0, False))
             else map_sum id (\<lambda>s'. (s', False)) (apply_managed env g causal high low s0)) (\<lambda>(s1, aborted).
      if aborted then Inr (s1, True)
      else ebind (advance_cursor env causal s1) (\<lambda>s2. Inr (s2, op_terminal_outcome (os_progress s2) \<noteq> NA))))"

fun process_pending ::
  "outcome_env \<Rightarrow> StoredPlanGeometry \<Rightarrow> outcome_state \<Rightarrow> (CausalCandle \<times> rat \<times> rat) list \<Rightarrow> outcome_exception + outcome_state" where
  "process_pending env g s [] = Inr s"
| "process_pending env g s (item # items) =
     ebind (process_candle env g s item) (\<lambda>(s', stop). if stop then Inr s' else process_pending env g s' items)"

section \<open>Where tracking starts\<close>

text \<open>Timestamp plus duration.\<close>

definition utc_add :: "int \<Rightarrow> int \<Rightarrow> outcome_exception + int" where
  "utc_add t d = (if 0 \<le> t + d \<and> t + d < dt_max then Inr (t + d) else Inl (TimestampError CandleOverflowError))"

definition first_aligned_open_at_or_after :: "int \<Rightarrow> int \<Rightarrow> int \<Rightarrow> outcome_exception + int" where
  "first_aligned_open_at_or_after boundary anchor duration =
     ebind (utc_add anchor (duration * ((boundary - anchor) div duration))) (\<lambda>candidate.
       if candidate < boundary then utc_add candidate duration else Inr candidate)"

definition first_fully_post_boundary_open :: "int \<Rightarrow> int \<Rightarrow> int \<Rightarrow> outcome_exception + int" where
  "first_fully_post_boundary_open boundary earliest_open duration =
     (if boundary \<le> earliest_open then Inr earliest_open
      else ebind (utc_add earliest_open (duration * ((boundary - earliest_open) div duration))) (\<lambda>candidate.
        if candidate < boundary then utc_add candidate duration else Inr candidate))"

text \<open>What the engine reads from the repository for the lifecycle of the record.\<close>

record outcome_reads =
  rd_epoch_current :: bool
  rd_events :: "SetupLifecycleEvent list"
  rd_progress_rows :: "outcome_progress list"

definition get_outcome_progress :: "outcome_reads \<Rightarrow> string \<Rightarrow> outcome_progress option" where
  "get_outcome_progress rd identity = find (\<lambda>p. op_plan_identity p = identity) (rd_progress_rows rd)"

fun first_progress :: "outcome_reads \<Rightarrow> string list \<Rightarrow> outcome_progress option" where
  "first_progress rd [] = None"
| "first_progress rd (identity # identities) =
     (case get_outcome_progress rd identity of Some p \<Rightarrow> Some p | None \<Rightarrow> first_progress rd identities)"

text \<open>A \<open>ValueError\<close> is given a prefix; other exceptions pass.\<close>

fun value_error_text :: "outcome_env \<Rightarrow> outcome_exception \<Rightarrow> string option" where
  "value_error_text env (TimestampError CandleOverflowError) = None"
| "value_error_text env OutcomeTypeError = None"
| "value_error_text env (OutcomeModelError OverflowError) = None"
| "value_error_text env (OutcomeValueError text) = Some text"
| "value_error_text env e = Some (env_exc_text env e)"

definition prefix_value_error :: "outcome_env \<Rightarrow> string \<Rightarrow> outcome_exception + 'a \<Rightarrow> outcome_exception + 'a" where
  "prefix_value_error env prefix r =
     (case r of
        Inr x \<Rightarrow> Inr x
      | Inl e \<Rightarrow> (case value_error_text env e of None \<Rightarrow> Inl e | Some text \<Rightarrow> Inl (OutcomeValueError (prefix @ text))))"

definition entry_tracking_boundary ::
  "outcome_env \<Rightarrow> SetupLifecycleRecord \<Rightarrow> outcome_progress \<Rightarrow> outcome_reads \<Rightarrow> string list \<Rightarrow> outcome_exception + int \<times> string" where
  "entry_tracking_boundary env r p rd compatible_identities =
     (let stored = (case confirmed_at r of Some c \<Rightarrow> if c \<noteq> [] \<and> py_text c \<noteq> NA then Some c else None | None \<Rightarrow> None);
          found = (case stored of
             Some c \<Rightarrow> Some (c, ''lifecycle_confirmed_at'')
           | None \<Rightarrow> map_option (\<lambda>ev. (ev_timestamp ev, ''lifecycle_confirmed_event''))
                       (find (\<lambda>ev. ev_to_state ev = CONFIRMED) (rd_events rd))) in
      case found of
        None \<Rightarrow> Inl (OutcomeValueError ''missing_entry_tracking_confirmation_boundary'')
      | Some (confirmation_value, confirmation_source) \<Rightarrow>
          ebind (prefix_value_error env ''invalid_entry_tracking_confirmation_boundary:''
            (lift_timestamp (normalize_utc_timestamp (AText confirmation_value)))) (\<lambda>confirmation.
          if \<exists>q \<in> set (rd_progress_rows rd). op_plan_identity q \<notin> set compatible_identities
          then
            ebind (prefix_value_error env ''invalid_material_plan_tracking_boundary:''
              (lift_timestamp (normalize_utc_timestamp (AText
                (if op_first_evaluated_at p \<noteq> [] then op_first_evaluated_at p else env_evaluated_at env))))) (\<lambda>material.
            Inr (if material > confirmation then (material, ''material_plan_first_evaluated_at_after_confirmation'')
                 else (confirmation, confirmation_source)))
          else Inr (confirmation, confirmation_source)))"

definition with_tracking_start ::
  "outcome_progress \<Rightarrow> int \<Rightarrow> string \<Rightarrow> string \<Rightarrow> string \<Rightarrow> string \<Rightarrow> outcome_progress" where
  "with_tracking_start p tracking_start boundary_timestamp boundary_source boundary_eligibility boundary_diagnostic =
     (with_metadata p (dict_update (progress_metadata p)
       [(''tracking_boundary_source'', JText boundary_source), (''tracking_boundary_timestamp'', JText boundary_timestamp),
        (''boundary_candle_eligibility_decision'', JText boundary_eligibility),
        (''boundary_diagnostic'', JText boundary_diagnostic),
        (''entry_causality_contract'', JText ENTRY_CAUSALITY_CONTRACT),
        (''tracking_start_at'', JText (utc_iso tracking_start))]))
       \<lparr>op_tracking_start_at := Some (utc_iso tracking_start)\<rparr>"

definition missing_history :: "(string \<times> int) list \<Rightarrow> string" where
  "missing_history items =
     ''missing_execution_candle_history:'' @ py_join '' '' (map (\<lambda>(name, t). name @ ''='' @ utc_iso t) items)"

definition tracking_start_boundary ::
  "outcome_env \<Rightarrow> SetupLifecycleRecord \<Rightarrow> outcome_progress \<Rightarrow> CausalCandle list \<Rightarrow> outcome_reads \<Rightarrow> string list \<Rightarrow> string
     \<Rightarrow> outcome_exception + int \<times> string \<times> string \<times> string \<times> string" where
  "tracking_start_boundary env r p timeline rd compatible_identities execution_timeframe =
     ebind (entry_tracking_boundary env r p rd compatible_identities) (\<lambda>(boundary, boundary_source).
     let earliest_open = cc_open_timestamp (hd timeline) in
     if boundary < earliest_open
     then Inl (OutcomeValueError (missing_history [(''tracking_boundary_at'', boundary), (''earliest_open'', earliest_open)]))
     else
       ebind (lift_timestamp (timeframe_duration execution_timeframe)) (\<lambda>duration.
       ebind (first_fully_post_boundary_open boundary earliest_open duration) (\<lambda>tracking_start.
       Inr (tracking_start, utc_iso boundary, boundary_source,
         if boundary \<ge> earliest_open \<and> tracking_start > boundary then ''partially_overlapping_boundary''
         else if tracking_start = boundary then ''boundary_exactly_at_candle_open''
         else ''fully_post_boundary_history_start'',
         if boundary \<ge> earliest_open \<and> tracking_start > boundary then ''partial_boundary_candle_not_entry_eligible'' else NA))))"

section \<open>Creating and closing progress rows\<close>

definition new_progress ::
  "outcome_env \<Rightarrow> SetupLifecycleRecord \<Rightarrow> string \<Rightarrow> outcome_exception + outcome_progress" where
  "new_progress env r execution_timeframe =
     ebind (lift_model (construct_progress
       \<lparr>op_lifecycle_id = lifecycle_id r, op_plan_identity = env_plan_identity env, op_symbol = symbol r, op_mode = mode r,
        op_direction = direction r, op_execution_timeframe = py_lower (py_text execution_timeframe),
        op_tracking_start_at = None, op_evaluation_cursor_open_at = None, op_evaluation_cursor_close_at = None,
        op_entry_at = None, op_tp1_at = None, op_tp2_at = None, op_tp3_at = None, op_stop_at = None,
        op_invalidated_at = None, op_outcome_at = None, op_terminal_outcome = NA, op_integrity_status = NA,
        op_diagnostic = NA, op_metadata_json = ''{}'', op_first_evaluated_at = env_evaluated_at env,
        op_last_evaluated_at = env_evaluated_at env,
        op_plan_version_id = proven_progress_plan_version_id (env_sha256 env) r,
        op_last_eligibility_decision_at = None, op_last_eligibility_prefix_evidence_json = None,
        op_eligibility_cutoff_observed = False\<rparr>)) (\<lambda>p.
     Inr (SetupLifecycleOutcomeProgress.extend p
       (outcome_progress.fields (Some (JObject
         [(''ambiguity_policy'', JText ''conservative_stop_wins''),
          (''entry_causality_contract'', JText ENTRY_CAUSALITY_CONTRACT),
          (''plan_identity'', JText (env_plan_identity env)),
          (''plan_version_binding'', JText (initial_plan_version_binding (env_sha256 env) r)),
          (''processed_candle_count'', JNumber 0),
          (''source'', JText ''canonical_lifecycle_closed_execution_candles'')])) None)))"

definition terminal_progress_for_record ::
  "outcome_env \<Rightarrow> SetupLifecycleRecord \<Rightarrow> outcome_progress option \<Rightarrow> string \<Rightarrow> outcome_exception + outcome_progress" where
  "terminal_progress_for_record env r progress execution_timeframe =
     ebind (case progress of Some p \<Rightarrow> Inr p | None \<Rightarrow> new_progress env r execution_timeframe) (\<lambda>p.
     let closed = p\<lparr>op_terminal_outcome := state_value (current_state r),
           op_outcome_at := (case op_outcome_at p of Some t \<Rightarrow> if t \<noteq> [] then Some t else Some (last_transition_at r)
                             | None \<Rightarrow> Some (last_transition_at r)),
           op_last_evaluated_at := env_evaluated_at env\<rparr>;
         marked = (if current_state r = INVALIDATED
           then closed\<lparr>op_invalidated_at := (case op_invalidated_at p of Some t \<Rightarrow> if t \<noteq> [] then Some t else Some (last_transition_at r)
                             | None \<Rightarrow> Some (last_transition_at r))\<rparr> else closed) in
     Inr (if op_integrity_status p = NA
          then marked\<lparr>op_integrity_status := INTEGRITY_UNVERIFIED,
                 op_diagnostic := ''terminal_state_preceded_canonical_outcome_cursor''\<rparr>
          else marked))"

section \<open>The evaluation\<close>

record LifecycleOutcomeEvaluation =
  le_record :: SetupLifecycleRecord
  le_progress :: "outcome_progress option"
  le_last_transition :: "SetupTransitionResult option"
  le_transitions :: "SetupTransitionResult list"
  le_processed_candles :: nat

type_synonym evaluation_result = "outcome_exception + LifecycleOutcomeEvaluation \<times> repository_write list"

definition evaluation_done ::
  "SetupLifecycleRecord \<Rightarrow> outcome_progress option \<Rightarrow> repository_write list \<Rightarrow> evaluation_result" where
  "evaluation_done r p ws =
     Inr (\<lparr>le_record = r, le_progress = p, le_last_transition = None, le_transitions = [], le_processed_candles = 0\<rparr>, ws)"

text \<open>A row is written with the evidence of the pass, when there is one.\<close>

definition write_progress ::
  "outcome_progress \<Rightarrow> PrefixPassEvidence option \<Rightarrow> prefix_disposition option \<Rightarrow> outcome_exception + outcome_progress" where
  "write_progress p evidence disposition =
     (case evidence of None \<Rightarrow> Inr p | Some ev \<Rightarrow> bind_prefix_disposition p ev disposition)"

definition write_and_return ::
  "SetupLifecycleRecord \<Rightarrow> outcome_progress \<Rightarrow> PrefixPassEvidence option \<Rightarrow> prefix_disposition \<Rightarrow> repository_write list
     \<Rightarrow> evaluation_result" where
  "write_and_return r p evidence disposition ws =
     ebind (write_progress p evidence (Some disposition)) (\<lambda>q. evaluation_done r (Some q) (ws @ [UpsertProgress q]))"

text \<open>The row notes an integrity failure and is written.\<close>

definition fail_with ::
  "outcome_env \<Rightarrow> SetupLifecycleRecord \<Rightarrow> outcome_progress \<Rightarrow> PrefixPassEvidence option \<Rightarrow> repository_write list \<Rightarrow> string \<Rightarrow> string
     \<Rightarrow> evaluation_result" where
  "fail_with env r p evidence ws status diagnostic =
     write_and_return r (integrity_failure p status diagnostic (env_evaluated_at env)) evidence POST_FILTER_BLOCKED ws"

text \<open>A \<open>ValueError\<close> of \<open>x\<close> ends the evaluation with an integrity failure; other exceptions propagate.\<close>

definition on_value_error ::
  "outcome_env \<Rightarrow> SetupLifecycleRecord \<Rightarrow> outcome_progress \<Rightarrow> PrefixPassEvidence option \<Rightarrow> repository_write list \<Rightarrow> string \<Rightarrow> string
     \<Rightarrow> outcome_exception + 'a \<Rightarrow> ('a \<Rightarrow> evaluation_result) \<Rightarrow> evaluation_result" where
  "on_value_error env r p evidence ws status prefix x continue =
     (case x of
        Inr v \<Rightarrow> continue v
      | Inl e \<Rightarrow>
          (case value_error_text env e of
             None \<Rightarrow> Inl e
           | Some text \<Rightarrow> fail_with env r p evidence ws status (prefix @ text)))"

definition loop_disposition :: "outcome_state \<Rightarrow> prefix_disposition" where
  "loop_disposition s =
     (if os_aborted s then PROCESSING_ABORTED
      else if op_terminal_outcome (os_progress s) \<noteq> NA then POLICY_TERMINAL
      else PENDING_SUFFIX_EXHAUSTED)"

definition run_pending ::
  "outcome_env \<Rightarrow> SetupLifecycleRecord \<Rightarrow> StoredPlanGeometry \<Rightarrow> outcome_progress \<Rightarrow> PrefixPassEvidence \<Rightarrow> repository_write list
     \<Rightarrow> (CausalCandle \<times> rat \<times> rat) list \<Rightarrow> evaluation_result" where
  "run_pending env r g p evidence ws pending =
     ebind (process_pending env g
       \<lparr>os_record = r, os_progress = p, os_transitions = [], os_processed = 0, os_aborted = False, os_writes = [],
        os_evidence = evidence\<rparr> pending) (\<lambda>s.
     ebind (write_progress (os_progress s) (Some (os_evidence s)) (Some (loop_disposition s))) (\<lambda>q.
       Inr (\<lparr>le_record = os_record s, le_progress = Some q,
             le_last_transition = (if os_transitions s = [] then None else Some (last (os_transitions s))),
             le_transitions = os_transitions s, le_processed_candles = os_processed s\<rparr>,
            ws @ os_writes s @ [UpsertRecord (os_record s), UpsertProgress q])))"

definition evaluate_pending ::
  "outcome_env \<Rightarrow> SetupLifecycleRecord \<Rightarrow> StoredPlanGeometry \<Rightarrow> outcome_progress \<Rightarrow> PrefixPassEvidence \<Rightarrow> repository_write list
     \<Rightarrow> bool \<Rightarrow> int \<Rightarrow> int \<Rightarrow> int \<Rightarrow> (CausalCandle \<times> rat \<times> rat) list \<Rightarrow> evaluation_result" where
  "evaluate_pending env r g p evidence0 ws fresh_cursor tracking_start latest_open expected_open pending =
     (let evidence = mark_pending evidence0 (map fst pending) (Some expected_open) in
      case pending of
        [] \<Rightarrow>
          if fresh_cursor \<and> latest_open < tracking_start then
            write_and_return r (p\<lparr>op_integrity_status := INTEGRITY_VERIFIED,
              op_diagnostic := (case map_of (progress_metadata p) ''boundary_diagnostic'' of
                 Some v \<Rightarrow> json_str v | None \<Rightarrow> ''awaiting_first_fully_post_boundary_candle''),
              op_last_evaluated_at := env_evaluated_at env\<rparr>) (Some evidence) WAITING_FOR_TRACKING_START ws
          else if fresh_cursor then
            fail_with env r p (Some evidence) ws INTEGRITY_UNVERIFIED
              (missing_history [(''tracking_start_at'', tracking_start), (''latest_open'', latest_open)])
          else write_and_return r (p\<lparr>op_integrity_status := INTEGRITY_VERIFIED, op_diagnostic := NA,
              op_last_evaluated_at := env_evaluated_at env\<rparr>) (Some evidence) NO_NEW_PENDING_CANDLES ws
      | (causal, _, _) # _ \<Rightarrow>
          if cc_open_timestamp causal \<noteq> expected_open then
            fail_with env r p (Some evidence) ws INTEGRITY_UNVERIFIED
              (missing_history [(''expected_open'', expected_open), (''received_open'', cc_open_timestamp causal)])
          else run_pending env r g p evidence ws pending)"

text \<open>From the tracking start and the cursor to the candles that are still to be evaluated.\<close>

definition select_pending ::
  "outcome_env \<Rightarrow> SetupLifecycleRecord \<Rightarrow> StoredPlanGeometry \<Rightarrow> string \<Rightarrow> outcome_progress \<Rightarrow> PrefixPassEvidence
     \<Rightarrow> repository_write list \<Rightarrow> (CausalCandle \<times> rat \<times> rat) list \<Rightarrow> evaluation_result" where
  "select_pending env r g timeframe p evidence ws items =
     on_value_error env r p (Some evidence) ws INTEGRITY_FAILED ''invalid_persisted_tracking_start:''
       (optional_time (op_tracking_start_at p)) (\<lambda>tracking_start.
     let latest_open = cc_open_timestamp (fst (last items)) in
     case op_evaluation_cursor_open_at p of
       None \<Rightarrow>
         evaluate_pending env r g p evidence ws True tracking_start latest_open tracking_start
           (filter (\<lambda>(c, _). cc_open_timestamp c \<ge> tracking_start) items)
     | Some cursor \<Rightarrow>
         on_value_error env r p (Some evidence) ws INTEGRITY_FAILED ''invalid_persisted_evaluation_cursor:''
           (optional_time (Some cursor)) (\<lambda>cursor_open.
         if latest_open < cursor_open then
           fail_with env r p (Some evidence) ws INTEGRITY_UNVERIFIED
             (''stale_execution_candle_history:latest='' @ utc_iso latest_open @ '' cursor='' @ utc_iso cursor_open)
         else
           ebind (lift_timestamp (timeframe_duration timeframe)) (\<lambda>duration.
           ebind (utc_add cursor_open duration) (\<lambda>after_cursor.
           let expected_open = max after_cursor tracking_start in
           evaluate_pending env r g p evidence ws False tracking_start latest_open expected_open
             (filter (\<lambda>(c, _). cc_open_timestamp c \<ge> expected_open) items)))))"

text \<open>A row without a tracking start gets one: from the confirmation boundary, or from its own cursor.\<close>

definition ensure_tracking_start ::
  "outcome_env \<Rightarrow> SetupLifecycleRecord \<Rightarrow> StoredPlanGeometry \<Rightarrow> string \<Rightarrow> outcome_reads \<Rightarrow> string list \<Rightarrow> outcome_progress
     \<Rightarrow> PrefixPassEvidence \<Rightarrow> repository_write list \<Rightarrow> (CausalCandle \<times> rat \<times> rat) list \<Rightarrow> evaluation_result" where
  "ensure_tracking_start env r g timeframe rd identities p evidence ws items =
     (case op_tracking_start_at p of
        Some _ \<Rightarrow> select_pending env r g timeframe p evidence ws items
      | None \<Rightarrow>
          (case op_evaluation_cursor_open_at p of
             None \<Rightarrow>
               on_value_error env r p (Some evidence) ws INTEGRITY_UNVERIFIED []
                 (tracking_start_boundary env r p (map fst items) rd identities timeframe)
                 (\<lambda>(start, boundary, source, eligibility, diagnostic).
                   select_pending env r g timeframe (with_tracking_start p start boundary source eligibility diagnostic)
                     evidence ws items)
           | Some cursor \<Rightarrow>
               on_value_error env r p (Some evidence) ws INTEGRITY_FAILED ''invalid_persisted_evaluation_cursor:''
                 (optional_time (Some cursor)) (\<lambda>existing_cursor.
                   select_pending env r g timeframe
                     (with_tracking_start p existing_cursor cursor ''existing_cursor_v19_backfill''
                       ''legacy_entry_already_persisted'' NA) evidence ws items)))"

text \<open>
  An unentered row that was written before the entry causality contract adopts it from here on. The result: where tracking
  starts, the boundary and where it comes from, the eligibility of the boundary candle and a diagnostic.
\<close>

definition adopted_tracking_start ::
  "outcome_env \<Rightarrow> SetupLifecycleRecord \<Rightarrow> outcome_progress \<Rightarrow> string \<Rightarrow> outcome_reads \<Rightarrow> string list \<Rightarrow> CausalCandle list
     \<Rightarrow> outcome_exception + int \<times> int \<times> string \<times> string \<times> string" where
  "adopted_tracking_start env r p timeframe rd identities timeline =
     ebind (entry_tracking_boundary env r p rd identities) (\<lambda>(boundary, source).
     ebind (lift_timestamp (timeframe_duration timeframe)) (\<lambda>duration.
     ebind (case op_evaluation_cursor_open_at p of
              None \<Rightarrow>
                let earliest_open = cc_open_timestamp (hd timeline) in
                if boundary < earliest_open
                then Inl (OutcomeValueError (missing_history [(''tracking_boundary_at'', boundary), (''earliest_open'', earliest_open)]))
                else map_sum id (\<lambda>first. (first, first)) (first_fully_post_boundary_open boundary earliest_open duration)
            | Some cursor \<Rightarrow>
                ebind (optional_time (Some cursor)) (\<lambda>cursor_open.
                ebind (first_aligned_open_at_or_after boundary cursor_open duration) (\<lambda>first.
                ebind (utc_add cursor_open duration) (\<lambda>after_cursor. Inr (first, max after_cursor first))))) (\<lambda>(first, start).
       Inr (start, boundary, source,
         if first = boundary then ''boundary_exactly_at_candle_open'' else ''partially_overlapping_boundary'',
         if first = boundary then NA else ''partial_boundary_candle_not_entry_eligible''))))"

definition with_adopted_causality :: "outcome_progress \<Rightarrow> int \<Rightarrow> int \<Rightarrow> string \<Rightarrow> string \<Rightarrow> string \<Rightarrow> outcome_progress" where
  "with_adopted_causality p start boundary source eligibility diagnostic =
     (let q = with_tracking_start p start (utc_iso boundary) source eligibility diagnostic in
      with_metadata q (dict_update (progress_metadata q)
        ([(''entry_causality_migration'', JText ''legacy_unfilled_cursor_adopted_prospectively''),
          (''entry_causality_prospective_start_at'', JText (utc_iso start))]
         @ (case op_evaluation_cursor_open_at q of
              None \<Rightarrow> [] | Some cursor \<Rightarrow> [(''legacy_evaluation_cursor_open_at_preserved'', JText cursor)]))))"

definition adopt_causality ::
  "outcome_env \<Rightarrow> SetupLifecycleRecord \<Rightarrow> StoredPlanGeometry \<Rightarrow> string \<Rightarrow> outcome_reads \<Rightarrow> string list \<Rightarrow> outcome_progress
     \<Rightarrow> PrefixPassEvidence \<Rightarrow> repository_write list \<Rightarrow> (CausalCandle \<times> rat \<times> rat) list \<Rightarrow> evaluation_result" where
  "adopt_causality env r g timeframe rd identities p evidence ws items =
     (if op_entry_at p = None
        \<and> json_get (progress_metadata p) ''entry_causality_contract'' \<noteq> JText ENTRY_CAUSALITY_CONTRACT
      then
        on_value_error env r p (Some evidence) ws INTEGRITY_UNVERIFIED []
          (adopted_tracking_start env r p timeframe rd identities (map fst items))
          (\<lambda>(start, boundary, source, eligibility, diagnostic).
            ensure_tracking_start env r g timeframe rd identities
              (with_adopted_causality p start boundary source eligibility diagnostic) evidence ws items)
      else ensure_tracking_start env r g timeframe rd identities p evidence ws items)"

text \<open>The window of closed candles and their price ranges.\<close>

definition with_applied_eligibility_cutoff :: "outcome_progress \<Rightarrow> ClosedCandleWindow \<Rightarrow> outcome_progress" where
  "with_applied_eligibility_cutoff p window =
     p\<lparr>op_last_eligibility_decision_at := Some (utc_iso (win_decision_timestamp window)),
       op_eligibility_cutoff_observed := True, op_prefix_evidence := None\<rparr>"

fun candle_ranges :: "CausalCandle list \<Rightarrow> outcome_exception + (CausalCandle \<times> rat \<times> rat) list" where
  "candle_ranges [] = Inr []"
| "candle_ranges (c # cs) =
     ebind (candle_range c) (\<lambda>(high, low). ebind (candle_ranges cs) (\<lambda>items. Inr ((c, high, low) # items)))"

definition evaluate_window ::
  "outcome_env \<Rightarrow> SetupLifecycleRecord \<Rightarrow> StoredPlanGeometry \<Rightarrow> string \<Rightarrow> outcome_reads \<Rightarrow> string list \<Rightarrow> outcome_progress
     \<Rightarrow> repository_write list \<Rightarrow> candle_arg list \<Rightarrow> py_any \<Rightarrow> evaluation_result" where
  "evaluate_window env r g timeframe rd identities p ws candles decision_timestamp =
     on_value_error env r p None ws INTEGRITY_UNVERIFIED []
       (lift_timestamp (closed_candles_as_of candles timeframe decision_timestamp 0 True True False)) (\<lambda>window.
     let q = with_applied_eligibility_cutoff p window;
         evidence = start_prefix_pass_evidence q window timeframe in
     on_value_error env r q (Some evidence) ws INTEGRITY_UNVERIFIED [] (candle_ranges (win_timeline window)) (\<lambda>items.
     if win_timeline window = []
     then write_and_return r (integrity_failure q INTEGRITY_UNVERIFIED ''no_closed_execution_candles_at_decision_boundary''
            (env_evaluated_at env)) (Some evidence) NO_ELIGIBLE_CLOSED_CANDLES ws
     else adopt_causality env r g timeframe rd identities q evidence ws items))"

text \<open>A row of a record in an eligible state.\<close>

definition evaluate_progress ::
  "outcome_env \<Rightarrow> SetupLifecycleRecord \<Rightarrow> StoredPlanGeometry \<Rightarrow> outcome_reads \<Rightarrow> string list \<Rightarrow> outcome_progress
     \<Rightarrow> repository_write list \<Rightarrow> candle_arg list \<Rightarrow> string \<Rightarrow> py_any \<Rightarrow> evaluation_result" where
  "evaluate_progress env r g rd identities p ws candles execution_timeframe decision_timestamp =
     (let timeframe = py_lower (py_text execution_timeframe) in
      if timeframe = py_lower NA
      then fail_with env r p None ws INTEGRITY_UNVERIFIED ''missing_execution_timeframe''
      else if op_execution_timeframe p \<noteq> timeframe
      then fail_with env r p None ws INTEGRITY_FAILED
             (''execution_timeframe_changed:'' @ op_execution_timeframe p @ ''->'' @ timeframe)
      else
        on_value_error env r p None ws INTEGRITY_FAILED ''stop_management_policy_invalid:''
          (bind_stop_policy p g decision_timestamp (env_evaluated_at env)) (\<lambda>q.
        let ws' = ws @ [UpsertProgress q] in
        if candles = [] then fail_with env r q None ws' INTEGRITY_UNVERIFIED ''missing_execution_candle_history''
        else evaluate_window env r g timeframe rd identities q ws' candles decision_timestamp))"

definition evaluate_closed_candle_outcomes ::
  "outcome_env \<Rightarrow> outcome_reads \<Rightarrow> SetupLifecycleRecord \<Rightarrow> candle_arg list \<Rightarrow> string \<Rightarrow> py_any \<Rightarrow> evaluation_result" where
  "evaluate_closed_candle_outcomes env0 rd r candles execution_timeframe decision_timestamp =
     (let identities = compatible_plan_identities (env_sha256 env0) r; loaded = first_progress rd identities in
      if \<not> rd_epoch_current rd then evaluation_done r loaded []
      else
        let progress = map_option (\<lambda>p. bd_progress (bind_progress_to_proven_plan_version (env_sha256 env0) p r)) loaded;
            ws = (case progress of
                    None \<Rightarrow> []
                  | Some p \<Rightarrow> if op_plan_version_id p \<noteq> Option.bind loaded op_plan_version_id then [UpsertProgress p] else []);
            env = env0\<lparr>env_plan_identity := (case progress of Some p \<Rightarrow> op_plan_identity p | None \<Rightarrow> hd identities)\<rparr> in
        case stored_plan_geometry r of
          Inl _ \<Rightarrow> evaluation_done r progress ws
        | Inr g \<Rightarrow>
            if (case progress of Some p \<Rightarrow> op_terminal_outcome p \<noteq> NA | None \<Rightarrow> False)
            then evaluation_done r progress ws
            else if current_state r \<in> set TERMINAL_OUTCOME_STATES
            then ebind (terminal_progress_for_record env r progress execution_timeframe) (\<lambda>p.
                   evaluation_done r (Some p) (ws @ [UpsertProgress p]))
            else if current_state r \<notin> set OUTCOME_ELIGIBLE_STATES then evaluation_done r progress ws
            else
              ebind (case progress of Some p \<Rightarrow> Inr p | None \<Rightarrow> new_progress env r execution_timeframe) (\<lambda>p.
                evaluate_progress env r g rd identities p ws candles execution_timeframe decision_timestamp))"

text \<open>An evidence gap is noted on the row; the cursor does not move.\<close>

definition record_closed_candle_evidence_gap ::
  "outcome_env \<Rightarrow> outcome_reads \<Rightarrow> SetupLifecycleRecord \<Rightarrow> string \<Rightarrow> string \<Rightarrow> evaluation_result" where
  "record_closed_candle_evidence_gap env0 rd r diagnostic execution_timeframe =
     (if \<not> rd_epoch_current rd then evaluation_done r None []
      else
        let identities = compatible_plan_identities (env_sha256 env0) r;
            progress = map_option (\<lambda>p. bd_progress (bind_progress_to_proven_plan_version (env_sha256 env0) p r))
              (first_progress rd identities);
            env = env0\<lparr>env_plan_identity := (case progress of Some p \<Rightarrow> op_plan_identity p | None \<Rightarrow> hd identities)\<rparr> in
        if (case progress of Some p \<Rightarrow> op_terminal_outcome p \<noteq> NA | None \<Rightarrow> False) \<or> current_state r \<in> set TERMINAL_OUTCOME_STATES
          \<or> stored_plan_geometry_failure r \<noteq> None \<or> current_state r \<notin> set OUTCOME_ELIGIBLE_STATES
        then evaluation_done r progress []
        else
          ebind (case progress of Some p \<Rightarrow> Inr p | None \<Rightarrow> new_progress env r execution_timeframe) (\<lambda>p.
          let q = (integrity_failure p INTEGRITY_UNVERIFIED diagnostic (env_evaluated_at env))
                \<lparr>op_evaluation_cursor_open_at := op_evaluation_cursor_open_at p,
                 op_evaluation_cursor_close_at := op_evaluation_cursor_close_at p\<rparr> in
          evaluation_done r (Some q) [UpsertProgress q]))"

end
