(* ===== verification/Outcome_Steps.thy ===== *)
theory Outcome_Steps
  imports Outcome_Engine Lifecycle_Step
begin

text \<open>
  What one candle and one pass of the outcome engine do: a loop that may break, its abstract specification as a
  machine over positions, and the proof that the loop returns and implements it.
\<close>

section \<open>Timestamps\<close>

lemma lift_Inr [simp]: "lift_timestamp x = Inr t \<longleftrightarrow> x = Inr t" "lift_model y = Inr u \<longleftrightarrow> y = Inr u"
  by (cases x; simp add: lift_timestamp_def) (cases y; simp add: lift_model_def)

lemma underscored_digits_chars: "underscored_digits s \<Longrightarrow> list_all (\<lambda>c. py_isdigit c \<or> c = CHR ''_'') s"
  by (induction s rule: underscored_digits.induct) (auto split: if_splits)

lemma utc_iso_text:
  "\<exists>c u v. utc_iso t = c # u @ CHR ''-'' # v @ ''0'' \<and> py_isdigit c"
proof -
  obtain y m d where ymd: "ord2ymd (Suc (nat (t div us_per_day))) = (y, m, d)" by (cases "ord2ymd (Suc (nat (t div us_per_day)))") auto
  define ds where "ds = pad_digits 4 y"
  have "length ds = 4" "list_all py_isdigit ds" unfolding ds_def by (simp, rule pad_digits_digits)
  then obtain c ys where c: "ds = c # ys" "py_isdigit c" by (cases ds) auto
  have zero: "digit_char 0 = CHR ''0''" by code_simp
  have off: "offset_text 0 = ''+00:0'' @ ''0''"
    using zero by (simp add: offset_text_def clock_text_def Let_def numeral_2_eq_2)
  have "utc_iso t = c # ys @ CHR ''-'' # (pad_digits 2 m @ ''-'' @ pad_digits 2 d @ ''T'' @ clock_text (nat (t mod us_per_day)) @ ''+00:0'') @ ''0''"
    by (simp add: utc_iso_def isoformat_def date_text_def ymd ds_def [symmetric] c off)
  then show ?thesis using c(2) by blast
qed

lemma normalize_utc_iso:
  assumes "0 \<le> t" "t < dt_max"
  shows "normalize_utc_timestamp (AText (utc_iso t)) = Inr t" "py_strip (utc_iso t) = utc_iso t"
proof -
  obtain c u v where s: "utc_iso t = c # u @ CHR ''-'' # v @ ''0''" and c: "py_isdigit c" using utc_iso_text [of t] by blast
  have d: "c \<noteq> CHR ''-''" "c \<noteq> CHR ''+''" "\<not> py_isspace c" using c by (auto simp: py_isdigit_def py_isspace_def)
  show strip: "py_strip (utc_iso t) = utc_iso t"
    unfolding py_strip_def by (rule strip_by_fixed) (use d in \<open>simp add: s py_isspace_def\<close>)
  have "int_of_text (utc_iso t) = None"
    using underscored_digits_chars [of "utc_iso t"] d by (auto simp: int_of_text_def s Let_def py_isdigit_def)
  moreover have "fromisoformat (replace_Z (utc_iso t)) = Some \<lparr>dt_local = t, dt_offset = Some 0\<rparr>" "utc_iso t \<noteq> NA"
    unfolding utc_iso_def by (rule isoformat_reread; use assms in \<open>simp add: valid_datetime_def us_per_day_def\<close>)+
  ultimately show "normalize_utc_timestamp (AText (utc_iso t)) = Inr t"
    using strip assms s by (simp add: timestamp_of_datetime_def dt_instant_def)
qed

declare normalize_utc_timestamp.simps(5) [simp del]

lemma parse_date_range: "parse_date s = Some n \<Longrightarrow> 1 \<le> n \<and> n \<le> days_before_year 10000"
proof (induction s rule: parse_date.induct)
  case (1 a b c d h1 e f h2 g h)
  then have v: "valid_ymd (digits_val [a, b, c, d]) (digits_val [e, f]) (digits_val [g, h])"
    and n: "n = ymd2ord (digits_val [a, b, c, d]) (digits_val [e, f]) (digits_val [g, h])" by (auto simp: Let_def split: if_splits)
  have "days_before_year (Suc (digits_val [a, b, c, d])) \<le> days_before_year 10000"
    using v by (intro days_before_year_mono) (simp add: valid_ymd_def)
  with ymd2ord_bounds [OF v] n show ?case by simp
qed simp_all

lemma fromisoformat_range:
  assumes "fromisoformat s = Some d"
  shows "0 \<le> dt_local d" "dt_local d < dt_max"
proof -
  obtain n us where n: "1 \<le> n" "n \<le> days_before_year 10000" and us: "us < 86400000000" and d: "dt_local d = (int n - 1) * us_per_day + int us"
  proof -
    obtain n where n: "parse_date (take 10 s) = Some n" using assms by (auto simp: fromisoformat_def split: option.splits)
    show thesis
    proof (cases "drop 10 s")
      case Nil
      with n assms that [of n 0] parse_date_range [OF n] show thesis by (auto simp: fromisoformat_def)
    next
      case (Cons sep r)
      then obtain us where "parse_clock (takeWhile (Not \<circ> is_tz_start) r) = Some us" "dt_local d = (int n - 1) * us_per_day + int us"
        using n assms by (auto simp: fromisoformat_def split: option.splits)
      with that [of n us] parse_date_range [OF n] parse_clock_bound show thesis by blast
    qed
  qed
  have "(int n - 1) * us_per_day + int us < int n * us_per_day" using us by (simp add: us_per_day_def)
  also have "\<dots> \<le> int (days_before_year 10000) * us_per_day" using n(2) by (simp add: us_per_day_def)
  finally show "dt_local d < dt_max" using d by (simp add: dt_max_def)
  show "0 \<le> dt_local d" using n(1) d by (simp add: us_per_day_def)
qed

text \<open>A \<open>datetime\<close> value lies in the years 1 to 9999.\<close>

definition valid_moment :: "py_any \<Rightarrow> bool" where
  "valid_moment v = (case v of ADatetime d \<Rightarrow> valid_datetime d | _ \<Rightarrow> True)"

lemma normalize_utc_range:
  assumes "normalize_utc_timestamp v = Inr t" "valid_moment v"
  shows "0 \<le> t" "t < dt_max"
proof -
  have ms: "0 \<le> t \<and> t < dt_max" if "timestamp_of_ms n = Inr t" for n
    using that by (auto simp: timestamp_of_ms_def fromtimestamp_def Let_def split: option.splits if_splits)
  have dt: "0 \<le> t \<and> t < dt_max" if "timestamp_of_datetime d = Inr t" "0 \<le> dt_local d" "dt_local d < dt_max" for d
    using that by (auto simp: timestamp_of_datetime_def split: option.splits if_splits)
  have "0 \<le> t \<and> t < dt_max"
  proof (cases v)
    case (AText s)
    then show ?thesis using assms(1) ms dt fromisoformat_range
      by (auto simp: normalize_utc_timestamp.simps(5) Let_def split: if_splits option.splits)
  next
    case (ADatetime d)
    then show ?thesis using assms dt by (auto simp: valid_moment_def valid_datetime_def)
  next
    case (AFloat x)
    then show ?thesis using assms(1) ms by (cases x) (auto split: if_splits)
  next
    case (ADecimal x)
    then show ?thesis using assms(1) ms by (cases x) (auto split: if_splits)
  qed (use assms(1) ms in auto)
  then show "0 \<le> t" "t < dt_max" by simp_all
qed


section \<open>Recorded transitions\<close>

lemma transition_moves:
  assumes "record_valid r" "current_state r \<noteq> st" "st \<in> set (ALLOWED_TRANSITIONS (current_state r))"
    and "\<not> entry_touch_transition_requires_touch_reason (Some (current_state r)) st why" "st \<noteq> COOLDOWN"
  shows "\<exists>t r'. transition_record r st why now clock scan None None gate msg = Inr t \<and> res_record t = Some r'
    \<and> res_allowed t \<and> res_transitioned t \<and> record_valid r' \<and> current_state r' = st"
proof -
  have v: "normalize_symbol (symbol r) = Inr (symbol r)" "score_in_range (readiness_score r)" "score_in_range (quality_score r)"
    using assms(1) by (simp_all add: record_valid_def)
  then have b: "bounded_score None (readiness_score r) = readiness_score r" "bounded_score None (quality_score r) = quality_score r"
    by (auto simp: bounded_score_def score_in_range_def)
  show ?thesis using assms v
    by (simp add: transition_record_def Let_def construct_event_def cooldown_until_of_def transition_allowed_def b record_valid_def)
qed


lemma terminal_moves:
  assumes "record_valid r" "current_state r = MANAGING" "st \<in> {TP_HIT, SL_HIT, BREAKEVEN}"
  shows "\<exists>r' t ws. record_terminal_transition env r st why ty c pol lev = Inr (r', t, ws)
    \<and> record_valid r' \<and> current_state r' = st"
proof -
  obtain t r' where "transition_record r st why (Some (env_evaluated_at env)) (env_clock env) (env_scan_run_id env) None None None
      (event_notes env ty c pol lev []) = Inr t" "res_record t = Some r'" "res_allowed t" "res_transitioned t"
      "record_valid r'" "current_state r' = st"
    using transition_moves [OF assms(1), of st why "Some (env_evaluated_at env)" "env_clock env" "env_scan_run_id env" None
      "event_notes env ty c pol lev []"] assms(2,3)
    by (auto simp: entry_touch_transition_requires_touch_reason_def)
  then show ?thesis by (simp add: record_terminal_transition_def lift_model_def)
qed

lemma milestone_inserts:
  "record_valid r \<Longrightarrow> \<exists>ev. insert_milestone_event env r why ty c lev evd = Inr [InsertEvent ev] \<and> ev_reason ev = why"
  by (simp add: insert_milestone_event_def construct_event_def record_valid_def lift_model_def)

fun entry_rank :: "SetupLifecycleState \<Rightarrow> nat" where
  "entry_rank MANAGING = 0" | "entry_rank EXECUTING = 1" | "entry_rank CONFIRMED = 2" | "entry_rank TRIGGERED = 3"
| "entry_rank _ = 4"

lemma entry_step_allowed:
  assumes "s \<in> set OUTCOME_ELIGIBLE_STATES" "s \<noteq> MANAGING"
  shows "\<exists>st. entry_next_state s = Some st \<and> s \<noteq> st \<and> st \<in> set (ALLOWED_TRANSITIONS s) \<and> st \<in> set OUTCOME_ELIGIBLE_STATES
    \<and> st \<noteq> COOLDOWN \<and> entry_rank st < entry_rank s
    \<and> \<not> entry_touch_transition_requires_touch_reason (Some s) st (if st = TRIGGERED then R_ENTRY_ZONE_TOUCHED else R_ENTRY_FILL_SIMULATED)"
  using assms by (auto simp: OUTCOME_ELIGIBLE_STATES_def entry_touch_transition_requires_touch_reason_def)

lemma advance_reaches_managing:
  assumes "record_valid r" "current_state r \<in> set OUTCOME_ELIGIBLE_STATES" "entry_rank (current_state r) \<le> n"
  shows "\<exists>r' ts ws. advance_rounds env c n r = Inr (r', ts, ws) \<and> record_valid r' \<and> current_state r' = MANAGING"
  using assms
proof (induction n arbitrary: r)
  case 0
  then have "current_state r = MANAGING" by (auto simp: OUTCOME_ELIGIBLE_STATES_def)
  with 0 show ?case by simp
next
  case (Suc n)
  show ?case
  proof (cases "current_state r = MANAGING")
    case True
    with Suc show ?thesis by simp
  next
    case False
    obtain st where st: "entry_next_state (current_state r) = Some st" "current_state r \<noteq> st"
        "st \<in> set (ALLOWED_TRANSITIONS (current_state r))" "st \<in> set OUTCOME_ELIGIBLE_STATES" "st \<noteq> COOLDOWN"
        "entry_rank st < entry_rank (current_state r)"
        "\<not> entry_touch_transition_requires_touch_reason (Some (current_state r)) st
           (if st = TRIGGERED then R_ENTRY_ZONE_TOUCHED else R_ENTRY_FILL_SIMULATED)"
      using entry_step_allowed [OF Suc.prems(2) False] by blast
    obtain t r' where t: "transition_record r st (if st = TRIGGERED then R_ENTRY_ZONE_TOUCHED else R_ENTRY_FILL_SIMULATED)
        (Some (env_evaluated_at env)) (env_clock env) (env_scan_run_id env) None None None
        (event_notes env ''entry_state_progression'' c
           ''simulated_price_contact; no exchange fill or user execution is verified'' (JText NA) []) = Inr t"
      and r': "res_record t = Some r'" "res_allowed t" "res_transitioned t" "record_valid r'" "current_state r' = st"
      using transition_moves [OF Suc.prems(1) st(2,3,7,5)] by blast
    have "\<exists>q ts ws. advance_rounds env c n r' = Inr (q, ts, ws) \<and> record_valid q \<and> current_state q = MANAGING"
      using r' st Suc.prems by (intro Suc.IH) simp_all
    then show ?thesis using st(1) t r' by (auto simp: lift_model_def)
  qed
qed

lemma eligible_rank: "s \<in> set OUTCOME_ELIGIBLE_STATES \<Longrightarrow> entry_rank s \<le> 4"
  by (auto simp: OUTCOME_ELIGIBLE_STATES_def)

lemma advance_to_managing_returns:
  assumes "record_valid r" "current_state r \<in> set OUTCOME_ELIGIBLE_STATES"
  shows "\<exists>r' ts ws. advance_to_managing env r c = Inr (r', ts, ws) \<and> record_valid r' \<and> current_state r' = MANAGING"
  unfolding advance_to_managing_def using assms by (intro advance_reaches_managing eligible_rank)


section \<open>Rows\<close>

definition same_milestones :: "outcome_progress \<Rightarrow> outcome_progress \<Rightarrow> bool" where
  "same_milestones p q \<longleftrightarrow> op_entry_at q = op_entry_at p \<and> op_tp1_at q = op_tp1_at p \<and> op_tp2_at q = op_tp2_at p
     \<and> op_tp3_at q = op_tp3_at p \<and> op_stop_at q = op_stop_at p \<and> op_invalidated_at q = op_invalidated_at p
     \<and> op_terminal_outcome q = op_terminal_outcome p \<and> op_outcome_at q = op_outcome_at p"

text \<open>When the breakeven protection starts, as the row has it.\<close>

definition protection_start :: "outcome_progress \<Rightarrow> int option" where
  "protection_start p =
     (case json_get (progress_metadata p) BREAKEVEN_KEY of
        JObject b \<Rightarrow>
          if json_get b ''policy'' \<noteq> JText BREAKEVEN_POLICY \<or> json_get b ''effective_from_candle_open_at'' = JNull then None
          else (case normalize_utc_timestamp (any_of_json (json_get b ''effective_from_candle_open_at'')) of
                  Inr t \<Rightarrow> Some t | Inl _ \<Rightarrow> None)
      | _ \<Rightarrow> None)"

definition counts_candles :: "(string \<times> json) list \<Rightarrow> bool" where
  "counts_candles d = (case map_of d ''processed_candle_count'' of None \<Rightarrow> True | Some v \<Rightarrow> \<not> isl (json_int v))"

definition metadata_ok :: "outcome_progress \<Rightarrow> bool" where
  "metadata_ok p \<longleftrightarrow> (case op_metadata p of Some v \<Rightarrow> is_object v | None \<Rightarrow> False) \<and> counts_candles (progress_metadata p)
     \<and> protection_start p \<noteq> None"

definition time_of :: "string option \<Rightarrow> int option" where
  "time_of v = (case optional_time v of Inr t \<Rightarrow> Some t | Inl _ \<Rightarrow> None)"

lemma metadata_okE:
  assumes "metadata_ok p"
  obtains d where "op_metadata p = Some (JObject d)" "progress_metadata p = d" "counts_candles d"
  using assms by (auto simp: metadata_ok_def is_object_def progress_metadata_def split: option.splits json.splits)

lemma map_of_metadata_with [simp]: "progress_metadata (with_metadata p d) = d"
  by (simp add: progress_metadata_def with_metadata_def)

lemma protection_start_cong:
  "json_get (progress_metadata q) BREAKEVEN_KEY = json_get (progress_metadata p) BREAKEVEN_KEY
     \<Longrightarrow> protection_start q = protection_start p"
  by (simp add: protection_start_def)

lemma with_cursor_returns:
  assumes "metadata_ok p"
  shows "\<exists>q. with_cursor p c e 1 = Inr q \<and> same_milestones p q \<and> metadata_ok q \<and> protection_start q = protection_start p
    \<and> op_evaluation_cursor_open_at q = Some (utc_iso (cc_open_timestamp c))
    \<and> op_evaluation_cursor_close_at q = Some (utc_iso (cc_close_timestamp c))"
proof -
  obtain d where d: "op_metadata p = Some (JObject d)" "progress_metadata p = d" "counts_candles d"
    by (rule metadata_okE [OF assms])
  then obtain n where n: "(case map_of d ''processed_candle_count'' of None \<Rightarrow> Inr 0 | Some v \<Rightarrow> json_int v) = Inr n"
    by (auto simp: counts_candles_def isl_def split: option.splits sum.splits) (metis sum.exhaust)
  let ?q = "(with_metadata p (dict_update d
          [(''processed_candle_count'', JNumber (n + 1)),
           (''last_candle_open_at'', JText (utc_iso (cc_open_timestamp c))),
           (''last_candle_close_at'', JText (utc_iso (cc_close_timestamp c)))]))
          \<lparr>op_evaluation_cursor_open_at := Some (utc_iso (cc_open_timestamp c)),
           op_evaluation_cursor_close_at := Some (utc_iso (cc_close_timestamp c)),
           op_integrity_status := INTEGRITY_VERIFIED, op_diagnostic := NA, op_last_evaluated_at := e\<rparr>"
  have q: "with_cursor p c e 1 = Inr ?q" using d n by (simp add: with_cursor_def Let_def)
  have m: "progress_metadata ?q = dict_update d
          [(''processed_candle_count'', JNumber (n + 1)),
           (''last_candle_open_at'', JText (utc_iso (cc_open_timestamp c))),
           (''last_candle_close_at'', JText (utc_iso (cc_close_timestamp c)))]"
    by (simp add: progress_metadata_def with_metadata_def)
  have start: "protection_start ?q = protection_start p"
    by (rule protection_start_cong) (simp add: m d json_get_def map_of_dict_update BREAKEVEN_KEY_def)
  moreover have "metadata_ok ?q"
    using assms start unfolding metadata_ok_def m
    by (simp add: with_metadata_def counts_candles_def map_of_dict_update)
  ultimately show ?thesis using q by (simp add: same_milestones_def with_metadata_def)
qed


lemma with_entry_evidence_frame:
  assumes "metadata_ok p" and q_def: "q = with_entry_evidence p t (entry_evidence r p c h l g t e)"
  shows "metadata_ok q" "protection_start q = protection_start p" "op_entry_at q = Some t"
    "same_milestones p (q\<lparr>op_entry_at := op_entry_at p\<rparr>)"
proof -
  let ?ev = "entry_evidence r p c h l g t e"
  obtain d where d: "op_metadata p = Some (JObject d)" "progress_metadata p = d" "counts_candles d"
    by (rule metadata_okE [OF assms(1)])
  have m: "progress_metadata q = dict_update d ?ev"
    by (simp add: q_def with_entry_evidence_def progress_metadata_def with_metadata_def d)
  have k: "map_of (rev ?ev) BREAKEVEN_KEY = None" "map_of (rev ?ev) ''processed_candle_count'' = None"
    by (simp_all add: entry_evidence_def Let_def BREAKEVEN_KEY_def)
  show start: "protection_start q = protection_start p"
    by (rule protection_start_cong) (simp add: m d json_get_def map_of_dict_update map_add_def k)
  have "is_object (the (op_metadata q))" "op_metadata q \<noteq> None" by (simp_all add: q_def with_entry_evidence_def with_metadata_def)
  moreover have "counts_candles (progress_metadata q)"
    using d(3) by (simp add: m counts_candles_def map_of_dict_update map_add_def k)
  ultimately show "metadata_ok q" using assms(1) start by (auto simp: metadata_ok_def)
  show "op_entry_at q = Some t" "same_milestones p (q\<lparr>op_entry_at := op_entry_at p\<rparr>)"
    by (simp_all add: q_def with_entry_evidence_def same_milestones_def with_metadata_def)
qed

section \<open>Positions\<close>

text \<open>
  The abstract specification: a plan is flat until a candle touches its entry zone, live with the number of targets it
  has reached, and closed for good by its stop, by breakeven or by the third target. On one candle the stop wins over
  the targets, and the entry candle reaches no target. From the first target on, candles that open after the start of the
  protection have the entry reference as their stop.
\<close>

datatype position = Flat | Live nat | Closed string

definition targets_touched :: "rat \<Rightarrow> rat \<Rightarrow> StoredPlanGeometry \<Rightarrow> nat" where
  "targets_touched high low g =
     (if target_touched high low g (geo_tp3 g) then 3 else if target_touched high low g (geo_tp2 g) then 2
      else if target_touched high low g (geo_tp1 g) then 1 else 0)"

fun position_step :: "StoredPlanGeometry \<Rightarrow> int \<Rightarrow> position \<Rightarrow> CausalCandle \<times> rat \<times> rat \<Rightarrow> position" where
  "position_step g start Flat (c, high, low) =
     (if \<not> entry_touched high low g then Flat else if stop_touched high low g then Closed ''SL_HIT'' else Live 0)"
| "position_step g start (Live n) (c, high, low) =
     (if n \<ge> 1 \<and> start \<le> cc_open_timestamp c
      then (if reference_stop_touched high low g then Closed ''BREAKEVEN''
            else if targets_touched high low g = 3 then Closed ''TP_HIT'' else Live (max n (targets_touched high low g)))
      else (if stop_touched high low g then Closed ''SL_HIT''
            else if targets_touched high low g = 3 then Closed ''TP_HIT'' else Live (max n (targets_touched high low g))))"
| "position_step g start (Closed outcome) _ = Closed outcome"

definition position_of :: "outcome_progress \<Rightarrow> position" where
  "position_of p =
     (if op_terminal_outcome p \<noteq> NA then Closed (op_terminal_outcome p)
      else if op_entry_at p = None then Flat
      else Live (if op_tp1_at p = None then 0 else if op_tp2_at p = None then 1 else 2))"

text \<open>A row that is not closed, with its milestones in order and none of them after \<open>t\<close>.\<close>

definition before :: "string option \<Rightarrow> int \<Rightarrow> bool" where
  "before v t = (case time_of v of Some x \<Rightarrow> x \<le> t | None \<Rightarrow> False)"

definition earlier :: "string option \<Rightarrow> string option \<Rightarrow> bool" where
  "earlier v w = (case (time_of v, time_of w) of (Some x, Some y) \<Rightarrow> x < y | _ \<Rightarrow> False)"

definition milestones_before :: "outcome_progress \<Rightarrow> int \<Rightarrow> bool" where
  "milestones_before p t \<longleftrightarrow>
     (op_entry_at p = None \<longrightarrow> op_tp1_at p = None) \<and> (op_tp1_at p = None \<longrightarrow> op_tp2_at p = None)
     \<and> (op_entry_at p \<noteq> None \<longrightarrow> before (op_entry_at p) t)
     \<and> (op_tp1_at p \<noteq> None \<longrightarrow> before (op_tp1_at p) t \<and> earlier (op_entry_at p) (op_tp1_at p))
     \<and> (op_tp2_at p \<noteq> None \<longrightarrow> before (op_tp2_at p) t \<and> \<not> earlier (op_tp2_at p) (op_tp1_at p))"

definition live_row :: "outcome_progress \<Rightarrow> int \<Rightarrow> bool" where
  "live_row p t \<longleftrightarrow> op_terminal_outcome p = NA \<and> op_tp3_at p = None \<and> op_invalidated_at p = None \<and> metadata_ok p
     \<and> milestones_before p t"

definition record_follows :: "SetupLifecycleRecord \<Rightarrow> outcome_progress \<Rightarrow> bool" where
  "record_follows r p \<longleftrightarrow> record_valid r
     \<and> (if op_entry_at p = None then current_state r \<in> set OUTCOME_ELIGIBLE_STATES else current_state r = MANAGING)"

text \<open>Candles in order, after \<open>t\<close>.\<close>

fun timeline_after :: "int \<Rightarrow> (CausalCandle \<times> rat \<times> rat) list \<Rightarrow> bool" where
  "timeline_after t [] = True"
| "timeline_after t ((c, _) # items) =
     (t \<le> cc_open_timestamp c \<and> 0 \<le> cc_open_timestamp c \<and> cc_open_timestamp c < cc_close_timestamp c
      \<and> cc_close_timestamp c < dt_max \<and> timeline_after (cc_close_timestamp c) items)"


section \<open>One candle\<close>

lemma target_touched_order:
  assumes "geometry_ordered g"
  shows "target_touched h l g (geo_tp3 g) \<Longrightarrow> target_touched h l g (geo_tp2 g)"
    "target_touched h l g (geo_tp2 g) \<Longrightarrow> target_touched h l g (geo_tp1 g)"
  using assms by (auto simp: geometry_ordered_def target_touched_def)

definition same_pass :: "outcome_state \<Rightarrow> outcome_state \<Rightarrow> bool" where
  "same_pass s s' \<longleftrightarrow> os_evidence s' = os_evidence s \<and> os_processed s' = os_processed s \<and> os_aborted s' = os_aborted s"

lemma apply_stop_returns:
  assumes "record_valid (os_record s)" "current_state (os_record s) = MANAGING"
  shows "\<exists>s'. apply_stop env g c why be s = Inr s' \<and> same_pass s s'
    \<and> os_progress s' = (os_progress s)\<lparr>op_stop_at := Some (utc_iso (cc_close_timestamp c)),
        op_outcome_at := Some (utc_iso (cc_close_timestamp c)),
        op_terminal_outcome := state_value (if be then BREAKEVEN else SL_HIT)\<rparr>
    \<and> record_valid (os_record s') \<and> current_state (os_record s') = (if be then BREAKEVEN else SL_HIT)"
proof -
  have "(if be then BREAKEVEN else SL_HIT) \<in> {TP_HIT, SL_HIT, BREAKEVEN}" by simp
  from terminal_moves [OF assms this]
  obtain r' t ws where "record_terminal_transition env (os_record s) (if be then BREAKEVEN else SL_HIT)
      (if be then R_BREAKEVEN_STOP_HIT else R_STOP_LOSS_HIT) (if be then ''terminal_breakeven'' else ''terminal_sl_hit'') c why
      (JDecimal (if be then reference_price g else geo_stop_loss g)) = Inr (r', t, ws)"
    "record_valid r'" "current_state r' = (if be then BREAKEVEN else SL_HIT)"
    by blast
  then show ?thesis by (simp add: apply_stop_def record_stop_def Let_def os_add_def same_pass_def)
qed

lemma apply_targets_returns:
  assumes "record_valid (os_record s)"
  shows "\<exists>s'. apply_targets env c ts s = Inr s' \<and> same_pass s s' \<and> os_record s' = os_record s
    \<and> os_progress s' = fold (\<lambda>(n, _). set_target_at n (utc_iso (cc_close_timestamp c))) ts (os_progress s)"
  using assms
proof (induction ts arbitrary: s)
  case (Cons x ts)
  obtain n v where x: "x = (n, v)" by (cases x)
  obtain ev where ev: "insert_milestone_event env (os_record s) (target_reason n) (target_name n) c (JDecimal v) [] = Inr [InsertEvent ev]"
    using milestone_inserts [OF Cons.prems] by blast
  let ?s = "(os_add s [] [InsertEvent ev])\<lparr>os_progress := set_target_at n (utc_iso (cc_close_timestamp c)) (os_progress s)\<rparr>"
  have "record_valid (os_record ?s)" using Cons.prems by (simp add: os_add_def)
  from Cons.IH [OF this] show ?case
    by (simp add: x ev os_add_def same_pass_def del: set_target_at.simps target_name.simps)
qed (simp add: same_pass_def)

lemma reached_targets:
  assumes "geometry_ordered g" "op_tp3_at p = None" "op_tp1_at p = None \<longrightarrow> op_tp2_at p = None"
    and q_def: "q = fold (\<lambda>(n, _). set_target_at n cl) (newly_touched_targets h l g p) p"
  shows "op_tp1_at q = (if op_tp1_at p = None \<and> targets_touched h l g \<ge> 1 then Some cl else op_tp1_at p)"
    "op_tp2_at q = (if op_tp2_at p = None \<and> targets_touched h l g \<ge> 2 then Some cl else op_tp2_at p)"
    "op_tp3_at q = (if targets_touched h l g = 3 then Some cl else None)"
    "same_milestones p (q\<lparr>op_tp1_at := op_tp1_at p, op_tp2_at := op_tp2_at p, op_tp3_at := op_tp3_at p\<rparr>)"
    "op_metadata q = op_metadata p"
  using assms(2,3) target_touched_order [OF assms(1), of h l]
  unfolding q_def newly_touched_targets_def targets_touched_def same_milestones_def
  by (cases "target_touched h l g (geo_tp1 g)"; cases "target_touched h l g (geo_tp2 g)";
      cases "target_touched h l g (geo_tp3 g)"; cases "op_tp1_at p"; cases "op_tp2_at p"; simp)+


text \<open>What a candle leaves: a live row and a record that follows it, or a closed row and a record in the same state.\<close>

definition closed_row :: "int \<Rightarrow> CausalCandle \<Rightarrow> outcome_progress \<Rightarrow> bool" where
  "closed_row start c q \<longleftrightarrow> op_outcome_at q = Some (utc_iso (cc_close_timestamp c))
     \<and> (op_terminal_outcome q = ''BREAKEVEN'' \<longrightarrow> op_stop_at q = Some (utc_iso (cc_close_timestamp c)) \<and> op_tp1_at q \<noteq> None
          \<and> op_tp3_at q = None \<and> op_invalidated_at q = None \<and> milestones_before q (cc_open_timestamp c)
          \<and> start \<le> cc_open_timestamp c)"

definition candle_result :: "int \<Rightarrow> position \<Rightarrow> CausalCandle \<Rightarrow> SetupLifecycleRecord \<Rightarrow> outcome_progress \<Rightarrow> bool" where
  "candle_result start pos c r q \<longleftrightarrow> position_of q = pos \<and> metadata_ok q \<and> protection_start q = Some start \<and> record_valid r
     \<and> (case pos of
          Closed outcome \<Rightarrow> state_value (current_state r) = outcome \<and> closed_row start c q
        | _ \<Rightarrow> live_row q (cc_close_timestamp c) \<and> record_follows r q)"

lemma time_of_utc_iso [simp]: "0 \<le> t \<Longrightarrow> t < dt_max \<Longrightarrow> time_of (Some (utc_iso t)) = Some t"
  by (simp add: time_of_def optional_time_def normalize_utc_iso lift_timestamp_def)

lemma time_of_iff: "time_of (Some s) = Some t \<longleftrightarrow> normalize_utc_timestamp (AText s) = Inr t"
  by (cases "normalize_utc_timestamp (AText s)") (simp_all add: time_of_def optional_time_def lift_timestamp_def)

lemma milestones_before_cong: "same_milestones p q \<Longrightarrow> milestones_before q t = milestones_before p t"
  by (simp add: same_milestones_def milestones_before_def)

lemma milestones_before_mono: "milestones_before p t \<Longrightarrow> t \<le> u \<Longrightarrow> milestones_before p u"
  unfolding milestones_before_def before_def by (auto split: option.splits)

lemma candle_result_cong:
  assumes "candle_result start pos c r p" "same_milestones p q" "metadata_ok q" "protection_start q = protection_start p"
  shows "candle_result start pos c r q"
proof -
  have m: "milestones_before q t = milestones_before p t" for t by (rule milestones_before_cong [OF assms(2)])
  have f: "op_entry_at q = op_entry_at p" "op_tp1_at q = op_tp1_at p" "op_tp2_at q = op_tp2_at p" "op_tp3_at q = op_tp3_at p"
    "op_stop_at q = op_stop_at p" "op_invalidated_at q = op_invalidated_at p"
    "op_terminal_outcome q = op_terminal_outcome p" "op_outcome_at q = op_outcome_at p"
    using assms(2) by (simp_all add: same_milestones_def)
  show ?thesis using assms(1,3,4)
    unfolding candle_result_def live_row_def record_follows_def closed_row_def position_of_def m f
    by (auto split: position.splits)
qed

lemma flat_result:
  assumes "live_row p t" "record_follows r p" "op_entry_at p = None" "protection_start p = Some start" "t \<le> cc_close_timestamp c"
  shows "candle_result start Flat c r p"
  using assms milestones_before_mono [of p t "cc_close_timestamp c"]
  by (simp add: candle_result_def live_row_def position_of_def record_follows_def)

lemma entered_row:
  assumes "live_row p t" "op_entry_at p = None" "protection_start p = Some start" "0 \<le> cl" "cl < dt_max"
    and q: "q = with_entry_evidence p (utc_iso cl) (entry_evidence r p c h l g (utc_iso cl) e)"
  shows "live_row q cl" "protection_start q = Some start" "op_entry_at q = Some (utc_iso cl)" "op_tp1_at q = None"
proof -
  have m: "metadata_ok p" using assms(1) by (simp add: live_row_def)
  note f = with_entry_evidence_frame [OF m q]
  have tp: "op_tp1_at q = None" "op_tp2_at q = None" "op_tp3_at q = None" "op_invalidated_at q = None" "op_terminal_outcome q = NA"
    using f(4) assms(1,2) by (auto simp: same_milestones_def live_row_def milestones_before_def)
  have "milestones_before q cl" using tp f(3) assms(4,5) by (simp add: milestones_before_def before_def)
  then show "live_row q cl" using f(1) tp by (simp add: live_row_def)
  show "protection_start q = Some start" "op_entry_at q = Some (utc_iso cl)" "op_tp1_at q = None" using f assms(3) tp by simp_all
qed

lemma apply_entry_returns:
  assumes "live_row (os_progress s) t" "record_follows (os_record s) (os_progress s)" "op_entry_at (os_progress s) = None"
    and "protection_start (os_progress s) = Some start" "0 \<le> cc_close_timestamp c" "cc_close_timestamp c < dt_max"
  shows "\<exists>s'. apply_entry env g c h l s = Inr (s', False) \<and> same_pass s s'
    \<and> candle_result start (if stop_touched h l g then Closed ''SL_HIT'' else Live 0) c (os_record s') (os_progress s')"
proof -
  let ?cl = "utc_iso (cc_close_timestamp c)" let ?p = "os_progress s" let ?r = "os_record s"
  let ?ev = "entry_evidence ?r ?p c h l g ?cl (env_evaluated_at env)"
  define q where q: "q = with_entry_evidence ?p ?cl ?ev"
  note row = entered_row [OF assms(1,3,4,5,6) q]
  have v: "record_valid ?r" "current_state ?r \<in> set OUTCOME_ELIGIBLE_STATES" using assms(2,3) by (simp_all add: record_follows_def)
  obtain ms where ms: "insert_milestone_event env ?r R_ENTRY_ACTIVATED ''entry_activated'' c
      (JDecimalPair (geo_entry_low g) (geo_entry_high g)) ?ev = Inr ms" using milestone_inserts [OF v(1)] by blast
  obtain r' ts ws where adv: "advance_to_managing env ?r c = Inr (r', ts, ws)" "record_valid r'" "current_state r' = MANAGING"
    using advance_to_managing_returns [OF v] by blast
  define s1 where s1: "s1 = (os_add s ts (ms @ ws))\<lparr>os_record := r', os_progress := q\<rparr>"
  have pass: "same_pass s s1" and s1p: "os_progress s1 = q" "os_record s1 = r'" by (simp_all add: s1 os_add_def same_pass_def)
  show ?thesis
  proof (cases "stop_touched h l g")
    case True
    obtain s2 where s2: "apply_stop env g c ''entry_and_stop_same_candle_stop_wins'' False s1 = Inr s2" "same_pass s1 s2"
      "os_progress s2 = q\<lparr>op_stop_at := Some ?cl, op_outcome_at := Some ?cl, op_terminal_outcome := ''SL_HIT''\<rparr>"
      "record_valid (os_record s2)" "current_state (os_record s2) = SL_HIT"
      using apply_stop_returns [of s1 env g c "''entry_and_stop_same_candle_stop_wins''" False] adv(2,3) s1p by auto
    have "candle_result start (Closed ''SL_HIT'') c (os_record s2) (os_progress s2)"
      using row s2 by (simp add: candle_result_def position_of_def closed_row_def live_row_def metadata_ok_def
          protection_start_def progress_metadata_def)
    moreover have "apply_entry env g c h l s = Inr (s2, False)"
      using True s2(1) by (simp add: apply_entry_def Let_def ms adv q [symmetric] s1 [symmetric])
    ultimately show ?thesis using True pass s2(2) by (auto simp: same_pass_def)
  next
    case False
    have "candle_result start (Live 0) c r' q"
      using row adv by (simp add: candle_result_def position_of_def live_row_def record_follows_def)
    moreover have "apply_entry env g c h l s = Inr (s1, False)"
      using False by (simp add: apply_entry_def Let_def ms adv q [symmetric] s1 [symmetric])
    ultimately show ?thesis using False pass s1p by auto
  qed
qed


lemma protection_active_live:
  assumes "live_row p t" "protection_start p = Some start" "t \<le> o'" "0 \<le> o'" "o' < dt_max"
  shows "protection_active p (ADatetime \<lparr>dt_local = o', dt_offset = Some 0\<rparr>) = Inr (op_tp1_at p \<noteq> None \<and> start \<le> o')"
proof (cases "op_tp1_at p")
  case (Some s)
  obtain d where d: "op_metadata p = Some (JObject d)" "progress_metadata p = d"
    by (rule metadata_okE [of p]) (use assms(1) in \<open>simp_all add: live_row_def\<close>)
  obtain b where b: "json_get d BREAKEVEN_KEY = JObject b" "json_get b ''policy'' = JText BREAKEVEN_POLICY"
      "json_get b ''effective_from_candle_open_at'' \<noteq> JNull"
      "normalize_utc_timestamp (any_of_json (json_get b ''effective_from_candle_open_at'')) = Inr start"
    using assms(2) d by (auto simp: protection_start_def split: json.splits if_splits sum.splits)
  obtain a where a: "normalize_utc_timestamp (AText s) = Inr a" "a \<le> o'"
    using assms(1,3) Some by (auto simp: live_row_def milestones_before_def before_def time_of_iff split: option.splits)
  have "timestamp_of_datetime \<lparr>dt_local = o', dt_offset = Some 0\<rparr> = Inr o'"
    using assms(4,5) by (simp add: timestamp_of_datetime_def dt_instant_def)
  then show ?thesis using Some d b a by (simp add: protection_active_def lift_timestamp_def)
qed (simp add: protection_active_def)

lemma hit_row:
  assumes "live_row p t" "geometry_ordered g" "op_entry_at p \<noteq> None" "protection_start p = Some start"
    and "t < cl" "0 \<le> cl" "cl < dt_max"
    and q: "q = fold (\<lambda>(n, _). set_target_at n (utc_iso cl)) (newly_touched_targets h l g p) p"
  shows "metadata_ok q" "protection_start q = Some start" "op_invalidated_at q = None" "op_terminal_outcome q = NA"
    "op_entry_at q = op_entry_at p" "milestones_before q cl"
    "op_tp3_at q = (if targets_touched h l g = 3 then Some (utc_iso cl) else None)"
    "(if op_tp1_at q = None then 0 else if op_tp2_at q = None then 1 else 2)
       = max (if op_tp1_at p = None then 0 else if op_tp2_at p = None then 1 else 2) (min 2 (targets_touched h l g))"
proof -
  have p: "op_tp3_at p = None" "op_tp1_at p = None \<longrightarrow> op_tp2_at p = None" "metadata_ok p" "op_invalidated_at p = None"
    "op_terminal_outcome p = NA" "milestones_before p t"
    using assms(1) by (auto simp: live_row_def milestones_before_def)
  note r = reached_targets [OF assms(2) p(1,2) q]
  show "metadata_ok q" "protection_start q = Some start"
    using p(3) assms(4) r(5) by (simp_all add: metadata_ok_def protection_start_def progress_metadata_def)
  show f: "op_invalidated_at q = None" "op_terminal_outcome q = NA" "op_entry_at q = op_entry_at p"
    using r(4) p by (simp_all add: same_milestones_def)
  show "op_tp3_at q = (if targets_touched h l g = 3 then Some (utc_iso cl) else None)" by (rule r(3))
  show "(if op_tp1_at q = None then 0 else if op_tp2_at q = None then 1 else 2)
       = max (if op_tp1_at p = None then 0 else if op_tp2_at p = None then 1 else 2) (min 2 (targets_touched h l g))"
    using p(2) unfolding r(1,2) by auto
  show "milestones_before q cl"
    using p(6) assms(3,5,6,7) unfolding milestones_before_def f r(1,2)
    by (auto simp: before_def earlier_def split: option.splits)
qed


lemma stopped_result:
  assumes "live_row p t" "protection_start p = Some start" "t \<le> cc_open_timestamp c" "record_valid r"
    and "current_state r = (if be then BREAKEVEN else SL_HIT)" "be \<longrightarrow> op_tp1_at p \<noteq> None \<and> start \<le> cc_open_timestamp c"
    and q: "q = p\<lparr>op_stop_at := Some (utc_iso (cc_close_timestamp c)), op_outcome_at := Some (utc_iso (cc_close_timestamp c)),
        op_terminal_outcome := state_value (if be then BREAKEVEN else SL_HIT)\<rparr>"
  shows "candle_result start (Closed (if be then ''BREAKEVEN'' else ''SL_HIT'')) c r q"
proof -
  have "milestones_before p (cc_open_timestamp c)" using assms(1,3) milestones_before_mono by (auto simp: live_row_def)
  then have "milestones_before q (cc_open_timestamp c)" by (simp add: q milestones_before_def)
  then show ?thesis using assms(1-6)
    by (auto simp: candle_result_def position_of_def closed_row_def live_row_def metadata_ok_def protection_start_def
        progress_metadata_def q)
qed

definition hits :: "outcome_progress \<Rightarrow> nat" where
  "hits p = (if op_tp1_at p = None then 0 else if op_tp2_at p = None then 1 else 2)"

lemma live_position_of: "live_row p t \<Longrightarrow> op_entry_at p \<noteq> None \<Longrightarrow> position_of p = Live (hits p)"
  by (simp add: position_of_def live_row_def hits_def)

lemma stop_candle:
  assumes "live_row (os_progress s) t" "record_valid (os_record s)" "current_state (os_record s) = MANAGING"
    and "protection_start (os_progress s) = Some start" "t \<le> cc_open_timestamp c"
    and "be \<longrightarrow> op_tp1_at (os_progress s) \<noteq> None \<and> start \<le> cc_open_timestamp c"
  shows "\<exists>s'. apply_stop env g c why be s = Inr s' \<and> same_pass s s'
    \<and> candle_result start (Closed (if be then ''BREAKEVEN'' else ''SL_HIT'')) c (os_record s') (os_progress s')"
  using apply_stop_returns [OF assms(2,3), of env g c why be] stopped_result [OF assms(1,4,5) _ _ assms(6)] by blast

text \<open>A managed candle whose stop is not reached.\<close>

definition hit_candle :: "outcome_env \<Rightarrow> StoredPlanGeometry \<Rightarrow> CausalCandle \<Rightarrow> rat \<Rightarrow> rat \<Rightarrow> outcome_state \<Rightarrow> outcome_exception + outcome_state" where
  "hit_candle env g causal high low s =
     ebind (apply_targets env causal (newly_touched_targets high low g (os_progress s)) s) (\<lambda>s'.
        if op_tp3_at (os_progress s') = None then Inr s'
        else
          ebind (record_terminal_transition env (os_record s') TP_HIT R_TAKE_PROFIT_HIT ''terminal_tp_hit'' causal NA (JText NA))
            (\<lambda>(r, t, ws).
            Inr ((os_add s' [t] ws)\<lparr>os_record := r,
              os_progress := (os_progress s')\<lparr>op_terminal_outcome := state_value TP_HIT,
                op_outcome_at := Some (utc_iso (cc_close_timestamp causal))\<rparr>\<rparr>)))"

lemma hit_candle_returns:
  assumes live: "live_row (os_progress s) t" and v: "record_valid (os_record s)" "current_state (os_record s) = MANAGING"
    and "op_entry_at (os_progress s) \<noteq> None" "protection_start (os_progress s) = Some start" "geometry_ordered g"
    and time: "t < cc_close_timestamp c" "0 \<le> cc_close_timestamp c" "cc_close_timestamp c < dt_max"
  shows "\<exists>s'. hit_candle env g c h l s = Inr s' \<and> same_pass s s' \<and> candle_result start
      (if targets_touched h l g = 3 then Closed ''TP_HIT'' else Live (max (hits (os_progress s)) (targets_touched h l g)))
      c (os_record s') (os_progress s')"
proof -
  let ?p = "os_progress s" let ?r = "os_record s" let ?cl = "utc_iso (cc_close_timestamp c)"
  obtain s1 where s1: "apply_targets env c (newly_touched_targets h l g ?p) s = Inr s1" "same_pass s s1" "os_record s1 = ?r"
      "os_progress s1 = fold (\<lambda>(n, _). set_target_at n ?cl) (newly_touched_targets h l g ?p) ?p"
    using apply_targets_returns [OF v(1)] by blast
  note row = hit_row [OF live assms(6,4,5) time s1(4)]
  show ?thesis
  proof (cases "targets_touched h l g = 3")
    case True
    obtain r' tr ws where r': "record_terminal_transition env ?r TP_HIT R_TAKE_PROFIT_HIT ''terminal_tp_hit'' c NA (JText NA) = Inr (r', tr, ws)"
        "record_valid r'" "current_state r' = TP_HIT"
      using terminal_moves [OF v, of TP_HIT] by blast
    let ?s = "(os_add s1 [tr] ws)\<lparr>os_record := r',
        os_progress := (os_progress s1)\<lparr>op_terminal_outcome := state_value TP_HIT, op_outcome_at := Some ?cl\<rparr>\<rparr>"
    have "hit_candle env g c h l s = Inr ?s" using True s1 r' row(7) by (simp add: hit_candle_def)
    moreover have "candle_result start (Closed ''TP_HIT'') c r' (os_progress ?s)"
      using row r' by (simp add: candle_result_def position_of_def closed_row_def metadata_ok_def protection_start_def
          progress_metadata_def)
    ultimately show ?thesis using True s1(2) by (auto simp: os_add_def same_pass_def)
  next
    case False
    have "hit_candle env g c h l s = Inr s1" using False s1 row(7) by (simp add: hit_candle_def)
    moreover have "candle_result start (Live (max (hits ?p) (targets_touched h l g))) c ?r (os_progress s1)"
      using row False v assms(4) by (auto simp: candle_result_def position_of_def live_row_def record_follows_def hits_def
          targets_touched_def)
    ultimately show ?thesis using s1 False by auto
  qed
qed

lemma apply_managed_returns:
  assumes "live_row (os_progress s) t" "record_follows (os_record s) (os_progress s)" "op_entry_at (os_progress s) \<noteq> None"
    and "protection_start (os_progress s) = Some start" "geometry_ordered g" "timeline_after t ((c, h, l) # items)"
  shows "\<exists>s'. apply_managed env g c h l s = Inr s' \<and> same_pass s s'
    \<and> candle_result start (position_step g start (position_of (os_progress s)) (c, h, l)) c (os_record s') (os_progress s')"
proof -
  let ?p = "os_progress s" let ?o = "cc_open_timestamp c"
  define be where be_def: "be = (op_tp1_at ?p \<noteq> None \<and> start \<le> ?o)"
  let ?stop = "if be then reference_stop_touched h l g else stop_touched h l g"
  have time: "t \<le> ?o" "0 \<le> ?o" "?o < cc_close_timestamp c" "cc_close_timestamp c < dt_max" using assms(6) by simp_all
  have act: "protection_active ?p (ADatetime \<lparr>dt_local = ?o, dt_offset = Some 0\<rparr>) = Inr be"
    unfolding be_def using assms(1,4) time by (intro protection_active_live) simp_all
  have v: "record_valid (os_record s)" "current_state (os_record s) = MANAGING" using assms(2,3) by (simp_all add: record_follows_def)
  have be: "be \<longleftrightarrow> hits ?p \<ge> 1 \<and> start \<le> ?o" by (simp add: hits_def be_def)
  have step: "position_step g start (position_of ?p) (c, h, l) =
      (if ?stop then Closed (if be then ''BREAKEVEN'' else ''SL_HIT'')
       else if targets_touched h l g = 3 then Closed ''TP_HIT'' else Live (max (hits ?p) (targets_touched h l g)))"
    unfolding live_position_of [OF assms(1,3)] be by simp
  show ?thesis
  proof (cases ?stop)
    case True
    let ?why = "if newly_touched_targets h l g ?p \<noteq> [] then ''post_entry_stop_and_target_same_candle_stop_wins'' else NA"
    have "be \<longrightarrow> op_tp1_at ?p \<noteq> None \<and> start \<le> ?o" by (simp add: be_def)
    from stop_candle [OF assms(1) v assms(4) time(1) this, of env g ?why] obtain s' where s': "apply_stop env g c ?why be s = Inr s'"
      "same_pass s s'" "candle_result start (Closed (if be then ''BREAKEVEN'' else ''SL_HIT'')) c (os_record s') (os_progress s')" by blast
    have "apply_managed env g c h l s = Inr s'" using True act s'(1) by (simp add: apply_managed_def Let_def)
    then show ?thesis using True s'(2,3) unfolding step by simp
  next
    case False
    have "t < cc_close_timestamp c" "0 \<le> cc_close_timestamp c" using time by simp_all
    note hit = hit_candle_returns [OF assms(1) v assms(3,4,5) this time(4), of env h l]
    have "apply_managed env g c h l s = hit_candle env g c h l s"
      using False act by (simp add: apply_managed_def Let_def hit_candle_def)
    then show ?thesis using hit False unfolding step by simp
  qed
qed

lemma process_candle_returns:
  assumes "live_row (os_progress s) t" "record_follows (os_record s) (os_progress s)" "geometry_ordered g"
    and "protection_start (os_progress s) = Some start" "timeline_after t ((c, h, l) # items)" "\<not> os_aborted s"
  shows "\<exists>s'. process_candle env g s (c, h, l) = Inr (s', op_terminal_outcome (os_progress s') \<noteq> NA)
    \<and> \<not> os_aborted s' \<and> os_processed s' = os_processed s + 1 \<and> os_evidence s' = record_completed (os_evidence s) c
    \<and> op_evaluation_cursor_open_at (os_progress s') = Some (utc_iso (cc_open_timestamp c))
    \<and> op_evaluation_cursor_close_at (os_progress s') = Some (utc_iso (cc_close_timestamp c))
    \<and> candle_result start (position_step g start (position_of (os_progress s)) (c, h, l)) c (os_record s') (os_progress s')"
proof -
  let ?s0 = "s\<lparr>os_processed := os_processed s + 1\<rparr>"
  let ?act = "if op_entry_at (os_progress s) = None
             then (if entry_touched h l g then apply_entry env g c h l ?s0 else Inr (?s0, False))
             else map_sum id (\<lambda>s'. (s', False)) (apply_managed env g c h l ?s0)"
  let ?pos = "position_step g start (position_of (os_progress s)) (c, h, l)"
  have time: "t \<le> cc_close_timestamp c" "0 \<le> cc_close_timestamp c" "cc_close_timestamp c < dt_max" using assms(5) by simp_all
  have "\<exists>s1. ?act = Inr (s1, False) \<and> same_pass ?s0 s1 \<and> candle_result start ?pos c (os_record s1) (os_progress s1)"
  proof (cases "op_entry_at (os_progress s)")
    case None
    then have flat: "position_of (os_progress s) = Flat" using assms(1) by (simp add: position_of_def live_row_def)
    show ?thesis
    proof (cases "entry_touched h l g")
      case True
      with None flat assms(1,2,4) time show ?thesis using apply_entry_returns [of ?s0 t start c env g h l] by simp
    next
      case False
      then show ?thesis using None flat flat_result [OF assms(1,2) None assms(4) time(1)] by (simp add: same_pass_def)
    qed
  next
    case (Some e)
    then show ?thesis using assms apply_managed_returns [of ?s0 t start g c h l items env] by auto
  qed
  then obtain s1 where s1: "?act = Inr (s1, False)" "same_pass ?s0 s1" "candle_result start ?pos c (os_record s1) (os_progress s1)"
    by blast
  obtain q where q: "with_cursor (os_progress s1) c (env_evaluated_at env) 1 = Inr q" "same_milestones (os_progress s1) q" "metadata_ok q"
      "protection_start q = protection_start (os_progress s1)"
      "op_evaluation_cursor_open_at q = Some (utc_iso (cc_open_timestamp c))"
      "op_evaluation_cursor_close_at q = Some (utc_iso (cc_close_timestamp c))"
    using with_cursor_returns [of "os_progress s1" c "env_evaluated_at env"] s1(3) by (auto simp: candle_result_def)
  let ?s' = "s1\<lparr>os_progress := q, os_evidence := record_completed (os_evidence s1) c\<rparr>"
  have "process_candle env g s (c, h, l) = Inr (?s', op_terminal_outcome (os_progress ?s') \<noteq> NA)"
    unfolding process_candle_def Let_def prod.case s1(1) by (simp add: advance_cursor_def q(1))
  moreover have "candle_result start ?pos c (os_record ?s') (os_progress ?s')"
    using candle_result_cong [OF s1(3) q(2-4)] by simp
  ultimately show ?thesis using s1(2) q(5,6) assms(6) by (intro exI [of _ ?s']) (simp add: same_pass_def)
qed

section \<open>A loop that may break\<close>

text \<open>
  The interface between a loop with a \<open>break\<close> and its abstract specification: the body, from a state that is ready for the
  remaining items, returns, does the abstract step, and either is ready for the rest or has broken off for good.
\<close>

locale break_loop =
  fixes body :: "'s \<Rightarrow> 'i \<Rightarrow> 'e + 's \<times> bool"
    and loop :: "'s \<Rightarrow> 'i list \<Rightarrow> 'e + 's"
    and ready :: "'s \<Rightarrow> 'i list \<Rightarrow> bool"
    and over :: "'s \<Rightarrow> bool"
    and abs :: "'s \<Rightarrow> 'a"
    and astep :: "'a \<Rightarrow> 'i \<Rightarrow> 'a"
  assumes loop_Nil: "loop s [] = Inr s"
    and loop_Cons: "loop s (i # is) = ebind (body s i) (\<lambda>(s', stop). if stop then Inr s' else loop s' is)"
    and body_returns: "ready s (i # is) \<Longrightarrow> \<exists>s' stop. body s i = Inr (s', stop) \<and> abs s' = astep (abs s) i
      \<and> (if stop then over s' else ready s' is)"
    and over_absorbs: "over s \<Longrightarrow> astep (abs s) i = abs s"
begin

lemma over_fold: "over s \<Longrightarrow> foldl astep (abs s) is = abs s"
  by (induction "is") (simp_all add: over_absorbs)

lemma loop_returns:
  "ready s is \<Longrightarrow> \<exists>s'. loop s is = Inr s' \<and> abs s' = foldl astep (abs s) is \<and> (over s' \<or> ready s' [])"
proof (induction "is" arbitrary: s)
  case Nil
  then show ?case by (simp add: loop_Nil)
next
  case (Cons i "is")
  from body_returns [OF Cons.prems] obtain s' stop where s': "body s i = Inr (s', stop)" "abs s' = astep (abs s) i"
    "if stop then over s' else ready s' is" by blast
  show ?case
  proof (cases stop)
    case True
    with s' show ?thesis using over_fold [of s' "is"] by (simp add: loop_Cons)
  next
    case False
    with s' Cons.IH [of s'] show ?thesis by (auto simp: loop_Cons)
  qed
qed

lemma loop_append:
  assumes "ready s (is @ js)" "loop s is = Inr s'" "\<not> over s'"
  shows "loop s (is @ js) = loop s' js"
  using assms
proof (induction "is" arbitrary: s)
  case (Cons i "is")
  from body_returns [of s i "is @ js"] Cons.prems(1) obtain s1 stop where s1: "body s i = Inr (s1, stop)"
    "if stop then over s1 else ready s1 (is @ js)" by auto
  then show ?case using Cons by (auto simp: loop_Cons split: if_splits)
qed (simp add: loop_Nil)

end

section \<open>One pass\<close>

text \<open>The abstract pass: the position, and the candles it has seen; a closed position sees no further candle.\<close>

fun pass_step :: "StoredPlanGeometry \<Rightarrow> int \<Rightarrow> position \<times> CausalCandle list \<Rightarrow> CausalCandle \<times> rat \<times> rat \<Rightarrow> position \<times> CausalCandle list" where
  "pass_step g start (Closed outcome, seen) item = (Closed outcome, seen)"
| "pass_step g start (pos, seen) item = (position_step g start pos item, seen @ [fst item])"

definition pass_state :: "outcome_state \<Rightarrow> position \<times> CausalCandle list" where
  "pass_state s = (position_of (os_progress s), pe_completed (os_evidence s))"

definition cursor_follows :: "outcome_state \<Rightarrow> bool" where
  "cursor_follows s \<longleftrightarrow> (pe_completed (os_evidence s) \<noteq> [] \<longrightarrow>
     op_evaluation_cursor_open_at (os_progress s) = Some (utc_iso (cc_open_timestamp (last (pe_completed (os_evidence s)))))
     \<and> op_evaluation_cursor_close_at (os_progress s) = Some (utc_iso (cc_close_timestamp (last (pe_completed (os_evidence s))))))"

definition pass_ready ::
  "StoredPlanGeometry \<Rightarrow> int \<Rightarrow> PrefixPassEvidence \<Rightarrow> outcome_state \<Rightarrow> (CausalCandle \<times> rat \<times> rat) list \<Rightarrow> bool" where
  "pass_ready g start ev s items \<longleftrightarrow> geometry_ordered g \<and> record_follows (os_record s) (os_progress s)
     \<and> (\<exists>t. live_row (os_progress s) t \<and> timeline_after t items) \<and> protection_start (os_progress s) = Some start
     \<and> \<not> os_aborted s \<and> cursor_follows s \<and> (os_evidence s)\<lparr>pe_completed := []\<rparr> = ev"

definition pass_over :: "int \<Rightarrow> PrefixPassEvidence \<Rightarrow> outcome_state \<Rightarrow> bool" where
  "pass_over start ev s \<longleftrightarrow> (\<exists>outcome. pe_completed (os_evidence s) \<noteq> []
       \<and> candle_result start (Closed outcome) (last (pe_completed (os_evidence s))) (os_record s) (os_progress s)
       \<and> timeline_after 0 [(last (pe_completed (os_evidence s)), 0, 0)])
     \<and> \<not> os_aborted s \<and> cursor_follows s \<and> (os_evidence s)\<lparr>pe_completed := []\<rparr> = ev"


lemma live_position:
  assumes "live_row p t"
  shows "pass_step g start (position_of p, seen) item = (position_step g start (position_of p) item, seen @ [fst item])"
  using assms by (cases "position_of p") (auto simp: live_row_def position_of_def split: if_splits)

lemma candle_result_live:
  assumes "candle_result start pos c r q" "op_terminal_outcome q = NA"
  shows "live_row q (cc_close_timestamp c)" "record_follows r q"
  using assms by (auto simp: candle_result_def position_of_def split: position.splits if_splits)

lemma candle_result_closed:
  assumes "candle_result start pos c r q" "op_terminal_outcome q \<noteq> NA"
  shows "candle_result start (Closed (op_terminal_outcome q)) c r q"
proof -
  have "pos = Closed (op_terminal_outcome q)" using assms by (simp add: candle_result_def position_of_def)
  then show ?thesis using assms(1) by simp
qed

lemma pass_candle:
  assumes "pass_ready g start ev s (i # items)"
  shows "\<exists>s' stop. process_candle env g s i = Inr (s', stop) \<and> pass_state s' = pass_step g start (pass_state s) i
    \<and> (if stop then pass_over start ev s' else pass_ready g start ev s' items)"
proof -
  obtain c h l where i: "i = (c, h, l)" by (cases i)
  obtain t where r: "geometry_ordered g" "record_follows (os_record s) (os_progress s)" "live_row (os_progress s) t"
      "timeline_after t ((c, h, l) # items)" "protection_start (os_progress s) = Some start" "\<not> os_aborted s"
      "(os_evidence s)\<lparr>pe_completed := []\<rparr> = ev"
    using assms by (auto simp: pass_ready_def i)
  obtain s' where s': "process_candle env g s (c, h, l) = Inr (s', op_terminal_outcome (os_progress s') \<noteq> NA)" "\<not> os_aborted s'"
      "os_evidence s' = record_completed (os_evidence s) c"
      "op_evaluation_cursor_open_at (os_progress s') = Some (utc_iso (cc_open_timestamp c))"
      "op_evaluation_cursor_close_at (os_progress s') = Some (utc_iso (cc_close_timestamp c))"
      and res: "candle_result start (position_step g start (position_of (os_progress s)) (c, h, l)) c (os_record s') (os_progress s')"
    using process_candle_returns [OF r(3,2,1,5,4,6)] by blast
  have ev: "pe_completed (os_evidence s') = pe_completed (os_evidence s) @ [c]" "(os_evidence s')\<lparr>pe_completed := []\<rparr> = ev"
    using s'(3) r(7) by (simp_all add: record_completed_def)
  have cur: "cursor_follows s'" using s'(4,5) ev(1) by (simp add: cursor_follows_def)
  have abs: "pass_state s' = pass_step g start (pass_state s) (c, h, l)"
    using res ev(1) live_position [OF r(3)] by (simp add: pass_state_def candle_result_def)
  show ?thesis
  proof (cases "op_terminal_outcome (os_progress s') = NA")
    case True
    have "timeline_after (cc_close_timestamp c) items" using r(4) by simp
    moreover note candle_result_live [OF res True]
    moreover have "protection_start (os_progress s') = Some start" using res by (simp add: candle_result_def)
    ultimately have "pass_ready g start ev s' items" using r(1) s'(2) ev(2) cur by (auto simp: pass_ready_def)
    then show ?thesis using s'(1) abs True i by auto
  next
    case False
    have "pass_over start ev s'"
      using candle_result_closed [OF res False] s'(2) ev cur r(4) by (auto simp: pass_over_def)
    then show ?thesis using s'(1) abs False i by auto
  qed
qed

interpretation outcome_pass: break_loop "process_candle env g" "process_pending env g" "pass_ready g start ev" "pass_over start ev"
  pass_state "pass_step g start" for env g start ev
proof
  show "pass_step g start (pass_state s) i = pass_state s" if "pass_over start ev s" for s i
    using that by (auto simp: pass_over_def pass_state_def candle_result_def)
qed (simp_all add: pass_candle)

end
