(* ===== verification/Outcome_Safety.thy ===== *)
theory Outcome_Safety
  imports Outcome_Steps Lifecycle_Sample
begin

text \<open>
  Properties of the outcome engine: the loop over closed candles implements the machine over positions, milestones are
  latched, every candle counts at most once, entries are causal, and a recorded breakeven outcome passes its validator.
\<close>

section \<open>Positions\<close>

lemma position_step_closed [simp]: "foldl (position_step g start) (Closed outcome) items = Closed outcome"
  by (induction items) simp_all

lemma pass_step_closed [simp]: "foldl (pass_step g start) (Closed outcome, seen) items = (Closed outcome, seen)"
  by (induction items) simp_all

lemma pass_step_fst: "fst (pass_step g start (pos, seen) item) = position_step g start pos item"
  by (cases pos; cases item) simp_all

lemma pass_position: "fst (foldl (pass_step g start) (pos, seen) items) = foldl (position_step g start) pos items"
proof (induction items arbitrary: pos seen)
  case (Cons item items)
  obtain pos' seen' where s: "pass_step g start (pos, seen) item = (pos', seen')" by (cases "pass_step g start (pos, seen) item")
  then have "pos' = position_step g start pos item" using pass_step_fst by (metis fst_conv)
  with s Cons show ?case by simp
qed simp

lemma pass_seen:
  "\<exists>k. k \<le> length items \<and> snd (foldl (pass_step g start) (pos, seen) items) = seen @ take k (map fst items)
     \<and> ((\<nexists>outcome. foldl (position_step g start) pos items = Closed outcome) \<longrightarrow> k = length items)"
proof (induction items arbitrary: pos seen)
  case (Cons item items)
  show ?case
  proof (cases "\<exists>outcome. pos = Closed outcome")
    case True
    then show ?thesis by (cases item) auto
  next
    case False
    then have "pass_step g start (pos, seen) item = (position_step g start pos item, seen @ [fst item])" by (cases pos) simp_all
    with Cons [of "position_step g start pos item" "seen @ [fst item]"] obtain k where "k \<le> length items"
      "snd (foldl (pass_step g start) (pos, seen) (item # items)) = seen @ take (Suc k) (map fst (item # items))"
      "(\<nexists>outcome. foldl (position_step g start) pos (item # items) = Closed outcome) \<longrightarrow> k = length items" by auto
    then show ?thesis by (intro exI [of _ "Suc k"]) simp
  qed
qed simp

fun position_rank :: "position \<Rightarrow> nat" where
  "position_rank Flat = 0"
| "position_rank (Live n) = Suc (min n 2)"
| "position_rank (Closed outcome) = 4"

interpretation positions: ranked_machine "position_step g start" position_rank for g start
proof
  fix pos :: position and item :: "CausalCandle \<times> rat \<times> rat"
  show "position_rank pos \<le> position_rank (position_step g start pos item)" by (cases pos; cases item) auto
qed

lemma run_foldl: "run step s is = foldl step s is"
  by (induction "is" arbitrary: s) simp_all

section \<open>The loop\<close>

definition pass_start :: "SetupLifecycleRecord \<Rightarrow> outcome_progress \<Rightarrow> PrefixPassEvidence \<Rightarrow> outcome_state" where
  "pass_start r p ev =
     \<lparr>os_record = r, os_progress = p, os_transitions = [], os_processed = 0, os_aborted = False, os_writes = [], os_evidence = ev\<rparr>"

lemma pass_returns:
  assumes "geometry_ordered g" "record_follows r p" "live_row p t" "timeline_after t items" "protection_start p = Some start"
    and "pe_completed ev = []"
  obtains s k where "process_pending env g (pass_start r p ev) items = Inr s"
    "position_of (os_progress s) = foldl (position_step g start) (position_of p) items"
    "pe_completed (os_evidence s) = take k (map fst items)" "k \<le> length items"
    "(\<nexists>outcome. position_of (os_progress s) = Closed outcome) \<Longrightarrow> k = length items"
    "pass_over start ev s \<or> pass_ready g start ev s []"
proof -
  have "pass_ready g start ev (pass_start r p ev) items"
    using assms by (auto simp: pass_ready_def pass_start_def cursor_follows_def)
  from outcome_pass.loop_returns [OF this, of env] obtain s where s: "process_pending env g (pass_start r p ev) items = Inr s"
    "pass_state s = foldl (pass_step g start) (pass_state (pass_start r p ev)) items"
    "pass_over start ev s \<or> pass_ready g start ev s []" by blast
  have st: "pass_state (pass_start r p ev) = (position_of p, [])" using assms(6) by (simp add: pass_state_def pass_start_def)
  have pos: "position_of (os_progress s) = foldl (position_step g start) (position_of p) items"
    using s(2) pass_position [of g start "position_of p" "[]" items] unfolding st by (metis fst_conv pass_state_def)
  obtain k where k: "k \<le> length items" "snd (foldl (pass_step g start) (position_of p, []) items) = [] @ take k (map fst items)"
      "(\<nexists>outcome. foldl (position_step g start) (position_of p) items = Closed outcome) \<longrightarrow> k = length items"
    using pass_seen by blast
  then have "pe_completed (os_evidence s) = take k (map fst items)" using s(2) unfolding st by (metis append_Nil pass_state_def snd_conv)
  with that s pos k show ?thesis by simp
qed


section \<open>What a pass keeps of a row\<close>

definition keeps :: "outcome_progress \<Rightarrow> outcome_progress \<Rightarrow> bool" where
  "keeps p q \<longleftrightarrow> (op_entry_at p \<noteq> None \<longrightarrow> op_entry_at q = op_entry_at p) \<and> (op_tp1_at p \<noteq> None \<longrightarrow> op_tp1_at q = op_tp1_at p)
     \<and> (op_tp2_at p \<noteq> None \<longrightarrow> op_tp2_at q = op_tp2_at p) \<and> (op_tp3_at p \<noteq> None \<longrightarrow> op_tp3_at q = op_tp3_at p)
     \<and> json_get (progress_metadata q) BREAKEVEN_KEY = json_get (progress_metadata p) BREAKEVEN_KEY
     \<and> op_lifecycle_id q = op_lifecycle_id p \<and> op_plan_identity q = op_plan_identity p
     \<and> op_plan_version_id q = op_plan_version_id p \<and> op_tracking_start_at q = op_tracking_start_at p
     \<and> op_execution_timeframe q = op_execution_timeframe p \<and> op_first_evaluated_at q = op_first_evaluated_at p"

lemma keeps_refl [simp]: "keeps p p"
  by (simp add: keeps_def)

lemma keeps_trans [trans]: "keeps p q \<Longrightarrow> keeps q u \<Longrightarrow> keeps p u"
  unfolding keeps_def by metis

lemma with_cursor_keeps: "with_cursor p c e n = Inr q \<Longrightarrow> keeps p q"
  by (auto simp: with_cursor_def Let_def keeps_def with_metadata_def progress_metadata_def json_get_def map_of_dict_update
      BREAKEVEN_KEY_def)

lemma apply_stop_keeps: "apply_stop env g c why be s = Inr s' \<Longrightarrow> keeps (os_progress s) (os_progress s')"
  by (auto simp: apply_stop_def record_stop_def Let_def keeps_def progress_metadata_def)

lemma integrity_failure_keeps: "keeps p (integrity_failure p st d e)"
  by (simp add: keeps_def integrity_failure_def with_metadata_def progress_metadata_def json_get_def update_conv' BREAKEVEN_KEY_def)

lemma with_entry_evidence_keeps:
  assumes "op_entry_at p = None"
  shows "keeps p (with_entry_evidence p t (entry_evidence r p c h l g t e))"
proof -
  let ?ev = "entry_evidence r p c h l g t e"
  have "map_of (rev ?ev) BREAKEVEN_KEY = None" by (simp add: entry_evidence_def Let_def BREAKEVEN_KEY_def)
  then show ?thesis using assms
    by (simp add: keeps_def with_entry_evidence_def with_metadata_def progress_metadata_def json_get_def map_of_dict_update map_add_def)
qed

lemma apply_entry_keeps:
  assumes "apply_entry env g c h l s = Inr (s', stop)" "op_entry_at (os_progress s) = None"
  shows "keeps (os_progress s) (os_progress s')"
proof -
  let ?cl = "utc_iso (cc_close_timestamp c)"
  let ?q = "with_entry_evidence (os_progress s) ?cl (entry_evidence (os_record s) (os_progress s) c h l g ?cl (env_evaluated_at env))"
  have q: "keeps (os_progress s) ?q" using assms(2) by (rule with_entry_evidence_keeps)
  have "os_progress s' = ?q \<or> keeps ?q (os_progress s')"
    using assms(1) by (auto simp: apply_entry_def Let_def integrity_failure_keeps dest!: apply_stop_keeps split: if_splits)
  then show ?thesis using q keeps_trans by auto
qed

definition target_at :: "nat \<Rightarrow> outcome_progress \<Rightarrow> string option" where
  "target_at n p = (if n = 1 then op_tp1_at p else if n = 2 then op_tp2_at p else op_tp3_at p)"

lemma target_at_set:
  assumes "n \<in> {1, 2, 3}" "m \<in> {1, 2, 3}" "m \<noteq> n"
  shows "target_at m (set_target_at n t p) = target_at m p"
  using assms by (auto simp: target_at_def)

lemma apply_targets_keeps:
  assumes "apply_targets env c ts s = Inr s'" "list_all (\<lambda>(n, _). n \<in> {1, 2, 3} \<and> target_at n (os_progress s) = None) ts"
    and "distinct (map fst ts)"
  shows "keeps (os_progress s) (os_progress s')"
  using assms
proof (induction ts arbitrary: s)
  case (Cons x ts)
  obtain n v where x: "x = (n, v)" by (cases x)
  let ?q = "set_target_at n (utc_iso (cc_close_timestamp c)) (os_progress s)"
  obtain ws where run: "apply_targets env c ts ((os_add s [] ws)\<lparr>os_progress := ?q\<rparr>) = Inr s'"
    using Cons.prems(1) by (auto simp: x simp del: set_target_at.simps)
  have n: "n \<in> {1, 2, 3}" "target_at n (os_progress s) = None" "n \<notin> fst ` set ts" using Cons.prems(2,3) by (simp_all add: x)
  then have k: "keeps (os_progress s) ?q" by (auto simp: keeps_def progress_metadata_def target_at_def)
  have "list_all (\<lambda>(m, _). m \<in> {1, 2, 3} \<and> target_at m ?q = None) ts"
    unfolding list_all_iff
  proof (intro ballI, clarify)
    fix m w assume m: "(m, w) \<in> set ts"
    then have "m \<in> {1, 2, 3}" "target_at m (os_progress s) = None" using Cons.prems(2) by (auto simp: list_all_iff x)
    moreover have "m \<noteq> n" using n(3) m by force
    ultimately show "m \<in> {1, 2, 3} \<and> target_at m ?q = None" using target_at_set [OF n(1)] by simp
  qed
  then have "keeps (os_progress ((os_add s [] ws)\<lparr>os_progress := ?q\<rparr>)) (os_progress s')"
    using Cons.prems(3) by (intro Cons.IH [OF run]) (simp_all add: x del: set_target_at.simps)
  with k show ?case by (auto intro: keeps_trans simp del: set_target_at.simps)
qed simp

lemma newly_touched_free:
  "list_all (\<lambda>(n, _). n \<in> {1, 2, 3} \<and> target_at n p = None) (newly_touched_targets h l g p)"
  "distinct (map fst (newly_touched_targets h l g p))"
  by (simp_all add: newly_touched_targets_def target_at_def)

lemma apply_managed_keeps:
  assumes "apply_managed env g c h l s = Inr s'"
  shows "keeps (os_progress s) (os_progress s')"
proof -
  consider be why where "apply_stop env g c why be s = Inr s'"
    | s1 where "apply_targets env c (newly_touched_targets h l g (os_progress s)) s = Inr s1" "keeps (os_progress s1) (os_progress s')"
    using assms by (auto simp: apply_managed_def Let_def keeps_def progress_metadata_def split: if_splits)
  then show ?thesis
  proof cases
    case 1
    then show ?thesis by (rule apply_stop_keeps)
  next
    case 2
    have "keeps (os_progress s) (os_progress s1)" using 2(1) newly_touched_free by (rule apply_targets_keeps)
    then show ?thesis using 2(2) by (rule keeps_trans)
  qed
qed

lemma process_candle_keeps:
  assumes "process_candle env g s i = Inr (s', stop)"
  shows "keeps (os_progress s) (os_progress s')"
proof -
  obtain c h l where i: "i = (c, h, l)" by (cases i)
  let ?s0 = "s\<lparr>os_processed := os_processed s + 1\<rparr>"
  obtain s1 stop1 where act: "(if op_entry_at (os_progress s) = None
             then (if entry_touched h l g then apply_entry env g c h l ?s0 else Inr (?s0, False))
             else map_sum id (\<lambda>s'. (s', False)) (apply_managed env g c h l ?s0)) = Inr (s1, stop1)"
    and rest: "(if stop1 then Inr (s1, True)
      else ebind (advance_cursor env c s1) (\<lambda>s2. Inr (s2, op_terminal_outcome (os_progress s2) \<noteq> NA))) = Inr (s', stop)"
    using assms unfolding process_candle_def i Let_def prod.case ebind_Inr_iff by auto
  have "keeps (os_progress s) (os_progress s1)"
  proof (cases "op_entry_at (os_progress s)")
    case None
    then show ?thesis using act apply_entry_keeps [of env g c h l ?s0 s1 stop1] by (auto split: if_splits)
  next
    case (Some e)
    then have "\<exists>s2. apply_managed env g c h l ?s0 = Inr s2 \<and> s1 = s2" using act
      by (cases "apply_managed env g c h l ?s0") auto
    then show ?thesis using apply_managed_keeps [of env g c h l ?s0 s1] by auto
  qed
  moreover have "keeps (os_progress s1) (os_progress s')"
    using rest by (auto simp: advance_cursor_def dest: with_cursor_keeps split: if_splits)
  ultimately show ?thesis by (rule keeps_trans)
qed

lemma process_pending_keeps:
  "process_pending env g s items = Inr s' \<Longrightarrow> keeps (os_progress s) (os_progress s')"
proof (induction items arbitrary: s)
  case (Cons i items)
  then obtain s1 stop where s1: "process_candle env g s i = Inr (s1, stop)"
    "(if stop then Inr s1 else process_pending env g s1 items) = Inr s'" by auto
  note process_candle_keeps [OF s1(1)]
  moreover have "keeps (os_progress s1) (os_progress s')" using s1(2) Cons.IH by (auto split: if_splits)
  ultimately show ?case by (rule keeps_trans)
qed simp


section \<open>Breakeven\<close>

lemma check_binding_start:
  assumes "check_stop_binding b g = Inr ()"
  obtains t where "json_get b ''policy'' = JText BREAKEVEN_POLICY" "json_get b ''effective_from_candle_open_at'' \<noteq> JNull"
    "normalize_utc_timestamp (any_of_json (json_get b ''effective_from_candle_open_at'')) = Inr t"
  using assms that by (auto simp: check_stop_binding_def)

lemma new_binding_checks:
  assumes "normalize_utc_timestamp (AText e) = Inr u" "0 \<le> cutoff" "cutoff < dt_max"
    and b: "new_stop_binding g e cutoff = JObject b"
  shows "check_stop_binding b g = Inr ()"
proof -
  have "set (map fst b) = set binding_keys" using b by (auto simp: new_stop_binding_def binding_keys_def)
  then show ?thesis using assms normalize_utc_iso [OF assms(2,3)] b
    by (auto simp: check_stop_binding_def new_stop_binding_def)
qed

lemma bound_stop:
  assumes "bind_stop_policy p0 g dec e = Inr p" "valid_moment dec"
  obtains md b where "op_metadata p = Some (JObject md)" "map_of md BREAKEVEN_KEY = Some (JObject b)" "check_stop_binding b g = Inr ()"
    "same_milestones p0 p"
proof -
  obtain md where md: "op_metadata p0 = Some (JObject md)" using assms(1) by (auto simp: bind_stop_policy_def split: option.splits json.splits)
  show ?thesis
  proof (cases "map_of md BREAKEVEN_KEY")
    case None
    obtain decided u cutoff where d: "normalize_utc_timestamp dec = Inr decided" "normalize_utc_timestamp (AText e) = Inr u"
      and cut: "(case op_evaluation_cursor_close_at p0 of None \<Rightarrow> Inr decided
                  | Some c \<Rightarrow> map_sum id (max decided) (lift_timestamp (normalize_utc_timestamp (AText c)))) = Inr cutoff"
      and p: "p = with_metadata p0 (AList.update BREAKEVEN_KEY (new_stop_binding g e cutoff) md)"
      using assms(1) md None by (auto simp: bind_stop_policy_def elim!: map_sum_Inr)
    have "0 \<le> cutoff" "cutoff < dt_max"
      using cut normalize_utc_range [OF d(1) assms(2)] normalize_utc_range [of "AText _"]
      by (auto simp: valid_moment_def max_def elim!: map_sum_Inr split: option.splits)
    note check = new_binding_checks [OF d(2) this]
    obtain b where b: "new_stop_binding g e cutoff = JObject b" by (simp add: new_stop_binding_def)
    show ?thesis using that [of "AList.update BREAKEVEN_KEY (new_stop_binding g e cutoff) md" b] b check [OF b]
      by (simp add: p with_metadata_def update_conv' same_milestones_def)
  next
    case (Some v)
    then obtain b where "v = JObject b" "check_stop_binding b g = Inr ()" "p = p0"
      using assms(1) md by (auto simp: bind_stop_policy_def elim!: map_sum_Inr split: json.splits)
    with that [of md b] md Some show ?thesis by (simp add: same_milestones_def)
  qed
qed


lemma bound_start:
  assumes "bind_stop_policy p0 g dec e = Inr p" "valid_moment dec"
  shows "protection_start p \<noteq> None"
proof -
  obtain md b where md: "op_metadata p = Some (JObject md)" "map_of md BREAKEVEN_KEY = Some (JObject b)"
    and b: "check_stop_binding b g = Inr ()" by (rule bound_stop [OF assms])
  obtain t where "json_get b ''policy'' = JText BREAKEVEN_POLICY" "json_get b ''effective_from_candle_open_at'' \<noteq> JNull"
    "normalize_utc_timestamp (any_of_json (json_get b ''effective_from_candle_open_at'')) = Inr t" by (rule check_binding_start [OF b])
  then show ?thesis using md by (simp add: protection_start_def progress_metadata_def json_get_def [of md])
qed

lemma closed_pass:
  assumes "pass_over start ev s \<or> pass_ready g start ev s []" "op_terminal_outcome (os_progress s) \<noteq> NA"
  obtains c where "pe_completed (os_evidence s) \<noteq> []" "c = last (pe_completed (os_evidence s))"
    "candle_result start (Closed (op_terminal_outcome (os_progress s))) c (os_record s) (os_progress s)"
    "timeline_after 0 [(c, 0, 0)]" "cursor_follows s"
proof -
  have "pass_over start ev s" using assms by (auto simp: pass_ready_def live_row_def)
  then obtain outcome where o: "pe_completed (os_evidence s) \<noteq> []"
      "candle_result start (Closed outcome) (last (pe_completed (os_evidence s))) (os_record s) (os_progress s)"
      "timeline_after 0 [(last (pe_completed (os_evidence s)), 0, 0)]" "cursor_follows s"
    by (auto simp: pass_over_def)
  then have "outcome = op_terminal_outcome (os_progress s)" by (auto simp: candle_result_def position_of_def split: if_splits)
  with o that show ?thesis by blast
qed

text \<open>
  C36. The outcome loop returns on every timeline and does what the machine over positions says: from the position of the
  row, candle by candle, to the position of the resulting row. It never aborts; when it closes the row, the lifecycle
  record is in the state that the row reports, and otherwise the record still follows the row.
\<close>

theorem outcome_loop_implements_positions:
  assumes "stored_plan_geometry r = Inr g" "record_follows r p" "live_row p t" "timeline_after t items"
    and "protection_start p = Some start" "pe_completed ev = []"
  shows "\<exists>s. process_pending env g (pass_start r p ev) items = Inr s \<and> \<not> os_aborted s
    \<and> position_of (os_progress s) = foldl (position_step g start) (position_of p) items
    \<and> (if op_terminal_outcome (os_progress s) = NA then record_follows (os_record s) (os_progress s)
       else op_terminal_outcome (os_progress s) = state_value (current_state (os_record s)))"
proof -
  obtain s k where s: "process_pending env g (pass_start r p ev) items = Inr s"
    "position_of (os_progress s) = foldl (position_step g start) (position_of p) items"
    and over: "pass_over start ev s \<or> pass_ready g start ev s []"
    by (rule pass_returns [OF stored_plan_geometry_ordered [OF assms(1)] assms(2-6), of env]) blast
  have "\<not> os_aborted s" using over by (auto simp: pass_over_def pass_ready_def)
  moreover have "record_follows (os_record s) (os_progress s)" if "op_terminal_outcome (os_progress s) = NA"
    using over that by (auto simp: pass_over_def pass_ready_def candle_result_def position_of_def split: if_splits)
  moreover have "op_terminal_outcome (os_progress s) = state_value (current_state (os_record s))"
    if "op_terminal_outcome (os_progress s) \<noteq> NA"
    by (rule closed_pass [OF over that]) (simp add: candle_result_def)
  ultimately show ?thesis using s by auto
qed


lemma closed_protection:
  assumes "op_metadata q = Some (JObject md)" "map_of md BREAKEVEN_KEY = Some (JObject b)" "check_stop_binding b g = Inr ()"
    and "protection_start q = Some start" "op_tp1_at q = Some s" "time_of (Some s) = Some a" "a \<le> o'" "start \<le> o'" "0 \<le> o'" "o' < dt_max"
  shows "protection_active q (AText (utc_iso o')) = Inr True"
proof -
  obtain t where t: "json_get b ''policy'' = JText BREAKEVEN_POLICY" "json_get b ''effective_from_candle_open_at'' \<noteq> JNull"
    "normalize_utc_timestamp (any_of_json (json_get b ''effective_from_candle_open_at'')) = Inr t" by (rule check_binding_start [OF assms(3)])
  have "t = start" using assms(1,2,4) t by (simp add: protection_start_def progress_metadata_def json_get_def [of md])
  then show ?thesis using assms t normalize_utc_iso [OF assms(9,10)]
    by (simp add: protection_active_def json_get_def [of md] lift_timestamp_def time_of_iff)
qed

lemma milestones_validate:
  assumes "milestones_before q o'" "op_tp1_at q \<noteq> None" "op_stop_at q = Some (utc_iso cl)" "o' < cl" "0 \<le> cl" "cl < dt_max"
  obtains e a where "optional_time (op_entry_at q) = Inr e" "optional_time (op_tp1_at q) = Inr a" "optional_time (op_stop_at q) = Inr cl"
    "e < a" "a \<le> o'" "a < cl" "op_entry_at q \<noteq> None"
    "op_tp2_at q \<noteq> None \<longrightarrow> (\<exists>b. optional_time (op_tp2_at q) = Inr b \<and> a \<le> b \<and> b < cl)"
proof -
  have time: "time_of v = Some x \<longleftrightarrow> optional_time v = Inr x" for v x by (auto simp: time_of_def split: sum.splits)
  have "time_of (op_stop_at q) = Some cl" using assms(3,5,6) by simp
  then have st: "optional_time (op_stop_at q) = Inr cl" by (simp add: time)
  obtain e a where e: "time_of (op_entry_at q) = Some e" "time_of (op_tp1_at q) = Some a" "e < a" "a \<le> o'"
    using assms(1,2) by (auto simp: milestones_before_def before_def earlier_def split: option.splits)
  have "\<exists>b. time_of (op_tp2_at q) = Some b \<and> a \<le> b \<and> b \<le> o'" if "op_tp2_at q \<noteq> None"
    using assms(1) e that by (auto simp: milestones_before_def before_def earlier_def split: option.splits)
  moreover have "op_entry_at q \<noteq> None" using assms(1,2) by (auto simp: milestones_before_def)
  ultimately show ?thesis using that [of e a] e st assms(4) unfolding time by force
qed

text \<open>
  C37. Whenever a pass closes a row at breakeven, the row passes \<open>validate_breakeven_outcome\<close>, the check that guards the
  publication of such an outcome: the stop policy is bound, entry, first target and stop are in order, the cursor is at
  the stop, and the protection was in force when the last candle opened.
\<close>

theorem breakeven_outcome_validates:
  assumes "stored_plan_geometry r = Inr g" "record_follows r p" "live_row p t" "timeline_after t items" "pe_completed ev = []"
    and "bind_stop_policy p0 g dec e = Inr p" "valid_moment dec"
    and "process_pending env g (pass_start r p ev) items = Inr s" "op_terminal_outcome (os_progress s) = ''BREAKEVEN''"
  shows "validate_breakeven_outcome (os_progress s) g = Inr ()"
proof -
  let ?q = "os_progress s"
  obtain start where start: "protection_start p = Some start" using bound_start [OF assms(6,7)] by blast
  have over: "pass_over start ev s \<or> pass_ready g start ev s []"
    by (rule pass_returns [OF stored_plan_geometry_ordered [OF assms(1)] assms(2,3,4) start assms(5), of env]) (use assms(8) in simp)
  have ne: "op_terminal_outcome ?q \<noteq> NA" using assms(9) by simp
  obtain c where c: "c = last (pe_completed (os_evidence s))" "pe_completed (os_evidence s) \<noteq> []"
      "candle_result start (Closed (op_terminal_outcome ?q)) c (os_record s) ?q" "timeline_after 0 [(c, 0, 0)]" "cursor_follows s"
    by (rule closed_pass [OF over ne])
  let ?o = "cc_open_timestamp c" and ?c = "cc_close_timestamp c"
  have row: "metadata_ok ?q" "protection_start ?q = Some start" "op_outcome_at ?q = Some (utc_iso ?c)" "op_stop_at ?q = Some (utc_iso ?c)"
      "op_tp1_at ?q \<noteq> None" "op_tp3_at ?q = None" "op_invalidated_at ?q = None" "milestones_before ?q ?o" "start \<le> ?o"
    using c(3) assms(9) by (simp_all add: candle_result_def closed_row_def)
  have range: "0 \<le> ?o" "?o < dt_max" "?o < ?c" "0 \<le> ?c" "?c < dt_max" using c(4) by simp_all
  have cur: "op_evaluation_cursor_open_at ?q = Some (utc_iso ?o)" "op_evaluation_cursor_close_at ?q = Some (utc_iso ?c)"
    using c(1,2,5) by (simp_all add: cursor_follows_def)
  obtain md b where bound: "op_metadata p = Some (JObject md)" "map_of md BREAKEVEN_KEY = Some (JObject b)" "check_stop_binding b g = Inr ()"
    by (rule bound_stop [OF assms(6,7)])
  obtain md' where md': "op_metadata ?q = Some (JObject md')" "progress_metadata ?q = md'" by (rule metadata_okE [OF row(1)])
  have "keeps p ?q" using process_pending_keeps [OF assms(8)] by (simp add: pass_start_def)
  then have b': "map_of md' BREAKEVEN_KEY = Some (JObject b)"
    using bound md' by (auto simp: keeps_def json_get_def progress_metadata_def split: option.splits)
  obtain x a where times: "optional_time (op_entry_at ?q) = Inr x" "optional_time (op_tp1_at ?q) = Inr a" "optional_time (op_stop_at ?q) = Inr ?c"
    "x < a" "a \<le> ?o" "a < ?c" "op_entry_at ?q \<noteq> None" and tp2: "op_tp2_at ?q \<noteq> None \<longrightarrow> (\<exists>b. optional_time (op_tp2_at ?q) = Inr b \<and> a \<le> b \<and> b < ?c)"
    by (rule milestones_validate [OF row(8,5,4) range(3,4,5)])
  obtain s1 where s1: "op_tp1_at ?q = Some s1" "time_of (Some s1) = Some a" using row(5) times(2) by (auto simp: time_of_def)
  have act: "protection_active ?q (AText (utc_iso ?o)) = Inr True"
    by (rule closed_protection [OF md'(1) b' bound(3) row(2) s1 times(5) row(9) range(1,2)])
  have bind: "bind_stop_policy ?q g d e' = Inr ?q" for d e' using md' b' bound(3) by (simp add: bind_stop_policy_def)
  show ?thesis using md' b' bind row times cur act tp2 by (auto simp: validate_breakeven_outcome_def eraise_if_def)
qed

section \<open>A concrete pass\<close>

definition sample_env :: outcome_env where
  "sample_env = \<lparr>env_sha256 = sample_digest, env_exc_text = (\<lambda>_. ''error''), env_clock = ''2024-05-01T10:10:00+00:00'',
     env_evaluated_at = ''2024-05-01T10:10:00+00:00'', env_scan_run_id = None, env_plan_identity = ''plan-1''\<rparr>"

definition sample_confirmed_record :: SetupLifecycleRecord where
  "sample_confirmed_record = sample_record\<lparr>current_state := CONFIRMED, confirmed_at := Some ''2024-05-01T10:00:00+00:00''\<rparr>"

definition sample_geometry :: StoredPlanGeometry where
  "sample_geometry = \<lparr>geo_direction = ''long'', geo_entry_low = 100, geo_entry_high = 101, geo_stop_loss = 98, geo_tp1 = 104,
     geo_tp2 = 107, geo_tp3 = 112\<rparr>"

definition sample_time :: int where
  "sample_time = 63850154400000000"

definition sample_progress :: outcome_progress where
  "sample_progress =
     \<lparr>op_lifecycle_id = ''lc-1'', op_plan_identity = ''plan-1'', op_symbol = ''BTCUSDT'', op_mode = ''intraday'',
      op_direction = ''long'', op_execution_timeframe = ''1m'', op_tracking_start_at = None,
      op_evaluation_cursor_open_at = None, op_evaluation_cursor_close_at = None, op_entry_at = None, op_tp1_at = None,
      op_tp2_at = None, op_tp3_at = None, op_stop_at = None, op_invalidated_at = None, op_outcome_at = None,
      op_terminal_outcome = NA, op_integrity_status = NA, op_diagnostic = NA, op_metadata_json = ''{}'',
      op_first_evaluated_at = ''2024-05-01T10:00:00+00:00'', op_last_evaluated_at = ''2024-05-01T10:00:00+00:00'',
      op_plan_version_id = None, op_last_eligibility_decision_at = None, op_last_eligibility_prefix_evidence_json = None,
      op_eligibility_cutoff_observed = False, op_metadata = Some (JObject []), op_prefix_evidence = None\<rparr>"

definition sample_bound :: outcome_progress where
  "sample_bound = with_metadata sample_progress
     [(BREAKEVEN_KEY, new_stop_binding sample_geometry ''2024-05-01T10:10:00+00:00'' sample_time)]"

definition sample_causal :: "int \<Rightarrow> CausalCandle" where
  "sample_causal k = \<lparr>cc_source = NotACandle, cc_open_timestamp = sample_time + k * 60000000,
     cc_close_timestamp = sample_time + (k + 1) * 60000000, cc_index = None\<rparr>"

definition sample_items :: "(CausalCandle \<times> rat \<times> rat) list" where
  "sample_items = [(sample_causal 0, 101, 100), (sample_causal 1, 105, 102), (sample_causal 2, 103, 100)]"

definition sample_evidence :: PrefixPassEvidence where
  "sample_evidence =
     \<lparr>pe_execution_timeframe = ''1m'', pe_applied_cutoff = utc_iso (sample_time + 300000000), pe_supplied = map fst sample_items,
      pe_cursor_before_open_at = None, pe_cursor_before_close_at = None, pe_pending = Some (map fst sample_items),
      pe_expected_next_open_at = Some sample_time, pe_pending_unknown_reason = None, pe_disposition = None, pe_completed = []\<rparr>"

lemma sample_time_range: "0 \<le> sample_time" "sample_time < dt_max"
  by (simp_all add: sample_time_def dt_max_value)

lemma sample_follows: "record_follows sample_confirmed_record sample_bound"
  by (simp add: record_follows_def record_valid_def sample_confirmed_record_def sample_record_def sample_bound_def
      sample_progress_def with_metadata_def score_in_range_def OUTCOME_ELIGIBLE_STATES_def) code_simp

lemma sample_plan: "stored_plan_geometry sample_confirmed_record = Inr sample_geometry"
  by code_simp

lemma sample_start: "protection_start sample_bound = Some sample_time"
  using normalize_utc_iso [OF sample_time_range]
  by (simp add: protection_start_def sample_bound_def json_get_def new_stop_binding_def)

lemma sample_live: "live_row sample_bound sample_time"
  using sample_start by (simp add: live_row_def metadata_ok_def milestones_before_def counts_candles_def)
    (simp add: sample_bound_def with_metadata_def sample_progress_def progress_metadata_def BREAKEVEN_KEY_def)

lemma sample_timeline: "timeline_after sample_time sample_items"
  by (simp add: sample_items_def sample_causal_def sample_time_def dt_max_value)

lemma sample_positions: "foldl (position_step sample_geometry sample_time) Flat sample_items = Closed ''BREAKEVEN''"
  by code_simp

lemma sample_position: "position_of sample_bound = Flat"
  by (simp add: position_of_def sample_bound_def with_metadata_def sample_progress_def)

lemma sample_evidence_new: "pe_completed sample_evidence = []"
  by (simp add: sample_evidence_def)

theorem outcome_loop_implements_positions_witness:
  "\<exists>s. process_pending sample_env sample_geometry (pass_start sample_confirmed_record sample_bound sample_evidence) sample_items = Inr s
     \<and> position_of (os_progress s) = Closed ''BREAKEVEN''"
  using outcome_loop_implements_positions [OF sample_plan sample_follows sample_live sample_timeline sample_start sample_evidence_new,
      of sample_env] sample_positions sample_position
  by (auto simp del: process_pending.simps)


definition sample_decision :: py_any where
  "sample_decision = ADatetime \<lparr>dt_local = sample_time, dt_offset = Some 0\<rparr>"

lemma sample_clock_time: "normalize_utc_timestamp (AText ''2024-05-01T10:10:00+00:00'') = Inr 63850155000000000"
proof -
  have "fromisoformat ''2024-05-01T10:10:00+00:00'' = Some \<lparr>dt_local = 63850155000000000, dt_offset = Some 0\<rparr>"
    by (simp add: us_per_day_def fromisoformat_def is_tz_start_def hms_us_def py_isdigit_def digits_val_def digit_val_def valid_ymd_def
        ymd2ord_def days_before_year_def days_in_month_def is_leap_def days_before_month_vals)
  moreover have s: "py_strip ''2024-05-01T10:10:00+00:00'' = ''2024-05-01T10:10:00+00:00''" by code_simp
  moreover have i: "int_of_text ''2024-05-01T10:10:00+00:00'' = None" by (simp add: int_of_text_def py_isdigit_def)
  ultimately show ?thesis unfolding normalize_utc_timestamp.simps(5) s Let_def i
    by (simp add: replace_Z_def timestamp_of_datetime_def dt_instant_def dt_max_value)
qed

lemma sample_binds: "bind_stop_policy sample_progress sample_geometry sample_decision ''2024-05-01T10:10:00+00:00'' = Inr sample_bound"
  using sample_time_range sample_clock_time
  by (simp add: bind_stop_policy_def sample_progress_def sample_bound_def sample_decision_def timestamp_of_datetime_def
      dt_instant_def lift_timestamp_def with_metadata_def)

lemma sample_moment: "valid_moment sample_decision"
  using sample_time_range by (simp add: sample_decision_def valid_moment_def valid_datetime_def us_per_day_def)

lemma sample_pass:
  "\<exists>s. process_pending sample_env sample_geometry (pass_start sample_confirmed_record sample_bound sample_evidence) sample_items = Inr s
     \<and> op_terminal_outcome (os_progress s) = ''BREAKEVEN''"
  by (rule pass_returns [OF stored_plan_geometry_ordered [OF sample_plan] sample_follows sample_live sample_timeline sample_start
        sample_evidence_new, of sample_env])
    (use sample_positions sample_position in \<open>auto simp: position_of_def split: if_splits simp del: process_pending.simps\<close>)

theorem breakeven_outcome_validates_witness:
  "\<exists>s. process_pending sample_env sample_geometry (pass_start sample_confirmed_record sample_bound sample_evidence) sample_items = Inr s
     \<and> op_terminal_outcome (os_progress s) = ''BREAKEVEN'' \<and> validate_breakeven_outcome (os_progress s) sample_geometry = Inr ()"
  using sample_pass breakeven_outcome_validates [OF sample_plan sample_follows sample_live sample_timeline sample_evidence_new
      sample_binds sample_moment, of sample_env] by blast

end
