(* ===== verification/Outcome_Runs.thy ===== *)
theory Outcome_Runs
  imports Outcome_Safety
begin

text \<open>
  Properties of whole evaluations of closed candles, from the stored row to the written row.
\<close>

section \<open>What an evaluation keeps\<close>

definition latches :: "outcome_progress \<Rightarrow> outcome_progress \<Rightarrow> bool" where
  "latches p q \<longleftrightarrow> (op_entry_at p \<noteq> None \<longrightarrow> op_entry_at q = op_entry_at p) \<and> (op_tp1_at p \<noteq> None \<longrightarrow> op_tp1_at q = op_tp1_at p)
     \<and> (op_tp2_at p \<noteq> None \<longrightarrow> op_tp2_at q = op_tp2_at p) \<and> (op_tp3_at p \<noteq> None \<longrightarrow> op_tp3_at q = op_tp3_at p)
     \<and> op_lifecycle_id q = op_lifecycle_id p \<and> op_plan_identity q = op_plan_identity p
     \<and> (op_plan_version_id p \<noteq> None \<longrightarrow> op_plan_version_id q = op_plan_version_id p)"

lemma latches_refl [simp]: "latches p p"
  by (simp add: latches_def)

lemma latches_trans: "latches p q \<Longrightarrow> latches q u \<Longrightarrow> latches p u"
  unfolding latches_def by metis

lemma keeps_latches: "keeps p q \<Longrightarrow> latches p q"
  by (simp add: keeps_def latches_def)

lemma write_progress_frame:
  assumes "write_progress p ev d = Inr q"
  shows "\<exists>v. q = p\<lparr>op_prefix_evidence := v\<rparr>"
proof (cases ev)
  case None
  then show ?thesis using assms by (intro exI [of _ "op_prefix_evidence p"]) (simp add: write_progress_def)
next
  case (Some x)
  then show ?thesis using assms by (auto simp: write_progress_def bind_prefix_disposition_def Let_def)
qed

lemma evidence_latches [simp]: "latches p (p\<lparr>op_prefix_evidence := v\<rparr>)"
  by (simp add: latches_def)

text \<open>An evaluation that ends without a pass over candles.\<close>

lemma write_and_return_Inr:
  assumes "write_and_return r p ev d ws = Inr (e, ws')"
  shows "\<exists>v. le_progress e = Some (p\<lparr>op_prefix_evidence := v\<rparr>) \<and> le_record e = r \<and> le_transitions e = [] \<and> le_processed_candles e = 0"
  using assms write_progress_frame by (fastforce simp: write_and_return_def evaluation_done_def)

lemma fail_with_Inr:
  assumes "fail_with env r p ev ws st d = Inr (e, ws')"
  shows "\<exists>v. le_progress e = Some ((integrity_failure p st d (env_evaluated_at env))\<lparr>op_prefix_evidence := v\<rparr>)
    \<and> le_record e = r \<and> le_transitions e = [] \<and> le_processed_candles e = 0"
  using assms write_and_return_Inr by (simp add: fail_with_def)

definition row_latched :: "outcome_progress \<Rightarrow> evaluation_result \<Rightarrow> bool" where
  "row_latched p x \<longleftrightarrow> (\<forall>e ws. x = Inr (e, ws) \<longrightarrow> (\<exists>q. le_progress e = Some q \<and> latches p q))"

lemma row_latched_trans: "row_latched q x \<Longrightarrow> latches p q \<Longrightarrow> row_latched p x"
  unfolding row_latched_def using latches_trans by blast

lemma row_latched_write [simp]: "latches p q \<Longrightarrow> row_latched p (write_and_return r q ev d ws)"
  unfolding row_latched_def using write_and_return_Inr evidence_latches latches_trans by blast

lemma row_latched_fail [simp]: "row_latched p (fail_with env r p ev ws st d)"
  unfolding fail_with_def using keeps_latches [OF integrity_failure_keeps] by (rule row_latched_write)

lemma row_latched_error: "(\<And>v. x = Inr v \<Longrightarrow> row_latched p (k v)) \<Longrightarrow> row_latched p (on_value_error env r p ev ws st pre x k)"
  by (auto simp: on_value_error_def row_latched_def [of p "Inl _"] split: sum.splits option.splits)

lemma row_latched_bind: "(\<And>v. x = Inr v \<Longrightarrow> row_latched p (k v)) \<Longrightarrow> row_latched p (ebind x k)"
  by (cases x) (auto simp: row_latched_def)

lemma run_pending_cases:
  assumes "run_pending env r g p ev ws items = Inr (e, ws')"
  obtains s q where "process_pending env g (pass_start r p ev) items = Inr s"
    "write_progress (os_progress s) (Some (os_evidence s)) (Some (loop_disposition s)) = Inr q" "le_progress e = Some q"
    "le_record e = os_record s" "le_processed_candles e = os_processed s" "le_transitions e = os_transitions s"
  using assms unfolding run_pending_def pass_start_def by auto

lemma run_pending_latched: "row_latched p (run_pending env r g p ev ws items)"
  unfolding row_latched_def
proof (intro allI impI)
  fix e ws' assume "run_pending env r g p ev ws items = Inr (e, ws')"
  then obtain s q where s: "process_pending env g (pass_start r p ev) items = Inr s"
    "write_progress (os_progress s) (Some (os_evidence s)) (Some (loop_disposition s)) = Inr q" "le_progress e = Some q"
    by (rule run_pending_cases)
  have "latches p (os_progress s)" using keeps_latches [OF process_pending_keeps [OF s(1)]] by (simp add: pass_start_def)
  then show "\<exists>q. le_progress e = Some q \<and> latches p q" using write_progress_frame [OF s(2)] s(3) latches_trans evidence_latches by blast
qed

lemma evaluate_pending_latched: "row_latched p (evaluate_pending env r g p ev ws fresh ts lo xo items)"
  unfolding evaluate_pending_def Let_def
  by (auto simp: run_pending_latched latches_def intro!: row_latched_write split: list.split)

lemma select_pending_latched: "row_latched p (select_pending env r g tf p ev ws items)"
  unfolding select_pending_def Let_def
  by (intro row_latched_error) (auto intro!: row_latched_error row_latched_bind evaluate_pending_latched split: option.split)

lemma with_tracking_start_latches: "latches p (with_tracking_start p start b src el d)"
  by (simp add: latches_def with_tracking_start_def with_metadata_def)

lemma with_adopted_causality_latches: "latches p (with_adopted_causality p start b src el d)"
  by (simp add: latches_def with_adopted_causality_def with_tracking_start_def with_metadata_def Let_def)

lemma ensure_tracking_start_latched: "row_latched p (ensure_tracking_start env r g tf rd ids p ev ws items)"
  unfolding ensure_tracking_start_def
  by (auto intro!: row_latched_error row_latched_trans [OF select_pending_latched with_tracking_start_latches]
      simp: select_pending_latched split: option.split)

lemma adopt_causality_latched: "row_latched p (adopt_causality env r g tf rd ids p ev ws items)"
  unfolding adopt_causality_def
  by (auto intro!: row_latched_error row_latched_trans [OF ensure_tracking_start_latched with_adopted_causality_latches]
      simp: ensure_tracking_start_latched)

lemma evaluate_window_latched: "row_latched p (evaluate_window env r g tf rd ids p ws cs dec)"
proof -
  have c: "latches p (with_applied_eligibility_cutoff p w)" for w by (simp add: latches_def with_applied_eligibility_cutoff_def)
  have i: "latches q (integrity_failure q st d e)" for q st d e by (rule keeps_latches [OF integrity_failure_keeps])
  show ?thesis unfolding evaluate_window_def Let_def
    by (rule row_latched_error, rule row_latched_trans [OF row_latched_error c]) (simp add: i adopt_causality_latched)
qed

lemma bind_stop_latches: "bind_stop_policy p g dec e = Inr q \<Longrightarrow> latches p q"
  by (auto simp: bind_stop_policy_def latches_def with_metadata_def elim!: map_sum_Inr split: option.splits json.splits)

lemma evaluate_progress_latched: "row_latched p (evaluate_progress env r g rd ids p ws cs tf dec)"
  unfolding evaluate_progress_def Let_def
  by (auto intro!: row_latched_error row_latched_trans [OF evaluate_window_latched bind_stop_latches]
      row_latched_trans [OF row_latched_fail bind_stop_latches])

lemma evaluate_progress_row:
  "evaluate_progress env r g rd ids p ws cs tf dec = Inr (e, ws') \<Longrightarrow> \<exists>q. le_progress e = Some q \<and> latches p q"
  using evaluate_progress_latched [of p env r g rd ids ws cs tf dec] by (simp add: row_latched_def)

lemma bind_plan_latches:
  "latches p (bd_progress (bind_progress_to_proven_plan_version sha256 p r))"
  "same_milestones p (bd_progress (bind_progress_to_proven_plan_version sha256 p r))"
  unfolding bind_progress_to_proven_plan_version_def Let_def
  by (auto simp: latches_def same_milestones_def with_binding_marker_def with_metadata_def split: option.splits)


text \<open>An evaluation of a stored row in the current epoch, after the row has been bound to its plan version.\<close>

lemma evaluate_stored:
  fixes env0 r p
  defines "ids \<equiv> compatible_plan_identities (env_sha256 env0) r"
    and "q \<equiv> bd_progress (bind_progress_to_proven_plan_version (env_sha256 env0) p r)"
  assumes "first_progress rd ids = Some p" "rd_epoch_current rd"
  defines "env \<equiv> env0\<lparr>env_plan_identity := op_plan_identity q\<rparr>"
    and "ws \<equiv> (if op_plan_version_id q \<noteq> op_plan_version_id p then [UpsertProgress q] else [])"
  shows "evaluate_closed_candle_outcomes env0 rd r cs tf dec =
    (case stored_plan_geometry r of
       Inl _ \<Rightarrow> evaluation_done r (Some q) ws
     | Inr g \<Rightarrow>
         if op_terminal_outcome q \<noteq> NA then evaluation_done r (Some q) ws
         else if current_state r \<in> set TERMINAL_OUTCOME_STATES
         then ebind (terminal_progress_for_record env r (Some q) tf) (\<lambda>u. evaluation_done r (Some u) (ws @ [UpsertProgress u]))
         else if current_state r \<notin> set OUTCOME_ELIGIBLE_STATES then evaluation_done r (Some q) ws
         else evaluate_progress env r g rd ids q ws cs tf dec)"
  using assms(3,4) unfolding evaluate_closed_candle_outcomes_def env_def ws_def q_def ids_def Let_def
  by (cases "stored_plan_geometry r") simp_all

lemma terminal_row_latched: "terminal_progress_for_record env r (Some p) tf = Inr q \<Longrightarrow> latches p q"
  by (auto simp: terminal_progress_for_record_def Let_def latches_def split: if_splits)

text \<open>
  C12. Milestones are latched. Whatever candles an evaluation sees, the row it returns has the entry and target times that the
  stored row had, and its identities; the plan version, once set, stays. A row that reports an outcome keeps it: the
  evaluation returns its milestones unchanged, with the same record and no transition.
\<close>

theorem milestones_are_latched:
  assumes "evaluate_closed_candle_outcomes env rd r cs tf dec = Inr (e, ws)"
    and "first_progress rd (compatible_plan_identities (env_sha256 env) r) = Some p"
  shows "\<exists>q. le_progress e = Some q \<and> latches p q
    \<and> (op_terminal_outcome p \<noteq> NA \<longrightarrow> same_milestones p q \<and> le_record e = r \<and> le_transitions e = [])"
proof (cases "rd_epoch_current rd")
  case False
  then show ?thesis using assms by (auto simp: evaluate_closed_candle_outcomes_def Let_def evaluation_done_def same_milestones_def)
next
  case True
  let ?q = "bd_progress (bind_progress_to_proven_plan_version (env_sha256 env) p r)"
  note bound = bind_plan_latches [of p "env_sha256 env" r]
  note run = evaluate_stored [OF assms(2) True, of cs tf dec]
  have "\<exists>q. le_progress e = Some q \<and> latches ?q q" if "op_terminal_outcome ?q = NA" 
    using assms(1) that unfolding run
    by (auto simp: evaluation_done_def dest: terminal_row_latched evaluate_progress_row split: sum.splits if_splits)
  moreover have "le_progress e = Some ?q \<and> le_record e = r \<and> le_transitions e = []" if "op_terminal_outcome ?q \<noteq> NA"
    using assms(1) that unfolding run by (auto simp: evaluation_done_def split: sum.splits)
  moreover have "op_terminal_outcome ?q = op_terminal_outcome p" using bound(2) by (simp add: same_milestones_def)
  ultimately show ?thesis using bound latches_trans by (cases "op_terminal_outcome p = NA") auto
qed

end
