(* ===== verification/Outcome_Causality.thy ===== *)
theory Outcome_Causality
  imports Outcome_Runs
begin

text \<open>
  Causality of the outcome engine: no candle that has not closed matters, no entry before the confirmation, and every
  candle counts once.
\<close>

section \<open>Evaluations that reach candles\<close>

lemma on_value_error_ran:
  assumes "on_value_error env r p ev ws st pre x k = Inr (e, ws')" "0 < le_processed_candles e"
  obtains v where "x = Inr v" "k v = Inr (e, ws')"
  using assms fail_with_Inr by (fastforce simp: on_value_error_def split: sum.splits option.splits)

lemma write_and_return_ran: "write_and_return r p ev d ws = Inr (e, ws') \<Longrightarrow> le_processed_candles e = 0"
  using write_and_return_Inr by blast

lemma fail_with_ran: "fail_with env r p ev ws st d = Inr (e, ws') \<Longrightarrow> le_processed_candles e = 0"
  using fail_with_Inr by blast

lemma evaluate_pending_ran:
  assumes "evaluate_pending env r g p ev ws fresh ts lo xo pending = Inr (e, ws')" "0 < le_processed_candles e"
  obtains c h l rest where "pending = (c, h, l) # rest" "cc_open_timestamp c = xo"
    "run_pending env r g p (mark_pending ev (map fst pending) (Some xo)) ws pending = Inr (e, ws')"
  using assms unfolding evaluate_pending_def Let_def
  by (auto split: list.splits if_splits dest!: write_and_return_ran fail_with_ran)

text \<open>Where the pending candles of a row start.\<close>

definition expected_open :: "outcome_progress \<Rightarrow> string \<Rightarrow> int \<Rightarrow> bool" where
  "expected_open p tf xo \<longleftrightarrow> (\<exists>ts. optional_time (op_tracking_start_at p) = Inr ts \<and>
     (case op_evaluation_cursor_open_at p of
        None \<Rightarrow> xo = ts
      | Some cursor \<Rightarrow> \<exists>t0 d. optional_time (Some cursor) = Inr t0 \<and> timeframe_duration tf = Inr d \<and> xo = max (t0 + d) ts))"

lemma select_pending_ran:
  assumes "select_pending env r g tf p ev ws items = Inr (e, ws')" "0 < le_processed_candles e"
  obtains xo c h l rest where "expected_open p tf xo" "filter (\<lambda>(c, _). xo \<le> cc_open_timestamp c) items = (c, h, l) # rest"
    "cc_open_timestamp c = xo"
    "run_pending env r g p (mark_pending ev (map fst ((c, h, l) # rest)) (Some xo)) ws ((c, h, l) # rest) = Inr (e, ws')"
proof -
  obtain ts where ts: "optional_time (op_tracking_start_at p) = Inr ts"
    and rest: "(let latest_open = cc_open_timestamp (fst (last items)) in
     case op_evaluation_cursor_open_at p of
       None \<Rightarrow>
         evaluate_pending env r g p ev ws True ts latest_open ts (filter (\<lambda>(c, _). ts \<le> cc_open_timestamp c) items)
     | Some cursor \<Rightarrow>
         on_value_error env r p (Some ev) ws INTEGRITY_FAILED ''invalid_persisted_evaluation_cursor:''
           (optional_time (Some cursor)) (\<lambda>cursor_open.
         if latest_open < cursor_open then
           fail_with env r p (Some ev) ws INTEGRITY_UNVERIFIED
             (''stale_execution_candle_history:latest='' @ utc_iso latest_open @ '' cursor='' @ utc_iso cursor_open)
         else
           ebind (lift_timestamp (timeframe_duration tf)) (\<lambda>duration.
           ebind (utc_add cursor_open duration) (\<lambda>after_cursor.
           let expected_open = max after_cursor ts in
           evaluate_pending env r g p ev ws False ts latest_open expected_open
             (filter (\<lambda>(c, _). expected_open \<le> cc_open_timestamp c) items))))) = Inr (e, ws')"
    using assms(1) unfolding select_pending_def by (rule on_value_error_ran [OF _ assms(2)]) blast
  show ?thesis
  proof (cases "op_evaluation_cursor_open_at p")
    case None
    then have "expected_open p tf ts" using ts by (simp add: expected_open_def)
    then show ?thesis using rest None that by (auto simp: Let_def elim!: evaluate_pending_ran [OF _ assms(2)])
  next
    case (Some cursor)
    from rest obtain t0 where t0: "optional_time (Some cursor) = Inr t0"
      and k: "(if cc_open_timestamp (fst (last items)) < t0 then
           fail_with env r p (Some ev) ws INTEGRITY_UNVERIFIED
             (''stale_execution_candle_history:latest='' @ utc_iso (cc_open_timestamp (fst (last items))) @ '' cursor='' @ utc_iso t0)
         else
           ebind (lift_timestamp (timeframe_duration tf)) (\<lambda>duration.
           ebind (utc_add t0 duration) (\<lambda>after_cursor.
           let expected_open = max after_cursor ts in
           evaluate_pending env r g p ev ws False ts (cc_open_timestamp (fst (last items))) expected_open
             (filter (\<lambda>(c, _). expected_open \<le> cc_open_timestamp c) items)))) = Inr (e, ws')"
      unfolding Some Let_def option.case by (rule on_value_error_ran [OF _ assms(2)]) blast
    then obtain d where d: "timeframe_duration tf = Inr d"
      and run: "evaluate_pending env r g p ev ws False ts (cc_open_timestamp (fst (last items))) (max (t0 + d) ts)
        (filter (\<lambda>(c, _). max (t0 + d) ts \<le> cc_open_timestamp c) items) = Inr (e, ws')"
      using assms(2) by (auto simp: utc_add_def Let_def split: if_splits dest!: fail_with_ran)
    have x: "expected_open p tf (max (t0 + d) ts)" using ts t0 d Some by (auto simp: expected_open_def)
    show ?thesis by (rule evaluate_pending_ran [OF run assms(2)]) (use that [OF x] in auto)
  qed
qed


text \<open>The row keeps its cursor and its entry until the pass starts.\<close>

definition same_cursor :: "outcome_progress \<Rightarrow> outcome_progress \<Rightarrow> bool" where
  "same_cursor p q \<longleftrightarrow> op_evaluation_cursor_open_at q = op_evaluation_cursor_open_at p
     \<and> op_evaluation_cursor_close_at q = op_evaluation_cursor_close_at p \<and> op_entry_at q = op_entry_at p"

lemma same_cursor_tracking: "same_cursor p (with_tracking_start p start b src el d)"
  by (simp add: same_cursor_def with_tracking_start_def with_metadata_def)

lemma ensure_tracking_start_ran:
  assumes "ensure_tracking_start env r g tf rd ids p ev ws items = Inr (e, ws')" "0 < le_processed_candles e"
  obtains q where "select_pending env r g tf q ev ws items = Inr (e, ws')" "same_cursor p q"
    "op_tracking_start_at p = None \<longrightarrow> op_evaluation_cursor_open_at p = None \<longrightarrow>
       (\<exists>start b src el d. tracking_start_boundary env r p (map fst items) rd ids tf = Inr (start, b, src, el, d)
          \<and> q = with_tracking_start p start b src el d)"
    "op_tracking_start_at p \<noteq> None \<longrightarrow> q = p"
proof (cases "op_tracking_start_at p")
  case (Some t)
  then show ?thesis using assms(1) that [of p] by (simp add: ensure_tracking_start_def same_cursor_def)
next
  case None
  show ?thesis
  proof (cases "op_evaluation_cursor_open_at p")
    case cur: None
    obtain v where v: "tracking_start_boundary env r p (map fst items) rd ids tf = Inr v"
      "(\<lambda>(start, boundary, source, eligibility, diagnostic).
          select_pending env r g tf (with_tracking_start p start boundary source eligibility diagnostic) ev ws items) v = Inr (e, ws')"
      using assms(1) None cur by (auto simp: ensure_tracking_start_def elim!: on_value_error_ran [OF _ assms(2)])
    then show ?thesis using that same_cursor_tracking None by (cases v) fastforce
  next
    case (Some cursor)
    then show ?thesis using assms(1) None that same_cursor_tracking
      by (auto simp: ensure_tracking_start_def elim!: on_value_error_ran [OF _ assms(2)])
  qed
qed

lemma adopt_causality_ran:
  assumes "adopt_causality env r g tf rd ids p ev ws items = Inr (e, ws')" "0 < le_processed_candles e"
  obtains q where "ensure_tracking_start env r g tf rd ids q ev ws items = Inr (e, ws')" "same_cursor p q"
    "op_entry_at p \<noteq> None \<or> json_get (progress_metadata p) ''entry_causality_contract'' = JText ENTRY_CAUSALITY_CONTRACT \<longrightarrow> q = p"
proof (cases "op_entry_at p = None \<and> json_get (progress_metadata p) ''entry_causality_contract'' \<noteq> JText ENTRY_CAUSALITY_CONTRACT")
  case False
  then show ?thesis using assms(1) that [of p] by (auto simp: adopt_causality_def same_cursor_def)
next
  case True
  have a: "same_cursor p (with_adopted_causality p start b src el d)" for start b src el d
    by (simp add: same_cursor_def with_adopted_causality_def with_tracking_start_def with_metadata_def Let_def)
  obtain v where "(\<lambda>(start, boundary, source, eligibility, diagnostic).
        ensure_tracking_start env r g tf rd ids (with_adopted_causality p start boundary source eligibility diagnostic) ev ws items) v
      = Inr (e, ws')"
    using assms(1) True by (auto simp: adopt_causality_def elim!: on_value_error_ran [OF _ assms(2)])
  then show ?thesis using that a True by (cases v) fastforce
qed

lemma evaluate_progress_ran:
  assumes "evaluate_progress env r g rd ids p ws cs tf dec = Inr (e, ws')" "0 < le_processed_candles e"
  obtains b w items where "bind_stop_policy p g dec (env_evaluated_at env) = Inr b"
    "closed_candles_as_of cs (py_lower (py_text tf)) dec 0 True True False = Inr w" "candle_ranges (win_timeline w) = Inr items"
    "adopt_causality env r g (py_lower (py_text tf)) rd ids (with_applied_eligibility_cutoff b w)
       (start_prefix_pass_evidence (with_applied_eligibility_cutoff b w) w (py_lower (py_text tf)))
       (ws @ [UpsertProgress b]) items = Inr (e, ws')"
proof -
  obtain b where b: "bind_stop_policy p g dec (env_evaluated_at env) = Inr b"
    and "evaluate_window env r g (py_lower (py_text tf)) rd ids b (ws @ [UpsertProgress b]) cs dec = Inr (e, ws')"
    using assms unfolding evaluate_progress_def Let_def
    by (auto split: if_splits dest!: fail_with_ran elim!: on_value_error_ran [OF _ assms(2)])
  then obtain w where w: "closed_candles_as_of cs (py_lower (py_text tf)) dec 0 True True False = Inr w"
    and k: "(let q = with_applied_eligibility_cutoff b w; evidence = start_prefix_pass_evidence q w (py_lower (py_text tf)) in
     on_value_error env r q (Some evidence) (ws @ [UpsertProgress b]) INTEGRITY_UNVERIFIED [] (candle_ranges (win_timeline w)) (\<lambda>items.
     if win_timeline w = []
     then write_and_return r (integrity_failure q INTEGRITY_UNVERIFIED ''no_closed_execution_candles_at_decision_boundary''
            (env_evaluated_at env)) (Some evidence) NO_ELIGIBLE_CLOSED_CANDLES (ws @ [UpsertProgress b])
     else adopt_causality env r g (py_lower (py_text tf)) rd ids q evidence (ws @ [UpsertProgress b]) items)) = Inr (e, ws')"
    unfolding evaluate_window_def by (auto elim!: on_value_error_ran [OF _ assms(2)])
  from k that [OF b w] show ?thesis unfolding Let_def
    by (auto elim!: on_value_error_ran [OF _ assms(2)] split: if_splits dest!: write_and_return_ran) (use assms(2) in auto)
qed


section \<open>What a pass does to the cursor and the entry\<close>

lemma apply_stop_frame:
  "apply_stop env g c why be s = Inr s' \<Longrightarrow> same_pass s s' \<and> op_entry_at (os_progress s') = op_entry_at (os_progress s)"
  by (auto simp: apply_stop_def record_stop_def Let_def same_pass_def os_add_def)

lemma apply_targets_frame:
  "apply_targets env c ts s = Inr s' \<Longrightarrow> same_pass s s' \<and> op_entry_at (os_progress s') = op_entry_at (os_progress s)"
proof (induction ts arbitrary: s)
  case (Cons x ts)
  obtain n v where x: "x = (n, v)" by (cases x)
  let ?q = "set_target_at n (utc_iso (cc_close_timestamp c)) (os_progress s)"
  obtain ws where "apply_targets env c ts ((os_add s [] ws)\<lparr>os_progress := ?q\<rparr>) = Inr s'"
    using Cons.prems by (auto simp: x simp del: set_target_at.simps)
  from Cons.IH [OF this] show ?case by (simp add: same_pass_def os_add_def)
qed (simp add: same_pass_def)

lemma apply_managed_frame:
  "apply_managed env g c h l s = Inr s' \<Longrightarrow> same_pass s s' \<and> op_entry_at (os_progress s') = op_entry_at (os_progress s)"
  by (auto simp: apply_managed_def Let_def same_pass_def os_add_def split: if_splits dest!: apply_stop_frame apply_targets_frame)

lemma apply_entry_frame:
  "apply_entry env g c h l s = Inr (s', stop) \<Longrightarrow> os_processed s' = os_processed s
     \<and> op_entry_at (os_progress s') = Some (utc_iso (cc_close_timestamp c))
     \<and> (stop \<longrightarrow> op_integrity_status (os_progress s') = INTEGRITY_FAILED)"
  unfolding apply_entry_def Let_def
  by (auto simp: os_add_def with_entry_evidence_def integrity_failure_def with_metadata_def same_pass_def split: if_splits
      dest!: apply_stop_frame)

lemma with_cursor_frame:
  "with_cursor p c e n = Inr q \<Longrightarrow> op_entry_at q = op_entry_at p
     \<and> op_evaluation_cursor_open_at q = Some (utc_iso (cc_open_timestamp c))"
  by (auto simp: with_cursor_def Let_def with_metadata_def)

lemma process_candle_frame:
  assumes "process_candle env g s (c, h, l) = Inr (s', stop)"
  shows "os_processed s' = os_processed s + 1"
    "op_entry_at (os_progress s) = None \<longrightarrow> op_entry_at (os_progress s') \<in> {None, Some (utc_iso (cc_close_timestamp c))}"
    "op_evaluation_cursor_open_at (os_progress s') = Some (utc_iso (cc_open_timestamp c))
       \<or> stop \<and> op_integrity_status (os_progress s') = INTEGRITY_FAILED"
proof -
  let ?s0 = "s\<lparr>os_processed := os_processed s + 1\<rparr>"
  obtain s1 stop1 where act: "(if op_entry_at (os_progress s) = None
             then (if entry_touched h l g then apply_entry env g c h l ?s0 else Inr (?s0, False))
             else map_sum id (\<lambda>s'. (s', False)) (apply_managed env g c h l ?s0)) = Inr (s1, stop1)"
    and rest: "(if stop1 then Inr (s1, True)
      else ebind (advance_cursor env c s1) (\<lambda>s2. Inr (s2, op_terminal_outcome (os_progress s2) \<noteq> NA))) = Inr (s', stop)"
    using assms unfolding process_candle_def Let_def prod.case ebind_Inr_iff by auto
  have s1: "os_processed s1 = os_processed s + 1
      \<and> (op_entry_at (os_progress s) = None \<longrightarrow> op_entry_at (os_progress s1) \<in> {None, Some (utc_iso (cc_close_timestamp c))})
      \<and> (stop1 \<longrightarrow> op_integrity_status (os_progress s1) = INTEGRITY_FAILED)"
    using act by (auto simp: same_pass_def split: if_splits elim!: map_sum_Inr dest!: apply_entry_frame apply_managed_frame)
  then show "os_processed s' = os_processed s + 1"
    "op_entry_at (os_progress s) = None \<longrightarrow> op_entry_at (os_progress s') \<in> {None, Some (utc_iso (cc_close_timestamp c))}"
    "op_evaluation_cursor_open_at (os_progress s') = Some (utc_iso (cc_open_timestamp c))
       \<or> stop \<and> op_integrity_status (os_progress s') = INTEGRITY_FAILED"
    using rest by (auto simp: advance_cursor_def split: if_splits dest!: with_cursor_frame)
qed

lemma process_pending_entry:
  assumes "process_pending env g s items = Inr s'" "op_entry_at (os_progress s) = None" "op_entry_at (os_progress s') = Some t"
  shows "\<exists>c \<in> fst ` set items. t = utc_iso (cc_close_timestamp c)"
  using assms
proof (induction items arbitrary: s)
  case (Cons i items)
  obtain c h l where i: "i = (c, h, l)" by (cases i)
  obtain s1 stop where s1: "process_candle env g s (c, h, l) = Inr (s1, stop)"
    "(if stop then Inr s1 else process_pending env g s1 items) = Inr s'" using Cons.prems(1) by (auto simp: i)
  show ?case
  proof (cases "op_entry_at (os_progress s1)")
    case None
    then show ?thesis using s1(2) Cons.IH [of s1] Cons.prems(3) by (auto split: if_splits)
  next
    case (Some u)
    then have "u = utc_iso (cc_close_timestamp c)" using process_candle_frame(2) [OF s1(1)] Cons.prems(2) by auto
    moreover have "op_entry_at (os_progress s') = Some u"
      using s1(2) process_pending_keeps [of env g s1 items s'] Some by (auto simp: keeps_def split: if_splits)
    ultimately show ?thesis using Cons.prems(3) i by auto
  qed
qed simp

lemma process_pending_cursor:
  assumes "process_pending env g s items = Inr s'" "items \<noteq> []"
  shows "\<exists>k. 1 \<le> k \<and> k \<le> length items \<and> os_processed s' = os_processed s + k
    \<and> (op_evaluation_cursor_open_at (os_progress s') = Some (utc_iso (cc_open_timestamp (fst (items ! (k - 1)))))
       \<or> op_integrity_status (os_progress s') = INTEGRITY_FAILED)"
  using assms
proof (induction items arbitrary: s)
  case (Cons i items)
  obtain c h l where i: "i = (c, h, l)" by (cases i)
  obtain s1 stop where s1: "process_candle env g s (c, h, l) = Inr (s1, stop)"
    "(if stop then Inr s1 else process_pending env g s1 items) = Inr s'" using Cons.prems(1) by (auto simp: i)
  note f = process_candle_frame [OF s1(1)]
  show ?case
  proof (cases "stop \<or> items = []")
    case True
    then have "s' = s1" using s1(2) by (auto split: if_splits)
    then show ?thesis using f i by (intro exI [of _ 1]) auto
  next
    case False
    then obtain k where "1 \<le> k" "k \<le> length items" "os_processed s' = os_processed s1 + k"
      "op_evaluation_cursor_open_at (os_progress s') = Some (utc_iso (cc_open_timestamp (fst (items ! (k - 1)))))
       \<or> op_integrity_status (os_progress s') = INTEGRITY_FAILED"
      using s1(2) Cons.IH [of s1] by auto
    then show ?thesis using f(1) by (intro exI [of _ "Suc k"]) (auto simp: nth_Cons')
  qed
qed simp


section \<open>Candles that have not closed\<close>

lemma evaluate_window_prefix:
  assumes "closed_candles_as_of (cs @ ds) tf dec 0 True True False = Inr w" "length (win_candles w) \<le> length cs"
  shows "evaluate_window env r g tf rd ids p ws (cs @ ds) dec = evaluate_window env r g tf rd ids p ws cs dec"
proof -
  obtain w' where w': "closed_candles_as_of cs tf dec 0 True True False = Inr w'"
    "win_timeline w' = win_timeline w" "win_decision_timestamp w' = win_decision_timestamp w"
    using closed_window_prefix [OF assms] by blast
  have "with_applied_eligibility_cutoff p w' = with_applied_eligibility_cutoff p w"
    "start_prefix_pass_evidence q w' tf = start_prefix_pass_evidence q w tf" for q
    using w'(2,3) by (simp_all add: with_applied_eligibility_cutoff_def start_prefix_pass_evidence_def)
  note same = this
  show ?thesis unfolding evaluate_window_def assms(1) w'(1) on_value_error_def Let_def
    by (cases "candle_ranges (win_timeline w)") (simp_all add: lift_timestamp_def w'(2) same split: option.split)
qed


section \<open>Entries follow the confirmation\<close>

text \<open>A result without a candle keeps the entry of the row.\<close>

definition idle :: "outcome_progress \<Rightarrow> evaluation_result \<Rightarrow> bool" where
  "idle p x \<longleftrightarrow> (\<forall>e ws. x = Inr (e, ws) \<longrightarrow> le_processed_candles e = 0 \<longrightarrow> (\<exists>q. le_progress e = Some q \<and> op_entry_at q = op_entry_at p))"

lemma idle_trans: "idle q x \<Longrightarrow> op_entry_at q = op_entry_at p \<Longrightarrow> idle p x"
  by (simp add: idle_def)

lemma idle_write: "op_entry_at q = op_entry_at p \<Longrightarrow> idle p (write_and_return r q ev d ws)"
  unfolding idle_def using write_and_return_Inr by fastforce

lemma idle_fail: "idle p (fail_with env r p ev ws st d)"
  by (simp add: fail_with_def integrity_failure_def with_metadata_def idle_write)

lemma idle_error: "(\<And>v. x = Inr v \<Longrightarrow> idle p (k v)) \<Longrightarrow> idle p (on_value_error env r p ev ws st pre x k)"
  by (auto simp: on_value_error_def idle_fail idle_def [of p "Inl _"] split: sum.splits option.splits)

lemma idle_bind: "(\<And>v. x = Inr v \<Longrightarrow> idle p (k v)) \<Longrightarrow> idle p (ebind x k)"
  by (cases x) (auto simp: idle_def)

lemma run_pending_idle: "items \<noteq> [] \<Longrightarrow> idle p (run_pending env r g p ev ws items)"
  unfolding idle_def
  by (auto elim!: run_pending_cases dest!: process_pending_cursor)

lemma evaluate_pending_idle: "idle p (evaluate_pending env r g p ev ws fresh ts lo xo items)"
  unfolding evaluate_pending_def Let_def
  by (auto simp: idle_fail run_pending_idle intro!: idle_write split: list.split)

lemma select_pending_idle: "idle p (select_pending env r g tf p ev ws items)"
  unfolding select_pending_def Let_def
  by (intro idle_error) (auto intro!: idle_error idle_bind evaluate_pending_idle simp: idle_fail split: option.split)

lemma ensure_tracking_start_idle: "idle p (ensure_tracking_start env r g tf rd ids p ev ws items)"
  unfolding ensure_tracking_start_def
  by (auto intro!: idle_error idle_trans [OF select_pending_idle] simp: select_pending_idle with_tracking_start_def
      with_metadata_def split: option.split)

lemma adopt_causality_idle: "idle p (adopt_causality env r g tf rd ids p ev ws items)"
  unfolding adopt_causality_def
  by (auto intro!: idle_error idle_trans [OF ensure_tracking_start_idle] simp: ensure_tracking_start_idle
      with_adopted_causality_def with_tracking_start_def with_metadata_def Let_def)

lemma evaluate_window_idle: "idle p (evaluate_window env r g tf rd ids p ws cs dec)"
  unfolding evaluate_window_def Let_def
  by (rule idle_error, rule idle_trans [OF idle_error])
    (auto simp: adopt_causality_idle integrity_failure_def with_metadata_def with_applied_eligibility_cutoff_def intro!: idle_write idle_trans [OF adopt_causality_idle])

lemma evaluate_progress_idle: "idle p (evaluate_progress env r g rd ids p ws cs tf dec)"
proof -
  have "idle p (if cs = [] then fail_with env r q None ws' st d else evaluate_window env r g tf' rd ids q ws' cs dec)"
    if "bind_stop_policy p g dec (env_evaluated_at env) = Inr q" for q ws' st d tf'
  proof -
    from that have "op_entry_at q = op_entry_at p"
      by (auto simp: bind_stop_policy_def with_metadata_def elim!: map_sum_Inr split: option.splits json.splits)
    then show ?thesis by (auto intro: idle_trans idle_fail evaluate_window_idle)
  qed
  then show ?thesis unfolding evaluate_progress_def Let_def by (auto intro!: idle_error simp: idle_fail)
qed

text \<open>Where tracking starts.\<close>

lemma first_fully_post_boundary_open_after:
  assumes "first_fully_post_boundary_open b x d = Inr t" "0 < d"
  shows "b \<le> t"
proof -
  have "b - x < d * ((b - x) div d) + d" using assms(2) by (metis add.commute add_strict_left_mono mult_div_mod_eq pos_mod_bound)
  then show ?thesis using assms by (auto simp: first_fully_post_boundary_open_def utc_add_def split: if_splits)
qed

lemma entry_tracking_boundary_after:
  assumes "entry_tracking_boundary env r p rd ids = Inr (b, src)" "confirmed_at r = Some c" "c \<noteq> []" "py_text c \<noteq> NA"
    "normalize_utc_timestamp (AText c) = Inr tc"
  shows "tc \<le> b"
  using assms by (auto simp: entry_tracking_boundary_def prefix_value_error_def Let_def split: if_splits sum.splits option.splits)

lemma tracking_start_boundary_after:
  assumes "tracking_start_boundary env r p xs rd ids tf = Inr (start, b, src, el, dg)" "confirmed_at r = Some c" "c \<noteq> []"
    "py_text c \<noteq> NA" "normalize_utc_timestamp (AText c) = Inr tc"
  shows "tc \<le> start"
proof -
  obtain t s d where "entry_tracking_boundary env r p rd ids = Inr (t, s)" "timeframe_duration tf = Inr d"
    "first_fully_post_boundary_open t (cc_open_timestamp (hd xs)) d = Inr start"
    using assms(1) by (auto simp: tracking_start_boundary_def Let_def split: if_splits)
  moreover from this(2) have "0 < d" using timeframe_duration_minimum [of tf d] by (simp add: us_per_minute_def)
  ultimately show ?thesis using entry_tracking_boundary_after assms(2-5) first_fully_post_boundary_open_after order_trans by blast
qed


text \<open>A row before its first pass.\<close>

definition fresh_row :: "outcome_progress \<Rightarrow> bool" where
  "fresh_row p \<longleftrightarrow> op_entry_at p = None \<and> op_tracking_start_at p = None \<and> op_evaluation_cursor_open_at p = None
     \<and> op_evaluation_cursor_close_at p = None
     \<and> json_get (progress_metadata p) ''entry_causality_contract'' = JText ENTRY_CAUSALITY_CONTRACT"

lemma new_progress_fresh: "new_progress env r tf = Inr p \<Longrightarrow> fresh_row p"
  by (auto simp: new_progress_def construct_progress_def fresh_row_def progress_metadata_def json_get_def
      SetupLifecycleOutcomeProgress.defs outcome_progress.defs)

lemma bind_stop_frame:
  assumes "bind_stop_policy p g dec e = Inr b"
  shows "same_cursor p b" "op_tracking_start_at b = op_tracking_start_at p"
    "json_get (progress_metadata b) ''entry_causality_contract'' = json_get (progress_metadata p) ''entry_causality_contract''"
proof -
  have "\<exists>md. op_metadata p = Some (JObject md) \<and> (b = p \<or> (\<exists>v. b = with_metadata p (AList.update BREAKEVEN_KEY v md)))"
    using assms by (auto simp: bind_stop_policy_def elim!: map_sum_Inr split: option.splits json.splits)
  then obtain md where "op_metadata p = Some (JObject md)" "b = p \<or> (\<exists>v. b = with_metadata p (AList.update BREAKEVEN_KEY v md))"
    by blast
  then show "same_cursor p b" "op_tracking_start_at b = op_tracking_start_at p"
    "json_get (progress_metadata b) ''entry_causality_contract'' = json_get (progress_metadata p) ''entry_causality_contract''"
    by (auto simp: same_cursor_def with_metadata_def json_get_def progress_metadata_def BREAKEVEN_KEY_def update_conv')
qed

lemma candle_ranges_timeline: "candle_ranges xs = Inr items \<Longrightarrow> map fst items = xs"
  by (induction xs arbitrary: items) auto

lemma optional_time_iso: "0 \<le> t \<Longrightarrow> t < dt_max \<Longrightarrow> optional_time (Some (utc_iso t)) = Inr t"
  by (simp add: optional_time_def normalize_utc_iso)

lemma closed_window_closes:
  assumes "closed_candles_as_of cs tf dec m cont vol vals = Inr w" "x \<in> set (win_timeline w)"
  shows "cc_close_timestamp x \<le> win_decision_timestamp w"
proof -
  obtain t xs where "win_timeline w = takeWhile (\<lambda>x. cc_close_timestamp x \<le> t) xs" "win_decision_timestamp w = t"
    by (rule closed_candles_cases [OF assms(1)]) auto
  with assms(2) show ?thesis by (auto dest: set_takeWhileD)
qed


lemma tracking_start_range:
  assumes "tracking_start_boundary env r p xs rd ids tf = Inr (start, b, src, el, dg)"
  shows "0 \<le> start" "start < dt_max"
proof -
  obtain t s d where t: "entry_tracking_boundary env r p rd ids = Inr (t, s)" "\<not> t < cc_open_timestamp (hd xs)"
    "first_fully_post_boundary_open t (cc_open_timestamp (hd xs)) d = Inr start"
    using assms(1) by (auto simp: tracking_start_boundary_def Let_def split: if_splits)
  obtain v where "normalize_utc_timestamp (AText v) = Inr t" using t(1)
    by (auto simp: entry_tracking_boundary_def prefix_value_error_def Let_def split: if_splits sum.splits option.splits)
  from normalize_utc_range [OF this] have "0 \<le> t" "t < dt_max" by (simp_all add: valid_moment_def)
  then have "0 \<le> start \<and> start < dt_max" using t(2,3)
    by (auto simp: first_fully_post_boundary_open_def utc_add_def split: if_splits)
  then show "0 \<le> start" "start < dt_max" by simp_all
qed

text \<open>The first pass of a fresh row enters on a candle after the confirmation.\<close>

lemma fresh_row_entry:
  assumes run: "evaluate_progress env r g rd ids p ws cs tf dec = Inr (e, ws')" and p: "fresh_row p"
    and c: "confirmed_at r = Some c" "c \<noteq> []" "py_text c \<noteq> NA" "normalize_utc_timestamp (AText c) = Inr tc"
    and q: "le_progress e = Some q" "op_entry_at q = Some t"
  shows "\<exists>w x. closed_candles_as_of cs (py_lower (py_text tf)) dec 0 True True False = Inr w \<and> x \<in> set (win_timeline w)
    \<and> tc \<le> cc_open_timestamp x \<and> t = utc_iso (cc_close_timestamp x)"
proof -
  have n: "0 < le_processed_candles e"
    using evaluate_progress_idle [of p env r g rd ids ws cs tf dec] run p q by (fastforce simp: idle_def fresh_row_def)
  obtain b w items where b: "bind_stop_policy p g dec (env_evaluated_at env) = Inr b"
    and w: "closed_candles_as_of cs (py_lower (py_text tf)) dec 0 True True False = Inr w" "candle_ranges (win_timeline w) = Inr items"
    and a: "adopt_causality env r g (py_lower (py_text tf)) rd ids (with_applied_eligibility_cutoff b w)
       (start_prefix_pass_evidence (with_applied_eligibility_cutoff b w) w (py_lower (py_text tf)))
       (ws @ [UpsertProgress b]) items = Inr (e, ws')"
    by (rule evaluate_progress_ran [OF run n])
  define b' where "b' = with_applied_eligibility_cutoff b w"
  have fresh: "fresh_row b'" using p bind_stop_frame [OF b]
    by (simp add: b'_def fresh_row_def with_applied_eligibility_cutoff_def same_cursor_def progress_metadata_def)
  obtain s1 where s1: "ensure_tracking_start env r g (py_lower (py_text tf)) rd ids b'
       (start_prefix_pass_evidence b' w (py_lower (py_text tf))) (ws @ [UpsertProgress b]) items = Inr (e, ws')"
    using a fresh by (auto simp: b'_def [symmetric] fresh_row_def elim!: adopt_causality_ran [OF _ n])
  obtain u start bd src el dg where u: "select_pending env r g (py_lower (py_text tf)) u
       (start_prefix_pass_evidence b' w (py_lower (py_text tf))) (ws @ [UpsertProgress b]) items = Inr (e, ws')"
    and start: "tracking_start_boundary env r b' (map fst items) rd ids (py_lower (py_text tf)) = Inr (start, bd, src, el, dg)"
      "u = with_tracking_start b' start bd src el dg"
    by (rule ensure_tracking_start_ran [OF s1 n]) (use fresh in \<open>auto simp: fresh_row_def\<close>)
  obtain xo x h l rest ev where x: "expected_open u (py_lower (py_text tf)) xo"
      "filter (\<lambda>(c, _). xo \<le> cc_open_timestamp c) items = (x, h, l) # rest"
      "run_pending env r g u ev (ws @ [UpsertProgress b]) ((x, h, l) # rest) = Inr (e, ws')"
    by (rule select_pending_ran [OF u n]) blast
  have "xo = start" using x(1) start(2) fresh optional_time_iso [OF tracking_start_range [OF start(1)]]
    by (simp add: expected_open_def with_tracking_start_def with_metadata_def fresh_row_def)
  then have tc: "tc \<le> xo" using tracking_start_boundary_after [OF start(1) c] by simp
  obtain s q' where s: "process_pending env g (pass_start r u ev) ((x, h, l) # rest) = Inr s"
    "write_progress (os_progress s) (Some (os_evidence s)) (Some (loop_disposition s)) = Inr q'" "le_progress e = Some q'"
    by (rule run_pending_cases [OF x(3)])
  have "op_entry_at (os_progress s) = Some t" using write_progress_frame [OF s(2)] s(3) q by auto
  then obtain y where y: "y \<in> fst ` set ((x, h, l) # rest)" "t = utc_iso (cc_close_timestamp y)"
    using process_pending_entry [OF s(1)] fresh start(2)
    by (auto simp: pass_start_def with_tracking_start_def with_metadata_def fresh_row_def)
  then have "y \<in> fst ` set items" "xo \<le> cc_open_timestamp y" unfolding x(2) [symmetric] by auto
  moreover from this(1) have "y \<in> set (win_timeline w)" using candle_ranges_timeline [OF w(2)] by (metis set_map)
  ultimately show ?thesis using y(2) tc w(1) order_trans by blast
qed


lemma evaluate_unseen:
  assumes "evaluate_closed_candle_outcomes env rd r cs tf dec = Inr (e, ws)"
    and "first_progress rd (compatible_plan_identities (env_sha256 env) r) = None"
    and ran: "0 < le_processed_candles e \<or> (\<exists>q t. le_progress e = Some q \<and> op_entry_at q = Some t)"
  obtains env' g p where "fresh_row p"
    "evaluate_progress env' r g rd (compatible_plan_identities (env_sha256 env) r) p [] cs tf dec = Inr (e, ws)"
proof -
  define env' where "env' = env\<lparr>env_plan_identity := hd (compatible_plan_identities (env_sha256 env) r)\<rparr>"
  have t: "op_entry_at u = None" if u: "terminal_progress_for_record env' r None tf = Inr u" for u
  proof -
    obtain p where p: "new_progress env' r tf = Inr p" "op_entry_at u = op_entry_at p"
      using u unfolding terminal_progress_for_record_def by (cases "new_progress env' r tf") (auto simp: Let_def)
    then show ?thesis using new_progress_fresh [OF p(1)] by (simp add: fresh_row_def)
  qed
  have idle: "False" if "evaluation_done r p ws' = Inr (e, ws)" "\<And>u. p = Some u \<Longrightarrow> op_entry_at u = None" for p ws'
    using that ran by (auto simp: evaluation_done_def)
  have current: "rd_epoch_current rd"
  proof (rule ccontr)
    assume "\<not> rd_epoch_current rd"
    then show False using assms(1,2) idle [of None] by (auto simp: evaluate_closed_candle_outcomes_def Let_def)
  qed
  then obtain g where g: "stored_plan_geometry r = Inr g"
    using assms(1,2) idle [of None] by (cases "stored_plan_geometry r") (auto simp: evaluate_closed_candle_outcomes_def Let_def)
  have run: "(if current_state r \<in> set TERMINAL_OUTCOME_STATES
       then ebind (terminal_progress_for_record env' r None tf) (\<lambda>p. evaluation_done r (Some p) ([] @ [UpsertProgress p]))
       else if current_state r \<notin> set OUTCOME_ELIGIBLE_STATES then evaluation_done r None []
       else ebind (new_progress env' r tf) (\<lambda>p.
         evaluate_progress env' r g rd (compatible_plan_identities (env_sha256 env) r) p [] cs tf dec)) = Inr (e, ws)"
    using assms(1) unfolding evaluate_closed_candle_outcomes_def Let_def assms(2) env'_def
    by (simp only: current g not_True_eq_False if_False option.map option.case sum.case)
  show ?thesis
  proof (cases "current_state r \<in> set TERMINAL_OUTCOME_STATES \<or> current_state r \<notin> set OUTCOME_ELIGIBLE_STATES")
    case True
    then show ?thesis using run idle t by (auto split: if_splits)
  next
    case False
    with run obtain p where p: "new_progress env' r tf = Inr p"
      "evaluate_progress env' r g rd (compatible_plan_identities (env_sha256 env) r) p [] cs tf dec = Inr (e, ws)" by auto
    show ?thesis by (rule that [OF new_progress_fresh [OF p(1)] p(2)])
  qed
qed

lemma evaluate_stored_ran:
  assumes "evaluate_closed_candle_outcomes env rd r cs tf dec = Inr (e, ws)" "0 < le_processed_candles e"
    and "first_progress rd (compatible_plan_identities (env_sha256 env) r) = Some p"
  obtains env' g u ws' where "evaluate_progress env' r g rd (compatible_plan_identities (env_sha256 env) r) u ws' cs tf dec = Inr (e, ws)"
    "same_cursor p u" "op_tracking_start_at u = op_tracking_start_at p"
proof -
  let ?u = "bd_progress (bind_progress_to_proven_plan_version (env_sha256 env) p r)"
  have current: "rd_epoch_current rd"
  proof (rule ccontr)
    assume "\<not> rd_epoch_current rd"
    then show False using assms(1,2) by (auto simp: evaluate_closed_candle_outcomes_def Let_def evaluation_done_def)
  qed
  obtain env' g ws' where run: "evaluate_progress env' r g rd (compatible_plan_identities (env_sha256 env) r) ?u ws' cs tf dec = Inr (e, ws)"
    using assms(1,2) unfolding evaluate_stored [OF assms(3) current]
    by (auto simp: evaluation_done_def split: sum.splits if_splits)
  have "same_cursor p ?u \<and> op_tracking_start_at ?u = op_tracking_start_at p"
    unfolding bind_progress_to_proven_plan_version_def Let_def
    by (auto simp: same_cursor_def with_binding_marker_def with_metadata_def split: option.splits)
  then show ?thesis using that [OF run] by blast
qed

text \<open>
  C7. No entry before the confirmation. When the first evaluation of a plan reports an entry, the entry time is the close of a
  closed candle of the window that opened at or after the confirmation: a candle that was already running when the setup was
  confirmed, and any earlier one, cannot fill the plan.
\<close>

theorem first_entry_after_confirmation:
  assumes "evaluate_closed_candle_outcomes env rd r cs tf dec = Inr (e, ws)"
    and "first_progress rd (compatible_plan_identities (env_sha256 env) r) = None"
    and "confirmed_at r = Some c" "c \<noteq> []" "py_text c \<noteq> NA" "normalize_utc_timestamp (AText c) = Inr tc"
    and "le_progress e = Some q" "op_entry_at q = Some t"
  shows "\<exists>w x. closed_candles_as_of cs (py_lower (py_text tf)) dec 0 True True False = Inr w \<and> x \<in> set (win_timeline w)
    \<and> tc \<le> cc_open_timestamp x \<and> cc_close_timestamp x \<le> win_decision_timestamp w \<and> t = utc_iso (cc_close_timestamp x)"
proof -
  obtain env' g p where p: "fresh_row p"
    "evaluate_progress env' r g rd (compatible_plan_identities (env_sha256 env) r) p [] cs tf dec = Inr (e, ws)"
    by (rule evaluate_unseen [OF assms(1,2)]) (use assms(7,8) in auto)
  then show ?thesis using fresh_row_entry [OF p(2,1) assms(3-8)] closed_window_closes by blast
qed

section \<open>Every candle counts once\<close>

lemma follows_nth:
  "successively (follows True d) xs \<Longrightarrow> i < length xs \<Longrightarrow> cc_open_timestamp (xs ! i) = cc_open_timestamp (xs ! 0) + int i * d"
proof (induction i)
  case (Suc i)
  then have "follows True d (xs ! i) (xs ! Suc i)" by (simp add: successively_conv_nth)
  then show ?case using Suc by (simp add: follows_def algebra_simps)
qed simp

lemma follows_later: "successively (follows True d) (x # xs) \<Longrightarrow> 0 < d \<Longrightarrow> y \<in> set xs \<Longrightarrow> cc_open_timestamp x < cc_open_timestamp y"
proof (induction xs arbitrary: x)
  case (Cons z zs)
  then have "follows True d x z" "y = z \<or> cc_open_timestamp z < cc_open_timestamp y" by auto
  with Cons.prems(2) have "cc_open_timestamp x < cc_open_timestamp z" "y = z \<or> cc_open_timestamp z < cc_open_timestamp y"
    by (auto simp: follows_def)
  then show ?case by auto
qed simp

lemma follows_filter:
  "successively (follows True d) xs \<Longrightarrow> 0 < d \<Longrightarrow> successively (follows True d) (filter (\<lambda>x. a \<le> cc_open_timestamp x) xs)"
proof (induction xs)
  case (Cons x xs)
  show ?case
  proof (cases "a \<le> cc_open_timestamp x")
    case True
    then have "filter (\<lambda>x. a \<le> cc_open_timestamp x) xs = xs" using follows_later [OF Cons.prems] by (fastforce simp: filter_id_conv)
    then show ?thesis using Cons.prems(1) True by simp
  next
    case False
    then show ?thesis using Cons by (cases xs) auto
  qed
qed simp

lemma window_follows:
  assumes "closed_candles_as_of cs tf dec m True vol vals = Inr w"
  obtains d where "timeframe_duration tf = Inr d" "0 < d" "successively (follows True d) (win_timeline w)"
proof -
  obtain d xs t where d: "timeframe_duration tf = Inr d" "1000 < d" "successively (follows True d) xs"
    "win_timeline w = takeWhile (\<lambda>x. cc_close_timestamp x \<le> t) xs"
    by (rule closed_candles_cases [OF assms]) auto
  have "successively (follows True d) (win_timeline w @ dropWhile (\<lambda>x. cc_close_timestamp x \<le> t) xs)" using d(3,4) by simp
  then have "successively (follows True d) (win_timeline w)" by (simp only: successively_append_iff)
  with d(1,2) that show ?thesis by simp
qed

lemma pending_opens:
  assumes "closed_candles_as_of cs tf dec m True vol vals = Inr w" "candle_ranges (win_timeline w) = Inr items"
    and "timeframe_duration tf = Inr d" "i < length (filter (\<lambda>(c, _). a \<le> cc_open_timestamp c) items)"
  shows "cc_open_timestamp (fst (filter (\<lambda>(c, _). a \<le> cc_open_timestamp c) items ! i))
    = cc_open_timestamp (fst (hd (filter (\<lambda>(c, _). a \<le> cc_open_timestamp c) items))) + int i * d"
proof -
  let ?ys = "filter (\<lambda>(c, _). a \<le> cc_open_timestamp c) items"
  have "map fst ?ys = filter (\<lambda>x. a \<le> cc_open_timestamp x) (win_timeline w)"
    unfolding candle_ranges_timeline [OF assms(2), symmetric] filter_map by (simp add: comp_def split_def)
  moreover have "successively (follows True d) (win_timeline w)" "0 < d" by (rule window_follows [OF assms(1)]; use assms(3) in simp)+
  ultimately have "successively (follows True d) (map fst ?ys)" using follows_filter by metis
  from follows_nth [OF this, of i] have "cc_open_timestamp (map fst ?ys ! i) = cc_open_timestamp (map fst ?ys ! 0) + int i * d"
    using assms(4) by simp
  moreover have "?ys \<noteq> []" using assms(4) by (auto simp del: filter.simps)
  ultimately show ?thesis using assms(4) by (simp add: hd_conv_nth)
qed


text \<open>The cursor after a pass of a stored row.\<close>

lemma pass_cursor:
  assumes run: "evaluate_progress env r g rd ids p ws cs tf dec = Inr (e, ws')" and n: "0 < le_processed_candles e"
    and p: "op_entry_at p \<noteq> None" "op_tracking_start_at p = Some s" "optional_time (Some s) = Inr ts"
      "op_evaluation_cursor_open_at p = Some cur" "optional_time (Some cur) = Inr t0" "ts \<le> t0"
    and q: "le_progress e = Some q" "op_integrity_status q \<noteq> INTEGRITY_FAILED"
  shows "\<exists>d. timeframe_duration (py_lower (py_text tf)) = Inr d \<and> 0 < d
    \<and> op_evaluation_cursor_open_at q = Some (utc_iso (t0 + int (le_processed_candles e) * d))"
proof -
  obtain b w items where b: "bind_stop_policy p g dec (env_evaluated_at env) = Inr b"
    and w: "closed_candles_as_of cs (py_lower (py_text tf)) dec 0 True True False = Inr w" "candle_ranges (win_timeline w) = Inr items"
    and a: "adopt_causality env r g (py_lower (py_text tf)) rd ids (with_applied_eligibility_cutoff b w)
       (start_prefix_pass_evidence (with_applied_eligibility_cutoff b w) w (py_lower (py_text tf)))
       (ws @ [UpsertProgress b]) items = Inr (e, ws')"
    by (rule evaluate_progress_ran [OF run n])
  define u where "u = with_applied_eligibility_cutoff b w"
  have u: "op_entry_at u \<noteq> None" "op_tracking_start_at u = Some s" "op_evaluation_cursor_open_at u = Some cur"
    using p bind_stop_frame [OF b] by (simp_all add: u_def with_applied_eligibility_cutoff_def same_cursor_def)
  obtain ev where "ensure_tracking_start env r g (py_lower (py_text tf)) rd ids u ev (ws @ [UpsertProgress b]) items = Inr (e, ws')"
    by (rule adopt_causality_ran [OF a n]) (use u(1) in \<open>simp add: u_def\<close>)
  then have "select_pending env r g (py_lower (py_text tf)) u ev (ws @ [UpsertProgress b]) items = Inr (e, ws')"
    by (rule ensure_tracking_start_ran [OF _ n]) (use u(2) in simp)
  then obtain xo x h l rest ev' where x: "expected_open u (py_lower (py_text tf)) xo" "cc_open_timestamp x = xo"
      "filter (\<lambda>(c, _). xo \<le> cc_open_timestamp c) items = (x, h, l) # rest"
      "run_pending env r g u ev' (ws @ [UpsertProgress b]) ((x, h, l) # rest) = Inr (e, ws')"
    by (rule select_pending_ran [OF _ n]) blast
  obtain d where d: "timeframe_duration (py_lower (py_text tf)) = Inr d" "0 < d" by (rule window_follows [OF w(1)])
  have xo: "xo = t0 + d" using x(1) u p d by (simp add: expected_open_def)
  obtain st q' where st: "process_pending env g (pass_start r u ev') ((x, h, l) # rest) = Inr st"
    "write_progress (os_progress st) (Some (os_evidence st)) (Some (loop_disposition st)) = Inr q'" "le_progress e = Some q'"
    "le_processed_candles e = os_processed st"
    by (rule run_pending_cases [OF x(4)])
  obtain k where k: "1 \<le> k" "k \<le> length ((x, h, l) # rest)" "os_processed st = k"
    "op_evaluation_cursor_open_at (os_progress st) = Some (utc_iso (cc_open_timestamp (fst (((x, h, l) # rest) ! (k - 1)))))
       \<or> op_integrity_status (os_progress st) = INTEGRITY_FAILED"
    using process_pending_cursor [OF st(1)] by (auto simp: pass_start_def)
  have "cc_open_timestamp (fst (((x, h, l) # rest) ! (k - 1))) = xo + int (k - 1) * d"
    using pending_opens [OF w d(1), of "k - 1" xo] k(1,2) x(2) unfolding x(3) by simp
  also have "\<dots> = t0 + int k * d" using k(1) by (simp add: xo algebra_simps of_nat_diff)
  finally show ?thesis using k(3,4) d st(3,4) q write_progress_frame [OF st(2)] by auto
qed

text \<open>
  C16. Every candle counts once. A pass over a filled plan that evaluates \<open>k\<close> candles and finds nothing wrong moves the cursor by
  exactly \<open>k\<close> candle durations: it starts with the candle after the cursor, skips none and sees none twice, however much of the
  history it is given.
\<close>

theorem cursor_counts_candles:
  assumes "evaluate_closed_candle_outcomes env rd r cs tf dec = Inr (e, ws)" "0 < le_processed_candles e"
    and "first_progress rd (compatible_plan_identities (env_sha256 env) r) = Some p"
    and "op_entry_at p \<noteq> None" "op_tracking_start_at p = Some s" "optional_time (Some s) = Inr ts"
      "op_evaluation_cursor_open_at p = Some cur" "optional_time (Some cur) = Inr t0" "ts \<le> t0"
    and "le_progress e = Some q" "op_integrity_status q \<noteq> INTEGRITY_FAILED"
  shows "\<exists>d. timeframe_duration (py_lower (py_text tf)) = Inr d \<and> 0 < d
    \<and> op_evaluation_cursor_open_at q = Some (utc_iso (t0 + int (le_processed_candles e) * d))"
proof -
  obtain env' g u ws' where run: "evaluate_progress env' r g rd (compatible_plan_identities (env_sha256 env) r) u ws' cs tf dec = Inr (e, ws)"
    and u: "same_cursor p u" "op_tracking_start_at u = op_tracking_start_at p"
    by (rule evaluate_stored_ran [OF assms(1-3)])
  show ?thesis using pass_cursor [OF run assms(2) _ _ assms(6) _ assms(8,9,10,11)] u assms(4,5,7) by (simp add: same_cursor_def)
qed

end
