(* ===== verification/Prefix_Safety.thy ===== *)
theory Prefix_Safety
  imports Outcome_Causality
begin

text \<open>
  The evidence of a pass: what is stored is what a reader diagnoses, a claim of exhaustion is true of the counts and the cursor it
  is stored with, and no pass over candles loses its evidence.
\<close>

section \<open>Checks\<close>

lemma all_checks_iff: "all_checks cs = Inr True \<longleftrightarrow> list_all (\<lambda>c. c = Inr True) cs"
proof (induction cs)
  case (Cons c cs)
  then show ?case by (cases c) auto
qed simp

lemma text_or_none_Some: "text_or_none s = Some t \<Longrightarrow> t = py_strip s \<and> t \<noteq> []"
  by (auto simp: text_or_none_def Let_def split: if_splits)

lemma optional_text_JText [simp]: "optional_text (JText s) = text_or_none s"
  by (simp add: optional_text_def)

lemma stored_envelope:
  assumes "bind_prefix_disposition p ev (Some d) = Inr q" "op_prefix_evidence q = Some v"
  shows "v = envelope p (ev\<lparr>pe_disposition := Some d\<rparr>) d" "structurally_valid_envelope v = Inr True"
  using assms by (auto simp: bind_prefix_disposition_def build_prefix_evidence_payload_def serialize_prefix_evidence_def Let_def
      split: if_splits)

text \<open>
  C18. Stored evidence reads back. The diagnosis of the evidence that a pass stores, made for the owner, the cutoff and the timeframe
  of the pass, is a known one: no conflict, and the disposition and the claim of exhaustion the pass had.
\<close>

theorem stored_evidence_roundtrip:
  assumes "bind_prefix_disposition p ev (Some d) = Inr q" "op_prefix_evidence q = Some v"
  shows "diagnose_prefix_evidence (Some (StoredJson v)) (op_lifecycle_id q) (op_plan_identity q) (Some (pe_applied_cutoff ev))
      (Some (pe_execution_timeframe ev)) =
    Inr \<lparr>pd_status = PES_known, pd_payload = Some v, pd_conflicts = [], pd_disposition = JText (disposition_value d),
      pd_pending_suffix_exhausted = pending_suffix_exhausted d (pe_pending ev \<noteq> None) (map_option length (pe_pending ev))
        (length (pe_completed ev))\<rparr>"
proof -
  note v = stored_envelope [OF assms]
  have q: "op_lifecycle_id q = op_lifecycle_id p" "op_plan_identity q = op_plan_identity p"
    using assms(1) by (auto simp: bind_prefix_disposition_def Let_def)
  have "owner_conflicts v (op_lifecycle_id q) (op_plan_identity q) (Some (pe_applied_cutoff ev)) (Some (pe_execution_timeframe ev)) = []"
    unfolding v(1) q by (auto simp: owner_conflicts_def envelope_def dest: text_or_none_Some split: option.splits)
  moreover have "is_object v" "vget v ''disposition'' = JText (disposition_value d)"
    "vget v ''pending_suffix_exhausted'' = pending_suffix_exhausted d (pe_pending ev \<noteq> None) (map_option length (pe_pending ev))
        (length (pe_completed ev))" by (simp_all add: v(1) envelope_def)
  ultimately show ?thesis using v(2) by (simp add: diagnose_prefix_evidence_def Let_def)
qed


lemma disposition_of_text: "disposition_of v = Some d \<Longrightarrow> v = JText (disposition_value d)"
  by (auto simp: disposition_of_def find_Some_iff)

lemma non_negative_int_iff: "non_negative_int v \<longleftrightarrow> (\<exists>n \<ge> 0. v = JNumber n)"
  by (cases v) auto

lemma exhausted_disposition:
  assumes "disposition_consistent d supplied established pending completed (JBool True)"
  shows "d \<in> {NO_NEW_PENDING_CANDLES, PENDING_SUFFIX_EXHAUSTED, POLICY_TERMINAL} \<and> established \<and> pending = JNumber completed"
  using assms by (cases d) (auto simp: non_negative_int_iff)

lemma valid_envelope_exhausted:
  assumes "structurally_valid_envelope v = Inr True" "vget v ''pending_suffix_exhausted'' = JBool True"
  shows "\<exists>n. vget (vget v ''completed_work'') ''count'' = JNumber n \<and> vget (vget v ''pending_suffix'') ''count'' = JNumber n \<and> 0 \<le> n
    \<and> vget (vget v ''pending_suffix'') ''established'' = JBool True
    \<and> vget v ''disposition'' \<in> JText ` disposition_value ` {NO_NEW_PENDING_CANDLES, PENDING_SUFFIX_EXHAUSTED, POLICY_TERMINAL}
    \<and> (if n = 0 then cursor_pairs_equivalent (vget v ''cursor_before'') (vget v ''cursor_after'') = Inr True
       else cursor_matches_completed (vget v ''cursor_after'') (vget v ''completed_work'') = Inr True)"
proof -
  have "semantically_consistent_envelope v = Inr True"
    using assms(1) unfolding structurally_valid_envelope_def Let_def all_checks_iff list.pred_inject by blast
  then have s: "non_negative_int (vget (vget v ''completed_work'') ''count'')"
    "(if json_count (vget (vget v ''completed_work'') ''count'') = 0
      then cursor_pairs_equivalent (vget v ''cursor_before'') (vget v ''cursor_after'')
      else cursor_matches_completed (vget v ''cursor_after'') (vget v ''completed_work'')) = Inr True"
    "case disposition_of (vget v ''disposition'') of None \<Rightarrow> False
     | Some d \<Rightarrow> disposition_consistent d (json_count (vget (vget v ''supplied_window'') ''count''))
         (vget (vget v ''pending_suffix'') ''established'' = JBool True) (vget (vget v ''pending_suffix'') ''count'')
         (json_count (vget (vget v ''completed_work'') ''count'')) (vget v ''pending_suffix_exhausted'')"
    unfolding semantically_consistent_envelope_def Let_def all_checks_iff list.pred_inject by blast+
  obtain n where n: "vget (vget v ''completed_work'') ''count'' = JNumber n" "0 \<le> n" using s(1) by (auto simp: non_negative_int_iff)
  obtain d where d: "disposition_of (vget v ''disposition'') = Some d"
    "disposition_consistent d (json_count (vget (vget v ''supplied_window'') ''count''))
         (vget (vget v ''pending_suffix'') ''established'' = JBool True) (vget (vget v ''pending_suffix'') ''count'') n (JBool True)"
    using s(3) assms(2) n(1) by (auto split: option.splits)
  show ?thesis using exhausted_disposition [OF d(2)] disposition_of_text [OF d(1)] s(2) n by auto
qed

text \<open>
  C11. A claim of exhaustion is sound. Whatever text is stored, when its diagnosis says that the pending candles are exhausted, the
  evidence is well formed and belongs to this owner and plan, as many candles were completed as were pending, and the cursor is
  where that leaves it: on the last completed candle, or, when nothing was pending, where it was before the pass. Aborted, blocked
  and waiting passes make no such claim.
\<close>

theorem exhaustion_claim_is_sound:
  assumes "diagnose_prefix_evidence raw owner plan cutoff tf = Inr g" "pd_pending_suffix_exhausted g = JBool True"
  shows "\<exists>v n. raw = Some (StoredJson v) \<and> pd_status g = PES_known \<and> vget v ''lifecycle_id'' = JText owner
    \<and> vget v ''plan_identity'' = JText plan \<and> 0 \<le> n
    \<and> vget (vget v ''completed_work'') ''count'' = JNumber n \<and> vget (vget v ''pending_suffix'') ''count'' = JNumber n
    \<and> vget v ''disposition'' \<in> JText ` disposition_value ` {NO_NEW_PENDING_CANDLES, PENDING_SUFFIX_EXHAUSTED, POLICY_TERMINAL}
    \<and> (if n = 0 then cursor_pairs_equivalent (vget v ''cursor_before'') (vget v ''cursor_after'') = Inr True
       else cursor_matches_completed (vget v ''cursor_after'') (vget v ''completed_work'') = Inr True)"
proof -
  obtain v where v: "raw = Some (StoredJson v)" "pd_status g = PES_known" "structurally_valid_envelope v = Inr True"
    "vget v ''pending_suffix_exhausted'' = JBool True" "owner_conflicts v owner plan cutoff tf = []"
    using assms by (auto simp: diagnose_prefix_evidence_def unclaimed_def Let_def split: option.splits stored_json.splits if_splits)
  then have "vget v ''lifecycle_id'' = JText owner" "vget v ''plan_identity'' = JText plan"
    by (auto simp: owner_conflicts_def split: if_splits)
  with valid_envelope_exhausted [OF v(3,4)] v(1,2) show ?thesis by blast
qed


section \<open>The evidence of a pass\<close>

definition same_owner :: "outcome_progress \<Rightarrow> outcome_progress \<Rightarrow> bool" where
  "same_owner p q \<longleftrightarrow> op_lifecycle_id q = op_lifecycle_id p \<and> op_plan_identity q = op_plan_identity p
     \<and> op_tracking_start_at q = op_tracking_start_at p"

definition same_cursors :: "outcome_progress \<Rightarrow> outcome_progress \<Rightarrow> bool" where
  "same_cursors p q \<longleftrightarrow> op_evaluation_cursor_open_at q = op_evaluation_cursor_open_at p
     \<and> op_evaluation_cursor_close_at q = op_evaluation_cursor_close_at p"

definition untouched :: "outcome_state \<Rightarrow> outcome_state \<Rightarrow> bool" where
  "untouched s s' \<longleftrightarrow> same_owner (os_progress s) (os_progress s') \<and> same_cursors (os_progress s) (os_progress s')
     \<and> os_evidence s' = os_evidence s"

lemmas untouched_defs = untouched_def same_owner_def same_cursors_def

lemma apply_stop_untouched: "apply_stop env g c why be s = Inr s' \<Longrightarrow> untouched s s' \<and> os_aborted s' = os_aborted s"
  by (auto simp: apply_stop_def record_stop_def Let_def untouched_defs os_add_def)

lemma apply_targets_untouched: "apply_targets env c ts s = Inr s' \<Longrightarrow> untouched s s' \<and> os_aborted s' = os_aborted s"
proof (induction ts arbitrary: s)
  case (Cons x ts)
  obtain n v where x: "x = (n, v)" by (cases x)
  obtain ws where "apply_targets env c ts ((os_add s [] ws)
      \<lparr>os_progress := set_target_at n (utc_iso (cc_close_timestamp c)) (os_progress s)\<rparr>) = Inr s'"
    using Cons.prems by (auto simp: x simp del: set_target_at.simps)
  from Cons.IH [OF this] show ?case by (simp add: untouched_defs os_add_def)
qed (simp add: untouched_defs)

lemma apply_managed_untouched: "apply_managed env g c h l s = Inr s' \<Longrightarrow> untouched s s' \<and> os_aborted s' = os_aborted s"
  by (auto simp: apply_managed_def Let_def untouched_defs os_add_def split: if_splits
      dest!: apply_stop_untouched apply_targets_untouched)

lemma apply_entry_untouched:
  "apply_entry env g c h l s = Inr (s', stop) \<Longrightarrow> untouched s s' \<and> os_aborted s' = (os_aborted s \<or> stop)"
  unfolding apply_entry_def Let_def
  by (auto simp: os_add_def with_entry_evidence_def integrity_failure_def with_metadata_def untouched_defs split: if_splits
      dest!: apply_stop_untouched)

lemma process_candle_evidence:
  assumes "process_candle env g s (c, h, l) = Inr (s', stop)"
  obtains (aborted) "stop" "os_aborted s'" "untouched s s'"
  | (completed) "os_aborted s' = os_aborted s" "os_evidence s' = record_completed (os_evidence s) c"
      "same_owner (os_progress s) (os_progress s')"
      "op_evaluation_cursor_open_at (os_progress s') = Some (utc_iso (cc_open_timestamp c))"
      "op_evaluation_cursor_close_at (os_progress s') = Some (utc_iso (cc_close_timestamp c))"
      "op_integrity_status (os_progress s') = INTEGRITY_VERIFIED" "stop \<longleftrightarrow> op_terminal_outcome (os_progress s') \<noteq> NA"
proof -
  let ?s0 = "s\<lparr>os_processed := os_processed s + 1\<rparr>"
  obtain s1 stop1 where act: "(if op_entry_at (os_progress s) = None
             then (if entry_touched h l g then apply_entry env g c h l ?s0 else Inr (?s0, False))
             else map_sum id (\<lambda>s'. (s', False)) (apply_managed env g c h l ?s0)) = Inr (s1, stop1)"
    and rest: "(if stop1 then Inr (s1, True)
      else ebind (advance_cursor env c s1) (\<lambda>s2. Inr (s2, op_terminal_outcome (os_progress s2) \<noteq> NA))) = Inr (s', stop)"
    using assms unfolding process_candle_def Let_def prod.case ebind_Inr_iff by auto
  have s1: "untouched ?s0 s1 \<and> os_aborted s1 = (os_aborted s \<or> stop1)"
    using act by (auto simp: untouched_defs split: if_splits elim!: map_sum_Inr dest!: apply_entry_untouched apply_managed_untouched)
  show ?thesis
  proof (cases stop1)
    case True
    then show ?thesis using rest s1 by (intro aborted) (auto simp: untouched_defs)
  next
    case False
    then obtain q where "with_cursor (os_progress s1) c (env_evaluated_at env) 1 = Inr q" and s': "s' = s1\<lparr>os_progress := q,
        os_evidence := record_completed (os_evidence s1) c\<rparr>" "stop \<longleftrightarrow> op_terminal_outcome q \<noteq> NA"
      using rest by (auto simp: advance_cursor_def)
    then have "same_owner (os_progress s1) q \<and> op_evaluation_cursor_open_at q = Some (utc_iso (cc_open_timestamp c))
        \<and> op_evaluation_cursor_close_at q = Some (utc_iso (cc_close_timestamp c)) \<and> op_integrity_status q = INTEGRITY_VERIFIED"
      by (auto simp: with_cursor_def Let_def with_metadata_def same_owner_def)
    then show ?thesis using s1 s' False by (intro completed) (auto simp: untouched_defs)
  qed
qed

text \<open>A pass completes a prefix of its candles and leaves the cursor on the last of them.\<close>

definition pass_end :: "outcome_state \<Rightarrow> CausalCandle list \<Rightarrow> nat \<Rightarrow> outcome_state \<Rightarrow> bool" where
  "pass_end s cs k s' \<longleftrightarrow> k \<le> length cs \<and> same_owner (os_progress s) (os_progress s')
     \<and> os_evidence s' = (os_evidence s)\<lparr>pe_completed := pe_completed (os_evidence s) @ take k cs\<rparr>
     \<and> (if k = 0 then same_cursors (os_progress s) (os_progress s')
        else op_evaluation_cursor_open_at (os_progress s') = Some (utc_iso (cc_open_timestamp (cs ! (k - 1))))
          \<and> op_evaluation_cursor_close_at (os_progress s') = Some (utc_iso (cc_close_timestamp (cs ! (k - 1)))))
     \<and> (if os_aborted s' then k < length cs
        else (if cs = [] then op_integrity_status (os_progress s') = op_integrity_status (os_progress s)
              else 0 < k \<and> op_integrity_status (os_progress s') = INTEGRITY_VERIFIED)
          \<and> (op_terminal_outcome (os_progress s') = NA \<longrightarrow> k = length cs))"

lemma process_pending_evidence:
  assumes "process_pending env g s items = Inr s'" "\<not> os_aborted s"
  shows "\<exists>k. pass_end s (map fst items) k s'"
  using assms
proof (induction items arbitrary: s)
  case Nil
  then show ?case by (simp add: pass_end_def same_owner_def same_cursors_def)
next
  case (Cons i items)
  obtain c h l where i: "i = (c, h, l)" by (cases i)
  obtain s1 stop where s1: "process_candle env g s (c, h, l) = Inr (s1, stop)"
    "(if stop then Inr s1 else process_pending env g s1 items) = Inr s'" using Cons.prems(1) by (auto simp: i)
  from s1(1) show ?case
  proof (cases rule: process_candle_evidence)
    case aborted
    then show ?thesis using s1(2) i by (intro exI [of _ 0]) (auto simp: pass_end_def untouched_def)
  next
    case completed
    show ?thesis
    proof (cases stop)
      case True
      then show ?thesis using s1(2) completed i Cons.prems(2)
        by (intro exI [of _ 1]) (auto simp: pass_end_def record_completed_def)
    next
      case False
      then obtain k where k: "pass_end s1 (map fst items) k s'" using Cons.IH [of s1] s1(2) completed(1) Cons.prems(2) by auto
      then show ?thesis using completed i False
        by (intro exI [of _ "Suc k"]) (auto simp: pass_end_def record_completed_def same_owner_def same_cursors_def nth_Cons' split: if_splits)
    qed
  qed
qed

section \<open>Envelopes of passes are valid\<close>

lemma timestamp_text:
  assumes "normalize_utc_timestamp (AText s) = Inr t"
  shows "text_or_none s = Some (py_strip s)" "normalize_utc_timestamp (AText (py_strip s)) = Inr t"
proof -
  define u where "u = py_strip s"
  have u: "u \<noteq> []" "\<not> (int_of_text u = None \<and> fromisoformat (replace_Z u) = None)"
    using assms by (auto simp: u_def normalize_utc_timestamp.simps(5) Let_def split: if_splits option.splits)
  have "py_upper u \<noteq> NA"
  proof
    assume n: "py_upper u = NA"
    then obtain a b c where abc: "u = [a, b, c]" "upper_char a = CHR ''N''" "upper_char b = CHR ''/''" "upper_char c = CHR ''A''"
      by (auto simp: py_upper_def map_eq_Cons_conv)
    have x: "x \<noteq> CHR ''Z'' \<and> \<not> py_isdigit x \<and> x \<noteq> CHR ''-'' \<and> x \<noteq> CHR ''+''" if "upper_char x \<in> {CHR ''N'', CHR ''/'', CHR ''A''}" for x
    proof -
      have "upper_char x = x" if "x = CHR ''Z'' \<or> py_isdigit x \<or> x = CHR ''-'' \<or> x = CHR ''+''"
        using that by (auto simp: upper_char_def py_isdigit_def)
      then show ?thesis using that by (auto simp: py_isdigit_def)
    qed
    have "replace_Z u = u" using abc x by (simp add: replace_Z_def)
    then show False using u abc x by (simp add: int_of_text_def fromisoformat_def)
  qed
  then show "text_or_none s = Some (py_strip s)" using u by (simp add: text_or_none_def u_def Let_def)
  show "normalize_utc_timestamp (AText (py_strip s)) = Inr t" using assms by (simp add: normalize_utc_timestamp.simps(5) Let_def)
qed


lemma parsed_text:
  assumes "normalize_utc_timestamp (AText s) = Inr t"
  shows "parsed_utc (opt_json (text_or_none s)) = Inr (Some t)" "opt_json (text_or_none s) \<noteq> JNull" "text_or_none s \<noteq> None"
  using timestamp_text [OF assms] timestamp_text [OF timestamp_text(2) [OF assms]] by (simp_all add: parsed_utc_def opt_json_def)

lemma iso_text:
  assumes "0 \<le> t" "t < dt_max"
  shows "text_or_none (utc_iso t) = Some (utc_iso t)" "parsed_utc (JText (utc_iso t)) = Inr (Some t)"
  using timestamp_text(1) [OF normalize_utc_iso(1) [OF assms]] normalize_utc_iso [OF assms] by (simp_all add: parsed_utc_def)

lemma on_bounds_parsed: "list_all2 (\<lambda>v t. parsed_utc v = Inr (Some t)) vs ts \<Longrightarrow> on_bounds vs check = Inr (check ts)"
proof -
  assume a: "list_all2 (\<lambda>v t. parsed_utc v = Inr (Some t)) vs ts"
  then have "parsed_all vs = Inr (map Some ts)" by (induction rule: list_all2_induct) auto
  then show ?thesis by (simp add: on_bounds_def list_all_iff comp_def)
qed

text \<open>Candles in the range of Python's datetimes, in order.\<close>

definition window_ok :: "CausalCandle list \<Rightarrow> bool" where
  "window_ok cs \<longleftrightarrow> (\<forall>x \<in> set cs. 0 \<le> cc_open_timestamp x \<and> cc_open_timestamp x \<le> cc_close_timestamp x \<and> cc_close_timestamp x < dt_max)
     \<and> sorted_wrt (\<lambda>x y. cc_open_timestamp x \<le> cc_open_timestamp y \<and> cc_close_timestamp x \<le> cc_close_timestamp y) cs"

lemma window_ok_range:
  assumes "window_ok cs" "x \<in> set cs"
  shows "parsed_utc (JText (utc_iso (cc_open_timestamp x))) = Inr (Some (cc_open_timestamp x))"
    "parsed_utc (JText (utc_iso (cc_close_timestamp x))) = Inr (Some (cc_close_timestamp x))"
    "cc_open_timestamp x \<le> cc_close_timestamp x"
proof -
  from assms have "0 \<le> cc_open_timestamp x \<and> cc_open_timestamp x \<le> cc_close_timestamp x \<and> cc_close_timestamp x < dt_max"
    by (simp add: window_ok_def)
  then show "parsed_utc (JText (utc_iso (cc_open_timestamp x))) = Inr (Some (cc_open_timestamp x))"
    "parsed_utc (JText (utc_iso (cc_close_timestamp x))) = Inr (Some (cc_close_timestamp x))"
    "cc_open_timestamp x \<le> cc_close_timestamp x" by (simp_all add: iso_text)
qed

lemma window_ok_order:
  assumes "window_ok cs" "i \<le> j" "j < length cs"
  shows "cc_open_timestamp (cs ! i) \<le> cc_open_timestamp (cs ! j) \<and> cc_close_timestamp (cs ! i) \<le> cc_close_timestamp (cs ! j)"
  using assms by (cases "i = j") (auto simp: window_ok_def sorted_wrt_iff_nth_less)

lemma window_ok_append: "window_ok (xs @ ys) \<Longrightarrow> window_ok ys"
  by (auto simp: window_ok_def sorted_wrt_append)

lemma window_ok_first:
  assumes "window_ok cs" "x \<in> set cs"
  shows "cc_open_timestamp (hd cs) \<le> cc_open_timestamp x"
proof -
  obtain i where "i < length cs" "x = cs ! i" using assms(2) by (auto simp: in_set_conv_nth)
  then show ?thesis using window_ok_order [OF assms(1), of 0 i] by (cases cs) auto
qed

lemma window_ok_last:
  assumes "window_ok cs" "x \<in> set cs"
  shows "cc_open_timestamp x \<le> cc_open_timestamp (last cs)" "cc_close_timestamp x \<le> cc_close_timestamp (last cs)"
proof -
  obtain i where "i < length cs" "x = cs ! i" using assms(2) by (auto simp: in_set_conv_nth)
  moreover from this(1) have "cs \<noteq> []" by auto
  then have "last cs = cs ! (length cs - 1)" "length cs - 1 < length cs" by (simp_all add: last_conv_nth)
  moreover have "i \<le> length cs - 1" using calculation(1) by simp
  ultimately have "cc_open_timestamp x \<le> cc_open_timestamp (last cs) \<and> cc_close_timestamp x \<le> cc_close_timestamp (last cs)"
    using window_ok_order [OF assms(1), of i "length cs - 1"] by (simp only:)
  then show "cc_open_timestamp x \<le> cc_open_timestamp (last cs)" "cc_close_timestamp x \<le> cc_close_timestamp (last cs)" by simp_all
qed

lemma window_bounds_parsed:
  assumes "window_ok cs" "cs \<noteq> []"
  shows "on_bounds [json_get (window_bounds cs) ''first_open_at'', json_get (window_bounds cs) ''last_open_at'',
      json_get (window_bounds cs) ''last_close_at''] check
    = Inr (check [cc_open_timestamp (hd cs), cc_open_timestamp (last cs), cc_close_timestamp (last cs)])"
  by (rule on_bounds_parsed) (use assms window_ok_range [OF assms(1)] in \<open>simp add: window_bounds_def\<close>)

lemma window_order:
  assumes "window_ok cs" "cs \<noteq> []"
  shows "cc_open_timestamp (hd cs) \<le> cc_open_timestamp (last cs)" "cc_open_timestamp (last cs) \<le> cc_close_timestamp (last cs)"
  using window_ok_last(1) [OF assms(1), of "hd cs"] window_ok_range(3) [OF assms(1), of "last cs"] assms(2) by simp_all

lemma window_keys: "fst ` set (window_bounds cs) = set WINDOW_KEYS"
  by (auto simp: window_bounds_def WINDOW_KEYS_def)

lemma window_count: "json_get (window_bounds cs) ''count'' = JNumber (int (length cs))"
  by (simp add: window_bounds_def)

lemma supplied_window_valid:
  assumes "window_ok cs"
  shows "valid_window (JObject (window_bounds cs)) None = Inr True"
proof (cases "cs = []")
  case True
  then show ?thesis by (simp add: valid_window_def window_bounds_def WINDOW_KEYS_def object_fields_def all_checks_iff)
next
  case False
  then show ?thesis using window_order [OF assms False]
    by (simp add: valid_window_def object_fields_def window_keys window_count window_bounds_parsed [OF assms False])
qed


lemma pending_fields:
  assumes "pend \<noteq> []"
  shows "json_get (pending_bounds (Some pend) xo r) ''established'' = JBool True"
    "json_get (pending_bounds (Some pend) xo r) ''count'' = JNumber (int (length pend))"
    "json_get (pending_bounds (Some pend) xo r) ''first_open_at'' = JText (utc_iso (cc_open_timestamp (hd pend)))"
    "json_get (pending_bounds (Some pend) xo r) ''last_open_at'' = JText (utc_iso (cc_open_timestamp (last pend)))"
    "json_get (pending_bounds (Some pend) xo r) ''last_close_at'' = JText (utc_iso (cc_close_timestamp (last pend)))"
    "json_get (pending_bounds (Some pend) xo r) ''expected_next_open_at'' = iso_json xo"
    "json_get (pending_bounds (Some pend) xo r) ''unknown_reason'' = JNull"
    "fst ` set (pending_bounds (Some pend) xo r) = set PENDING_KEYS"
  using assms by (simp_all add: pending_bounds_def window_bounds_def PENDING_KEYS_def)

lemma pending_valid:
  assumes "window_ok pend" "pend \<noteq> []" "0 \<le> xo" "xo < dt_max"
  shows "valid_pending (JObject (pending_bounds (Some pend) (Some xo) r)) = Inr True"
proof -
  let ?v = "JObject (pending_bounds (Some pend) (Some xo) r)"
  note f = pending_fields [OF assms(2), of "Some xo" r]
  have "on_bounds [vget ?v ''first_open_at'', vget ?v ''last_open_at'', vget ?v ''last_close_at'']
      (\<lambda>ts. ts ! 0 \<le> ts ! 1 \<and> ts ! 1 \<le> ts ! 2) = Inr True"
    using on_bounds_parsed [of "[vget ?v ''first_open_at'', vget ?v ''last_open_at'', vget ?v ''last_close_at'']"
        "[cc_open_timestamp (hd pend), cc_open_timestamp (last pend), cc_close_timestamp (last pend)]"]
      window_ok_range [OF assms(1)] assms(2) window_order [OF assms(1,2)] by (simp add: f)
  then have "valid_window ?v (Some (filter (\<lambda>k. k \<notin> set WINDOW_KEYS) PENDING_KEYS)) = Inr True"
    using assms(2) by (auto simp: valid_window_def object_fields_def f all_checks_iff PENDING_KEYS_def WINDOW_KEYS_def)
  moreover have "valid_timestamp (iso_json (Some xo)) = Inr True" "iso_json (Some xo) \<noteq> JNull"
    using iso_text [OF assms(3,4)] by (simp_all add: valid_timestamp_def iso_json_def opt_json_def)
  ultimately show ?thesis by (simp add: valid_pending_def Let_def f has_keys_def object_fields_def)
qed

lemma completed_fields:
  "vget (completed_bounds cs) ''count'' = JNumber (int (length cs))"
  "cs \<noteq> [] \<Longrightarrow> vget (completed_bounds cs) ''last_open_at'' = JText (utc_iso (cc_open_timestamp (last cs)))"
  "cs \<noteq> [] \<Longrightarrow> vget (completed_bounds cs) ''last_close_at'' = JText (utc_iso (cc_close_timestamp (last cs)))"
  by (simp_all add: completed_bounds_def)

lemma completed_valid:
  assumes "window_ok cs"
  shows "valid_completed (completed_bounds cs) = Inr True"
proof (cases "cs = []")
  case True
  then show ?thesis by (simp add: valid_completed_def completed_bounds_def has_keys_def COMPLETED_KEYS_def object_fields_def)
next
  case False
  then have "on_bounds [vget (completed_bounds cs) ''last_open_at'', vget (completed_bounds cs) ''last_close_at''] (\<lambda>ts. ts ! 0 \<le> ts ! 1)
      = Inr True"
    using on_bounds_parsed [of "[vget (completed_bounds cs) ''last_open_at'', vget (completed_bounds cs) ''last_close_at'']"
        "[cc_open_timestamp (last cs), cc_close_timestamp (last cs)]"] window_ok_range [OF assms] by (simp add: completed_fields)
  then show ?thesis using False
    by (simp add: valid_completed_def completed_fields) (simp add: completed_bounds_def has_keys_def COMPLETED_KEYS_def object_fields_def)
qed

text \<open>A cursor: absent, or two times in order.\<close>

definition cursor_ok :: "string option \<Rightarrow> string option \<Rightarrow> bool" where
  "cursor_ok open_at close_at \<longleftrightarrow> open_at = None \<and> close_at = None
     \<or> (\<exists>a c t u. open_at = Some a \<and> close_at = Some c \<and> normalize_utc_timestamp (AText a) = Inr t
          \<and> normalize_utc_timestamp (AText c) = Inr u \<and> t \<le> u)"

definition stored_cursor :: "string option \<Rightarrow> string option \<Rightarrow> json" where
  "stored_cursor open_at close_at = cursor_pair (Option.bind open_at text_or_none) (Option.bind close_at text_or_none)"

lemma stored_cursor_valid:
  assumes "cursor_ok a b"
  shows "valid_cursor_pair (stored_cursor a b) = Inr True" "cursor_pairs_equivalent (stored_cursor a b) (stored_cursor a b) = Inr True"
proof -
  have "valid_cursor_pair (stored_cursor a b) = Inr True \<and> cursor_pairs_equivalent (stored_cursor a b) (stored_cursor a b) = Inr True"
    using assms unfolding cursor_ok_def
  proof (elim disjE exE conjE)
    fix x c t u
    assume s: "a = Some x" "b = Some c" "normalize_utc_timestamp (AText x) = Inr t" "normalize_utc_timestamp (AText c) = Inr u" "t \<le> u"
    note po = parsed_text [OF s(3)] and pc = parsed_text [OF s(4)]
    have e: "stored_cursor a b = JObject [(''open_at'', opt_json (text_or_none x)), (''close_at'', opt_json (text_or_none c))]"
      using po(3) by (simp add: stored_cursor_def cursor_pair_def s)
    have b: "on_bounds [opt_json (text_or_none x), opt_json (text_or_none c)] check = Inr (check [t, u])"
      "on_bounds [opt_json (text_or_none x), opt_json (text_or_none x)] check = Inr (check [t, t])"
      "on_bounds [opt_json (text_or_none c), opt_json (text_or_none c)] check = Inr (check [u, u])" for check
      by (rule on_bounds_parsed, simp add: po(1) pc(1))+
    show ?thesis using po(2) pc(2) s(5)
      by (auto simp: e b valid_cursor_pair_def has_keys_def object_fields_def CURSOR_KEYS_def cursor_pairs_equivalent_def optional_utc_equal_def)
  qed (simp add: stored_cursor_def cursor_pair_def valid_cursor_pair_def cursor_pairs_equivalent_def)
  then show "valid_cursor_pair (stored_cursor a b) = Inr True"
    "cursor_pairs_equivalent (stored_cursor a b) (stored_cursor a b) = Inr True" by simp_all
qed

lemma iso_cursor:
  assumes "0 \<le> t" "t \<le> u" "u < dt_max"
  shows "cursor_ok (Some (utc_iso t)) (Some (utc_iso u))"
    "stored_cursor (Some (utc_iso t)) (Some (utc_iso u)) = JObject [(''open_at'', JText (utc_iso t)), (''close_at'', JText (utc_iso u))]"
  using assms normalize_utc_iso(1) [of t] normalize_utc_iso(1) [of u]
  by (auto simp: cursor_ok_def stored_cursor_def cursor_pair_def iso_text opt_json_def)


text \<open>The evidence at the end of a pass, with what the row says about it.\<close>

definition evidence_ok :: "outcome_progress \<Rightarrow> PrefixPassEvidence \<Rightarrow> CausalCandle list \<Rightarrow> bool" where
  "evidence_ok p ev pend \<longleftrightarrow> text_or_none (op_lifecycle_id p) \<noteq> None \<and> text_or_none (op_plan_identity p) \<noteq> None
     \<and> text_or_none (pe_execution_timeframe ev) \<noteq> None
     \<and> (\<exists>s t. op_tracking_start_at p = Some s \<and> normalize_utc_timestamp (AText s) = Inr t)
     \<and> (\<exists>cut. pe_applied_cutoff ev = utc_iso cut \<and> cut < dt_max \<and> (\<forall>x \<in> set (pe_supplied ev). cc_close_timestamp x \<le> cut))
     \<and> window_ok (pe_supplied ev) \<and> (\<exists>pre. pe_supplied ev = pre @ pend) \<and> pend \<noteq> [] \<and> pe_pending ev = Some pend
     \<and> (\<exists>xo. pe_expected_next_open_at ev = Some xo \<and> 0 \<le> xo \<and> xo < dt_max)"

lemma evidence_windows:
  assumes "evidence_ok p ev pend"
  obtains pre cut where "pe_supplied ev = pre @ pend" "pend \<noteq> []" "window_ok (pe_supplied ev)" "window_ok pend"
    "last (pe_supplied ev) = last pend" "pe_applied_cutoff ev = utc_iso cut" "0 \<le> cut" "cut < dt_max"
    "cc_close_timestamp (last pend) \<le> cut" "cc_open_timestamp (hd (pe_supplied ev)) \<le> cc_open_timestamp (hd pend)"
proof -
  obtain pre cut where s: "pe_supplied ev = pre @ pend" "pend \<noteq> []" "window_ok (pe_supplied ev)"
    and c: "pe_applied_cutoff ev = utc_iso cut" "cut < dt_max" "\<forall>x \<in> set (pe_supplied ev). cc_close_timestamp x \<le> cut"
    using assms by (auto simp: evidence_ok_def)
  have "window_ok pend" using s(1,3) window_ok_append by metis
  moreover have "last (pe_supplied ev) = last pend" "last pend \<in> set (pe_supplied ev)" "hd pend \<in> set (pe_supplied ev)"
    using s(1,2) by simp_all
  moreover have "0 \<le> cc_close_timestamp (last pend)"
    using s(3) calculation(3) by (force simp: window_ok_def)
  moreover have "cc_close_timestamp (last pend) \<le> cut" using c(3) calculation(3) by blast
  ultimately show ?thesis using that s c window_ok_first [OF s(3), of "hd pend"] by force
qed

lemma windows_contained:
  assumes "evidence_ok p ev pend"
  shows "causal_windows_contained (envelope p ev d) = Inr True"
proof -
  obtain pre cut where w: "pe_supplied ev = pre @ pend" "pend \<noteq> []" "window_ok (pe_supplied ev)" "window_ok pend"
    "last (pe_supplied ev) = last pend" "pe_applied_cutoff ev = utc_iso cut" "0 \<le> cut" "cut < dt_max"
    "cc_close_timestamp (last pend) \<le> cut" "cc_open_timestamp (hd (pe_supplied ev)) \<le> cc_open_timestamp (hd pend)"
    using assms by (rule evidence_windows)
  define sup where "sup = pe_supplied ev"
  have sup: "sup \<noteq> []" "last sup = last pend" "cc_open_timestamp (hd sup) \<le> cc_open_timestamp (hd pend)"
    using w(1,2,5,10) by (simp_all add: sup_def)
  let ?s = "JObject (window_bounds sup)" and ?p = "JObject (pending_bounds (Some pend) (pe_expected_next_open_at ev) None)"
  have f: "vget (envelope p ev d) ''supplied_window'' = ?s" "vget (envelope p ev d) ''pending_suffix'' = ?p"
    "vget (envelope p ev d) ''applied_cutoff'' = JText (utc_iso cut)"
    using assms w(6) by (simp_all add: envelope_def sup_def evidence_ok_def)
  have r: "hd sup \<in> set sup" "last sup \<in> set sup" "hd pend \<in> set pend" "last pend \<in> set pend" using sup(1) w(2) by simp_all
  have s: "json_get (window_bounds sup) ''first_open_at'' = JText (utc_iso (cc_open_timestamp (hd sup)))"
    "json_get (window_bounds sup) ''last_open_at'' = JText (utc_iso (cc_open_timestamp (last sup)))"
    "json_get (window_bounds sup) ''last_close_at'' = JText (utc_iso (cc_close_timestamp (last sup)))"
    using sup(1) by (simp_all add: window_bounds_def)
  note ps = window_ok_range(1,2) [OF w(3) [folded sup_def] r(1)] window_ok_range(1,2) [OF w(3) [folded sup_def] r(2)]
    window_ok_range(1,2) [OF w(4) r(3)] window_ok_range(1,2) [OF w(4) r(4)] iso_text(2) [OF w(7,8)]
  have "on_bounds [JText (utc_iso cut), vget ?s ''last_close_at''] (\<lambda>ts. ts ! 1 \<le> ts ! 0) = Inr True"
    using on_bounds_parsed [of "[JText (utc_iso cut), vget ?s ''last_close_at'']" "[cut, cc_close_timestamp (last sup)]"] ps sup w(9) by (simp add: s)
  moreover have "on_bounds [vget ?s ''first_open_at'', vget ?s ''last_open_at'', vget ?s ''last_close_at'',
      vget ?p ''first_open_at'', vget ?p ''last_open_at'', vget ?p ''last_close_at'']
      (\<lambda>ts. ts ! 0 \<le> ts ! 3 \<and> ts ! 4 \<le> ts ! 1 \<and> ts ! 5 \<le> ts ! 2 \<and> ts ! 4 = ts ! 1 \<and> ts ! 5 = ts ! 2) = Inr True"
    using on_bounds_parsed [of "[vget ?s ''first_open_at'', vget ?s ''last_open_at'', vget ?s ''last_close_at'',
        vget ?p ''first_open_at'', vget ?p ''last_open_at'', vget ?p ''last_close_at'']"
        "[cc_open_timestamp (hd sup), cc_open_timestamp (last sup), cc_close_timestamp (last sup),
          cc_open_timestamp (hd pend), cc_open_timestamp (last pend), cc_close_timestamp (last pend)]"] ps sup
    by (simp add: s pending_fields [OF w(2)] numeral_nat)
  ultimately show ?thesis unfolding causal_windows_contained_def Let_def f all_checks_iff list.pred_inject by simp
qed


definition cursor_after :: "outcome_progress \<Rightarrow> string option \<Rightarrow> string option \<Rightarrow> CausalCandle list \<Rightarrow> nat \<Rightarrow> bool" where
  "cursor_after p a b pend k \<longleftrightarrow>
     (if k = 0 then op_evaluation_cursor_open_at p = a \<and> op_evaluation_cursor_close_at p = b
      else op_evaluation_cursor_open_at p = Some (utc_iso (cc_open_timestamp (pend ! (k - 1))))
        \<and> op_evaluation_cursor_close_at p = Some (utc_iso (cc_close_timestamp (pend ! (k - 1)))))"

lemma last_take: "0 < k \<Longrightarrow> k \<le> length xs \<Longrightarrow> last (take k xs) = xs ! (k - 1)"
  by (subst last_conv_nth) (auto simp: min_absorb2)

lemma cursor_after_valid:
  assumes "cursor_after p a b pend k" "cursor_ok a b" "window_ok pend" "k \<le> length pend"
  defines "cursor \<equiv> stored_cursor (op_evaluation_cursor_open_at p) (op_evaluation_cursor_close_at p)"
  shows "valid_cursor_pair cursor = Inr True"
    "(if k = 0 then cursor_pairs_equivalent (stored_cursor a b) cursor
      else cursor_matches_completed cursor (completed_bounds (take k pend))) = Inr True"
proof -
  have "valid_cursor_pair cursor = Inr True \<and> (if k = 0 then cursor_pairs_equivalent (stored_cursor a b) cursor
      else cursor_matches_completed cursor (completed_bounds (take k pend))) = Inr True"
  proof (cases "k = 0")
    case True
    then show ?thesis using assms(1) stored_cursor_valid [OF assms(2)] by (simp add: cursor_after_def cursor_def)
  next
    case False
    let ?x = "pend ! (k - 1)"
    have x: "?x \<in> set pend" "take k pend \<noteq> []" "last (take k pend) = ?x" using False assms(4) by (auto simp: last_take)
    then have r: "0 \<le> cc_open_timestamp ?x" "cc_open_timestamp ?x \<le> cc_close_timestamp ?x" "cc_close_timestamp ?x < dt_max"
      using assms(3) by (auto simp: window_ok_def)
    have c: "cursor = JObject [(''open_at'', JText (utc_iso (cc_open_timestamp ?x))), (''close_at'', JText (utc_iso (cc_close_timestamp ?x)))]"
      using assms(1) False iso_cursor(2) [OF r] by (simp add: cursor_after_def cursor_def)
    have "valid_cursor_pair cursor = Inr True"
      using stored_cursor_valid(1) [OF iso_cursor(1) [OF r]] iso_cursor(2) [OF r] c by simp
    moreover have "optional_utc_equal (JText (utc_iso t)) (JText (utc_iso t)) = Inr True" if "0 \<le> t" "t < dt_max" for t
      using iso_text [OF that] on_bounds_parsed [of "[JText (utc_iso t), JText (utc_iso t)]" "[t, t]"] by (simp add: optional_utc_equal_def)
    ultimately show ?thesis using False r x(2) by (simp add: cursor_matches_completed_def c completed_fields x(3))
  qed
  then show "valid_cursor_pair cursor = Inr True"
    "(if k = 0 then cursor_pairs_equivalent (stored_cursor a b) cursor
      else cursor_matches_completed cursor (completed_bounds (take k pend))) = Inr True" by simp_all
qed

definition loop_end :: "prefix_disposition \<Rightarrow> nat \<Rightarrow> nat \<Rightarrow> bool" where
  "loop_end d k n \<longleftrightarrow> (d = PENDING_SUFFIX_EXHAUSTED \<and> k = n) \<or> (d = POLICY_TERMINAL \<and> 0 < k) \<or> (d = PROCESSING_ABORTED \<and> k < n)"

lemma loop_end_consistent:
  assumes "loop_end d k n" "k \<le> n" "0 < n"
  shows "disposition_consistent d s True (JNumber (int n)) (int k) (pending_suffix_exhausted d True (Some n) k)"
    "disposition_of (JText (disposition_value d)) = Some d"
  using assms by (auto simp: loop_end_def pending_suffix_exhausted_def disposition_of_def PREFIX_DISPOSITIONS_def)

lemma completed_contained:
  fixes xo r
  assumes "window_ok pend" "0 < k" "k \<le> length pend"
  defines "done \<equiv> completed_bounds (take k pend)" and "pb \<equiv> JObject (pending_bounds (Some pend) xo r)"
  shows "on_bounds [vget pb ''first_open_at'', vget pb ''last_open_at'', vget pb ''last_close_at'', vget done ''last_open_at'',
      vget done ''last_close_at''] (\<lambda>ts. ts ! 0 \<le> ts ! 3 \<and> ts ! 3 \<le> ts ! 1 \<and> ts ! 0 \<le> ts ! 4 \<and> ts ! 4 \<le> ts ! 2) = Inr True"
proof -
  let ?x = "pend ! (k - 1)"
  have x: "pend \<noteq> []" "?x \<in> set pend" "take k pend \<noteq> []" "last (take k pend) = ?x" using assms(2,3) by (auto simp: last_take)
  have "on_bounds [vget pb ''first_open_at'', vget pb ''last_open_at'', vget pb ''last_close_at'', vget done ''last_open_at'',
      vget done ''last_close_at''] check = Inr (check [cc_open_timestamp (hd pend), cc_open_timestamp (last pend),
        cc_close_timestamp (last pend), cc_open_timestamp ?x, cc_close_timestamp ?x])" for check
    by (rule on_bounds_parsed)
      (use x window_ok_range [OF assms(1)] in \<open>simp add: pb_def done_def pending_fields completed_fields\<close>)
  then show ?thesis
    using window_ok_first [OF assms(1) x(2)] window_ok_last [OF assms(1) x(2)] window_ok_range(3) [OF assms(1) x(2)]
    by (simp add: numeral_nat)
qed

lemma pass_envelope_valid:
  assumes ok: "evidence_ok p ev pend" and k: "pe_completed ev = take k pend" "k \<le> length pend" and d: "loop_end d k (length pend)"
    and before: "pe_cursor_before_open_at ev = Option.bind a text_or_none" "pe_cursor_before_close_at ev = Option.bind b text_or_none"
      "cursor_ok a b" and after: "cursor_after p a b pend k"
  shows "structurally_valid_envelope (envelope p ev d) = Inr True"
proof -
  obtain pre cut where w: "pe_supplied ev = pre @ pend" "pend \<noteq> []" "window_ok (pe_supplied ev)" "window_ok pend"
    "last (pe_supplied ev) = last pend" "pe_applied_cutoff ev = utc_iso cut" "0 \<le> cut" "cut < dt_max"
    using ok by (rule evidence_windows)
  obtain xo s t where xo: "pe_expected_next_open_at ev = Some xo" "0 \<le> xo" "xo < dt_max" and pe: "pe_pending ev = Some pend"
    and s: "op_tracking_start_at p = Some s" "normalize_utc_timestamp (AText s) = Inr t"
    and ids: "text_or_none (op_lifecycle_id p) \<noteq> None" "text_or_none (op_plan_identity p) \<noteq> None"
      "text_or_none (pe_execution_timeframe ev) \<noteq> None"
    using ok by (auto simp: evidence_ok_def)
  let ?v = "envelope p ev d" and ?pb = "JObject (pending_bounds (Some pend) (Some xo) None)"
  let ?cb = "stored_cursor a b" and ?ca = "stored_cursor (op_evaluation_cursor_open_at p) (op_evaluation_cursor_close_at p)"
  have f: "vget ?v ''contract_version'' = JText PREFIX_EVIDENCE_CONTRACT_VERSION" "vget ?v ''lifecycle_id'' = JText (op_lifecycle_id p)"
    "vget ?v ''plan_identity'' = JText (op_plan_identity p)" "vget ?v ''applied_cutoff'' = JText (utc_iso cut)"
    "vget ?v ''execution_timeframe'' = JText (pe_execution_timeframe ev)" "vget ?v ''tracking_start_at'' = opt_json (text_or_none s)"
    "vget ?v ''cursor_before'' = ?cb" "vget ?v ''cursor_after'' = ?ca"
    "vget ?v ''supplied_window'' = JObject (window_bounds (pe_supplied ev))" "vget ?v ''pending_suffix'' = ?pb"
    "vget ?v ''completed_work'' = completed_bounds (take k pend)" "vget ?v ''disposition'' = JText (disposition_value d)"
    "vget ?v ''pending_suffix_exhausted'' = pending_suffix_exhausted d True (Some (length pend)) k"
    using k by (simp_all add: envelope_def stored_cursor_def before xo pe w(6) s(1) min_absorb2)
  have keys: "has_keys ?v ENVELOPE_KEYS" by (simp add: has_keys_def envelope_def ENVELOPE_KEYS_def object_fields_def)
  have c: "vget (completed_bounds (take k pend)) ''count'' = JNumber (int k)" using k(2) by (simp add: completed_fields min_absorb2)
  note pf = pending_fields [OF w(2), of "Some xo" None]
  note ca = cursor_after_valid [OF after before(3) w(4) k(2)]
  have "window_ok (take k pend)" using w(4) by (auto simp: window_ok_def sorted_wrt_take dest: in_set_takeD)
  then have fin: "valid_completed (completed_bounds (take k pend)) = Inr True" by (rule completed_valid)
  have dc: "disposition_check (JText (disposition_value d)) = Inr True"
    using loop_end_consistent(2) [OF d k(2)] w(2) by (simp add: disposition_check_def is_object_def is_array_def)
  have len: "length pend \<le> length (pe_supplied ev)" using w(1) by simp
  have obj: "is_object (completed_bounds (take k pend))" by (simp add: completed_bounds_def)
  have "semantically_consistent_envelope ?v = Inr True"
    unfolding semantically_consistent_envelope_def Let_def all_checks_iff list.pred_inject windows_contained [OF ok]
    using loop_end_consistent(1) [OF d k(2), of "int (length (pe_supplied ev))"] loop_end_consistent(2) [OF d k(2)] ca(2) w(2) len
      completed_contained [OF w(4) _ k(2), of "Some xo" None]
    by (simp add: f c pf window_count obj split: if_splits)
  moreover have "exhausted \<in> {JNull, JBool True, JBool False}"
    if "exhausted = pending_suffix_exhausted d True (Some (length pend)) k" for exhausted
    using that by (auto simp: pending_suffix_exhausted_def)
  ultimately show ?thesis unfolding structurally_valid_envelope_def Let_def all_checks_iff list.pred_inject f
    using keys ids dc fin ca(1) stored_cursor_valid(1) [OF before(3)] parsed_text [OF s(2)] iso_text [OF w(7,8)]
      supplied_window_valid [OF w(3)] pending_valid [OF w(4,2) xo(2,3)] k(2)
    by (simp add: required_text_ok_def valid_timestamp_def c pf)
qed


section \<open>No pass loses its evidence\<close>

lemma timeframe_text:
  assumes "timeframe_duration tf = Inr d"
  shows "text_or_none (py_lower (py_strip tf)) \<noteq> None"
proof -
  let ?t = "py_lower (py_strip tf)"
  have t: "butlast ?t \<noteq> []" "list_all py_isdigit (butlast ?t)"
    using assms by (auto simp: timeframe_duration_def Let_def split: if_splits option.splits)
  then obtain c u where c: "?t = c # u" "py_isdigit c" by (cases ?t) (auto split: if_splits)
  then have "upper_char c = c" "c \<noteq> CHR ''N''" by (auto simp: upper_char_def py_isdigit_def)
  then have "py_upper ?t \<noteq> NA" "?t \<noteq> []" by (simp_all add: c(1) py_upper_def)
  then show ?thesis by (simp add: text_or_none_def Let_def)
qed

lemma follows_suffix:
  "successively (follows True d) xs \<Longrightarrow> 0 < d \<Longrightarrow> \<exists>pre. xs = pre @ filter (\<lambda>x. a \<le> cc_open_timestamp x) xs"
proof (induction xs)
  case (Cons x xs)
  show ?case
  proof (cases "a \<le> cc_open_timestamp x")
    case True
    then have "filter (\<lambda>x. a \<le> cc_open_timestamp x) xs = xs" using follows_later [OF Cons.prems] by (fastforce simp: filter_id_conv)
    then show ?thesis using True by (intro exI [of _ "[]"]) simp
  next
    case False
    have "successively (follows True d) xs" using Cons.prems(1) by (cases xs) auto
    then obtain pre where "xs = pre @ filter (\<lambda>x. a \<le> cc_open_timestamp x) xs" using Cons by blast
    then show ?thesis using False by (intro exI [of _ "x # pre"]) simp
  qed
qed simp

lemma timeline_window_ok:
  assumes "closed_candles_as_of cs tf dec m True vol vals = Inr w"
    and "\<forall>x \<in> set (win_timeline w). 0 \<le> cc_open_timestamp x \<and> cc_close_timestamp x < dt_max"
  shows "window_ok (win_timeline w)"
proof -
  obtain d xs t where d: "1000 < d" "successively (follows True d) xs" "list_all (closes_on_time d) xs"
    "win_timeline w = takeWhile (\<lambda>x. cc_close_timestamp x \<le> t) xs"
    by (rule closed_candles_cases [OF assms(1)]) auto
  have o: "sorted_wrt (\<lambda>x y. cc_open_timestamp x \<le> cc_open_timestamp y) xs"
    using d(2) by (induction xs) (use d(1) follows_later in \<open>fastforce simp: successively_Cons\<close>)+
  have "sorted_wrt (\<lambda>x y. cc_open_timestamp x \<le> cc_open_timestamp y \<and> cc_close_timestamp x \<le> cc_close_timestamp y) xs"
    using o closes_increase [OF d(2,3,1)] by (simp add: sorted_wrt_iff_nth_less less_imp_le)
  then have "sorted_wrt (\<lambda>x y. cc_open_timestamp x \<le> cc_open_timestamp y \<and> cc_close_timestamp x \<le> cc_close_timestamp y) (win_timeline w)"
    unfolding d(4) by (subst takeWhile_eq_take) (rule sorted_wrt_take)
  moreover have "cc_open_timestamp x \<le> cc_close_timestamp x" if "x \<in> set (win_timeline w)" for x
  proof -
    have "closes_on_time d x" using that d(3,4) by (auto simp: list_all_iff dest: set_takeWhileD)
    then show ?thesis using d(1) by (simp add: closes_on_time_def)
  qed
  ultimately show ?thesis using assms(2) by (simp add: window_ok_def)
qed

lemma pass_end_evidence:
  assumes p: "process_pending env g (pass_start r u ev) pending = Inr s" "pending \<noteq> []" "pe_completed ev = []"
    and ok: "evidence_ok u ev (map fst pending)"
    and before: "pe_cursor_before_open_at ev = Option.bind (op_evaluation_cursor_open_at u) text_or_none"
      "pe_cursor_before_close_at ev = Option.bind (op_evaluation_cursor_close_at u) text_or_none"
      "cursor_ok (op_evaluation_cursor_open_at u) (op_evaluation_cursor_close_at u)"
  obtains k v where "write_progress (os_progress s) (Some (os_evidence s)) (Some (loop_disposition s))
      = Inr ((os_progress s)\<lparr>op_prefix_evidence := Some v\<rparr>)" "structurally_valid_envelope v = Inr True" "k \<le> length pending"
    "vget v ''disposition'' = JText (disposition_value (loop_disposition s))" "loop_end (loop_disposition s) k (length pending)"
    "vget v ''completed_work'' = completed_bounds (take k (map fst pending))"
proof -
  let ?pend = "map fst pending" and ?d = "loop_disposition s"
  obtain k where k: "pass_end (pass_start r u ev) ?pend k s"
    using process_pending_evidence [OF p(1)] by (auto simp: pass_start_def)
  let ?ev = "(os_evidence s)\<lparr>pe_disposition := Some ?d\<rparr>"
  let ?v = "envelope (os_progress s) ?ev ?d"
  have e: "os_evidence s = ev\<lparr>pe_completed := take k ?pend\<rparr>" "k \<le> length pending"
    using k p(3) by (simp_all add: pass_end_def pass_start_def)
  have owner: "same_owner u (os_progress s)" using k by (simp add: pass_end_def pass_start_def)
  have after: "cursor_after (os_progress s) (op_evaluation_cursor_open_at u) (op_evaluation_cursor_close_at u) ?pend k"
    using k by (auto simp: pass_end_def pass_start_def cursor_after_def same_cursors_def split: if_splits)
  have d: "loop_end ?d k (length ?pend)"
    using k p(2) by (auto simp: pass_end_def loop_end_def loop_disposition_def split: if_splits)
  have "evidence_ok (os_progress s) ?ev ?pend" using ok owner by (simp add: evidence_ok_def e(1) same_owner_def)
  then have v: "structurally_valid_envelope ?v = Inr True"
    by (rule pass_envelope_valid [OF _ _ _ d _ _ before(3) after]) (use e before in simp_all)
  then have "write_progress (os_progress s) (Some (os_evidence s)) (Some ?d) = Inr ((os_progress s)\<lparr>op_prefix_evidence := Some ?v\<rparr>)"
    by (simp add: write_progress_def bind_prefix_disposition_def build_prefix_evidence_payload_def serialize_prefix_evidence_def)
  moreover have "vget ?v ''disposition'' = JText (disposition_value ?d)" "vget ?v ''completed_work'' = completed_bounds (take k ?pend)"
    by (simp_all add: envelope_def e(1))
  ultimately show ?thesis using that v e(2) d by simp
qed

text \<open>The evidence of a pass over the last candles of a window, when the loop starts.\<close>

lemma started_evidence_ok:
  assumes "closed_candles_as_of cs tf dec 0 True True False = Inr w" "timeframe_duration tf = Inr d" "win_decision_timestamp w < dt_max"
    and "\<forall>x \<in> set (win_timeline w). 0 \<le> cc_open_timestamp x \<and> cc_close_timestamp x < dt_max"
    and "win_timeline w = pre @ pend" "pend \<noteq> []" "cc_open_timestamp (hd pend) = xo"
    and "text_or_none (op_lifecycle_id u) \<noteq> None" "text_or_none (op_plan_identity u) \<noteq> None"
    and "op_tracking_start_at u = Some tr" "normalize_utc_timestamp (AText tr) = Inr ts"
  shows "evidence_ok u (mark_pending (start_prefix_pass_evidence p w tf) pend (Some xo)) pend"
proof -
  have ok: "window_ok (win_timeline w)" by (rule timeline_window_ok [OF assms(1,4)])
  have "hd pend \<in> set (win_timeline w)" using assms(5,6) by simp
  with ok have "0 \<le> xo" "xo < dt_max" unfolding assms(7) [symmetric] by (force simp: window_ok_def)+
  then show ?thesis using ok timeframe_text [OF assms(2)] closed_window_closes [OF assms(1)] assms(3,5,6,8-11)
    by (auto simp: evidence_ok_def start_prefix_pass_evidence_def mark_pending_def)
qed

lemma pass_evidence:
  assumes run: "evaluate_progress env r g rd ids p ws cs tf dec = Inr (e, ws')" and n: "0 < le_processed_candles e"
    and w: "closed_candles_as_of cs (py_lower (py_text tf)) dec 0 True True False = Inr w"
      "\<forall>x \<in> set (win_timeline w). 0 \<le> cc_open_timestamp x \<and> cc_close_timestamp x < dt_max" "win_decision_timestamp w < dt_max"
    and q: "le_progress e = Some q" "text_or_none (op_lifecycle_id q) \<noteq> None" "text_or_none (op_plan_identity q) \<noteq> None"
    and c: "cursor_ok (op_evaluation_cursor_open_at p) (op_evaluation_cursor_close_at p)"
  shows "\<exists>v. op_prefix_evidence q = Some v \<and> structurally_valid_envelope v = Inr True
    \<and> vget v ''disposition'' \<in> JText ` disposition_value ` {PENDING_SUFFIX_EXHAUSTED, POLICY_TERMINAL, PROCESSING_ABORTED}"
proof -
  let ?tf = "py_lower (py_text tf)"
  obtain b items where b: "bind_stop_policy p g dec (env_evaluated_at env) = Inr b" and i: "candle_ranges (win_timeline w) = Inr items"
    and a: "adopt_causality env r g ?tf rd ids (with_applied_eligibility_cutoff b w)
       (start_prefix_pass_evidence (with_applied_eligibility_cutoff b w) w ?tf) (ws @ [UpsertProgress b]) items = Inr (e, ws')"
    by (rule evaluate_progress_ran [OF run n]) (use w(1) in auto)
  define b' where "b' = with_applied_eligibility_cutoff b w"
  define ev where "ev = start_prefix_pass_evidence b' w ?tf"
  obtain u1 where u1: "ensure_tracking_start env r g ?tf rd ids u1 ev (ws @ [UpsertProgress b]) items = Inr (e, ws')" "same_cursor b' u1"
    by (rule adopt_causality_ran [OF a n]) (auto simp: b'_def ev_def)
  obtain u where u: "select_pending env r g ?tf u ev (ws @ [UpsertProgress b]) items = Inr (e, ws')" "same_cursor u1 u"
    by (rule ensure_tracking_start_ran [OF u1(1) n])
  obtain xo x h l rest where x: "expected_open u ?tf xo" "filter (\<lambda>(c, _). xo \<le> cc_open_timestamp c) items = (x, h, l) # rest"
      "cc_open_timestamp x = xo"
      "run_pending env r g u (mark_pending ev (map fst ((x, h, l) # rest)) (Some xo)) (ws @ [UpsertProgress b]) ((x, h, l) # rest) = Inr (e, ws')"
    by (rule select_pending_ran [OF u(1) n])
  let ?pending = "(x, h, l) # rest"
  let ?ev = "mark_pending ev (map fst ?pending) (Some xo)"
  have cur: "op_evaluation_cursor_open_at u = op_evaluation_cursor_open_at p \<and> op_evaluation_cursor_close_at u = op_evaluation_cursor_close_at p
      \<and> op_evaluation_cursor_open_at b' = op_evaluation_cursor_open_at p \<and> op_evaluation_cursor_close_at b' = op_evaluation_cursor_close_at p"
    using u(2) u1(2) bind_stop_frame(1) [OF b] by (simp add: same_cursor_def b'_def with_applied_eligibility_cutoff_def)
  obtain d where d: "timeframe_duration ?tf = Inr d" "0 < d" "successively (follows True d) (win_timeline w)"
    by (rule window_follows [OF w(1)])
  have fm: "map fst ?pending = filter (\<lambda>y. xo \<le> cc_open_timestamp y) (win_timeline w)"
    unfolding x(2) [symmetric] candle_ranges_timeline [OF i, symmetric] filter_map by (simp add: comp_def split_def)
  obtain pre where pre: "win_timeline w = pre @ map fst ?pending" using follows_suffix [OF d(3,2), of xo] unfolding fm by blast
  obtain st q' where s: "process_pending env g (pass_start r u ?ev) ?pending = Inr st"
    "write_progress (os_progress st) (Some (os_evidence st)) (Some (loop_disposition st)) = Inr q'" "le_progress e = Some q'"
    by (rule run_pending_cases [OF x(4)])
  have ids: "op_lifecycle_id u = op_lifecycle_id q" "op_plan_identity u = op_plan_identity q"
    using write_progress_frame [OF s(2)] s(3) q(1) keeps_latches [OF process_pending_keeps [OF s(1)]] by (auto simp: latches_def pass_start_def)
  obtain tr ts where tr: "op_tracking_start_at u = Some tr" "normalize_utc_timestamp (AText tr) = Inr ts"
    using x(1) by (cases "op_tracking_start_at u") (auto simp: expected_open_def optional_time_def)
  have ok: "evidence_ok u ?ev (map fst ?pending)"
    unfolding ev_def by (rule started_evidence_ok [OF w(1) d(1) w(3,2) pre _ _ _ _ tr]) (use q(2,3) ids x(3) in simp_all)
  obtain k v where "write_progress (os_progress st) (Some (os_evidence st)) (Some (loop_disposition st))
      = Inr ((os_progress st)\<lparr>op_prefix_evidence := Some v\<rparr>)" "structurally_valid_envelope v = Inr True"
      "vget v ''disposition'' = JText (disposition_value (loop_disposition st))" "loop_end (loop_disposition st) k (length ?pending)"
    by (rule pass_end_evidence [OF s(1) _ _ ok]) (use c cur in \<open>auto simp: ev_def start_prefix_pass_evidence_def mark_pending_def\<close>)
  then show ?thesis using s(2,3) q(1) by (auto simp: loop_end_def)
qed

text \<open>
  C17. No pass loses its evidence. When an evaluation has gone through candles, the row it returns carries evidence, and the evidence
  passes its own validation: it says whether the pass finished its candles, ended with an outcome, or was aborted. The row has to have
  identities and, when it was stored before, a readable cursor.
\<close>

theorem pass_keeps_its_evidence:
  assumes "evaluate_closed_candle_outcomes env rd r cs tf dec = Inr (e, ws)" "0 < le_processed_candles e"
    and "closed_candles_as_of cs (py_lower (py_text tf)) dec 0 True True False = Inr w"
      "\<forall>x \<in> set (win_timeline w). 0 \<le> cc_open_timestamp x \<and> cc_close_timestamp x < dt_max" "win_decision_timestamp w < dt_max"
    and "le_progress e = Some q" "text_or_none (op_lifecycle_id q) \<noteq> None" "text_or_none (op_plan_identity q) \<noteq> None"
    and "\<And>p. first_progress rd (compatible_plan_identities (env_sha256 env) r) = Some p \<Longrightarrow>
      cursor_ok (op_evaluation_cursor_open_at p) (op_evaluation_cursor_close_at p)"
  shows "\<exists>v. op_prefix_evidence q = Some v \<and> structurally_valid_envelope v = Inr True
    \<and> vget v ''disposition'' \<in> JText ` disposition_value ` {PENDING_SUFFIX_EXHAUSTED, POLICY_TERMINAL, PROCESSING_ABORTED}"
proof -
  obtain env' g p ws' where run: "evaluate_progress env' r g rd (compatible_plan_identities (env_sha256 env) r) p ws' cs tf dec = Inr (e, ws)"
    and c: "cursor_ok (op_evaluation_cursor_open_at p) (op_evaluation_cursor_close_at p)"
  proof (cases "first_progress rd (compatible_plan_identities (env_sha256 env) r)")
    case None
    obtain env' g p where p: "fresh_row p"
      "evaluate_progress env' r g rd (compatible_plan_identities (env_sha256 env) r) p [] cs tf dec = Inr (e, ws)"
      by (rule evaluate_unseen [OF assms(1) None]) (use assms(2) in auto)
    show ?thesis by (rule that [OF p(2)]) (use p(1) in \<open>simp add: fresh_row_def cursor_ok_def\<close>)
  next
    case (Some p)
    obtain env' g u ws' where u: "evaluate_progress env' r g rd (compatible_plan_identities (env_sha256 env) r) u ws' cs tf dec = Inr (e, ws)"
      "same_cursor p u"
      by (rule evaluate_stored_ran [OF assms(1,2) Some])
    show ?thesis by (rule that [OF u(1)]) (use u(2) assms(9) [OF Some] in \<open>simp add: same_cursor_def\<close>)
  qed
  show ?thesis by (rule pass_evidence [OF run assms(2-8) c])
qed

end
