(* ===== verification/Outcome_Resume.thy ===== *)
theory Outcome_Resume
  imports Prefix_Safety
begin

text \<open>
  Whole evaluations: the pass of a row that an earlier pass left open, from the stored row and the candle history to the row that
  is written back.
\<close>

section \<open>A row that can be resumed\<close>

text \<open>
  The row has its plan version, timeframe, stop policy and tracking start, and its cursor is on the candle that opened at \<open>t0\<close>.
\<close>

definition resumable :: "outcome_env \<Rightarrow> StoredPlanGeometry \<Rightarrow> string \<Rightarrow> py_any \<Rightarrow> int \<Rightarrow> outcome_progress \<Rightarrow> bool" where
  "resumable env g tf dec t0 p \<longleftrightarrow>
     op_plan_version_id p \<noteq> None \<and> bind_stop_policy p g dec (env_evaluated_at env) = Inr p
     \<and> op_execution_timeframe p = py_lower (py_text tf) \<and> py_lower (py_text tf) \<noteq> py_lower NA
     \<and> (op_entry_at p \<noteq> None
        \<or> json_get (progress_metadata p) ''entry_causality_contract'' = JText ENTRY_CAUSALITY_CONTRACT)
     \<and> (case optional_time (op_tracking_start_at p) of Inr ts \<Rightarrow> ts \<le> t0 | Inl _ \<Rightarrow> False)
     \<and> op_tracking_start_at p \<noteq> None \<and> op_evaluation_cursor_open_at p \<noteq> None
     \<and> optional_time (op_evaluation_cursor_open_at p) = Inr t0
     \<and> cursor_ok (op_evaluation_cursor_open_at p) (op_evaluation_cursor_close_at p)
     \<and> text_or_none (op_lifecycle_id p) \<noteq> None \<and> text_or_none (op_plan_identity p) \<noteq> None"

text \<open>The candles of a window that open at or after \<open>t\<close>.\<close>

definition pending_from :: "int \<Rightarrow> (CausalCandle \<times> rat \<times> rat) list \<Rightarrow> (CausalCandle \<times> rat \<times> rat) list" where
  "pending_from t items = filter (\<lambda>(c, _). t \<le> cc_open_timestamp c) items"

lemma select_pending_resumes:
  assumes t: "optional_time (op_tracking_start_at p) = Inr ts" "ts \<le> t0" "op_evaluation_cursor_open_at p = Some cur"
      "optional_time (Some cur) = Inr t0"
    and c: "timeframe_duration tf = Inr d" "0 < d" "0 \<le> t0" "t0 + d < dt_max"
      "pending_from (t0 + d) items = (c, h, l) # rest" "cc_open_timestamp c = t0 + d" "t0 \<le> cc_open_timestamp (fst (last items))"
  shows "select_pending env r g tf p ev ws items =
    run_pending env r g p (mark_pending ev (map fst (pending_from (t0 + d) items)) (Some (t0 + d))) ws (pending_from (t0 + d) items)"
proof -
  have add: "lift_timestamp (timeframe_duration tf) = Inr d" "utc_add t0 d = Inr (t0 + d)" "max (t0 + d) ts = t0 + d"
    using c(1-4) t(2) by (simp_all add: utc_add_def)
  have "select_pending env r g tf p ev ws items =
      evaluate_pending env r g p ev ws False ts (cc_open_timestamp (fst (last items))) (t0 + d) (pending_from (t0 + d) items)"
    using c(7) unfolding select_pending_def t Let_def option.case on_value_error_def sum.case add ebind_simps pending_from_def
    by simp
  then show ?thesis unfolding evaluate_pending_def Let_def c(5) using c(6) by simp
qed

lemma evaluate_resumes:
  assumes row: "first_progress rd (compatible_plan_identities (env_sha256 env) r) = Some p" "rd_epoch_current rd"
      "resumable env g tf dec t0 p" "op_terminal_outcome p = NA"
    and r: "stored_plan_geometry r = Inr g" "current_state r \<in> set OUTCOME_ELIGIBLE_STATES"
    and w: "closed_candles_as_of cs (py_lower (py_text tf)) dec 0 True True False = Inr w" "candle_ranges (win_timeline w) = Inr items"
    and c: "timeframe_duration (py_lower (py_text tf)) = Inr d" "0 < d" "0 \<le> t0" "t0 + d < dt_max"
      "pending_from (t0 + d) items = (c, h, l) # rest" "cc_open_timestamp c = t0 + d" "t0 \<le> cc_open_timestamp (fst (last items))"
  defines "u \<equiv> with_applied_eligibility_cutoff p w" and "env' \<equiv> env\<lparr>env_plan_identity := op_plan_identity p\<rparr>"
  shows "evaluate_closed_candle_outcomes env rd r cs tf dec =
    run_pending env' r g u (mark_pending (start_prefix_pass_evidence u w (py_lower (py_text tf))) (map fst (pending_from (t0 + d) items))
      (Some (t0 + d))) [UpsertProgress p] (pending_from (t0 + d) items)"
proof -
  let ?tf = "py_lower (py_text tf)"
  have bind: "bd_progress (bind_progress_to_proven_plan_version (env_sha256 env) p r) = p"
    using row(3) by (auto simp: resumable_def bind_progress_to_proven_plan_version_def Let_def split: option.split)
  have state: "current_state r \<notin> set TERMINAL_OUTCOME_STATES"
    using r(2) by (auto simp: OUTCOME_ELIGIBLE_STATES_def TERMINAL_OUTCOME_STATES_def)
  have "items \<noteq> []" using c(5) by (auto simp: pending_from_def)
  then have ne: "win_timeline w \<noteq> []" using candle_ranges_timeline [OF w(2)] by auto
  have cs: "cs \<noteq> []"
  proof
    assume "cs = []"
    have "win_timeline w = []" by (rule closed_candles_cases [OF w(1)]) (use \<open>cs = []\<close> in auto)
    then show False using ne by simp
  qed
  have u: "resumable env g tf dec t0 p \<Longrightarrow> op_tracking_start_at u \<noteq> None" "op_entry_at u = op_entry_at p"
    "progress_metadata u = progress_metadata p"
    by (simp_all add: u_def with_applied_eligibility_cutoff_def resumable_def progress_metadata_def)
  obtain ts cur where t: "optional_time (op_tracking_start_at u) = Inr ts" "ts \<le> t0" "op_evaluation_cursor_open_at u = Some cur"
    "optional_time (Some cur) = Inr t0"
    using row(3) by (auto simp: resumable_def u_def with_applied_eligibility_cutoff_def split: sum.splits)
  have "evaluate_closed_candle_outcomes env rd r cs tf dec =
      evaluate_progress env' r g rd (compatible_plan_identities (env_sha256 env) r) p [] cs tf dec"
    using r(2) state row(4) unfolding evaluate_stored [OF row(1,2)] bind r(1) env'_def by simp
  also have "\<dots> = evaluate_window env' r g ?tf rd (compatible_plan_identities (env_sha256 env) r) p [UpsertProgress p] cs dec"
    using row(3) cs by (simp add: evaluate_progress_def Let_def on_value_error_def resumable_def env'_def)
  also have "\<dots> = adopt_causality env' r g ?tf rd (compatible_plan_identities (env_sha256 env) r) u
      (start_prefix_pass_evidence u w ?tf) [UpsertProgress p] items"
    unfolding evaluate_window_def w(1) Let_def on_value_error_def using ne w(2) by (simp add: lift_timestamp_def u_def)
  also have "\<dots> = select_pending env' r g ?tf u (start_prefix_pass_evidence u w ?tf) [UpsertProgress p] items"
    using row(3) u by (auto simp: adopt_causality_def ensure_tracking_start_def resumable_def split: option.split)
  finally show ?thesis unfolding select_pending_resumes [OF t c] .
qed


section \<open>Whole evaluations\<close>

lemma timeline_of_window:
  assumes "successively (follows True d) (map fst items)" "list_all (closes_on_time d) (map fst items)" "1000 < d"
    and "\<forall>x \<in> set (map fst items). 0 \<le> cc_open_timestamp x \<and> cc_close_timestamp x < dt_max"
    and "items = [] \<or> t \<le> cc_open_timestamp (fst (hd items))"
  shows "timeline_after t items"
  using assms
proof (induction items arbitrary: t)
  case (Cons i items)
  obtain c h l where i: "i = (c, h, l)" by (cases i)
  have close: "cc_close_timestamp c \<le> cc_open_timestamp c + d" "cc_open_timestamp c < cc_close_timestamp c"
    using Cons.prems(2,3) by (auto simp: i closes_on_time_def)
  have "items = [] \<or> cc_close_timestamp c \<le> cc_open_timestamp (fst (hd items))"
    using Cons.prems(1) close(1) by (cases items) (auto simp: i follows_def)
  moreover have "successively (follows True d) (map fst items)" using Cons.prems(1) by (cases items) auto
  ultimately have "timeline_after (cc_close_timestamp c) items" using Cons by simp
  then show ?case using Cons.prems(4,5) close(2) by (auto simp: i)
qed simp

lemma window_closes_on_time:
  assumes "closed_candles_as_of cs tf dec m True vol vals = Inr w" "timeframe_duration tf = Inr d"
  shows "successively (follows True d) (win_timeline w)" "list_all (closes_on_time d) (win_timeline w)" "1000 < d"
proof -
  obtain xs t where x: "1000 < d" "list_all (closes_on_time d) xs" "win_timeline w = takeWhile (\<lambda>x. cc_close_timestamp x \<le> t) xs"
    by (rule closed_candles_cases [OF assms(1)]) (use assms(2) in auto)
  show "successively (follows True d) (win_timeline w)" by (rule window_follows [OF assms(1)]) (use assms(2) in auto)
  show "list_all (closes_on_time d) (win_timeline w)" using x by (auto simp: list_all_iff dest: set_takeWhileD)
  show "1000 < d" by (rule x)
qed

lemma pending_window:
  assumes "closed_candles_as_of cs tf dec m True vol vals = Inr w" "timeframe_duration tf = Inr d" "candle_ranges (win_timeline w) = Inr items"
  obtains pre where "win_timeline w = pre @ map fst (pending_from a items)" "successively (follows True d) (map fst (pending_from a items))"
    "list_all (closes_on_time d) (map fst (pending_from a items))"
proof -
  note win = window_closes_on_time [OF assms(1,2)]
  have m: "map fst (pending_from a items) = filter (\<lambda>x. a \<le> cc_open_timestamp x) (win_timeline w)"
    unfolding candle_ranges_timeline [OF assms(3), symmetric] filter_map by (simp add: pending_from_def comp_def split_def)
  obtain pre where "win_timeline w = pre @ map fst (pending_from a items)" using follows_suffix [OF win(1), of a] win(3) m by auto
  then show ?thesis using that win follows_filter [OF win(1), of a] m by (auto simp: list_all_iff)
qed

lemma resumed_pass:
  assumes row: "first_progress rd (compatible_plan_identities (env_sha256 env) r) = Some p" "rd_epoch_current rd"
      "resumable env g tf dec t0 p" "op_terminal_outcome p = NA"
    and r: "stored_plan_geometry r = Inr g" "current_state r \<in> set OUTCOME_ELIGIBLE_STATES"
    and w: "closed_candles_as_of cs (py_lower (py_text tf)) dec 0 True True False = Inr w" "candle_ranges (win_timeline w) = Inr items"
      "\<forall>x \<in> set (win_timeline w). 0 \<le> cc_open_timestamp x \<and> cc_close_timestamp x < dt_max" "win_decision_timestamp w < dt_max"
    and d: "timeframe_duration (py_lower (py_text tf)) = Inr d"
    and pend: "pend = pending_from (t0 + d) items" "pend \<noteq> []" "cc_open_timestamp (fst (hd pend)) = t0 + d"
    and u: "u = with_applied_eligibility_cutoff p w"
      "ev = mark_pending (start_prefix_pass_evidence u w (py_lower (py_text tf))) (map fst pend) (Some (t0 + d))"
  shows "evaluate_closed_candle_outcomes env rd r cs tf dec =
      run_pending (env\<lparr>env_plan_identity := op_plan_identity p\<rparr>) r g u ev [UpsertProgress p] pend"
    "timeline_after (t0 + d) pend" "evidence_ok u ev (map fst pend)"
proof -
  let ?tf = "py_lower (py_text tf)"
  obtain c h l rest where hd: "pend = (c, h, l) # rest" "cc_open_timestamp c = t0 + d" using pend(2,3) by (cases pend) auto
  obtain pre where pre: "win_timeline w = pre @ map fst pend" "successively (follows True d) (map fst pend)"
    "list_all (closes_on_time d) (map fst pend)" unfolding pend(1) by (rule pending_window [OF w(1) d w(2)])
  note win = window_closes_on_time [OF w(1) d]
  have c: "t0 + d < dt_max" using timeline_window_ok [OF w(1,3)] pre(1) hd by (force simp: window_ok_def)
  obtain cur tr ts where cur: "op_evaluation_cursor_open_at p = Some cur" "normalize_utc_timestamp (AText cur) = Inr t0"
    and tr: "op_tracking_start_at p = Some tr" "normalize_utc_timestamp (AText tr) = Inr ts"
    using row(3) by (auto simp: resumable_def optional_time_def split: sum.splits)
  have t0: "0 \<le> t0" using normalize_utc_range(1) [OF cur(2)] by (simp add: valid_moment_def)
  have last: "t0 \<le> cc_open_timestamp (fst (last items))"
  proof -
    have ne: "last (win_timeline w) = last (map fst pend)" "items \<noteq> []" using pre(1) hd(1) pend(1) by (auto simp: pending_from_def)
    then have "fst (last items) = fst (last pend)"
      using candle_ranges_timeline [OF w(2)] pend(2) last_map [of items fst] last_map [of pend fst] by simp
    moreover have "last pend \<in> set pend" using pend(2) by simp
    ultimately show ?thesis using win(3) by (auto simp: pend(1) pending_from_def)
  qed
  show "evaluate_closed_candle_outcomes env rd r cs tf dec =
      run_pending (env\<lparr>env_plan_identity := op_plan_identity p\<rparr>) r g u ev [UpsertProgress p] pend"
    using evaluate_resumes [OF row r w(1,2) d _ t0 c hd [unfolded pend(1)] last] win(3) by (simp add: u pend(1))
  show "timeline_after (t0 + d) pend"
    by (rule timeline_of_window [OF pre(2,3) win(3)]) (use w(3) pre(1) pend(3) in auto)
  show "evidence_ok u ev (map fst pend)"
    unfolding u(2) by (rule started_evidence_ok [OF w(1) d w(4,3) pre(1)])
      (use row(3) tr pend(2,3) in \<open>auto simp: u(1) with_applied_eligibility_cutoff_def resumable_def hd_map\<close>)
qed

lemma resumed_evaluation:
  assumes row: "first_progress rd (compatible_plan_identities (env_sha256 env) r) = Some p" "rd_epoch_current rd"
      "resumable env g tf dec t0 p" "live_row p (t0 + d)" "protection_start p = Some start"
    and r: "stored_plan_geometry r = Inr g" "record_follows r p"
    and w: "closed_candles_as_of cs (py_lower (py_text tf)) dec 0 True True False = Inr w" "candle_ranges (win_timeline w) = Inr items"
      "\<forall>x \<in> set (win_timeline w). 0 \<le> cc_open_timestamp x \<and> cc_close_timestamp x < dt_max" "win_decision_timestamp w < dt_max"
    and d: "timeframe_duration (py_lower (py_text tf)) = Inr d"
    and next_candle: "pending_from (t0 + d) items \<noteq> []" "cc_open_timestamp (fst (hd (pending_from (t0 + d) items))) = t0 + d"
  obtains e ws q v where "evaluate_closed_candle_outcomes env rd r cs tf dec = Inr (e, ws)" "le_progress e = Some q"
    "position_of q = foldl (position_step g start) (position_of p) (pending_from (t0 + d) items)"
    "op_prefix_evidence q = Some v" "structurally_valid_envelope v = Inr True" "0 < le_processed_candles e"
    "op_integrity_status q = INTEGRITY_VERIFIED" "op_lifecycle_id q = op_lifecycle_id p" "op_plan_identity q = op_plan_identity p"
proof -
  define pend where "pend = pending_from (t0 + d) items"
  define u where "u = with_applied_eligibility_cutoff p w"
  define ev where "ev = mark_pending (start_prefix_pass_evidence u w (py_lower (py_text tf))) (map fst pend) (Some (t0 + d))"
  define env' where "env' = env\<lparr>env_plan_identity := op_plan_identity p\<rparr>"
  have state: "current_state r \<in> set OUTCOME_ELIGIBLE_STATES" "op_terminal_outcome p = NA"
    using r(2) row(4) by (auto simp: record_follows_def live_row_def OUTCOME_ELIGIBLE_STATES_def split: if_splits)
  note pass = resumed_pass [OF row(1-3) state(2) r(1) state(1) w d pend_def next_candle [folded pend_def] u_def ev_def, folded env'_def]
  have u: "record_follows r u" "live_row u (t0 + d)" "protection_start u = Some start" "position_of u = position_of p"
    using r(2) row(4,5)
    by (simp_all add: u_def with_applied_eligibility_cutoff_def record_follows_def live_row_def metadata_ok_def milestones_before_def
        protection_start_def progress_metadata_def position_of_def)
  have ev: "pe_completed ev = []" by (simp add: ev_def mark_pending_def start_prefix_pass_evidence_def)
  obtain s where s: "process_pending env' g (pass_start r u ev) pend = Inr s"
    "position_of (os_progress s) = foldl (position_step g start) (position_of p) pend"
    and over: "pass_over start ev s \<or> pass_ready g start ev s []"
    using u(4) by (metis pass_returns [OF stored_plan_geometry_ordered [OF r(1)] u(1,2) pass(2) u(3) ev])
  have "cursor_ok (op_evaluation_cursor_open_at u) (op_evaluation_cursor_close_at u)"
    using row(3) by (simp add: resumable_def u_def with_applied_eligibility_cutoff_def)
  then obtain v where v: "write_progress (os_progress s) (Some (os_evidence s)) (Some (loop_disposition s))
      = Inr ((os_progress s)\<lparr>op_prefix_evidence := Some v\<rparr>)" "structurally_valid_envelope v = Inr True"
    using pass_end_evidence [OF s(1) next_candle(1) [folded pend_def] ev pass(3)]
    by (auto simp: ev_def mark_pending_def start_prefix_pass_evidence_def)
  obtain k where "pass_end (pass_start r u ev) (map fst pend) k s"
    using process_pending_evidence [OF s(1)] by (auto simp: pass_start_def)
  moreover have "\<not> os_aborted s" using over by (auto simp: pass_over_def pass_ready_def)
  ultimately have "op_integrity_status (os_progress s) = INTEGRITY_VERIFIED" using next_candle(1) by (simp add: pass_end_def pend_def)
  moreover have "0 < os_processed s" using process_pending_cursor [OF s(1)] next_candle(1) by (auto simp: pass_start_def pend_def)
  moreover have "op_lifecycle_id (os_progress s) = op_lifecycle_id p" "op_plan_identity (os_progress s) = op_plan_identity p"
    using keeps_latches [OF process_pending_keeps [OF s(1)]]
    by (simp_all add: latches_def pass_start_def u_def with_applied_eligibility_cutoff_def)
  moreover obtain e ws where "run_pending env' r g u ev [UpsertProgress p] pend = Inr (e, ws)"
    "le_progress e = Some ((os_progress s)\<lparr>op_prefix_evidence := Some v\<rparr>)" "le_processed_candles e = os_processed s"
    using s(1) v(1) by (simp add: run_pending_def pass_start_def)
  moreover have "position_of ((os_progress s)\<lparr>op_prefix_evidence := Some v\<rparr>) = foldl (position_step g start) (position_of p) pend"
    unfolding s(2) [symmetric] by (simp add: position_of_def)
  ultimately show ?thesis
    using that [of e ws "(os_progress s)\<lparr>op_prefix_evidence := Some v\<rparr>" v] v(2) unfolding pend_def [symmetric] pass(1) by simp
qed

text \<open>
  C1. An evaluation does what the machine over positions says. For a row that an earlier pass left open and a history in which the
  candle after its cursor has closed, the evaluation returns; the row it returns is in the position that the machine reaches from
  the position of the stored row over exactly the closed candles after the cursor, and it carries valid evidence.
\<close>

theorem evaluation_implements_positions:
  assumes row: "first_progress rd (compatible_plan_identities (env_sha256 env) r) = Some p" "rd_epoch_current rd"
      "resumable env g tf dec t0 p" "live_row p (t0 + d)" "protection_start p = Some start"
    and r: "stored_plan_geometry r = Inr g" "record_follows r p"
    and w: "closed_candles_as_of cs (py_lower (py_text tf)) dec 0 True True False = Inr w" "candle_ranges (win_timeline w) = Inr items"
      "\<forall>x \<in> set (win_timeline w). 0 \<le> cc_open_timestamp x \<and> cc_close_timestamp x < dt_max" "win_decision_timestamp w < dt_max"
    and d: "timeframe_duration (py_lower (py_text tf)) = Inr d"
    and next_candle: "pending_from (t0 + d) items \<noteq> []" "cc_open_timestamp (fst (hd (pending_from (t0 + d) items))) = t0 + d"
  shows "\<exists>e ws q v. evaluate_closed_candle_outcomes env rd r cs tf dec = Inr (e, ws) \<and> le_progress e = Some q
    \<and> position_of q = foldl (position_step g start) (position_of p) (pending_from (t0 + d) items)
    \<and> op_prefix_evidence q = Some v \<and> structurally_valid_envelope v = Inr True"
  by (rule resumed_evaluation [OF assms]) blast


section \<open>First evaluations\<close>

lemma evaluate_starts:
  assumes row: "first_progress rd (compatible_plan_identities (env_sha256 env) r) = None" "rd_epoch_current rd"
      "new_progress env' r tf = Inr p" "bind_stop_policy p g dec (env_evaluated_at env') = Inr b"
      "op_execution_timeframe p = py_lower (py_text tf)" "py_lower (py_text tf) \<noteq> py_lower NA"
    and r: "stored_plan_geometry r = Inr g" "current_state r \<in> set OUTCOME_ELIGIBLE_STATES"
    and w: "closed_candles_as_of cs (py_lower (py_text tf)) dec 0 True True False = Inr w" "candle_ranges (win_timeline w) = Inr items" "cs \<noteq> []"
    and start: "tracking_start_boundary env' r u (map fst items) rd (compatible_plan_identities (env_sha256 env) r) (py_lower (py_text tf))
        = Inr (start, bd, src, el, dg)" "pending_from start items = (c, h, l) # rest" "cc_open_timestamp c = start"
    and env': "env' = env\<lparr>env_plan_identity := hd (compatible_plan_identities (env_sha256 env) r)\<rparr>"
    and u: "u = with_applied_eligibility_cutoff b w" "q = with_tracking_start u start bd src el dg"
  shows "evaluate_closed_candle_outcomes env rd r cs tf dec =
    run_pending env' r g q (mark_pending (start_prefix_pass_evidence u w (py_lower (py_text tf))) (map fst (pending_from start items)) (Some start))
      [UpsertProgress b] (pending_from start items)"
proof -
  let ?tf = "py_lower (py_text tf)" and ?ids = "compatible_plan_identities (env_sha256 env) r"
  have state: "current_state r \<notin> set TERMINAL_OUTCOME_STATES"
    using r(2) by (auto simp: OUTCOME_ELIGIBLE_STATES_def TERMINAL_OUTCOME_STATES_def)
  have "items \<noteq> []" using start(2) by (auto simp: pending_from_def)
  then have ne: "win_timeline w \<noteq> []" using candle_ranges_timeline [OF w(2)] by auto
  have fresh: "fresh_row u" using new_progress_fresh [OF row(3)] bind_stop_frame [OF row(4)]
    by (simp add: u(1) fresh_row_def with_applied_eligibility_cutoff_def same_cursor_def progress_metadata_def)
  have q: "op_evaluation_cursor_open_at q = None" "optional_time (op_tracking_start_at q) = Inr start"
    using fresh optional_time_iso [OF tracking_start_range [OF start(1)]]
    by (simp_all add: u(2) with_tracking_start_def with_metadata_def fresh_row_def)
  have "evaluate_closed_candle_outcomes env rd r cs tf dec = evaluate_progress env' r g rd ?ids p [] cs tf dec"
    using r(2) state row(2) unfolding evaluate_closed_candle_outcomes_def Let_def row(1) r(1) env'
    by (simp add: row(3) [unfolded env'])
  also have "\<dots> = evaluate_window env' r g ?tf rd ?ids b [UpsertProgress b] cs dec"
    using row(4-6) w(3) by (simp add: evaluate_progress_def Let_def on_value_error_def)
  also have "\<dots> = adopt_causality env' r g ?tf rd ?ids u (start_prefix_pass_evidence u w ?tf) [UpsertProgress b] items"
    unfolding evaluate_window_def w(1) Let_def on_value_error_def using ne w(2) by (simp add: lift_timestamp_def u(1))
  also have "\<dots> = select_pending env' r g ?tf q (start_prefix_pass_evidence u w ?tf) [UpsertProgress b] items"
    using fresh start(1) by (simp add: adopt_causality_def ensure_tracking_start_def fresh_row_def on_value_error_def u(2))
  also have "\<dots> = evaluate_pending env' r g q (start_prefix_pass_evidence u w ?tf) [UpsertProgress b] True start
      (cc_open_timestamp (fst (last items))) start (pending_from start items)"
    unfolding select_pending_def q Let_def option.case on_value_error_def sum.case pending_from_def by simp
  finally show ?thesis unfolding evaluate_pending_def Let_def start(2) using start(3) by simp
qed

end
