(* ===== verification/Outcome_Examples.thy ===== *)
theory Outcome_Examples
  imports Outcome_Resume "HOL-Library.Code_Target_Nat"
begin

text \<open>
  Concrete evaluations. Two closed five-minute candles that reach from 99 to 104.5, and a plan with an entry zone from 100 to 101, a
  stop at 98 and a first target at 104: the first candle after the entry reaches the target, the second one falls back to the entry
  reference and closes the plan at breakeven.
\<close>

section \<open>The history\<close>

definition sample_cutoff :: py_any where
  "sample_cutoff = AInt 1714558200000"

definition sample_bar :: "nat \<Rightarrow> CausalCandle" where
  "sample_bar k = \<lparr>cc_source = sample_candle (1714557600000 + int k * 300000), cc_open_timestamp = sample_time + int k * 300000000,
     cc_close_timestamp = sample_time + (int k + 1) * 300000000, cc_index = Some k\<rparr>"

definition sample_view :: ClosedCandleWindow where
  "sample_view = \<lparr>win_candles = [sample_candle 1714557600000, sample_candle 1714557900000], win_timeline = [sample_bar 0, sample_bar 1],
     win_decision_timestamp = sample_time + 600000000, win_excluded_unclosed_count = 1\<rparr>"

definition sample_bars :: "(CausalCandle \<times> rat \<times> rat) list" where
  "sample_bars = [(sample_bar 0, 209 / 2, 99), (sample_bar 1, 209 / 2, 99)]"

lemma sample_frame: "py_lower (py_text ''5m'') = ''5m''" "timeframe_duration ''5m'' = Inr 300000000"
  by code_simp+

lemma sample_closed: "closed_candles_as_of sample_candles ''5m'' sample_cutoff 0 True True False = Inr sample_view"
  by code_simp

lemma sample_evaluated:
  "closed_candles_as_of sample_candles (py_lower (py_text ''5m'')) sample_cutoff 0 True True False = Inr sample_view"
  "timeframe_duration (py_lower (py_text ''5m'')) = Inr 300000000"
  by (simp_all add: sample_frame sample_closed)

lemma sample_ranges: "candle_ranges (win_timeline sample_view) = Inr sample_bars"
  by code_simp

lemma sample_view_range:
  "\<forall>x \<in> set (win_timeline sample_view). 0 \<le> cc_open_timestamp x \<and> cc_close_timestamp x < dt_max"
  "win_decision_timestamp sample_view < dt_max"
  by (simp_all add: sample_view_def sample_bar_def sample_time_def dt_max_value)

lemma sample_identities: "compatible_plan_identities sample_digest sample_confirmed_record = [''plan-'' @ replicate 64 (CHR ''a'')]"
  by code_simp



section \<open>A resumed plan\<close>

definition sample_managed :: SetupLifecycleRecord where
  "sample_managed = sample_confirmed_record\<lparr>current_state := MANAGING\<rparr>"

definition sample_row :: outcome_progress where
  "sample_row = sample_progress
     \<lparr>op_plan_identity := ''plan-'' @ replicate 64 (CHR ''a''), op_execution_timeframe := ''5m'',
      op_tracking_start_at := Some (utc_iso (sample_time - 300000000)),
      op_evaluation_cursor_open_at := Some (utc_iso (sample_time - 300000000)),
      op_evaluation_cursor_close_at := Some (utc_iso sample_time), op_entry_at := Some (utc_iso sample_time),
      op_plan_version_id := Some ''plan-version-1'',
      op_metadata := Some (JObject [(BREAKEVEN_KEY, new_stop_binding sample_geometry (utc_iso sample_time) sample_time)])\<rparr>"

definition sample_reads :: outcome_reads where
  "sample_reads = \<lparr>rd_epoch_current = True, rd_events = [], rd_progress_rows = [sample_row]\<rparr>"

lemma sample_managed_plan: "stored_plan_geometry sample_managed = Inr sample_geometry"
  by code_simp

lemma sample_stored: "first_progress sample_reads (compatible_plan_identities (env_sha256 sample_env) sample_managed) = Some sample_row"
proof -
  have "compatible_plan_identities sample_digest sample_managed = [''plan-'' @ replicate 64 (CHR ''a'')]" by code_simp
  then show ?thesis by (simp add: sample_env_def sample_reads_def get_outcome_progress_def sample_row_def)
qed

lemma sample_earlier: "0 \<le> sample_time - 300000000" "sample_time - 300000000 < dt_max"
  by (simp_all add: sample_time_def dt_max_value)

lemmas sample_parses = normalize_utc_iso(1) [OF sample_time_range] normalize_utc_iso(1) [OF sample_earlier]

lemma sample_row_bound: "bind_stop_policy sample_row sample_geometry sample_cutoff (env_evaluated_at sample_env) = Inr sample_row"
proof -
  obtain b where b: "new_stop_binding sample_geometry (utc_iso sample_time) sample_time = JObject b" by (auto simp: new_stop_binding_def)
  then have "check_stop_binding b sample_geometry = Inr ()"
    by (rule new_binding_checks [OF sample_parses(1) sample_time_range])
  then show ?thesis by (simp add: bind_stop_policy_def sample_row_def b)
qed

lemma sample_resumable: "resumable sample_env sample_geometry ''5m'' sample_cutoff (sample_time - 300000000) sample_row"
proof -
  have "text_or_none ''lc-1'' \<noteq> None" "''5m'' \<noteq> py_lower NA" "text_or_none (''plan-'' @ replicate 64 (CHR ''a'')) \<noteq> None" by code_simp+
  moreover have "optional_time (Some (utc_iso (sample_time - 300000000))) = Inr (sample_time - 300000000)"
    by (rule optional_time_iso [OF sample_earlier])
  moreover have "cursor_ok (Some (utc_iso (sample_time - 300000000))) (Some (utc_iso sample_time))"
    by (rule iso_cursor(1)) (simp_all add: sample_time_def dt_max_value)
  ultimately show ?thesis using sample_row_bound sample_frame(1) unfolding resumable_def
    by (simp add: sample_row_def sample_progress_def)
qed

lemma sample_row_start: "protection_start sample_row = Some sample_time"
  using sample_parses(1) by (simp add: protection_start_def sample_row_def progress_metadata_def json_get_def new_stop_binding_def)

lemma sample_row_fields: "op_terminal_outcome sample_row = NA" "op_tp1_at sample_row = None" "op_tp2_at sample_row = None"
  "op_tp3_at sample_row = None" "op_invalidated_at sample_row = None" "op_entry_at sample_row = Some (utc_iso sample_time)"
  "op_metadata sample_row = Some (JObject [(BREAKEVEN_KEY, new_stop_binding sample_geometry (utc_iso sample_time) sample_time)])"
  by (simp_all add: sample_row_def sample_progress_def)

lemma sample_row_live: "live_row sample_row (sample_time - 300000000 + 300000000)"
proof -
  have "time_of (Some (utc_iso sample_time)) = Some sample_time" using sample_parses(1) by (simp add: time_of_iff)
  then show ?thesis using sample_row_start
    by (simp add: live_row_def metadata_ok_def milestones_before_def counts_candles_def before_def sample_row_fields
        progress_metadata_def BREAKEVEN_KEY_def)
qed

lemma sample_managed_follows: "record_follows sample_managed sample_row"
  using sample_follows by (simp add: record_follows_def record_valid_def sample_managed_def sample_row_def)

lemma sample_pending: "pending_from (sample_time - 300000000 + 300000000) sample_bars = sample_bars"
  by (simp add: pending_from_def sample_bars_def sample_bar_def)

lemma sample_bars_positions: "foldl (position_step sample_geometry sample_time) (position_of sample_row) sample_bars = Closed ''BREAKEVEN''"
proof -
  have "position_of sample_row = Live 0" by (simp add: position_of_def sample_row_def sample_progress_def)
  moreover have "foldl (position_step sample_geometry sample_time) (Live 0) sample_bars = Closed ''BREAKEVEN''" by code_simp
  ultimately show ?thesis by simp
qed


lemma sample_next: "pending_from (sample_time - 300000000 + 300000000) sample_bars \<noteq> []"
  "cc_open_timestamp (fst (hd (pending_from (sample_time - 300000000 + 300000000) sample_bars))) = sample_time - 300000000 + 300000000"
  unfolding sample_pending by (simp_all add: sample_bars_def sample_bar_def)

lemma sample_current: "rd_epoch_current sample_reads"
  by (simp add: sample_reads_def)

lemmas sample_ready = sample_stored sample_current sample_resumable sample_row_live sample_row_start sample_managed_plan
  sample_managed_follows sample_evaluated(1) sample_ranges sample_view_range
  sample_evaluated(2) sample_next

lemma sample_evaluation:
  obtains e ws q v where
    "evaluate_closed_candle_outcomes sample_env sample_reads sample_managed sample_candles ''5m'' sample_cutoff = Inr (e, ws)"
    "le_progress e = Some q" "op_prefix_evidence q = Some v" "structurally_valid_envelope v = Inr True" "0 < le_processed_candles e"
    "op_integrity_status q = INTEGRITY_VERIFIED" "op_lifecycle_id q = ''lc-1''" "op_plan_identity q = ''plan-'' @ replicate 64 (CHR ''a'')"
  by (rule resumed_evaluation [OF sample_ready]) (simp add: sample_row_def sample_progress_def)

theorem evaluation_implements_positions_witness:
  "\<exists>e ws q v. evaluate_closed_candle_outcomes sample_env sample_reads sample_managed sample_candles ''5m'' sample_cutoff = Inr (e, ws)
     \<and> le_progress e = Some q \<and> position_of q = Closed ''BREAKEVEN'' \<and> op_prefix_evidence q = Some v
     \<and> structurally_valid_envelope v = Inr True"
  using evaluation_implements_positions [OF sample_ready] unfolding sample_pending sample_bars_positions .

theorem cursor_counts_candles_witness:
  "\<exists>e ws q. evaluate_closed_candle_outcomes sample_env sample_reads sample_managed sample_candles ''5m'' sample_cutoff = Inr (e, ws)
     \<and> le_progress e = Some q \<and> 0 < le_processed_candles e
     \<and> op_evaluation_cursor_open_at q = Some (utc_iso (sample_time - 300000000 + int (le_processed_candles e) * 300000000))"
proof -
  obtain e ws q where e: "evaluate_closed_candle_outcomes sample_env sample_reads sample_managed sample_candles ''5m'' sample_cutoff = Inr (e, ws)"
    "le_progress e = Some q" "0 < le_processed_candles e" "op_integrity_status q = INTEGRITY_VERIFIED"
    by (rule sample_evaluation)
  have t: "op_tracking_start_at sample_row = Some (utc_iso (sample_time - 300000000))"
    "op_evaluation_cursor_open_at sample_row = Some (utc_iso (sample_time - 300000000))" "op_entry_at sample_row \<noteq> None"
    by (simp_all add: sample_row_def)
  have "op_integrity_status q \<noteq> INTEGRITY_FAILED" using e(4) by (simp add: INTEGRITY_VERIFIED_def INTEGRITY_FAILED_def)
  from cursor_counts_candles [OF e(1,3) sample_stored t(3,1) optional_time_iso [OF sample_earlier] t(2) optional_time_iso [OF sample_earlier]
      order_refl e(2) this] e show ?thesis by (auto simp: sample_frame)
qed

theorem milestones_are_latched_witness:
  "\<exists>e ws q. evaluate_closed_candle_outcomes sample_env sample_reads sample_managed sample_candles ''5m'' sample_cutoff = Inr (e, ws)
     \<and> le_progress e = Some q \<and> op_entry_at q = Some (utc_iso sample_time)"
proof -
  obtain e ws q where e: "evaluate_closed_candle_outcomes sample_env sample_reads sample_managed sample_candles ''5m'' sample_cutoff = Inr (e, ws)"
    by (rule sample_evaluation)
  from milestones_are_latched [OF e sample_stored] e show ?thesis by (auto simp: latches_def sample_row_fields)
qed

theorem pass_keeps_its_evidence_witness:
  "\<exists>e ws q v. evaluate_closed_candle_outcomes sample_env sample_reads sample_managed sample_candles ''5m'' sample_cutoff = Inr (e, ws)
     \<and> 0 < le_processed_candles e \<and> le_progress e = Some q \<and> op_prefix_evidence q = Some v \<and> structurally_valid_envelope v = Inr True"
proof -
  obtain e ws q where e: "evaluate_closed_candle_outcomes sample_env sample_reads sample_managed sample_candles ''5m'' sample_cutoff = Inr (e, ws)"
    "le_progress e = Some q" "0 < le_processed_candles e" "op_lifecycle_id q = ''lc-1''" "op_plan_identity q = ''plan-'' @ replicate 64 (CHR ''a'')"
    by (rule sample_evaluation)
  have "text_or_none (op_lifecycle_id q) \<noteq> None" "text_or_none (op_plan_identity q) \<noteq> None" unfolding e(4,5) by code_simp+
  from pass_keeps_its_evidence [OF e(1,3) sample_evaluated(1) sample_view_range e(2) this] e sample_resumable
  show ?thesis by (auto simp: sample_stored resumable_def)
qed

section \<open>Stored evidence\<close>

definition sample_idle :: PrefixPassEvidence where
  "sample_idle = \<lparr>pe_execution_timeframe = ''5m'', pe_applied_cutoff = utc_iso (sample_time + 600000000), pe_supplied = [sample_bar 0],
     pe_cursor_before_open_at = None, pe_cursor_before_close_at = None, pe_pending = Some [],
     pe_expected_next_open_at = Some (sample_time + 300000000), pe_pending_unknown_reason = None, pe_disposition = None, pe_completed = []\<rparr>"

definition sample_envelope :: json where
  "sample_envelope = envelope sample_progress sample_idle NO_NEW_PENDING_CANDLES"

lemma sample_envelope_valid: "structurally_valid_envelope sample_envelope = Inr True"
  by code_simp

lemma sample_envelope_stored:
  "bind_prefix_disposition sample_progress sample_idle (Some NO_NEW_PENDING_CANDLES)
     = Inr (sample_progress\<lparr>op_prefix_evidence := Some sample_envelope\<rparr>)"
proof -
  have "envelope sample_progress (sample_idle\<lparr>pe_disposition := Some NO_NEW_PENDING_CANDLES\<rparr>) NO_NEW_PENDING_CANDLES = sample_envelope"
    by (simp add: sample_envelope_def envelope_def)
  then show ?thesis using sample_envelope_valid
    by (simp add: bind_prefix_disposition_def build_prefix_evidence_payload_def serialize_prefix_evidence_def)
qed

theorem stored_evidence_roundtrip_witness:
  "diagnose_prefix_evidence (Some (StoredJson sample_envelope)) ''lc-1'' ''plan-1'' (Some (utc_iso (sample_time + 600000000))) (Some ''5m'')
     = Inr \<lparr>pd_status = PES_known, pd_payload = Some sample_envelope, pd_conflicts = [],
         pd_disposition = JText ''NO_NEW_PENDING_CANDLES'', pd_pending_suffix_exhausted = JBool True\<rparr>"
  using stored_evidence_roundtrip [OF sample_envelope_stored, of sample_envelope]
  by (simp add: sample_progress_def sample_idle_def pending_suffix_exhausted_def)

theorem exhaustion_claim_is_sound_witness:
  "\<exists>g. diagnose_prefix_evidence (Some (StoredJson sample_envelope)) ''lc-1'' ''plan-1'' (Some (utc_iso (sample_time + 600000000))) (Some ''5m'')
     = Inr g \<and> pd_pending_suffix_exhausted g = JBool True \<and> pd_status g = PES_known"
proof -
  have "owner_conflicts sample_envelope ''lc-1'' ''plan-1'' (Some (utc_iso (sample_time + 600000000))) (Some ''5m'') = []" by code_simp
  moreover have "is_object sample_envelope" "vget sample_envelope ''pending_suffix_exhausted'' = JBool True"
    by (simp_all add: sample_envelope_def envelope_def pending_suffix_exhausted_def)
  ultimately obtain g where g: "diagnose_prefix_evidence (Some (StoredJson sample_envelope)) ''lc-1'' ''plan-1''
      (Some (utc_iso (sample_time + 600000000))) (Some ''5m'') = Inr g" "pd_pending_suffix_exhausted g = JBool True"
    using sample_envelope_valid by (simp add: diagnose_prefix_evidence_def Let_def)
  with exhaustion_claim_is_sound [OF g] show ?thesis by blast
qed

section \<open>A first evaluation\<close>

definition sample_empty :: outcome_reads where
  "sample_empty = \<lparr>rd_epoch_current = True, rd_events = [], rd_progress_rows = []\<rparr>"

definition sample_start_env :: outcome_env where
  "sample_start_env = sample_env\<lparr>env_plan_identity := ''plan-'' @ replicate 64 (CHR ''a'')\<rparr>"

definition sample_new_metadata :: "(string \<times> json) list" where
  "sample_new_metadata =
     [(''ambiguity_policy'', JText ''conservative_stop_wins''),
      (''entry_causality_contract'', JText ENTRY_CAUSALITY_CONTRACT), (''plan_identity'', JText (''plan-'' @ replicate 64 (CHR ''a''))),
      (''plan_version_binding'', JText (initial_plan_version_binding sample_digest sample_confirmed_record)),
      (''processed_candle_count'', JNumber 0), (''source'', JText ''canonical_lifecycle_closed_execution_candles'')]"

lemma sample_unseen: "first_progress sample_empty (compatible_plan_identities (env_sha256 sample_env) sample_confirmed_record) = None"
  by (simp add: sample_env_def sample_identities sample_empty_def get_outcome_progress_def)

lemma sample_started: "sample_start_env = sample_env\<lparr>env_plan_identity := hd (compatible_plan_identities (env_sha256 sample_env) sample_confirmed_record)\<rparr>"
  by (simp add: sample_start_env_def sample_env_def sample_identities)

lemma sample_new:
  obtains p where "new_progress sample_start_env sample_confirmed_record ''5m'' = Inr p" "op_metadata p = Some (JObject sample_new_metadata)"
    "op_execution_timeframe p = ''5m''" "op_lifecycle_id p = ''lc-1''" "op_plan_identity p = ''plan-'' @ replicate 64 (CHR ''a'')"
    "op_terminal_outcome p = NA" "op_tp1_at p = None" "op_tp2_at p = None" "op_tp3_at p = None" "op_invalidated_at p = None" "op_entry_at p = None"
    "op_evaluation_cursor_close_at p = None"
proof -
  have t: "normalize_text ''5m'' = ''5m''" "normalize_text ''lc-1'' = ''lc-1''" "normalize_text NA = NA"
    "normalize_text (''plan-'' @ replicate 64 (CHR ''a'')) = ''plan-'' @ replicate 64 (CHR ''a'')" "normalize_symbol ''BTCUSDT'' = Inr ''BTCUSDT''"
    by code_simp+
  have "symbol sample_confirmed_record = ''BTCUSDT''" "lifecycle_id sample_confirmed_record = ''lc-1''"
    by (simp_all add: sample_confirmed_record_def sample_record_def)
  then show ?thesis using that t sample_frame(1)
    by (auto simp: new_progress_def construct_progress_def sample_start_env_def sample_env_def sample_new_metadata_def
        SetupLifecycleOutcomeProgress.defs outcome_progress.defs lift_model_def)
qed


lemma sample_times: "normalize_utc_timestamp sample_cutoff = Inr (sample_time + 600000000)"
  "normalize_utc_timestamp (AText ''2024-05-01T10:00:00+00:00'') = Inr sample_time"
  by code_simp+

lemma sample_boundary:
  "tracking_start_boundary sample_start_env sample_confirmed_record u (map fst sample_bars) sample_empty
       (compatible_plan_identities (env_sha256 sample_env) sample_confirmed_record) (py_lower (py_text ''5m''))
     = Inr (sample_time, utc_iso sample_time, ''lifecycle_confirmed_at'', ''boundary_exactly_at_candle_open'', NA)"
proof -
  have c: "confirmed_at sample_confirmed_record = Some ''2024-05-01T10:00:00+00:00''" by (simp add: sample_confirmed_record_def)
  have t: "py_text ''2024-05-01T10:00:00+00:00'' \<noteq> NA" by code_simp
  have "entry_tracking_boundary sample_start_env sample_confirmed_record u sample_empty ids = Inr (sample_time, ''lifecycle_confirmed_at'')" for ids
    using t sample_times(2) by (simp add: entry_tracking_boundary_def c Let_def prefix_value_error_def lift_timestamp_def sample_empty_def)
  then show ?thesis
    by (simp add: tracking_start_boundary_def sample_evaluated(2) lift_timestamp_def first_fully_post_boundary_open_def sample_bars_def sample_bar_def)
qed

lemma sample_first_pass:
  obtains q ev b where
    "evaluate_closed_candle_outcomes sample_env sample_empty sample_confirmed_record sample_candles ''5m'' sample_cutoff =
      run_pending sample_start_env sample_confirmed_record sample_geometry q ev [UpsertProgress b] sample_bars"
    "protection_start q = Some (sample_time + 600000000)" "live_row q sample_time" "op_entry_at q = None" "evidence_ok q ev (map fst sample_bars)"
    "pe_completed ev = []" "pe_cursor_before_open_at ev = Option.bind (op_evaluation_cursor_open_at q) text_or_none"
    "pe_cursor_before_close_at ev = Option.bind (op_evaluation_cursor_close_at q) text_or_none"
    "cursor_ok (op_evaluation_cursor_open_at q) (op_evaluation_cursor_close_at q)"
proof -
  obtain p where p: "new_progress sample_start_env sample_confirmed_record ''5m'' = Inr p" "op_metadata p = Some (JObject sample_new_metadata)"
    "op_execution_timeframe p = ''5m''" "op_lifecycle_id p = ''lc-1''" "op_plan_identity p = ''plan-'' @ replicate 64 (CHR ''a'')"
    "op_terminal_outcome p = NA" "op_tp1_at p = None" "op_tp2_at p = None" "op_tp3_at p = None" "op_invalidated_at p = None" "op_entry_at p = None"
    "op_evaluation_cursor_close_at p = None"
    by (rule sample_new)
  define b where "b = with_metadata p (AList.update BREAKEVEN_KEY
    (new_stop_binding sample_geometry (env_evaluated_at sample_start_env) (sample_time + 600000000)) sample_new_metadata)"
  define u where "u = with_applied_eligibility_cutoff b sample_view"
  define q where "q = with_tracking_start u sample_time (utc_iso sample_time) ''lifecycle_confirmed_at'' ''boundary_exactly_at_candle_open'' NA"
  define ev where "ev = mark_pending (start_prefix_pass_evidence u sample_view (py_lower (py_text ''5m''))) (map fst sample_bars) (Some sample_time)"
  have clock: "normalize_utc_timestamp (AText (env_evaluated_at sample_start_env)) = Inr 63850155000000000"
    using sample_clock_time by (simp add: sample_start_env_def sample_env_def)
  have nokey: "map_of sample_new_metadata BREAKEVEN_KEY = None" by (simp add: sample_new_metadata_def BREAKEVEN_KEY_def)
  have bind: "bind_stop_policy p sample_geometry sample_cutoff (env_evaluated_at sample_start_env) = Inr b"
    using clock by (simp add: bind_stop_policy_def p(2,12) nokey sample_times(1) lift_timestamp_def b_def)
  have pend: "pending_from sample_time sample_bars = sample_bars" by (simp add: pending_from_def sample_bars_def sample_bar_def)
  have state: "current_state sample_confirmed_record \<in> set OUTCOME_ELIGIBLE_STATES"
    by (simp add: sample_confirmed_record_def OUTCOME_ELIGIBLE_STATES_def)
  have frame: "py_lower (py_text ''5m'') \<noteq> py_lower NA" by code_simp
  have eval: "evaluate_closed_candle_outcomes sample_env sample_empty sample_confirmed_record sample_candles ''5m'' sample_cutoff =
      run_pending sample_start_env sample_confirmed_record sample_geometry q ev [UpsertProgress b] sample_bars"
    using evaluate_starts [OF sample_unseen _ p(1) bind _ frame sample_plan state sample_evaluated(1) sample_ranges _ sample_boundary _ _
        sample_started u_def q_def, of "sample_bar 0" "209 / 2" 99 "[(sample_bar 1, 209 / 2, 99)]"] p(3)
    by (simp add: pend ev_def sample_frame sample_empty_def sample_candles_def) (simp add: sample_bars_def sample_bar_def)
  have md: "progress_metadata q = dict_update (AList.update BREAKEVEN_KEY (new_stop_binding sample_geometry
      (env_evaluated_at sample_start_env) (sample_time + 600000000)) sample_new_metadata)
       [(''tracking_boundary_source'', JText ''lifecycle_confirmed_at''), (''tracking_boundary_timestamp'', JText (utc_iso sample_time)),
        (''boundary_candle_eligibility_decision'', JText ''boundary_exactly_at_candle_open''), (''boundary_diagnostic'', JText NA),
        (''entry_causality_contract'', JText ENTRY_CAUSALITY_CONTRACT), (''tracking_start_at'', JText (utc_iso sample_time))]"
    by (simp add: q_def u_def b_def with_tracking_start_def with_applied_eligibility_cutoff_def with_metadata_def progress_metadata_def)
  have keys: "map_of (progress_metadata q) BREAKEVEN_KEY = Some (new_stop_binding sample_geometry (env_evaluated_at sample_start_env) (sample_time + 600000000))"
    "map_of (progress_metadata q) ''processed_candle_count'' = Some (JNumber 0)"
    unfolding md map_of_dict_update by (simp_all add: update_conv' BREAKEVEN_KEY_def sample_new_metadata_def)
  have range: "0 \<le> sample_time + 600000000" "sample_time + 600000000 < dt_max" by (simp_all add: sample_time_def dt_max_value)
  have start: "protection_start q = Some (sample_time + 600000000)"
    using normalize_utc_iso(1) [OF range] by (simp add: protection_start_def json_get_def keys(1) new_stop_binding_def)
  have row: "op_entry_at q = None" "op_tp1_at q = None" "op_tp2_at q = None" "op_tp3_at q = None" "op_invalidated_at q = None"
    "op_terminal_outcome q = NA" "op_evaluation_cursor_open_at q = op_evaluation_cursor_open_at p" "op_evaluation_cursor_close_at q = None"
    "op_tracking_start_at q = Some (utc_iso sample_time)" "op_lifecycle_id q = ''lc-1''" "op_plan_identity q = ''plan-'' @ replicate 64 (CHR ''a'')"
    "op_metadata q = Some (JObject (progress_metadata q))"
    using p by (simp_all add: q_def u_def b_def with_tracking_start_def with_applied_eligibility_cutoff_def with_metadata_def progress_metadata_def)
  have live: "live_row q sample_time"
    using start by (simp add: live_row_def metadata_ok_def milestones_before_def counts_candles_def row keys)
  have texts: "text_or_none (op_lifecycle_id q) \<noteq> None" "text_or_none (op_plan_identity q) \<noteq> None" unfolding row by code_simp+
  have window: "win_timeline sample_view = [] @ map fst sample_bars" "map fst sample_bars \<noteq> []" "cc_open_timestamp (hd (map fst sample_bars)) = sample_time"
    by (simp_all add: sample_view_def sample_bars_def sample_bar_def)
  have "evidence_ok q ev (map fst sample_bars)"
    unfolding ev_def by (rule started_evidence_ok [OF sample_evaluated sample_view_range(2,1) window texts row(9) sample_parses(1)])
  moreover have "op_evaluation_cursor_open_at q = None" "op_evaluation_cursor_open_at u = None" "op_evaluation_cursor_close_at u = None"
    using new_progress_fresh [OF p(1)] row(7)
    by (simp_all add: fresh_row_def u_def b_def with_applied_eligibility_cutoff_def with_metadata_def)
  ultimately show ?thesis using that [OF eval start live row(1)] row(8)
    by (simp add: ev_def mark_pending_def start_prefix_pass_evidence_def cursor_ok_def)
qed

lemma sample_first_evaluation:
  obtains e ws q t where
    "evaluate_closed_candle_outcomes sample_env sample_empty sample_confirmed_record sample_candles ''5m'' sample_cutoff = Inr (e, ws)"
    "le_progress e = Some q" "op_entry_at q = Some t"
proof -
  obtain q ev b where eval: "evaluate_closed_candle_outcomes sample_env sample_empty sample_confirmed_record sample_candles ''5m'' sample_cutoff =
      run_pending sample_start_env sample_confirmed_record sample_geometry q ev [UpsertProgress b] sample_bars"
    and row: "protection_start q = Some (sample_time + 600000000)" "live_row q sample_time" "op_entry_at q = None"
    and ev: "evidence_ok q ev (map fst sample_bars)" "pe_completed ev = []"
      "pe_cursor_before_open_at ev = Option.bind (op_evaluation_cursor_open_at q) text_or_none"
      "pe_cursor_before_close_at ev = Option.bind (op_evaluation_cursor_close_at q) text_or_none"
      "cursor_ok (op_evaluation_cursor_open_at q) (op_evaluation_cursor_close_at q)"
    by (rule sample_first_pass)
  have rec: "record_follows sample_confirmed_record q" using sample_follows row(3)
    by (simp add: record_follows_def sample_bound_def sample_progress_def with_metadata_def)
  have time: "timeline_after sample_time sample_bars" "sample_bars \<noteq> []"
    by (simp_all add: sample_bars_def sample_bar_def sample_time_def dt_max_value)
  have flat: "position_of q = Flat" using row(2,3) by (simp add: position_of_def live_row_def)
  have live1: "foldl (position_step sample_geometry (sample_time + 600000000)) Flat sample_bars = Live 1" by code_simp
  obtain s where s: "process_pending sample_start_env sample_geometry (pass_start sample_confirmed_record q ev) sample_bars = Inr s"
    "position_of (os_progress s) = Live 1"
    using pass_returns [OF stored_plan_geometry_ordered [OF sample_plan] rec row(2) time(1) row(1) ev(2)] flat live1 by metis
  obtain v where "write_progress (os_progress s) (Some (os_evidence s)) (Some (loop_disposition s))
      = Inr ((os_progress s)\<lparr>op_prefix_evidence := Some v\<rparr>)"
    using pass_end_evidence [OF s(1) time(2) ev(2,1,3,4,5)] by blast
  moreover obtain t where "op_entry_at (os_progress s) = Some t" using s(2) by (auto simp: position_of_def split: if_splits)
  ultimately show ?thesis using that s(1) unfolding eval run_pending_def by (auto simp: pass_start_def)
qed

theorem first_entry_after_confirmation_witness:
  "\<exists>e ws q t (x :: CausalCandle). evaluate_closed_candle_outcomes sample_env sample_empty sample_confirmed_record sample_candles ''5m'' sample_cutoff = Inr (e, ws)
     \<and> le_progress e = Some q \<and> op_entry_at q = Some t \<and> sample_time \<le> cc_open_timestamp x \<and> t = utc_iso (cc_close_timestamp x)"
proof -
  obtain e ws q t where e: "evaluate_closed_candle_outcomes sample_env sample_empty sample_confirmed_record sample_candles ''5m'' sample_cutoff = Inr (e, ws)"
    "le_progress e = Some q" "op_entry_at q = Some t" by (rule sample_first_evaluation)
  have c: "confirmed_at sample_confirmed_record = Some ''2024-05-01T10:00:00+00:00''" by (simp add: sample_confirmed_record_def)
  have "py_text ''2024-05-01T10:00:00+00:00'' \<noteq> NA" by code_simp
  from first_entry_after_confirmation [OF e(1) sample_unseen c list.simps(3) this sample_times(2) e(2,3)] e show ?thesis by blast
qed

end
