(* ===== verification/Order_Book.thy ===== *)
theory Order_Book
  imports Candle_Integrity Py_Json
begin

text \<open>
  The synchronized local order book, \<open>app/microstructure/order_book.py\<close> and
  \<open>app/microstructure/order_book_models.py\<close>: the parsers of depth events and of the REST snapshot, the book that
  installs a snapshot, bridges it to the buffered events and follows the live ones, and the liquidity summary
  that a reader takes from it.

  A side of the book is the association list of a Python dictionary from price to quantity, in its insertion order. Depth
  payloads are JSON values whose texts are \<open>JText\<close>; a payload that is a text or bytes is the value it decodes to, if
  any. Times are instants in microseconds since year 1. The log of the exchange and the transport are not part of it.
\<close>

section \<open>Depth events\<close>

datatype payload_error = OrderBookPayloadError string | WrongOrderBookContractTypeError string

datatype BookIngestOutcome = BUFFERED | SYNCHRONIZED | APPLIED | IGNORED_OLD | NEEDS_RESYNC | BUFFER_OVERFLOW

record DepthLevelUpdate =
  lv_price :: rat
  lv_quantity :: rat

record BinanceDepthEvent =
  de_symbol :: string
  de_pair_symbol :: string
  de_event_time :: int
  de_transaction_time :: int
  de_first_update_id :: int
  de_final_update_id :: int
  de_previous_final_update_id :: int
  de_bids :: "DepthLevelUpdate list"
  de_asks :: "DepthLevelUpdate list"

record BinanceDepthSnapshot =
  ds_last_update_id :: int
  ds_event_time :: int
  ds_transaction_time :: int
  ds_bids :: "DepthLevelUpdate list"
  ds_asks :: "DepthLevelUpdate list"

record BufferedDepthEvent =
  bd_event :: BinanceDepthEvent
  bd_received_at :: int

subsection \<open>Parsing\<close>

text \<open>
  A payload: an object, a text or bytes that may decode to a JSON value, or anything else. \<open>None\<close> inside is what fails
  to decode; the outer \<open>None\<close> of bytes is a failed UTF-8 decoding.
\<close>

datatype ws_payload = WsObject "(string \<times> json) list" | WsText "json option" | WsBytes "json option option" | WsOther

definition decode_json_object :: "json option \<Rightarrow> string \<Rightarrow> payload_error + (string \<times> json) list" where
  "decode_json_object decoded label =
     (case decoded of
        None \<Rightarrow> Inl (OrderBookPayloadError (label @ '' is not valid JSON''))
      | Some v \<Rightarrow> if is_object v then Inr (object_fields v)
                  else Inl (OrderBookPayloadError (label @ '' must decode to an object'')))"

definition decode_mapping :: "ws_payload \<Rightarrow> string \<Rightarrow> payload_error + (string \<times> json) list" where
  "decode_mapping payload label =
     (case payload of
        WsObject d \<Rightarrow> Inr d
      | WsBytes None \<Rightarrow> Inl (OrderBookPayloadError (label @ '' is not valid UTF-8''))
      | WsBytes (Some decoded) \<Rightarrow> decode_json_object decoded label
      | WsText decoded \<Rightarrow> decode_json_object decoded label
      | WsOther \<Rightarrow> Inl (OrderBookPayloadError (label @ '' must be JSON or an object'')))"

definition required_non_negative_int :: "(string \<times> json) list \<Rightarrow> string \<Rightarrow> payload_error + int" where
  "required_non_negative_int payload field_name =
     (case json_get payload field_name of
        JNumber n \<Rightarrow> if n < 0 then Inl (OrderBookPayloadError (field_name @ '' must be a non-negative integer'')) else Inr n
      | _ \<Rightarrow> Inl (OrderBookPayloadError (field_name @ '' must be a non-negative integer'')))"

definition timestamp_from_ms :: "json \<Rightarrow> string \<Rightarrow> payload_error + int" where
  "timestamp_from_ms v field_name =
     (let invalid = Inl (OrderBookPayloadError (field_name @ '' must be a non-negative millisecond timestamp'')) in
      case v of
        JNumber n \<Rightarrow>
          if n < 0 then invalid
          else (case fromtimestamp (fl (of_int n / 1000)) of
                  None \<Rightarrow> Inl (OrderBookPayloadError (field_name @ '' timestamp is out of range''))
                | Some t \<Rightarrow> Inr t)
      | _ \<Rightarrow> invalid)"

definition level_decimal :: "json \<Rightarrow> string \<Rightarrow> payload_error + rat" where
  "level_decimal v field_name =
     (case v of
        JBool _ \<Rightarrow> Inl (OrderBookPayloadError (field_name @ '' must be decimal-compatible''))
      | _ \<Rightarrow>
          (case decimal_of_string (json_str v) of
             None \<Rightarrow> Inl (OrderBookPayloadError (field_name @ '' must be decimal-compatible''))
           | Some (Finite x) \<Rightarrow> Inr x
           | Some _ \<Rightarrow> Inl (OrderBookPayloadError (field_name @ '' must be finite''))))"

definition level_label :: "string \<Rightarrow> int \<Rightarrow> string" where
  "level_label label index = label @ ''['' @ int_text index @ '']''"

definition parse_level :: "string \<Rightarrow> json \<Rightarrow> payload_error + DepthLevelUpdate" where
  "parse_level place item =
     (case item of
        JArray [p, q] \<Rightarrow>
          ebind (level_decimal p (place @ ''.price'')) (\<lambda>price.
          ebind (level_decimal q (place @ ''.quantity'')) (\<lambda>quantity.
          ebind (eraise_if (price \<le> 0) (OrderBookPayloadError (place @ '' price must be positive''))) (\<lambda>_.
          ebind (eraise_if (quantity < 0) (OrderBookPayloadError (place @ '' quantity cannot be negative''))) (\<lambda>_.
          Inr \<lparr>lv_price = price, lv_quantity = quantity\<rparr>))))
      | _ \<Rightarrow> Inl (OrderBookPayloadError (place @ '' must be [price, quantity]'')))"

fun parse_level_items :: "string \<Rightarrow> int \<Rightarrow> json list \<Rightarrow> payload_error + DepthLevelUpdate list" where
  "parse_level_items label index [] = Inr []"
| "parse_level_items label index (item # items) =
     ebind (parse_level (level_label label index) item) (\<lambda>level.
     ebind (parse_level_items label (index + 1) items) (\<lambda>levels. Inr (level # levels)))"

definition parse_levels :: "json \<Rightarrow> string \<Rightarrow> payload_error + DepthLevelUpdate list" where
  "parse_levels v label =
     (case v of
        JArray items \<Rightarrow> parse_level_items label 0 items
      | _ \<Rightarrow> Inl (OrderBookPayloadError (label @ '' must be an array'')))"

text \<open>\<open>value.replace("_", "").isalnum()\<close> and \<open>value == value.upper()\<close>.\<close>

definition py_isalnum :: "char \<Rightarrow> bool" where
  "py_isalnum c \<longleftrightarrow> py_isdigit c \<or> lower_char c \<noteq> c \<or> upper_char c \<noteq> c"

definition exact_stream_symbol :: "json \<Rightarrow> string option" where
  "exact_stream_symbol v =
     (case v of
        JText s \<Rightarrow>
          let bare = py_remove_char (CHR ''_'') s in
          if bare = [] \<or> \<not> list_all py_isalnum bare \<or> s \<noteq> py_upper s then None else Some s
      | _ \<Rightarrow> None)"

definition depth_symbol :: "json \<Rightarrow> payload_error + string" where
  "depth_symbol v =
     (case exact_stream_symbol v of
        None \<Rightarrow> Inl (OrderBookPayloadError ''depth literal contract identity invalid'')
      | Some s \<Rightarrow> Inr s)"

definition depth_stream_type :: "json \<Rightarrow> payload_error + unit" where
  "depth_stream_type v =
     (case v of
        JNumber n \<Rightarrow>
          if n = 1 then Inr ()
          else if n = 2 then Inl (WrongOrderBookContractTypeError ''COIN-M depth event rejected'')
          else Inl (OrderBookPayloadError ''depth event st must be 1 for USD-M'')
      | _ \<Rightarrow> Inl (OrderBookPayloadError ''depth event st must be integer 1 for USD-M''))"

definition parse_binance_depth_event :: "ws_payload \<Rightarrow> payload_error + BinanceDepthEvent" where
  "parse_binance_depth_event payload =
     ebind (decode_mapping payload ''depth event'') (\<lambda>outer.
     let decoded = (if is_object (json_get outer ''data'') then object_fields (json_get outer ''data'') else outer) in
     ebind (eraise_if (json_get decoded ''e'' \<noteq> JText ''depthUpdate'')
       (OrderBookPayloadError ''depth event type must be depthUpdate'')) (\<lambda>_.
     ebind (depth_stream_type (json_get decoded ''st'')) (\<lambda>_.
     ebind (depth_symbol (json_get decoded ''s'')) (\<lambda>symbol.
     ebind (depth_symbol (json_get decoded ''ps'')) (\<lambda>pair_symbol.
     ebind (required_non_negative_int decoded ''U'') (\<lambda>first_update_id.
     ebind (required_non_negative_int decoded ''u'') (\<lambda>final_update_id.
     ebind (required_non_negative_int decoded ''pu'') (\<lambda>previous_final_update_id.
     ebind (eraise_if (first_update_id > final_update_id)
       (OrderBookPayloadError ''depth event U cannot exceed u'')) (\<lambda>_.
     ebind (timestamp_from_ms (json_get decoded ''E'') ''E'') (\<lambda>event_time.
     ebind (timestamp_from_ms (json_get decoded ''T'') ''T'') (\<lambda>transaction_time.
     ebind (parse_levels (json_get decoded ''b'') ''b'') (\<lambda>bids.
     ebind (parse_levels (json_get decoded ''a'') ''a'') (\<lambda>asks.
     Inr \<lparr>de_symbol = symbol, de_pair_symbol = pair_symbol, de_event_time = event_time,
       de_transaction_time = transaction_time, de_first_update_id = first_update_id,
       de_final_update_id = final_update_id, de_previous_final_update_id = previous_final_update_id,
       de_bids = bids, de_asks = asks\<rparr>)))))))))))))"

definition parse_binance_depth_snapshot :: "json \<Rightarrow> payload_error + BinanceDepthSnapshot" where
  "parse_binance_depth_snapshot payload =
     (case payload of
        JObject d \<Rightarrow>
          ebind (required_non_negative_int d ''lastUpdateId'') (\<lambda>last_update_id.
          ebind (timestamp_from_ms (json_get d ''E'') ''E'') (\<lambda>event_time.
          ebind (timestamp_from_ms (json_get d ''T'') ''T'') (\<lambda>transaction_time.
          ebind (parse_levels (json_get d ''bids'') ''bids'') (\<lambda>bids.
          ebind (parse_levels (json_get d ''asks'') ''asks'') (\<lambda>asks.
          Inr \<lparr>ds_last_update_id = last_update_id, ds_event_time = event_time,
            ds_transaction_time = transaction_time, ds_bids = bids, ds_asks = asks\<rparr>)))))
      | _ \<Rightarrow> Inl (OrderBookPayloadError ''depth snapshot must be an object''))"

section \<open>The book\<close>

text \<open>
  \<open>DEFAULT_DEPTH_BANDS_BPS\<close>, and the number of decimals of the three quantization units.
\<close>

definition DEFAULT_DEPTH_BANDS_BPS :: "int list" where
  "DEFAULT_DEPTH_BANDS_BPS = [10, 25, 50, 100]"

definition MONEY_QUANT :: nat where
  "MONEY_QUANT = 8"

definition RATIO_QUANT :: nat where
  "RATIO_QUANT = 8"

definition BPS_QUANT :: nat where
  "BPS_QUANT = 4"

definition TEN_THOUSAND :: rat where
  "TEN_THOUSAND = 10000"

text \<open>
  What the operations of the book raise: a \<open>ValueError\<close>, the error of a timestamp, or \<open>InvalidOperation\<close> and its
  relatives of \<open>decimal\<close>.
\<close>

datatype book_error = BookValueError string | BookTimestampError candle_exception | BookDecimalError

record SynchronizedLocalOrderBook =
  ob_symbol :: string
  ob_stale_after_seconds :: rat
  ob_event_buffer_size :: int
  ob_bands_bps :: "int list"
  ob_bids :: "(rat \<times> rat) list"
  ob_asks :: "(rat \<times> rat) list"
  ob_last_update_id :: "int option"
  ob_last_transaction_time :: "int option"
  ob_last_event_time :: "int option"
  ob_snapshot_time :: "int option"
  ob_last_valid_update :: "int option"
  ob_synchronized :: bool
  ob_stream_connected :: bool
  ob_reason :: "string option"
  ob_resync_count :: nat
  ob_gap_count :: nat
  ob_duplicate_event_count :: nat
  ob_out_of_order_event_count :: nat
  ob_buffer_overflow_count :: nat
  ob_buffer :: "BufferedDepthEvent list"
  ob_snapshot_installed :: bool
  ob_needs_resync :: bool
  ob_coverage_bid_floor :: "rat option"
  ob_coverage_ask_ceiling :: "rat option"

definition new_order_book :: "string \<Rightarrow> rat \<Rightarrow> int \<Rightarrow> int list \<Rightarrow> book_error + SynchronizedLocalOrderBook" where
  "new_order_book symbol stale_after_seconds event_buffer_size bands_bps =
     (let normalized = py_upper (py_strip symbol); normalized_bands = sort (remdups bands_bps) in
      ebind (eraise_if (normalized = []) (BookValueError ''order-book symbol must not be blank'')) (\<lambda>_.
      ebind (eraise_if (stale_after_seconds \<le> 0)
        (BookValueError ''order-book stale threshold must be greater than zero'')) (\<lambda>_.
      ebind (eraise_if (event_buffer_size < 1) (BookValueError ''order-book event buffer size must be positive'')) (\<lambda>_.
      ebind (eraise_if (normalized_bands = [] \<or> list_ex (\<lambda>v. v \<le> 0) normalized_bands)
        (BookValueError ''order-book bands must contain positive basis-point values'')) (\<lambda>_.
      Inr \<lparr>ob_symbol = normalized, ob_stale_after_seconds = stale_after_seconds,
        ob_event_buffer_size = event_buffer_size, ob_bands_bps = normalized_bands, ob_bids = [], ob_asks = [],
        ob_last_update_id = None, ob_last_transaction_time = None, ob_last_event_time = None,
        ob_snapshot_time = None, ob_last_valid_update = None, ob_synchronized = False,
        ob_stream_connected = False, ob_reason = Some ''warming_up'', ob_resync_count = 0, ob_gap_count = 0,
        ob_duplicate_event_count = 0, ob_out_of_order_event_count = 0, ob_buffer_overflow_count = 0,
        ob_buffer = [], ob_snapshot_installed = False, ob_needs_resync = True, ob_coverage_bid_floor = None,
        ob_coverage_ask_ceiling = None\<rparr>)))))"

subsection \<open>Clearing and levels\<close>

definition clear_trusted_book :: "bool \<Rightarrow> SynchronizedLocalOrderBook \<Rightarrow> SynchronizedLocalOrderBook" where
  "clear_trusted_book preserve_observation b =
     (let c = b\<lparr>ob_bids := [], ob_asks := [], ob_last_update_id := None, ob_snapshot_time := None,
            ob_last_valid_update := None, ob_synchronized := False, ob_snapshot_installed := False,
            ob_coverage_bid_floor := None, ob_coverage_ask_ceiling := None\<rparr> in
      if preserve_observation then c else c\<lparr>ob_last_event_time := None, ob_last_transaction_time := None\<rparr>)"

definition invalidate :: "string \<Rightarrow> bool \<Rightarrow> SynchronizedLocalOrderBook \<Rightarrow> SynchronizedLocalOrderBook" where
  "invalidate reason gap b =
     (let counted = (if gap then b\<lparr>ob_gap_count := ob_gap_count b + 1\<rparr> else b) in
      (clear_trusted_book True counted)\<lparr>ob_buffer := [], ob_reason := Some reason, ob_needs_resync := True\<rparr>)"

definition apply_level :: "DepthLevelUpdate \<Rightarrow> (rat \<times> rat) list \<Rightarrow> (rat \<times> rat) list" where
  "apply_level level book =
     (if lv_quantity level = 0 then AList.delete (lv_price level) book
      else AList.update (lv_price level) (lv_quantity level) book)"

definition apply_side :: "DepthLevelUpdate list \<Rightarrow> (rat \<times> rat) list \<Rightarrow> (rat \<times> rat) list" where
  "apply_side updates book = fold apply_level updates book"

definition apply_levels :: "BinanceDepthEvent \<Rightarrow> int \<Rightarrow> SynchronizedLocalOrderBook \<Rightarrow> SynchronizedLocalOrderBook" where
  "apply_levels event received_at b =
     b\<lparr>ob_bids := apply_side (de_bids event) (ob_bids b), ob_asks := apply_side (de_asks event) (ob_asks b),
       ob_last_update_id := Some (de_final_update_id event), ob_last_event_time := Some (de_event_time event),
       ob_last_transaction_time := Some (de_transaction_time event), ob_last_valid_update := Some received_at\<rparr>"

text \<open>\<open>{level.price: level.quantity for level in levels if level.quantity > 0}\<close>.\<close>

definition snapshot_levels :: "DepthLevelUpdate list \<Rightarrow> (rat \<times> rat) list" where
  "snapshot_levels levels =
     fold (\<lambda>level book. if lv_quantity level > 0 then AList.update (lv_price level) (lv_quantity level) book else book)
       levels []"

definition max_price :: "(rat \<times> rat) list \<Rightarrow> rat" where
  "max_price book = Max (set (map fst book))"

definition min_price :: "(rat \<times> rat) list \<Rightarrow> rat" where
  "min_price book = Min (set (map fst book))"

definition empty_or_crossed :: "(rat \<times> rat) list \<Rightarrow> (rat \<times> rat) list \<Rightarrow> bool" where
  "empty_or_crossed bids asks \<longleftrightarrow> bids = [] \<or> asks = [] \<or> max_price bids \<ge> min_price asks"

subsection \<open>Events and snapshots\<close>

definition mark_connected :: "bool \<Rightarrow> SynchronizedLocalOrderBook \<Rightarrow> SynchronizedLocalOrderBook" where
  "mark_connected reconnect b =
     (clear_trusted_book False (b\<lparr>ob_stream_connected := True\<rparr>))
       \<lparr>ob_buffer := [], ob_reason := Some (if reconnect then ''resyncing'' else ''snapshot_pending''),
        ob_needs_resync := True\<rparr>"

definition mark_disconnected :: "SynchronizedLocalOrderBook \<Rightarrow> SynchronizedLocalOrderBook" where
  "mark_disconnected b =
     (clear_trusted_book False (b\<lparr>ob_stream_connected := False\<rparr>))
       \<lparr>ob_buffer := [], ob_reason := Some ''stream_disconnected'', ob_needs_resync := True\<rparr>"

definition mark_bootstrap_started :: "SynchronizedLocalOrderBook \<Rightarrow> SynchronizedLocalOrderBook" where
  "mark_bootstrap_started b =
     (let c = b\<lparr>ob_resync_count := ob_resync_count b + 1\<rparr> in
      c\<lparr>ob_reason := Some (if ob_resync_count c = 1 then ''snapshot_pending'' else ''resyncing'')\<rparr>)"

definition mark_snapshot_failed :: "SynchronizedLocalOrderBook \<Rightarrow> SynchronizedLocalOrderBook" where
  "mark_snapshot_failed b =
     (clear_trusted_book False b)\<lparr>ob_reason := Some ''snapshot_failed'', ob_needs_resync := False\<rparr>"

definition apply_live_event ::
  "BinanceDepthEvent \<Rightarrow> int \<Rightarrow> SynchronizedLocalOrderBook \<Rightarrow> SynchronizedLocalOrderBook \<times> BookIngestOutcome" where
  "apply_live_event event received_at b =
     (case ob_last_update_id b of
        None \<Rightarrow> (invalidate ''missing_update_id'' True b, NEEDS_RESYNC)
      | Some current_update_id \<Rightarrow>
          if de_final_update_id event \<le> current_update_id then
            (if de_final_update_id event = current_update_id
             then b\<lparr>ob_duplicate_event_count := ob_duplicate_event_count b + 1\<rparr>
             else b\<lparr>ob_out_of_order_event_count := ob_out_of_order_event_count b + 1\<rparr>, IGNORED_OLD)
          else if de_previous_final_update_id event \<noteq> current_update_id then (invalidate ''sequence_gap'' True b, NEEDS_RESYNC)
          else let c = apply_levels event received_at b in
            if empty_or_crossed (ob_bids c) (ob_asks c) then (invalidate ''crossed_book'' False c, NEEDS_RESYNC)
            else (c, APPLIED))"

fun apply_remaining ::
  "BufferedDepthEvent list \<Rightarrow> SynchronizedLocalOrderBook \<Rightarrow> SynchronizedLocalOrderBook \<times> BookIngestOutcome" where
  "apply_remaining [] b = (b, SYNCHRONIZED)"
| "apply_remaining (item # items) b =
     (let (c, outcome) = apply_live_event (bd_event item) (bd_received_at item) b in
      if outcome = NEEDS_RESYNC then (c, outcome) else apply_remaining items c)"

definition reconcile_buffer :: "SynchronizedLocalOrderBook \<Rightarrow> SynchronizedLocalOrderBook \<times> BookIngestOutcome" where
  "reconcile_buffer b =
     (case ob_last_update_id b of
        None \<Rightarrow> (b, BUFFERED)
      | Some last_update_id \<Rightarrow>
          if \<not> ob_snapshot_installed b then (b, BUFFERED)
          else let c = b\<lparr>ob_buffer := filter (\<lambda>i. de_final_update_id (bd_event i) \<ge> last_update_id) (ob_buffer b)\<rparr> in
          case ob_buffer c of
            [] \<Rightarrow> (c, BUFFERED)
          | bridge # remaining \<Rightarrow>
              let event = bd_event bridge in
              if \<not> (de_first_update_id event \<le> last_update_id \<and> last_update_id \<le> de_final_update_id event)
              then (invalidate ''invalid_initial_bridge'' True c, NEEDS_RESYNC)
              else let d = apply_levels event (bd_received_at bridge) c in
                if empty_or_crossed (ob_bids d) (ob_asks d) then (invalidate ''crossed_book'' False d, NEEDS_RESYNC)
                else apply_remaining remaining
                  (d\<lparr>ob_synchronized := True, ob_reason := None, ob_needs_resync := False, ob_buffer := []\<rparr>))"

definition book_timestamp :: "py_any \<Rightarrow> book_error + int" where
  "book_timestamp v = map_sum BookTimestampError id (normalize_utc_timestamp v)"

definition ingest ::
  "BinanceDepthEvent \<Rightarrow> py_any \<Rightarrow> SynchronizedLocalOrderBook
     \<Rightarrow> book_error + SynchronizedLocalOrderBook \<times> BookIngestOutcome" where
  "ingest event received_at b =
     ebind (book_timestamp received_at) (\<lambda>received.
     ebind (eraise_if (de_symbol event \<noteq> ob_symbol b)
       (BookValueError (''depth event symbol '' @ de_symbol event @ '' does not match '' @ ob_symbol b))) (\<lambda>_.
     Inr (if ob_synchronized b then apply_live_event event received b
       else if int (length (ob_buffer b)) \<ge> ob_event_buffer_size b
       then (invalidate ''buffer_overflow'' False
              (b\<lparr>ob_buffer_overflow_count := ob_buffer_overflow_count b + 1\<rparr>), BUFFER_OVERFLOW)
       else let c = b\<lparr>ob_buffer := ob_buffer b @ [\<lparr>bd_event = event, bd_received_at = received\<rparr>]\<rparr> in
         if \<not> ob_snapshot_installed c then (c, BUFFERED) else reconcile_buffer c)))"

definition install_snapshot ::
  "BinanceDepthSnapshot \<Rightarrow> py_any \<Rightarrow> SynchronizedLocalOrderBook
     \<Rightarrow> book_error + SynchronizedLocalOrderBook \<times> BookIngestOutcome" where
  "install_snapshot snap received_at b =
     ebind (book_timestamp received_at) (\<lambda>snapshot_received.
     let bids = snapshot_levels (ds_bids snap); asks = snapshot_levels (ds_asks snap) in
     Inr (if empty_or_crossed bids asks then (invalidate ''invalid_snapshot_book'' False b, NEEDS_RESYNC)
       else reconcile_buffer
         (b\<lparr>ob_bids := bids, ob_asks := asks, ob_last_update_id := Some (ds_last_update_id snap),
            ob_last_transaction_time := Some (ds_transaction_time snap),
            ob_last_event_time := Some (ds_event_time snap), ob_snapshot_time := Some snapshot_received,
            ob_last_valid_update := None, ob_synchronized := False, ob_snapshot_installed := True,
            ob_needs_resync := False, ob_coverage_bid_floor := Some (min_price bids),
            ob_coverage_ask_ceiling := Some (max_price asks), ob_reason := Some ''synchronizing''\<rparr>)))"

section \<open>The liquidity summary\<close>

datatype ContextStatus = VERIFIED | UNVERIFIED | STALE | UNAVAILABLE | ERROR

record LiquidityBandSnapshot =
  lb_band_bps :: int
  lb_bid_quote_notional :: rat
  lb_ask_quote_notional :: rat
  lb_depth_imbalance :: "rat option"
  lb_bid_coverage_complete :: bool
  lb_ask_coverage_complete :: bool

record VisibleLevelConcentration =
  vl_price :: rat
  vl_quote_notional :: rat
  vl_distance_bps :: rat
  vl_share_of_observed_band :: "rat option"
  vl_band_bps :: int

definition ORDER_BOOK_SOURCE :: string where
  "ORDER_BOOK_SOURCE = ''binance_usdm_public_depth[st=1,rpi_excluded]''"

definition ORDER_BOOK_USAGE :: string where
  "ORDER_BOOK_USAGE = ''research_only''"

record OrderBookLiquiditySnapshot =
  ls_symbol :: string
  ls_source :: string
  ls_usage :: string
  ls_status :: ContextStatus
  ls_reason :: "string option"
  ls_observed_at :: "int option"
  ls_age_seconds :: "rat option"
  ls_synchronized :: bool
  ls_last_update_id :: "int option"
  ls_best_bid :: "rat option"
  ls_best_ask :: "rat option"
  ls_mid_price :: "rat option"
  ls_spread_absolute :: "rat option"
  ls_spread_bps :: "rat option"
  ls_bands :: "(string \<times> LiquidityBandSnapshot) list"
  ls_furthest_bid_distance_bps :: "rat option"
  ls_furthest_ask_distance_bps :: "rat option"
  ls_largest_bid_level :: "VisibleLevelConcentration option"
  ls_largest_ask_level :: "VisibleLevelConcentration option"
  ls_level_count_bid :: nat
  ls_level_count_ask :: nat
  ls_resync_count :: nat
  ls_gap_count :: nat
  ls_duplicate_event_count :: nat
  ls_out_of_order_event_count :: nat
  ls_buffer_overflow_count :: nat

text \<open>
  \<open>round(x, 3)\<close> of a float rounds its exact value half to even; \<open>total_seconds()\<close> is a correctly rounded quotient.
\<close>

definition age_non_negative :: "rat option \<Rightarrow> rat option" where
  "age_non_negative age = map_option (\<lambda>x. fl (of_int (round_half_even (max x 0 * 1000)) / 1000)) age"

definition book_age_seconds :: "int \<Rightarrow> int option \<Rightarrow> rat option" where
  "book_age_seconds now observed_at = map_option (\<lambda>t. max (fl (of_int (now - t) / 1000000)) 0) observed_at"

text \<open>\<open>OrderBookLiquiditySnapshot.unavailable\<close> with the counters of a book.\<close>

definition unavailable_snapshot ::
  "string \<Rightarrow> string option \<Rightarrow> ContextStatus \<Rightarrow> int option \<Rightarrow> rat option \<Rightarrow> SynchronizedLocalOrderBook
     \<Rightarrow> OrderBookLiquiditySnapshot" where
  "unavailable_snapshot symbol reason status observed_at age_seconds b =
     \<lparr>ls_symbol = symbol, ls_source = ORDER_BOOK_SOURCE, ls_usage = ORDER_BOOK_USAGE, ls_status = status,
      ls_reason = reason, ls_observed_at = observed_at, ls_age_seconds = age_non_negative age_seconds,
      ls_synchronized = False, ls_last_update_id = None, ls_best_bid = None, ls_best_ask = None,
      ls_mid_price = None, ls_spread_absolute = None, ls_spread_bps = None, ls_bands = [],
      ls_furthest_bid_distance_bps = None, ls_furthest_ask_distance_bps = None, ls_largest_bid_level = None,
      ls_largest_ask_level = None, ls_level_count_bid = 0, ls_level_count_ask = 0,
      ls_resync_count = ob_resync_count b, ls_gap_count = ob_gap_count b,
      ls_duplicate_event_count = ob_duplicate_event_count b,
      ls_out_of_order_event_count = ob_out_of_order_event_count b,
      ls_buffer_overflow_count = ob_buffer_overflow_count b\<rparr>"

definition unsynchronized_snapshot :: "int \<Rightarrow> SynchronizedLocalOrderBook \<Rightarrow> OrderBookLiquiditySnapshot" where
  "unsynchronized_snapshot now b =
     (let observed_at = ob_last_event_time b;
          status = (if ob_reason b \<in> {Some ''sequence_gap'', Some ''crossed_book''} \<and> observed_at \<noteq> None then STALE
                    else if ob_reason b \<in> {Some ''snapshot_failed'', Some ''invalid_snapshot_book''} then ERROR
                    else UNAVAILABLE) in
      unavailable_snapshot (ob_symbol b) (ob_reason b) status observed_at (book_age_seconds now observed_at) b)"

subsection \<open>Quantities of the book\<close>

definition quantized :: "nat \<Rightarrow> rat \<Rightarrow> book_error + rat" where
  "quantized places x = (case dec_quantize places x of None \<Rightarrow> Inl BookDecimalError | Some y \<Rightarrow> Inr y)"

definition quantized_option :: "nat \<Rightarrow> rat option \<Rightarrow> book_error + rat option" where
  "quantized_option places v = (case v of None \<Rightarrow> Inr None | Some x \<Rightarrow> map_sum id Some (quantized places x))"

definition distance_bps :: "rat \<Rightarrow> rat option \<Rightarrow> bool \<Rightarrow> rat option" where
  "distance_bps mid boundary bid =
     (case boundary of
        None \<Rightarrow> None
      | Some p \<Rightarrow>
          if mid \<le> 0 then None
          else let distance = (if bid then dec_sub mid p else dec_sub p mid) in
            Some (max (dec_mul (dec_div distance mid) TEN_THOUSAND) 0))"

definition band_bid_floor :: "rat \<Rightarrow> int \<Rightarrow> rat" where
  "band_bid_floor mid band_bps = dec_mul mid (dec_sub 1 (dec_div (of_int band_bps) TEN_THOUSAND))"

definition band_ask_ceiling :: "rat \<Rightarrow> int \<Rightarrow> rat" where
  "band_ask_ceiling mid band_bps = dec_mul mid (dec_add 1 (dec_div (of_int band_bps) TEN_THOUSAND))"

definition quote_sum :: "(rat \<times> rat) list \<Rightarrow> rat" where
  "quote_sum levels = dec_sum (map (\<lambda>(price, quantity). dec_mul price quantity) levels)"

definition bids_in_band :: "rat \<Rightarrow> int \<Rightarrow> (rat \<times> rat) list \<Rightarrow> (rat \<times> rat) list" where
  "bids_in_band mid band_bps bids = filter (\<lambda>(price, _). price \<ge> band_bid_floor mid band_bps) bids"

definition asks_in_band :: "rat \<Rightarrow> int \<Rightarrow> (rat \<times> rat) list \<Rightarrow> (rat \<times> rat) list" where
  "asks_in_band mid band_bps asks = filter (\<lambda>(price, _). price \<le> band_ask_ceiling mid band_bps) asks"

definition covers_band :: "rat option \<Rightarrow> int \<Rightarrow> bool" where
  "covers_band furthest band_bps = (case furthest of None \<Rightarrow> False | Some d \<Rightarrow> d \<ge> of_int band_bps)"

definition liquidity_band ::
  "rat \<Rightarrow> rat option \<Rightarrow> rat option \<Rightarrow> SynchronizedLocalOrderBook \<Rightarrow> int \<Rightarrow> book_error + string \<times> LiquidityBandSnapshot" where
  "liquidity_band mid furthest_bid furthest_ask b band_bps =
     (let bid_quote = quote_sum (bids_in_band mid band_bps (ob_bids b));
          ask_quote = quote_sum (asks_in_band mid band_bps (ob_asks b));
          total = dec_add bid_quote ask_quote;
          imbalance = (if total > 0 then Some (dec_div (dec_sub bid_quote ask_quote) total) else None) in
      ebind (quantized MONEY_QUANT bid_quote) (\<lambda>bid_notional.
      ebind (quantized MONEY_QUANT ask_quote) (\<lambda>ask_notional.
      ebind (quantized_option RATIO_QUANT imbalance) (\<lambda>ratio.
      Inr (int_text band_bps @ ''bps'',
        \<lparr>lb_band_bps = band_bps, lb_bid_quote_notional = bid_notional, lb_ask_quote_notional = ask_notional,
         lb_depth_imbalance = ratio, lb_bid_coverage_complete = covers_band furthest_bid band_bps,
         lb_ask_coverage_complete = covers_band furthest_ask band_bps\<rparr>)))))"

fun liquidity_bands ::
  "(int \<Rightarrow> book_error + string \<times> LiquidityBandSnapshot) \<Rightarrow> int list \<Rightarrow> book_error + (string \<times> LiquidityBandSnapshot) list" where
  "liquidity_bands band [] = Inr []"
| "liquidity_bands band (n # ns) = ebind (band n) (\<lambda>s. ebind (liquidity_bands band ns) (\<lambda>r. Inr (s # r)))"

text \<open>\<open>max(candidates, key=lambda item: (item[2], item[0]))\<close>, the first of the largest.\<close>

fun largest_level :: "rat \<times> rat \<Rightarrow> (rat \<times> rat) list \<Rightarrow> rat \<times> rat" where
  "largest_level best [] = best"
| "largest_level best (level # levels) =
     (let q = dec_mul (fst level) (snd level); p = dec_mul (fst best) (snd best) in
      largest_level (if q > p \<or> (q = p \<and> fst level > fst best) then level else best) levels)"

definition largest_concentration ::
  "(rat \<times> rat) list \<Rightarrow> rat \<Rightarrow> bool \<Rightarrow> int \<Rightarrow> rat \<Rightarrow> book_error + VisibleLevelConcentration option" where
  "largest_concentration levels mid bid band_bps observed_band_quote =
     (case levels of
        [] \<Rightarrow> Inr None
      | first # rest \<Rightarrow>
          let (price, quantity) = largest_level first rest; quote = dec_mul price quantity;
              raw_distance = (if bid then dec_sub mid price else dec_sub price mid);
              share = (if observed_band_quote > 0 then Some (dec_div quote observed_band_quote) else None) in
          ebind (quantized MONEY_QUANT quote) (\<lambda>quote_notional.
          ebind (quantized BPS_QUANT (dec_mul (dec_div raw_distance mid) TEN_THOUSAND)) (\<lambda>distance.
          ebind (quantized_option RATIO_QUANT share) (\<lambda>ratio.
          Inr (Some \<lparr>vl_price = price, vl_quote_notional = quote_notional, vl_distance_bps = distance,
            vl_share_of_observed_band = ratio, vl_band_bps = band_bps\<rparr>)))))"

subsection \<open>The summary of a synchronized book\<close>

definition synchronized_snapshot :: "int \<Rightarrow> SynchronizedLocalOrderBook \<Rightarrow> book_error + OrderBookLiquiditySnapshot" where
  "synchronized_snapshot now b =
     (let observed_at = ob_last_event_time b; age_seconds = book_age_seconds now observed_at;
          best_bid = max_price (ob_bids b); best_ask = min_price (ob_asks b);
          mid = dec_div (dec_add best_bid best_ask) 2; spread = dec_sub best_ask best_bid in
      ebind (eraise_if (mid = 0) BookDecimalError) (\<lambda>_.
      let raw_spread_bps = dec_mul (dec_div spread mid) TEN_THOUSAND;
          furthest_bid = distance_bps mid (ob_coverage_bid_floor b) True;
          furthest_ask = distance_bps mid (ob_coverage_ask_ceiling b) False;
          outer_band = last (ob_bands_bps b);
          outer_bids = bids_in_band mid outer_band (ob_bids b);
          outer_asks = asks_in_band mid outer_band (ob_asks b) in
      ebind (liquidity_bands (liquidity_band mid furthest_bid furthest_ask b) (ob_bands_bps b)) (\<lambda>bands.
      ebind (largest_concentration outer_bids mid True outer_band (quote_sum outer_bids)) (\<lambda>largest_bid.
      ebind (largest_concentration outer_asks mid False outer_band (quote_sum outer_asks)) (\<lambda>largest_ask.
      let complete = list_all (\<lambda>(_, band). lb_bid_coverage_complete band \<and> lb_ask_coverage_complete band) bands;
          status = (case age_seconds of None \<Rightarrow> STALE
                    | Some age \<Rightarrow> if age > ob_stale_after_seconds b then STALE else VERIFIED);
          reason = (if status = STALE then Some ''stale_book''
                    else if \<not> complete then Some ''insufficient_book_coverage'' else None) in
      ebind (quantized BPS_QUANT raw_spread_bps) (\<lambda>spread_bps.
      ebind (quantized_option BPS_QUANT furthest_bid) (\<lambda>furthest_bid_bps.
      ebind (quantized_option BPS_QUANT furthest_ask) (\<lambda>furthest_ask_bps.
      Inr \<lparr>ls_symbol = ob_symbol b, ls_source = ORDER_BOOK_SOURCE, ls_usage = ORDER_BOOK_USAGE,
        ls_status = status, ls_reason = reason, ls_observed_at = observed_at,
        ls_age_seconds = age_non_negative age_seconds, ls_synchronized = True,
        ls_last_update_id = ob_last_update_id b, ls_best_bid = Some best_bid, ls_best_ask = Some best_ask,
        ls_mid_price = Some mid, ls_spread_absolute = Some spread, ls_spread_bps = Some spread_bps,
        ls_bands = bands, ls_furthest_bid_distance_bps = furthest_bid_bps,
        ls_furthest_ask_distance_bps = furthest_ask_bps, ls_largest_bid_level = largest_bid,
        ls_largest_ask_level = largest_ask, ls_level_count_bid = length (ob_bids b),
        ls_level_count_ask = length (ob_asks b), ls_resync_count = ob_resync_count b,
        ls_gap_count = ob_gap_count b, ls_duplicate_event_count = ob_duplicate_event_count b,
        ls_out_of_order_event_count = ob_out_of_order_event_count b,
        ls_buffer_overflow_count = ob_buffer_overflow_count b\<rparr>))))))))"

text \<open>
  \<open>snapshot(as_of=...)\<close>: a crossed book is invalidated and summarized as unavailable. \<open>max\<close> of an empty side raises.
\<close>

definition take_snapshot ::
  "py_any \<Rightarrow> SynchronizedLocalOrderBook \<Rightarrow> book_error + SynchronizedLocalOrderBook \<times> OrderBookLiquiditySnapshot" where
  "take_snapshot as_of b =
     ebind (book_timestamp as_of) (\<lambda>now.
     if \<not> ob_synchronized b then Inr (b, unsynchronized_snapshot now b)
     else ebind (eraise_if (ob_bids b = [] \<or> ob_asks b = []) (BookValueError ''max() arg is an empty sequence'')) (\<lambda>_.
       if max_price (ob_bids b) \<ge> min_price (ob_asks b)
       then (let c = invalidate ''crossed_book'' False b in Inr (c, unsynchronized_snapshot now c))
       else ebind (synchronized_snapshot now b) (\<lambda>s. Inr (b, s))))"

subsection \<open>The context of one side\<close>

definition verified :: "OrderBookLiquiditySnapshot \<Rightarrow> bool" where
  "verified s \<longleftrightarrow> ls_status s = VERIFIED \<and> ls_synchronized s"

record SideBand =
  sb_label :: string
  sb_quote_notional :: rat
  sb_coverage_complete :: bool

text \<open>
  The dictionary of \<open>_side_context\<close>; the part that only a verified book has is optional. \<open>observed_at\<close> is the
  instant whose ISO text the dictionary holds.
\<close>

record SideDepth =
  sd_mid_price :: "rat option"
  sd_bands :: "SideBand list"
  sd_largest_level :: "VisibleLevelConcentration option"

record SideContext =
  sc_usage :: string
  sc_source :: string
  sc_status :: ContextStatus
  sc_reason :: "string option"
  sc_observed_at :: "int option"
  sc_age_seconds :: "rat option"
  sc_side :: string
  sc_depth :: "SideDepth option"
  sc_summary :: string

definition side_context :: "bool \<Rightarrow> OrderBookLiquiditySnapshot \<Rightarrow> SideContext option" where
  "side_context bid s =
     (if ls_status s \<notin> {VERIFIED, STALE} then None
      else let side = (if bid then ''bid'' else ''ask'');
               reason = (case ls_reason s of Some r \<Rightarrow> if r = [] then ''stale_book'' else r | None \<Rightarrow> ''stale_book'');
               base = (\<lambda>depth summary. \<lparr>sc_usage = ORDER_BOOK_USAGE, sc_source = ls_source s,
                 sc_status = ls_status s, sc_reason = ls_reason s, sc_observed_at = ls_observed_at s,
                 sc_age_seconds = ls_age_seconds s, sc_side = side, sc_depth = depth, sc_summary = summary\<rparr>) in
        Some (if \<not> verified s
          then base None (''Visible '' @ side @ '' depth is unverified: '' @ reason @ ''.'')
          else base (Some \<lparr>sd_mid_price = ls_mid_price s,
                 sd_bands = map (\<lambda>(label, band). \<lparr>sb_label = label,
                   sb_quote_notional = (if bid then lb_bid_quote_notional band else lb_ask_quote_notional band),
                   sb_coverage_complete = (if bid then lb_bid_coverage_complete band else lb_ask_coverage_complete band)\<rparr>)
                   (ls_bands s),
                 sd_largest_level = (if bid then ls_largest_bid_level s else ls_largest_ask_level s)\<rparr>)
               (if bid then ''Observed visible bid depth below book mid; research only.''
                else ''Observed visible ask depth above book mid; research only.'')))"

definition liquidity_below_context :: "OrderBookLiquiditySnapshot \<Rightarrow> SideContext option" where
  "liquidity_below_context s = side_context True s"

definition liquidity_above_context :: "OrderBookLiquiditySnapshot \<Rightarrow> SideContext option" where
  "liquidity_above_context s = side_context False s"

end
