(* ===== verification/Order_Book_Safety.thy ===== *)
theory Order_Book_Safety
  imports Order_Book "HOL-Library.Sublist"
begin

text \<open>
  What holds of the local order book in every sequence of its operations: its sides are dictionaries of positive
  prices and quantities, a synchronized book is never empty or crossed, its buffer is bounded, and its contents are exactly the
  replay of an unbroken chain of depth events onto a REST snapshot of the same connection. The summary of such a book never
  raises for an empty side, and its depth bands are nested.
\<close>

section \<open>Sequences of operations\<close>

datatype book_op =
  Connected bool | Disconnected | BootstrapStarted | SnapshotFailed
| Ingest BinanceDepthEvent py_any | InstallSnapshot BinanceDepthSnapshot py_any | TakeSnapshot py_any

text \<open>An operation that raises leaves the book as it is.\<close>

fun book_step :: "SynchronizedLocalOrderBook \<Rightarrow> book_op \<Rightarrow> SynchronizedLocalOrderBook" where
  "book_step b (Connected reconnect) = mark_connected reconnect b"
| "book_step b Disconnected = mark_disconnected b"
| "book_step b BootstrapStarted = mark_bootstrap_started b"
| "book_step b SnapshotFailed = mark_snapshot_failed b"
| "book_step b (Ingest event received_at) = (case ingest event received_at b of Inl _ \<Rightarrow> b | Inr (c, _) \<Rightarrow> c)"
| "book_step b (InstallSnapshot snap received_at) =
     (case install_snapshot snap received_at b of Inl _ \<Rightarrow> b | Inr (c, _) \<Rightarrow> c)"
| "book_step b (TakeSnapshot as_of) = (case take_snapshot as_of b of Inl _ \<Rightarrow> b | Inr (c, _) \<Rightarrow> c)"

section \<open>The invariant\<close>

definition level_ok :: "DepthLevelUpdate \<Rightarrow> bool" where
  "level_ok l \<longleftrightarrow> 0 < lv_price l \<and> 0 \<le> lv_quantity l"

definition event_ok :: "BinanceDepthEvent \<Rightarrow> bool" where
  "event_ok e \<longleftrightarrow> list_all level_ok (de_bids e) \<and> list_all level_ok (de_asks e)
     \<and> de_first_update_id e \<le> de_final_update_id e"

definition depth_snapshot_ok :: "BinanceDepthSnapshot \<Rightarrow> bool" where
  "depth_snapshot_ok s \<longleftrightarrow> list_all level_ok (ds_bids s) \<and> list_all level_ok (ds_asks s)"

fun op_ok :: "book_op \<Rightarrow> bool" where
  "op_ok (Ingest e t) = event_ok e"
| "op_ok (InstallSnapshot s t) = depth_snapshot_ok s"
| "op_ok _ = True"

definition side_ok :: "(rat \<times> rat) list \<Rightarrow> bool" where
  "side_ok d \<longleftrightarrow> distinct (map fst d) \<and> (\<forall>(p, q) \<in> set d. 0 < p \<and> 0 < q)"

definition config_ok :: "SynchronizedLocalOrderBook \<Rightarrow> bool" where
  "config_ok b \<longleftrightarrow> 1 \<le> ob_event_buffer_size b \<and> ob_bands_bps b \<noteq> [] \<and> sorted (ob_bands_bps b)
     \<and> distinct (ob_bands_bps b) \<and> (\<forall>n \<in> set (ob_bands_bps b). 0 < n)"

definition buffer_ok :: "SynchronizedLocalOrderBook \<Rightarrow> bool" where
  "buffer_ok b \<longleftrightarrow> int (length (ob_buffer b)) \<le> ob_event_buffer_size b \<and> (\<forall>i \<in> set (ob_buffer b). event_ok (bd_event i))"

definition sides_ok :: "SynchronizedLocalOrderBook \<Rightarrow> bool" where
  "sides_ok b \<longleftrightarrow> side_ok (ob_bids b) \<and> side_ok (ob_asks b)
     \<and> (ob_snapshot_installed b \<longleftrightarrow> ob_last_update_id b \<noteq> None)
     \<and> (ob_snapshot_installed b \<longrightarrow> ob_coverage_bid_floor b \<noteq> None \<and> ob_coverage_ask_ceiling b \<noteq> None)"

definition book_ok :: "SynchronizedLocalOrderBook \<Rightarrow> bool" where
  "book_ok b \<longleftrightarrow> config_ok b \<and> buffer_ok b \<and> sides_ok b
     \<and> (ob_synchronized b \<longrightarrow> ob_snapshot_installed b \<and> ob_buffer b = [] \<and> \<not> empty_or_crossed (ob_bids b) (ob_asks b))"

lemmas book_ok_defs = book_ok_def config_ok_def buffer_ok_def sides_ok_def

subsection \<open>Sides\<close>

lemma side_ok_Nil [simp]: "side_ok []"
  by (simp add: side_ok_def)

lemma set_update: "set (AList.update p q d) \<subseteq> insert (p, q) (set d)"
  by (induction d) auto

lemma set_delete: "set (AList.delete p d) \<subseteq> set d"
  by (induction d) auto

lemma side_ok_update: "side_ok d \<Longrightarrow> 0 < p \<Longrightarrow> 0 < q \<Longrightarrow> side_ok (AList.update p q d)"
  using set_update [of p q d] by (fastforce simp: side_ok_def intro: distinct_update)

lemma side_ok_delete: "side_ok d \<Longrightarrow> side_ok (AList.delete p d)"
  using set_delete [of p d] by (auto simp: side_ok_def intro: distinct_delete)

lemma side_ok_apply_level: "side_ok d \<Longrightarrow> level_ok l \<Longrightarrow> side_ok (apply_level l d)"
  by (auto simp: apply_level_def level_ok_def intro: side_ok_update side_ok_delete)

lemma side_ok_apply_side: "side_ok d \<Longrightarrow> list_all level_ok ls \<Longrightarrow> side_ok (apply_side ls d)"
  unfolding apply_side_def by (induction ls arbitrary: d) (auto intro: side_ok_apply_level)

lemma side_ok_snapshot_levels: "list_all level_ok ls \<Longrightarrow> side_ok (snapshot_levels ls)"
proof -
  have "side_ok (fold (\<lambda>l d. if lv_quantity l > 0 then AList.update (lv_price l) (lv_quantity l) d else d) ls d)"
    if "side_ok d" "list_all level_ok ls" for d
    using that by (induction ls arbitrary: d) (auto simp: level_ok_def intro: side_ok_update)
  then show "list_all level_ok ls \<Longrightarrow> side_ok (snapshot_levels ls)" by (simp add: snapshot_levels_def)
qed

subsection \<open>Operations keep the invariant\<close>

lemma invalidate_fields [simp]:
  "ob_event_buffer_size (invalidate r g b) = ob_event_buffer_size b" "ob_bands_bps (invalidate r g b) = ob_bands_bps b"
  "ob_buffer (invalidate r g b) = []" "ob_bids (invalidate r g b) = []" "ob_asks (invalidate r g b) = []"
  "ob_snapshot_installed (invalidate r g b) = False" "ob_last_update_id (invalidate r g b) = None"
  "ob_synchronized (invalidate r g b) = False" "ob_symbol (invalidate r g b) = ob_symbol b"
  "ob_stale_after_seconds (invalidate r g b) = ob_stale_after_seconds b"
  "ob_last_event_time (invalidate r g b) = ob_last_event_time b"
  by (simp_all add: invalidate_def clear_trusted_book_def Let_def)

lemma book_ok_config: "book_ok b \<Longrightarrow> config_ok b"
  by (simp add: book_ok_def)

lemma invalidate_ok: "config_ok b \<Longrightarrow> book_ok (invalidate r g b)"
  by (simp add: book_ok_defs)

lemma apply_levels_fields [simp]:
  "ob_event_buffer_size (apply_levels e t b) = ob_event_buffer_size b" "ob_bands_bps (apply_levels e t b) = ob_bands_bps b"
  "ob_buffer (apply_levels e t b) = ob_buffer b" "ob_snapshot_installed (apply_levels e t b) = ob_snapshot_installed b"
  "ob_last_update_id (apply_levels e t b) = Some (de_final_update_id e)"
  "ob_synchronized (apply_levels e t b) = ob_synchronized b"
  "ob_bids (apply_levels e t b) = apply_side (de_bids e) (ob_bids b)"
  "ob_asks (apply_levels e t b) = apply_side (de_asks e) (ob_asks b)"
  "ob_coverage_bid_floor (apply_levels e t b) = ob_coverage_bid_floor b"
  "ob_coverage_ask_ceiling (apply_levels e t b) = ob_coverage_ask_ceiling b"
  by (simp_all add: apply_levels_def)

lemma apply_levels_sides: "sides_ok b \<Longrightarrow> ob_snapshot_installed b \<Longrightarrow> event_ok e \<Longrightarrow> sides_ok (apply_levels e t b)"
  by (simp add: sides_ok_def event_ok_def side_ok_apply_side)

lemma config_ok_apply_levels [simp]: "config_ok (apply_levels e t b) = config_ok b"
  by (simp add: config_ok_def)

lemma apply_live_event_ok:
  assumes "book_ok b" and "ob_synchronized b" and "event_ok e"
  shows "book_ok (fst (apply_live_event e t b))
    \<and> (snd (apply_live_event e t b) \<noteq> NEEDS_RESYNC \<longrightarrow> ob_synchronized (fst (apply_live_event e t b)))"
proof (cases "ob_last_update_id b")
  case None
  with assms show ?thesis by (simp add: apply_live_event_def invalidate_ok book_ok_config)
next
  case (Some n)
  have s: "sides_ok (apply_levels e t b)" using assms by (auto simp: book_ok_def intro: apply_levels_sides)
  have "book_ok (apply_levels e t b)" if "\<not> empty_or_crossed (ob_bids (apply_levels e t b)) (ob_asks (apply_levels e t b))"
    using that s assms by (simp add: book_ok_def buffer_ok_def)
  then show ?thesis
    using assms Some s by (auto simp: apply_live_event_def Let_def book_ok_defs intro!: invalidate_ok)
qed

lemma apply_remaining_ok:
  "book_ok b \<Longrightarrow> ob_synchronized b \<Longrightarrow> \<forall>i \<in> set items. event_ok (bd_event i) \<Longrightarrow> book_ok (fst (apply_remaining items b))"
proof (induction items arbitrary: b)
  case (Cons i items)
  obtain c r where c: "apply_live_event (bd_event i) (bd_received_at i) b = (c, r)" by (cases "apply_live_event (bd_event i) (bd_received_at i) b")
  have "book_ok c \<and> (r \<noteq> NEEDS_RESYNC \<longrightarrow> ob_synchronized c)"
    using apply_live_event_ok [OF Cons.prems(1,2), of "bd_event i" "bd_received_at i"] Cons.prems(3) c by simp
  with c Cons show ?case by simp
qed simp

text \<open>Before the buffer is reconciled the book is unsynchronized.\<close>

definition pending_ok :: "SynchronizedLocalOrderBook \<Rightarrow> bool" where
  "pending_ok b \<longleftrightarrow> config_ok b \<and> buffer_ok b \<and> sides_ok b \<and> \<not> ob_synchronized b"

lemma pending_book_ok: "pending_ok b \<Longrightarrow> book_ok b"
  by (simp add: pending_ok_def book_ok_def)

lemma pending_filter:
  assumes "pending_ok b" shows "pending_ok (b\<lparr>ob_buffer := filter P (ob_buffer b)\<rparr>)"
proof -
  have "length (filter P (ob_buffer b)) \<le> length (ob_buffer b)" by simp
  then have "int (length (filter P (ob_buffer b))) \<le> ob_event_buffer_size b"
    using assms unfolding pending_ok_def buffer_ok_def by linarith
  with assms show ?thesis by (auto simp: pending_ok_def config_ok_def buffer_ok_def sides_ok_def)
qed

lemma synchronize_ok:
  assumes "pending_ok b" and "ob_snapshot_installed b" and "event_ok e"
    and "\<not> empty_or_crossed (apply_side (de_bids e) (ob_bids b)) (apply_side (de_asks e) (ob_asks b))"
  shows "book_ok ((apply_levels e t b)\<lparr>ob_synchronized := True, ob_reason := None, ob_needs_resync := False, ob_buffer := []\<rparr>)"
  using apply_levels_sides [of b e t] assms
  by (simp add: pending_ok_def book_ok_def config_ok_def buffer_ok_def sides_ok_def)

lemma reconcile_buffer_ok:
  assumes "pending_ok b" shows "book_ok (fst (reconcile_buffer b))"
proof (cases "ob_last_update_id b")
  case None
  with assms show ?thesis by (simp add: reconcile_buffer_def pending_book_ok)
next
  case (Some n)
  let ?c = "b\<lparr>ob_buffer := filter (\<lambda>i. n \<le> de_final_update_id (bd_event i)) (ob_buffer b)\<rparr>"
  have c: "pending_ok ?c" by (rule pending_filter [OF assms])
  have i: "ob_snapshot_installed b" using assms Some by (simp add: pending_ok_def sides_ok_def)
  show ?thesis
  proof (cases "ob_buffer ?c")
    case Nil
    with Some i c show ?thesis by (auto simp: reconcile_buffer_def Let_def intro: pending_book_ok)
  next
    case (Cons x xs)
    have e: "event_ok (bd_event x)" "\<forall>y \<in> set xs. event_ok (bd_event y)"
      using c Cons by (auto simp: pending_ok_def buffer_ok_def)
    have "config_ok ?c" using c by (simp add: pending_ok_def)
    then show ?thesis
      using Some i Cons e synchronize_ok [OF c _ e(1)]
      by (auto simp: reconcile_buffer_def Let_def intro!: invalidate_ok apply_remaining_ok)
  qed
qed

lemma new_order_book_ok: "new_order_book s st n bands = Inr b \<Longrightarrow> book_ok b"
  by (auto simp: new_order_book_def Let_def book_ok_defs list_ex_iff not_le)

lemma ingest_ok:
  assumes "book_ok b" and "event_ok e" and "ingest e t b = Inr (c, r)"
  shows "book_ok c"
proof (cases "ob_synchronized b")
  case True
  then obtain u where "apply_live_event e u b = (c, r)" using assms(3) by (auto simp: ingest_def)
  then show ?thesis using apply_live_event_ok [OF assms(1) True assms(2), of u] by simp
next
  case False
  obtain u where u: "book_timestamp t = Inr u" using assms(3) by (auto simp: ingest_def)
  let ?b = "b\<lparr>ob_buffer := ob_buffer b @ [\<lparr>bd_event = e, bd_received_at = u\<rparr>]\<rparr>"
  have "pending_ok ?b" if "int (length (ob_buffer b)) < ob_event_buffer_size b"
    using that False assms(1,2) by (auto simp: pending_ok_def book_ok_defs)
  moreover have "config_ok (b\<lparr>ob_buffer_overflow_count := k\<rparr>)" for k using assms(1) by (simp add: book_ok_defs)
  ultimately show ?thesis
    using assms(3) u False reconcile_buffer_ok [of ?b] pending_book_ok [of ?b]
    by (auto simp: ingest_def Let_def invalidate_ok split: if_splits)
qed

text \<open>The book right after a snapshot has been installed, before its buffer is reconciled.\<close>

definition with_snapshot :: "BinanceDepthSnapshot \<Rightarrow> int \<Rightarrow> SynchronizedLocalOrderBook \<Rightarrow> SynchronizedLocalOrderBook" where
  "with_snapshot s u b =
     b\<lparr>ob_bids := snapshot_levels (ds_bids s), ob_asks := snapshot_levels (ds_asks s),
       ob_last_update_id := Some (ds_last_update_id s), ob_last_transaction_time := Some (ds_transaction_time s),
       ob_last_event_time := Some (ds_event_time s), ob_snapshot_time := Some u, ob_last_valid_update := None,
       ob_synchronized := False, ob_snapshot_installed := True, ob_needs_resync := False,
       ob_coverage_bid_floor := Some (min_price (snapshot_levels (ds_bids s))),
       ob_coverage_ask_ceiling := Some (max_price (snapshot_levels (ds_asks s))), ob_reason := Some ''synchronizing''\<rparr>"

lemma install_snapshot_eq:
  "install_snapshot s t b = ebind (book_timestamp t) (\<lambda>u.
     Inr (if empty_or_crossed (snapshot_levels (ds_bids s)) (snapshot_levels (ds_asks s))
          then (invalidate ''invalid_snapshot_book'' False b, NEEDS_RESYNC) else reconcile_buffer (with_snapshot s u b)))"
  unfolding install_snapshot_def with_snapshot_def Let_def ..

lemma install_snapshot_cases:
  assumes "install_snapshot s t b = Inr (c, r)"
  obtains "c = invalidate ''invalid_snapshot_book'' False b"
  | u where "c = fst (reconcile_buffer (with_snapshot s u b))"
proof -
  obtain u where "(if empty_or_crossed (snapshot_levels (ds_bids s)) (snapshot_levels (ds_asks s))
      then (invalidate ''invalid_snapshot_book'' False b, NEEDS_RESYNC) else reconcile_buffer (with_snapshot s u b)) = (c, r)"
    using assms by (auto simp: install_snapshot_eq)
  then show thesis using that(1) that(2) [of u] by (metis fst_conv)
qed

lemma with_snapshot_ok: "book_ok b \<Longrightarrow> depth_snapshot_ok s \<Longrightarrow> pending_ok (with_snapshot s u b)"
  by (simp add: with_snapshot_def pending_ok_def book_ok_defs depth_snapshot_ok_def side_ok_snapshot_levels)

lemma install_snapshot_ok:
  assumes "book_ok b" and "depth_snapshot_ok s" and "install_snapshot s t b = Inr (c, r)"
  shows "book_ok c"
  using assms(3)
  by (cases rule: install_snapshot_cases)
    (simp_all add: reconcile_buffer_ok with_snapshot_ok assms(1,2) invalidate_ok book_ok_config)

lemma book_step_ok:
  assumes "book_ok b" and "op_ok i" shows "book_ok (book_step b i)"
proof (cases i)
  case (Ingest e t)
  with assms show ?thesis by (auto split: sum.splits prod.splits intro: ingest_ok)
next
  case (InstallSnapshot s t)
  with assms show ?thesis by (auto split: sum.splits prod.splits intro: install_snapshot_ok)
next
  case (TakeSnapshot t)
  with assms show ?thesis
    by (auto simp: take_snapshot_def Let_def split: sum.splits prod.splits if_splits intro: invalidate_ok book_ok_config)
next
  case (Connected r)
  with assms show ?thesis by (simp add: book_ok_defs mark_connected_def clear_trusted_book_def Let_def)
next
  case Disconnected
  with assms show ?thesis by (simp add: book_ok_defs mark_disconnected_def clear_trusted_book_def Let_def)
next
  case BootstrapStarted
  with assms show ?thesis by (auto simp: book_ok_defs mark_bootstrap_started_def Let_def)
next
  case SnapshotFailed
  with assms show ?thesis by (simp add: book_ok_defs mark_snapshot_failed_def clear_trusted_book_def Let_def)
qed

interpretation ob: step_machine book_step op_ok book_ok
  by unfold_locales (rule book_step_ok)

section \<open>A synchronized book is a replay\<close>

text \<open>
  The abstract specification: depth events whose update ids form an unbroken chain, the first one bridging the
  snapshot. The book is the snapshot with the levels of these events applied in order.
\<close>

fun event_chain :: "int \<Rightarrow> BinanceDepthEvent list \<Rightarrow> bool" where
  "event_chain n [] = True"
| "event_chain n (e # es) \<longleftrightarrow> de_previous_final_update_id e = n \<and> n < de_final_update_id e \<and> event_chain (de_final_update_id e) es"

fun bridged_chain :: "int \<Rightarrow> BinanceDepthEvent list \<Rightarrow> bool" where
  "bridged_chain n [] = False"
| "bridged_chain n (e # es) \<longleftrightarrow> de_first_update_id e \<le> n \<and> n \<le> de_final_update_id e \<and> event_chain (de_final_update_id e) es"

definition replay_side ::
  "(BinanceDepthEvent \<Rightarrow> DepthLevelUpdate list) \<Rightarrow> DepthLevelUpdate list \<Rightarrow> BinanceDepthEvent list \<Rightarrow> (rat \<times> rat) list" where
  "replay_side side levels es = fold (\<lambda>e. apply_side (side e)) es (snapshot_levels levels)"

definition replays :: "BinanceDepthSnapshot \<Rightarrow> BinanceDepthEvent list \<Rightarrow> SynchronizedLocalOrderBook \<Rightarrow> bool" where
  "replays s es b \<longleftrightarrow> bridged_chain (ds_last_update_id s) es
     \<and> ob_bids b = replay_side de_bids (ds_bids s) es \<and> ob_asks b = replay_side de_asks (ds_asks s) es
     \<and> ob_last_update_id b = Some (de_final_update_id (last es))"

definition at_snapshot :: "BinanceDepthSnapshot \<Rightarrow> SynchronizedLocalOrderBook \<Rightarrow> bool" where
  "at_snapshot s b \<longleftrightarrow> ob_bids b = snapshot_levels (ds_bids s) \<and> ob_asks b = snapshot_levels (ds_asks s)
     \<and> ob_last_update_id b = Some (ds_last_update_id s)"

lemma event_chain_snoc:
  "event_chain n (es @ [e]) \<longleftrightarrow> event_chain n es
     \<and> de_previous_final_update_id e = (if es = [] then n else de_final_update_id (last es))
     \<and> de_previous_final_update_id e < de_final_update_id e"
  by (induction es arbitrary: n) auto

lemma replays_snoc:
  assumes "replays s es b" and "ob_last_update_id b = Some n" and "de_previous_final_update_id e = n" and "n < de_final_update_id e"
  shows "replays s (es @ [e]) (apply_levels e t b)"
  using assms by (cases es) (auto simp: replays_def replay_side_def event_chain_snoc split: if_splits)

lemma replays_bridge:
  "at_snapshot s b \<Longrightarrow> de_first_update_id e \<le> ds_last_update_id s \<Longrightarrow> ds_last_update_id s \<le> de_final_update_id e
     \<Longrightarrow> replays s [e] (apply_levels e t b)"
  by (simp add: replays_def replay_side_def at_snapshot_def)

text \<open>The part of a book that a replay determines; counters and times do not belong to it.\<close>

definition same_content :: "SynchronizedLocalOrderBook \<Rightarrow> SynchronizedLocalOrderBook \<Rightarrow> bool" where
  "same_content c b \<longleftrightarrow> ob_bids c = ob_bids b \<and> ob_asks c = ob_asks b \<and> ob_last_update_id c = ob_last_update_id b
     \<and> ob_synchronized c = ob_synchronized b \<and> ob_snapshot_installed c = ob_snapshot_installed b \<and> ob_buffer c = ob_buffer b"

definition cleared :: "SynchronizedLocalOrderBook \<Rightarrow> bool" where
  "cleared b \<longleftrightarrow> \<not> ob_synchronized b \<and> \<not> ob_snapshot_installed b \<and> ob_buffer b = []"

lemma cleared_invalidate [simp]: "cleared (invalidate r g b)"
  by (simp add: cleared_def)

lemma replays_same_content: "same_content c b \<Longrightarrow> replays s es c = replays s es b"
  by (simp add: same_content_def replays_def)

lemma live_event_cases:
  assumes "apply_live_event e t b = (c, r)"
  obtains (cleared) "cleared c" "r = NEEDS_RESYNC"
  | (ignored) "same_content c b" "r = IGNORED_OLD"
  | (applied) n where "ob_last_update_id b = Some n" "de_previous_final_update_id e = n" "n < de_final_update_id e"
      "c = apply_levels e t b" "r = APPLIED"
  using assms
  by (auto simp: apply_live_event_def Let_def same_content_def split: option.splits if_splits)

lemma apply_remaining_replays:
  assumes "replays s es b" and "ob_synchronized b" and "ob_buffer b = []" and "apply_remaining items b = (c, r)"
  shows "cleared c \<or> (ob_synchronized c \<and> ob_buffer c = [] \<and> (\<exists>es'. subseq es' (es @ map bd_event items) \<and> replays s es' c))"
  using assms
proof (induction items arbitrary: es b)
  case Nil
  then show ?case by auto
next
  case (Cons i items)
  obtain d q where d: "apply_live_event (bd_event i) (bd_received_at i) b = (d, q)"
    by (cases "apply_live_event (bd_event i) (bd_received_at i) b")
  have rest: "q = NEEDS_RESYNC \<or> apply_remaining items d = (c, r)"
    using Cons.prems(4) d by (auto split: if_splits)
  from d show ?case
  proof (cases rule: live_event_cases)
    case cleared
    then show ?thesis using Cons.prems(4) d by simp
  next
    case ignored
    then have "replays s es d" "ob_synchronized d" "ob_buffer d = []"
      using Cons.prems replays_same_content [of d b] by (simp_all add: same_content_def)
    from Cons.IH [OF this] rest ignored(2)
    have IH: "cleared c \<or> ob_synchronized c \<and> ob_buffer c = []
        \<and> (\<exists>es'. subseq es' (es @ map bd_event items) \<and> replays s es' c)" by simp
    have "subseq es' (es @ map bd_event (i # items))" if "subseq es' (es @ map bd_event items)" for es'
      using that by (rule subseq_order.trans) (simp add: subseq_append' list_emb_Cons)
    with IH show ?thesis by blast
  next
    case (applied n)
    then have "replays s (es @ [bd_event i]) d" "ob_synchronized d" "ob_buffer d = []"
      using Cons.prems replays_snoc by simp_all
    from Cons.IH [OF this] rest applied(5) show ?thesis by simp
  qed
qed

subsection \<open>History\<close>

fun resets :: "book_op \<Rightarrow> bool" where
  "resets (Connected r) = True"
| "resets Disconnected = True"
| "resets _ = False"

text \<open>The operations since the connection last changed, and the events among them.\<close>

definition since_reset :: "book_op list \<Rightarrow> book_op list" where
  "since_reset ops = rev (takeWhile (\<lambda>i. \<not> resets i) (rev ops))"

fun ingested_event :: "book_op \<Rightarrow> BinanceDepthEvent list" where
  "ingested_event (Ingest e t) = [e]"
| "ingested_event _ = []"

definition ingested :: "book_op list \<Rightarrow> BinanceDepthEvent list" where
  "ingested ops = concat (map ingested_event ops)"

lemma since_reset_Nil [simp]: "since_reset [] = []"
  by (simp add: since_reset_def)

lemma since_reset_snoc [simp]: "since_reset (ops @ [i]) = (if resets i then [] else since_reset ops @ [i])"
  by (simp add: since_reset_def)

lemma ingested_simps [simp]: "ingested [] = []" "ingested (ops @ ops') = ingested ops @ ingested ops'"
  "ingested [i] = ingested_event i"
  by (simp_all add: ingested_def)

definition history :: "book_op list \<Rightarrow> SynchronizedLocalOrderBook \<Rightarrow> bool" where
  "history ops b \<longleftrightarrow>
     subseq (map bd_event (ob_buffer b)) (ingested ops)
     \<and> (ob_snapshot_installed b \<and> \<not> ob_synchronized b \<longrightarrow> (\<exists>s t. InstallSnapshot s t \<in> set ops \<and> at_snapshot s b))
     \<and> (ob_synchronized b \<longrightarrow> ob_buffer b = []
          \<and> (\<exists>s t es. InstallSnapshot s t \<in> set ops \<and> subseq es (ingested ops) \<and> replays s es b))"

lemma history_cleared: "cleared b \<Longrightarrow> history ops b"
  by (simp add: cleared_def history_def)

lemma history_mono: "history ops b \<Longrightarrow> same_content c b \<Longrightarrow> history (ops @ [i]) c"
  unfolding history_def same_content_def replays_def at_snapshot_def
  by (auto intro: subseq_rev_drop_many)

definition synchronize :: "BufferedDepthEvent \<Rightarrow> SynchronizedLocalOrderBook \<Rightarrow> SynchronizedLocalOrderBook" where
  "synchronize i b = (apply_levels (bd_event i) (bd_received_at i) b)\<lparr>ob_synchronized := True, ob_reason := None,
     ob_needs_resync := False, ob_buffer := []\<rparr>"

lemma reconcile_cases:
  assumes "ob_last_update_id b = Some n" and "ob_snapshot_installed b"
    and "buf = filter (\<lambda>i. n \<le> de_final_update_id (bd_event i)) (ob_buffer b)"
  obtains (cleared) "cleared (fst (reconcile_buffer b))"
  | (waiting) "fst (reconcile_buffer b) = b\<lparr>ob_buffer := []\<rparr>"
  | (bridged) i items where "buf = i # items" "de_first_update_id (bd_event i) \<le> n" "n \<le> de_final_update_id (bd_event i)"
      "reconcile_buffer b = apply_remaining items (synchronize i (b\<lparr>ob_buffer := buf\<rparr>))"
proof (cases buf)
  case Nil
  then show thesis using assms waiting by (simp add: reconcile_buffer_def)
next
  case (Cons i items)
  let ?e = "bd_event i" and ?b = "b\<lparr>ob_buffer := i # items\<rparr>"
  let ?d = "apply_levels ?e (bd_received_at i) ?b"
  have f: "filter (\<lambda>i. n \<le> de_final_update_id (bd_event i)) (ob_buffer b) = i # items" using assms(3) Cons by simp
  have sel: "ob_buffer (b\<lparr>ob_buffer := buf'\<rparr>) = buf'" for buf' by simp
  have eq: "reconcile_buffer b = (if \<not> (de_first_update_id ?e \<le> n \<and> n \<le> de_final_update_id ?e)
      then (invalidate ''invalid_initial_bridge'' True ?b, NEEDS_RESYNC)
      else if empty_or_crossed (ob_bids ?d) (ob_asks ?d) then (invalidate ''crossed_book'' False ?d, NEEDS_RESYNC)
      else apply_remaining items (synchronize i ?b))"
    unfolding reconcile_buffer_def assms(1) option.case Let_def f sel list.case synchronize_def using assms(2) by simp
  consider "\<not> (de_first_update_id ?e \<le> n \<and> n \<le> de_final_update_id ?e)" | "empty_or_crossed (ob_bids ?d) (ob_asks ?d)"
    | "de_first_update_id ?e \<le> n \<and> n \<le> de_final_update_id ?e" "\<not> empty_or_crossed (ob_bids ?d) (ob_asks ?d)" by blast
  then show thesis
  proof cases
    case 1
    show thesis by (rule cleared) (simp only: eq 1 if_True not_False_eq_True simp_thms fst_conv cleared_invalidate)
  next
    case 2
    show thesis by (rule cleared) (simp only: eq 2 if_True fst_conv cleared_invalidate simp_thms split: if_split)
  next
    case 3
    show thesis by (rule bridged) (use 3 Cons in \<open>simp_all only: eq if_True if_False simp_thms\<close>)
  qed
qed

lemma history_reconcile:
  assumes "\<not> ob_synchronized b" and "subseq (map bd_event (ob_buffer b)) (ingested ops)"
    and "InstallSnapshot s t \<in> set ops" and "at_snapshot s b" and "ob_snapshot_installed b"
  shows "history ops (fst (reconcile_buffer b))"
proof -
  let ?n = "ds_last_update_id s"
  define buf where "buf = filter (\<lambda>i. ?n \<le> de_final_update_id (bd_event i)) (ob_buffer b)"
  have u: "ob_last_update_id b = Some ?n" using assms(4) by (simp add: at_snapshot_def)
  have sub: "subseq (map bd_event buf) (ingested ops)"
    unfolding buf_def by (rule subseq_order.trans [OF subseq_map [OF subseq_filter_left] assms(2)])
  from u assms(5) buf_def show ?thesis
  proof (cases rule: reconcile_cases)
    case cleared
    then show ?thesis by (rule history_cleared)
  next
    case waiting
    have "at_snapshot s (b\<lparr>ob_buffer := []\<rparr>)" using assms(4) by (simp add: at_snapshot_def)
    with waiting assms(1,3) show ?thesis unfolding history_def by (intro conjI impI) (simp, metis, simp, simp)
  next
    case (bridged i items)
    obtain c r where c: "reconcile_buffer b = (c, r)" by (cases "reconcile_buffer b")
    have "replays s [bd_event i] (apply_levels (bd_event i) (bd_received_at i) (b\<lparr>ob_buffer := buf\<rparr>))"
      using assms(4) bridged by (intro replays_bridge) (simp_all add: at_snapshot_def)
    then have "replays s [bd_event i] (synchronize i (b\<lparr>ob_buffer := buf\<rparr>))" by (simp add: synchronize_def replays_def)
    from apply_remaining_replays [OF this, of items c r]
    have "cleared c \<or> (ob_synchronized c \<and> ob_buffer c = [] \<and> (\<exists>es'. subseq es' (map bd_event buf) \<and> replays s es' c))"
      using bridged c by (simp add: synchronize_def)
    then show ?thesis using sub assms(3) c by (auto simp: history_def cleared_def intro: subseq_order.trans)
  qed
qed

lemma same_content_refl [simp]: "same_content b b"
  by (simp add: same_content_def)

lemmas history_same = history_mono [OF _ same_content_refl]

lemma take_snapshot_book: "take_snapshot t b = Inr (c, s) \<Longrightarrow> c = b \<or> cleared c"
  by (auto simp: take_snapshot_def Let_def split: if_splits)

lemma history_ingest:
  assumes h: "history ops b" and i: "ingest e t b = Inr (c, r)"
  shows "history (ops @ [Ingest e t]) c"
proof -
  obtain u where u: "book_timestamp t = Inr u" using i by (auto simp: ingest_def)
  show ?thesis
  proof (cases "ob_synchronized b")
    case True
    with h obtain s v es where buf: "ob_buffer b = []" and es: "InstallSnapshot s v \<in> set ops" "subseq es (ingested ops)" "replays s es b"
      unfolding history_def by blast
    have "apply_live_event e u b = (c, r)" using i u True by (auto simp: ingest_def)
    then show ?thesis
    proof (cases rule: live_event_cases)
      case cleared
      then show ?thesis by (simp add: history_cleared)
    next
      case ignored
      then show ?thesis using h by (simp add: history_mono)
    next
      case (applied n)
      then have "replays s (es @ [e]) c" using es(3) replays_snoc by simp
      moreover have "subseq (es @ [e]) (ingested (ops @ [Ingest e t]))" using es(2) by simp
      ultimately show ?thesis using True buf applied(4) es(1) unfolding history_def
        by (intro conjI impI) (simp, simp, simp, metis Un_iff set_append)
    qed
  next
    case False
    let ?b = "b\<lparr>ob_buffer := ob_buffer b @ [\<lparr>bd_event = e, bd_received_at = u\<rparr>]\<rparr>"
    have sub: "subseq (map bd_event (ob_buffer ?b)) (ingested (ops @ [Ingest e t]))" using h by (simp add: history_def)
    consider "cleared c" | "\<not> ob_snapshot_installed b" "c = ?b" | "ob_snapshot_installed b" "c = fst (reconcile_buffer ?b)"
      using i u False by (auto simp: ingest_def Let_def split: if_splits)
    then show ?thesis
    proof cases
      case 1
      then show ?thesis by (rule history_cleared)
    next
      case 2
      then show ?thesis using sub False by (simp add: history_def)
    next
      case 3
      with h False obtain s v where "InstallSnapshot s v \<in> set ops" "at_snapshot s b" by (auto simp: history_def)
      then show ?thesis
        using 3 sub False by (auto intro!: history_reconcile [where s = s and t = v] simp: at_snapshot_def)
    qed
  qed
qed

lemma history_install:
  assumes h: "history ops b" and i: "install_snapshot s t b = Inr (c, r)"
  shows "history (ops @ [InstallSnapshot s t]) c"
  using i
proof (cases rule: install_snapshot_cases)
  case 1
  then show ?thesis by (simp add: history_cleared)
next
  case (2 u)
  have "subseq (map bd_event (ob_buffer (with_snapshot s u b))) (ingested (ops @ [InstallSnapshot s t]))"
    using h by (simp add: history_def with_snapshot_def)
  then show ?thesis
    unfolding 2 by (rule history_reconcile [rotated, where s = s and t = t]) (simp_all add: with_snapshot_def at_snapshot_def)
qed

lemma history_step: "history (since_reset ops) b \<Longrightarrow> history (since_reset (ops @ [i])) (book_step b i)"
proof (cases i)
  case (Connected r)
  then show ?thesis by (simp add: history_cleared cleared_def mark_connected_def clear_trusted_book_def Let_def)
next
  case Disconnected
  then show ?thesis by (simp add: history_cleared cleared_def mark_disconnected_def clear_trusted_book_def Let_def)
next
  case BootstrapStarted
  moreover have "same_content (mark_bootstrap_started b) b"
    by (simp add: same_content_def mark_bootstrap_started_def Let_def)
  moreover assume "history (since_reset ops) b"
  ultimately show ?thesis by (simp add: history_mono)
next
  case SnapshotFailed
  moreover assume "history (since_reset ops) b"
  ultimately show ?thesis by (simp add: history_def mark_snapshot_failed_def clear_trusted_book_def Let_def)
next
  case (Ingest e t)
  moreover assume "history (since_reset ops) b"
  ultimately show ?thesis by (auto intro: history_ingest history_same split: sum.splits prod.splits)
next
  case (InstallSnapshot s t)
  moreover assume "history (since_reset ops) b"
  ultimately show ?thesis by (auto intro: history_install history_same split: sum.splits prod.splits)
next
  case (TakeSnapshot t)
  moreover assume "history (since_reset ops) b"
  ultimately show ?thesis
    by (auto intro: history_same history_cleared dest: take_snapshot_book split: sum.splits prod.splits)
qed

lemma history_run: "new_order_book symbol st n bands = Inr b \<Longrightarrow> history (since_reset ops) (run book_step b ops)"
proof (induction ops rule: rev_induct)
  case Nil
  then show ?case by (auto simp: new_order_book_def Let_def history_def)
next
  case (snoc i ops)
  then show ?case using history_step [of ops "run book_step b ops" i] by simp
qed

section \<open>The summary\<close>

subsection \<open>Prices of a book that is not crossed\<close>

lemma not_crossed_iff:
  "\<not> empty_or_crossed bids asks \<longleftrightarrow>
     bids \<noteq> [] \<and> asks \<noteq> [] \<and> (\<forall>x \<in> set bids. \<forall>y \<in> set asks. fst x < fst y)"
  by (cases "bids = []"; cases "asks = []") (simp_all add: empty_or_crossed_def max_price_def min_price_def not_le, blast)

lemma max_price_in: "d \<noteq> [] \<Longrightarrow> max_price d \<in> fst ` set d"
  unfolding max_price_def by (metis List.finite_set Max_in image_set list.map_disc_iff set_empty)

lemma min_price_in: "d \<noteq> [] \<Longrightarrow> min_price d \<in> fst ` set d"
  unfolding min_price_def by (metis List.finite_set Min_in image_set list.map_disc_iff set_empty)

lemma side_ok_prices: "side_ok d \<Longrightarrow> p \<in> fst ` set d \<Longrightarrow> 0 < p"
  by (auto simp: side_ok_def)

lemma synchronized_prices:
  assumes "book_ok b" and "ob_synchronized b"
  shows "0 < max_price (ob_bids b)" and "max_price (ob_bids b) < min_price (ob_asks b)"
    and "ob_bids b \<noteq> []" and "ob_asks b \<noteq> []"
proof -
  have n: "\<not> empty_or_crossed (ob_bids b) (ob_asks b)" and s: "side_ok (ob_bids b)" using assms by (auto simp: book_ok_defs)
  then show e: "ob_bids b \<noteq> []" "ob_asks b \<noteq> []" by (simp_all add: not_crossed_iff)
  show "0 < max_price (ob_bids b)" by (rule side_ok_prices [OF s max_price_in [OF e(1)]])
  show "max_price (ob_bids b) < min_price (ob_asks b)"
    using n by (simp add: empty_or_crossed_def not_le)
qed

subsection \<open>Decimal sums\<close>

lemma dec_mul_mono: "0 \<le> a \<Longrightarrow> x \<le> y \<Longrightarrow> dec_mul a x \<le> dec_mul a y"
  by (simp add: dec_mul_def dr.rnd_mono mult_left_mono)

lemma dec_add_grows: "dec_round a = a \<Longrightarrow> a \<le> b \<Longrightarrow> 0 \<le> y \<Longrightarrow> a \<le> dec_add b y"
  using dr.rnd_mono [of a "b + y"] by (simp add: dec_add_def)

lemma dec_sum_filter_mono:
  assumes "\<forall>x \<in> set xs. 0 \<le> f x" and "\<forall>x \<in> set xs. P x \<longrightarrow> Q x"
  shows "dec_sum (map f (filter P xs)) \<le> dec_sum (map f (filter Q xs))"
proof -
  have "foldl dec_add a (map f (filter P xs)) \<le> foldl dec_add b (map f (filter Q xs))" if "a \<le> b" "dec_round a = a" for a b
    using assms that
  proof (induction xs arbitrary: a b)
    case (Cons x xs)
    have "dec_round (dec_add a (f x)) = dec_add a (f x)" by (simp add: dec_add_def)
    with Cons show ?case by (auto intro!: Cons.IH dec_add_mono dec_add_grows)
  qed simp
  then show ?thesis by (simp add: dec_sum_def)
qed

lemma dec_sum_nonneg:
  assumes "\<forall>x \<in> set xs. 0 \<le> x" shows "0 \<le> dec_sum xs"
proof -
  have "0 \<le> foldl dec_add a xs" if "0 \<le> a" for a
    using assms that by (induction xs arbitrary: a) (auto simp: dec_add_def dr.rnd_signs)
  then show ?thesis by (simp add: dec_sum_def)
qed

lemma dec_sum_exact: "dec_round (dec_sum xs) = dec_sum xs"
  by (induction xs rule: rev_induct) (simp_all add: dec_sum_def dec_add_def)

subsection \<open>Bands\<close>

lemma quote_terms: "side_ok d \<Longrightarrow> \<forall>x \<in> set d. 0 \<le> (case x of (p, q) \<Rightarrow> dec_mul p q)"
  by (fastforce simp: side_ok_def intro: less_imp_le dec_mul_pos)

lemma band_width_mono: "0 < n \<Longrightarrow> n \<le> m \<Longrightarrow> dec_div (of_int n) TEN_THOUSAND \<le> dec_div (of_int m) TEN_THOUSAND"
  by (rule dec_div_mono) (simp_all add: TEN_THOUSAND_def)

lemma band_bid_floor_anti: "0 \<le> mid \<Longrightarrow> 0 < n \<Longrightarrow> n \<le> m \<Longrightarrow> band_bid_floor mid m \<le> band_bid_floor mid n"
  unfolding band_bid_floor_def by (intro dec_mul_mono dec_sub_mono band_width_mono) simp_all

lemma band_ask_ceiling_mono: "0 \<le> mid \<Longrightarrow> 0 < n \<Longrightarrow> n \<le> m \<Longrightarrow> band_ask_ceiling mid n \<le> band_ask_ceiling mid m"
  unfolding band_ask_ceiling_def by (intro dec_mul_mono dec_add_mono band_width_mono) simp_all

lemma bid_quote_mono:
  assumes "side_ok d" and "0 \<le> mid" and "0 < n" and "n \<le> m"
  shows "quote_sum (bids_in_band mid n d) \<le> quote_sum (bids_in_band mid m d)"
  unfolding quote_sum_def bids_in_band_def
  using band_bid_floor_anti [OF assms(2-4)] by (intro dec_sum_filter_mono quote_terms [OF assms(1)]) auto

lemma ask_quote_mono:
  assumes "side_ok d" and "0 \<le> mid" and "0 < n" and "n \<le> m"
  shows "quote_sum (asks_in_band mid n d) \<le> quote_sum (asks_in_band mid m d)"
  unfolding quote_sum_def asks_in_band_def
  using band_ask_ceiling_mono [OF assms(2-4)] by (intro dec_sum_filter_mono quote_terms [OF assms(1)]) auto

lemma quote_sum_nonneg: "side_ok d \<Longrightarrow> 0 \<le> quote_sum (filter P d)"
  unfolding quote_sum_def using quote_terms [of d] by (intro dec_sum_nonneg) auto

lemma imbalance_bounds:
  assumes "0 \<le> x" and "0 \<le> y" and "0 < dec_add x y"
  shows "\<bar>dec_div (dec_sub x y) (dec_add x y)\<bar> \<le> 1"
proof -
  have one: "dec_round 1 = 1" "dec_round (- 1) = - 1" using dec_round_exact [OF dec_repr_of_int, of 1] by simp_all
  have "dec_sub x y \<le> dec_add x y" using assms dr.rnd_mono [of "x - y" "x + y"] by (simp add: dec_sub_def dec_add_def)
  moreover have "- dec_add x y \<le> dec_sub x y"
    using assms dr.rnd_mono [of "- (x + y)" "x - y"] unfolding dec_sub_def dec_add_def dec_round_minus by simp
  ultimately have "dec_sub x y / dec_add x y \<le> 1" "- 1 \<le> dec_sub x y / dec_add x y"
    using assms(3) by (simp_all add: pos_le_divide_eq)
  then show ?thesis using dr.rnd_upper [OF one(1)] dr.rnd_lower [OF one(2)] by (simp add: dec_div_def abs_le_iff)
qed

lemma dec_quantize_unit: "\<bar>x\<bar> \<le> 1 \<Longrightarrow> dec_quantize k x = Some y \<Longrightarrow> \<bar>y\<bar> \<le> 1"
proof -
  assume x: "\<bar>x\<bar> \<le> 1" and y: "dec_quantize k x = Some y"
  have "x * 10 ^ k \<le> of_int (10 ^ k)" "of_int (- (10 ^ k)) \<le> x * 10 ^ k"
    using x mult_right_mono [of x 1 "10 ^ k"] mult_right_mono [of "- 1" x "10 ^ k"] by auto
  then have "round_half_even (x * 10 ^ k) \<le> 10 ^ k" "- (10 ^ k) \<le> round_half_even (x * 10 ^ k)"
    by (auto intro: round_half_even_upper round_half_even_lower simp del: of_int_power of_int_minus)
  then have "\<bar>of_int (round_half_even (x * 10 ^ k))\<bar> \<le> (10 ^ k :: rat)"
    by (metis abs_le_iff minus_le_iff of_int_abs of_int_le_iff of_int_numeral of_int_power)
  then show "\<bar>y\<bar> \<le> 1" using y by (auto simp: dec_quantize_def Let_def abs_divide split: if_splits)
qed

lemma quantized_Inr [simp]: "quantized k x = Inr y \<longleftrightarrow> dec_quantize k x = Some y"
  by (simp add: quantized_def split: option.splits)

lemma quantized_option_Inr: "quantized_option k v = Inr w \<longleftrightarrow>
    (v = None \<and> w = None) \<or> (\<exists>x y. v = Some x \<and> w = Some y \<and> dec_quantize k x = Some y)"
  by (cases v; cases w; cases "quantized k (the v)") (auto simp: quantized_option_def quantized_def split: option.splits)

lemma liquidity_bands_mem:
  "liquidity_bands band ns = Inr bands \<Longrightarrow> x \<in> set bands \<Longrightarrow> \<exists>n \<in> set ns. band n = Inr x"
  by (induction ns arbitrary: bands) auto

lemma liquidity_band_Inr:
  assumes "liquidity_band mid fb fa b n = Inr (l, w)"
  shows "lb_band_bps w = n"
    and "dec_quantize MONEY_QUANT (quote_sum (bids_in_band mid n (ob_bids b))) = Some (lb_bid_quote_notional w)"
    and "dec_quantize MONEY_QUANT (quote_sum (asks_in_band mid n (ob_asks b))) = Some (lb_ask_quote_notional w)"
    and "lb_bid_coverage_complete w = covers_band fb n" and "lb_ask_coverage_complete w = covers_band fa n"
  using assms by (auto simp: liquidity_band_def Let_def)

lemma liquidity_band_imbalance:
  assumes "liquidity_band mid fb fa b n = Inr (l, w)" and "side_ok (ob_bids b)" and "side_ok (ob_asks b)"
    and "lb_depth_imbalance w = Some r"
  shows "\<bar>r\<bar> \<le> 1"
proof -
  let ?x = "quote_sum (bids_in_band mid n (ob_bids b))" and ?y = "quote_sum (asks_in_band mid n (ob_asks b))"
  have "quantized_option RATIO_QUANT (if dec_add ?x ?y > 0 then Some (dec_div (dec_sub ?x ?y) (dec_add ?x ?y)) else None)
      = Inr (lb_depth_imbalance w)" using assms(1) by (auto simp: liquidity_band_def Let_def)
  then have "dec_add ?x ?y > 0" "dec_quantize RATIO_QUANT (dec_div (dec_sub ?x ?y) (dec_add ?x ?y)) = Some r"
    using assms(4) by (auto simp: quantized_option_Inr split: if_splits)
  moreover have "0 \<le> ?x" "0 \<le> ?y"
    using assms(2,3) by (simp_all add: bids_in_band_def asks_in_band_def quote_sum_nonneg)
  ultimately show ?thesis using imbalance_bounds dec_quantize_unit by blast
qed

lemma covers_band_anti: "n \<le> m \<Longrightarrow> covers_band f m \<Longrightarrow> covers_band f n"
  by (auto simp: covers_band_def split: option.splits)

definition book_mid :: "SynchronizedLocalOrderBook \<Rightarrow> rat" where
  "book_mid b = dec_div (dec_add (max_price (ob_bids b)) (min_price (ob_asks b))) 2"

lemma book_mid_pos: "book_ok b \<Longrightarrow> ob_synchronized b \<Longrightarrow> 0 < book_mid b"
  using synchronized_prices [of b] by (simp add: book_mid_def dec_div_pos dec_add_pos)

lemma synchronized_snapshot_Inr:
  assumes "synchronized_snapshot now b = Inr s"
  shows "ls_synchronized s" and "ls_best_bid s = Some (max_price (ob_bids b))" and "ls_best_ask s = Some (min_price (ob_asks b))"
    and "ls_mid_price s = Some (book_mid b)"
    and "ls_spread_absolute s = Some (dec_sub (min_price (ob_asks b)) (max_price (ob_bids b)))"
    and "ls_last_update_id s = ob_last_update_id b"
    and "ls_status s = (case book_age_seconds now (ob_last_event_time b) of None \<Rightarrow> STALE
          | Some age \<Rightarrow> if age > ob_stale_after_seconds b then STALE else VERIFIED)"
    and "liquidity_bands (liquidity_band (book_mid b) (distance_bps (book_mid b) (ob_coverage_bid_floor b) True)
          (distance_bps (book_mid b) (ob_coverage_ask_ceiling b) False) b) (ob_bands_bps b) = Inr (ls_bands s)"
  using assms unfolding synchronized_snapshot_def Let_def
  by (auto simp: book_mid_def [symmetric])

lemma synchronized_snapshot_verified:
  assumes "synchronized_snapshot now b = Inr s" and "ls_status s = VERIFIED"
  shows "\<exists>t. ob_last_event_time b = Some t \<and> fl (of_int (now - t) / 1000000) \<le> ob_stale_after_seconds b"
  using synchronized_snapshot_Inr(7) [OF assms(1)] assms(2)
  by (auto simp: book_age_seconds_def split: option.splits if_splits)

lemma take_snapshot_reachable:
  assumes "book_ok b" and "ob_synchronized b"
  shows "take_snapshot t b = ebind (book_timestamp t) (\<lambda>now. ebind (synchronized_snapshot now b) (\<lambda>s. Inr (b, s)))"
proof -
  have "\<not> (max_price (ob_bids b) \<ge> min_price (ob_asks b))" "\<not> (ob_bids b = [] \<or> ob_asks b = [])"
    using synchronized_prices [OF assms] by auto
  then show ?thesis using assms(2) unfolding take_snapshot_def by (cases "book_timestamp t") simp_all
qed

section \<open>Properties\<close>

lemma reachable_ok: "new_order_book symbol st n bands = Inr b \<Longrightarrow> list_all op_ok ops \<Longrightarrow> book_ok (run book_step b ops)"
  by (rule ob.run_inv [OF new_order_book_ok])

text \<open>What the parsers accept is admissible for the book.\<close>

lemma parse_level_ok: "parse_level place v = Inr l \<Longrightarrow> level_ok l"
  by (auto simp: parse_level_def level_ok_def split: json.splits list.splits)

lemma parse_levels_ok: "parse_levels v label = Inr ls \<Longrightarrow> list_all level_ok ls"
proof -
  have "parse_level_items label k items = Inr ls \<Longrightarrow> list_all level_ok ls" for k items ls
    by (induction items arbitrary: k ls) (auto intro: parse_level_ok)
  then show "parse_levels v label = Inr ls \<Longrightarrow> list_all level_ok ls" by (auto simp: parse_levels_def split: json.splits)
qed

lemma parsed_event_ok: "parse_binance_depth_event p = Inr e \<Longrightarrow> event_ok e"
  by (auto simp: parse_binance_depth_event_def Let_def event_ok_def intro: parse_levels_ok)

lemma parsed_snapshot_ok: "parse_binance_depth_snapshot v = Inr s \<Longrightarrow> depth_snapshot_ok s"
  by (auto simp: parse_binance_depth_snapshot_def depth_snapshot_ok_def intro: parse_levels_ok split: json.splits)

text \<open>
  C3. A synchronized local order book is an exact replay. After any sequence of operations on a new book, if the book is synchronized
  then a REST snapshot \<open>s\<close> was installed on the current connection, and among the events ingested on that connection there are, in their
  order, events \<open>es\<close> whose update ids form an unbroken chain that bridges \<open>s\<close>, such that both sides of the book are the levels of \<open>s\<close>
  with exactly \<open>es\<close> applied, and the update id is that of the last of them.
\<close>

theorem synchronized_book_replays_chain:
  assumes "new_order_book symbol st n bands = Inr b" and "ob_synchronized (run book_step b ops)"
  shows "\<exists>s t es. InstallSnapshot s t \<in> set (since_reset ops) \<and> subseq es (ingested (since_reset ops))
    \<and> replays s es (run book_step b ops)"
  using history_run [OF assms(1), of ops] assms(2) by (simp add: history_def)

text \<open>
  C13. In every sequence of operations with parsed events and snapshots, the sides of the book hold each price once, with positive
  prices and quantities, the event buffer never exceeds its size, and while the book is synchronized neither side is empty and every bid is below
  every ask.
\<close>

theorem order_book_never_crossed:
  assumes "new_order_book symbol st n bands = Inr b0" and "list_all op_ok ops" and "b = run book_step b0 ops"
  shows "side_ok (ob_bids b) \<and> side_ok (ob_asks b) \<and> int (length (ob_buffer b)) \<le> ob_event_buffer_size b
    \<and> (ob_synchronized b \<longrightarrow> ob_bids b \<noteq> [] \<and> ob_asks b \<noteq> []
         \<and> (\<forall>x \<in> set (ob_bids b). \<forall>y \<in> set (ob_asks b). fst x < fst y))"
  using reachable_ok [OF assms(1,2)] unfolding assms(3) by (simp add: book_ok_defs not_crossed_iff)

subsection \<open>The summary raises only for decimals that do not fit\<close>

lemma ebind_Inl_iff: "ebind r f = Inl e \<longleftrightarrow> r = Inl e \<or> (\<exists>x. r = Inr x \<and> f x = Inl e)"
  by (cases r) auto

lemma quantized_Inl: "quantized k x = Inl e \<Longrightarrow> e = BookDecimalError"
  by (auto simp: quantized_def split: option.splits)

lemma quantized_option_Inl: "quantized_option k v = Inl e \<Longrightarrow> e = BookDecimalError"
  by (auto simp: quantized_option_def quantized_def split: option.splits)

lemma liquidity_band_Inl: "liquidity_band mid fb fa b n = Inl e \<Longrightarrow> e = BookDecimalError"
  by (auto simp: liquidity_band_def Let_def ebind_Inl_iff dest: quantized_Inl quantized_option_Inl)

lemma liquidity_bands_Inl: "liquidity_bands (liquidity_band mid fb fa b) ns = Inl e \<Longrightarrow> e = BookDecimalError"
  by (induction ns) (auto simp: ebind_Inl_iff dest: liquidity_band_Inl)

lemma largest_concentration_Inl: "largest_concentration ls mid side n q = Inl e \<Longrightarrow> e = BookDecimalError"
  by (auto simp: largest_concentration_def Let_def ebind_Inl_iff split: list.splits prod.splits
      dest: quantized_Inl quantized_option_Inl)

lemma synchronized_snapshot_Inl: "synchronized_snapshot now b = Inl e \<Longrightarrow> e = BookDecimalError"
  unfolding synchronized_snapshot_def Let_def ebind_Inl_iff eraise_if_def
  by (elim disjE exE conjE)
    (auto dest: quantized_Inl quantized_option_Inl liquidity_bands_Inl largest_concentration_Inl split: if_splits)

text \<open>
  C39. Summarizing a synchronized book fails only when a decimal has too many digits to be quantized, never for an empty side, and it never
  invalidates the book. The summary has a positive best bid below the best ask, a positive mid and spread and the update id of the
  book; when it is verified the last event is at most as old as the staleness threshold.
\<close>

theorem summary_of_synchronized_book:
  assumes "new_order_book symbol st n bands = Inr b0" and "list_all op_ok ops" and "b = run book_step b0 ops"
    and "ob_synchronized b" and "book_timestamp t = Inr now"
  shows "case take_snapshot t b of
      Inl e \<Rightarrow> e = BookDecimalError
    | Inr (c, s) \<Rightarrow> c = b \<and> ls_last_update_id s = ob_last_update_id b
        \<and> (\<exists>bid ask mid spread. ls_best_bid s = Some bid \<and> ls_best_ask s = Some ask \<and> ls_mid_price s = Some mid
             \<and> ls_spread_absolute s = Some spread \<and> 0 < bid \<and> bid < ask \<and> 0 < mid \<and> 0 < spread)
        \<and> (verified s \<longrightarrow> (\<exists>u. ob_last_event_time b = Some u \<and> fl (of_int (now - u) / 1000000) \<le> ob_stale_after_seconds b))"
proof -
  have ok: "book_ok b" unfolding assms(3) by (rule reachable_ok [OF assms(1,2)])
  note p = synchronized_prices [OF ok assms(4)] and mid = book_mid_pos [OF ok assms(4)]
  show ?thesis
  proof (cases "synchronized_snapshot now b")
    case (Inl e)
    then show ?thesis using synchronized_snapshot_Inl by (simp add: take_snapshot_reachable [OF ok assms(4)] assms(5))
  next
    case (Inr s)
    note f = synchronized_snapshot_Inr [OF Inr]
    have "0 < dec_sub (min_price (ob_asks b)) (max_price (ob_bids b))" using p by (simp add: dec_sub_signs)
    moreover have "verified s \<Longrightarrow> \<exists>u. ob_last_event_time b = Some u \<and> fl (of_int (now - u) / 1000000) \<le> ob_stale_after_seconds b"
      using synchronized_snapshot_verified [OF Inr] by (simp add: verified_def)
    ultimately show ?thesis using f(2-6) p mid Inr by (simp add: take_snapshot_reachable [OF ok assms(4)] assms(5))
  qed
qed

text \<open>
  C40. The depth bands of a summary are nested: a wider band holds at least the bid and ask notional of a narrower one and is covered only if
  the narrower one is, and every reported imbalance lies between -1 and 1.
\<close>

theorem depth_bands_are_nested:
  assumes "new_order_book symbol st n bands = Inr b0" and "list_all op_ok ops" and "take_snapshot t (run book_step b0 ops) = Inr (c, s)"
    and "(l, w) \<in> set (ls_bands s)" and "(m, v) \<in> set (ls_bands s)" and "lb_band_bps w \<le> lb_band_bps v"
  shows "lb_bid_quote_notional w \<le> lb_bid_quote_notional v \<and> lb_ask_quote_notional w \<le> lb_ask_quote_notional v
    \<and> (lb_bid_coverage_complete v \<longrightarrow> lb_bid_coverage_complete w) \<and> (lb_ask_coverage_complete v \<longrightarrow> lb_ask_coverage_complete w)
    \<and> (\<forall>r. lb_depth_imbalance w = Some r \<longrightarrow> \<bar>r\<bar> \<le> 1)"
proof -
  let ?b = "run book_step b0 ops"
  have ok: "book_ok ?b" by (rule reachable_ok [OF assms(1,2)])
  have sides: "side_ok (ob_bids ?b)" "side_ok (ob_asks ?b)" using ok by (simp_all add: book_ok_defs)
  have sync: "ob_synchronized ?b"
  proof (rule ccontr)
    assume "\<not> ob_synchronized ?b"
    then have "ls_bands s = []"
      using assms(3) by (auto simp: take_snapshot_def unsynchronized_snapshot_def unavailable_snapshot_def Let_def)
    with assms(4) show False by simp
  qed
  obtain now where "synchronized_snapshot now ?b = Inr s"
    using assms(3) by (auto simp: take_snapshot_reachable [OF ok sync])
  note bs = synchronized_snapshot_Inr(8) [OF this] and mid = book_mid_pos [OF ok sync]
  let ?band = "liquidity_band (book_mid ?b) (distance_bps (book_mid ?b) (ob_coverage_bid_floor ?b) True)
    (distance_bps (book_mid ?b) (ob_coverage_ask_ceiling ?b) False) ?b"
  obtain i j where i: "i \<in> set (ob_bands_bps ?b)" "?band i = Inr (l, w)" and j: "?band j = Inr (m, v)"
    using liquidity_bands_mem [OF bs assms(4)] liquidity_bands_mem [OF bs assms(5)] by blast
  note wi = liquidity_band_Inr [OF i(2)] and vj = liquidity_band_Inr [OF j]
  have le: "0 < i" "i \<le> j" using ok i(1) assms(6) wi(1) vj(1) by (auto simp: book_ok_defs)
  have "lb_bid_quote_notional w \<le> lb_bid_quote_notional v" "lb_ask_quote_notional w \<le> lb_ask_quote_notional v"
    using dec_quantize_mono [OF wi(2) vj(2) bid_quote_mono [OF sides(1) less_imp_le [OF mid] le]]
      dec_quantize_mono [OF wi(3) vj(3) ask_quote_mono [OF sides(2) less_imp_le [OF mid] le]] .
  then show ?thesis
    using wi(4,5) vj(4,5) covers_band_anti [OF le(2)] liquidity_band_imbalance [OF i(2) sides] by blast
qed

subsection \<open>Following a contiguous stream\<close>

lemma next_event_applied:
  assumes "ob_synchronized b" and "ob_last_update_id b = Some n" and "de_previous_final_update_id e = n" and "n < de_final_update_id e"
    and "de_symbol e = ob_symbol b" and "book_timestamp t = Inr u"
    and "\<not> empty_or_crossed (apply_side (de_bids e) (ob_bids b)) (apply_side (de_asks e) (ob_asks b))"
  shows "book_step b (Ingest e t) = apply_levels e u b"
  using assms by (simp add: ingest_def apply_live_event_def Let_def)

text \<open>
  C38. A contiguous stream is followed without a resynchronization: when a synchronized book ingests events whose update ids continue its own
  without a gap, and no prefix of them empties or crosses the book, it stays synchronized, its gap counter does not move, and its sides and
  update id are those of the events applied in order.
\<close>

theorem contiguous_stream_is_followed:
  assumes "ob_synchronized b" and "ob_last_update_id b = Some n" and "event_chain n (map fst es)"
    and "\<forall>(e, t) \<in> set es. de_symbol e = ob_symbol b \<and> (\<exists>u. book_timestamp t = Inr u)"
    and "\<forall>k. 0 < k \<and> k \<le> length es \<longrightarrow>
      \<not> empty_or_crossed (fold (\<lambda>e. apply_side (de_bids e)) (take k (map fst es)) (ob_bids b))
          (fold (\<lambda>e. apply_side (de_asks e)) (take k (map fst es)) (ob_asks b))"
    and "c = run book_step b (map (\<lambda>(e, t). Ingest e t) es)"
  shows "ob_synchronized c \<and> ob_gap_count c = ob_gap_count b
    \<and> ob_bids c = fold (\<lambda>e. apply_side (de_bids e)) (map fst es) (ob_bids b)
    \<and> ob_asks c = fold (\<lambda>e. apply_side (de_asks e)) (map fst es) (ob_asks b)
    \<and> ob_last_update_id c = Some (if es = [] then n else de_final_update_id (fst (last es)))"
  using assms
proof (induction es arbitrary: b n)
  case Nil
  then show ?case by simp
next
  case (Cons x es)
  obtain e t where x: "x = (e, t)" by fastforce
  obtain u where u: "book_timestamp t = Inr u" using Cons.prems(4) x by auto
  let ?d = "apply_levels e u b"
  have "\<not> empty_or_crossed (apply_side (de_bids e) (ob_bids b)) (apply_side (de_asks e) (ob_asks b))"
    using Cons.prems(5) [rule_format, of 1] x by simp
  then have step: "book_step b (Ingest e t) = ?d" using Cons.prems(1-4) x u by (intro next_event_applied) auto
  have sym: "ob_symbol ?d = ob_symbol b" "ob_gap_count ?d = ob_gap_count b" by (simp_all add: apply_levels_def)
  have pre: "\<forall>k. 0 < k \<and> k \<le> length es \<longrightarrow>
      \<not> empty_or_crossed (fold (\<lambda>e. apply_side (de_bids e)) (take k (map fst es)) (ob_bids ?d))
          (fold (\<lambda>e. apply_side (de_asks e)) (take k (map fst es)) (ob_asks ?d))"
    using Cons.prems(5) x by (auto dest: spec [where x = "Suc _"])
  have "c = run book_step ?d (map (\<lambda>(e, t). Ingest e t) es)" using Cons.prems(6) x step by simp
  with Cons.IH [of ?d "de_final_update_id e"] Cons.prems(1,3,4) x pre sym show ?case by (auto split: if_splits)
qed

end
