(* ===== verification/Order_Book_Examples.thy ===== *)
theory Order_Book_Examples
  imports Order_Book_Safety "HOL-Library.Code_Target_Nat"
begin

text \<open>
  A concrete session of the local order book: it connects, buffers an event, installs a snapshot that the event
  bridges, and follows a live event. The properties of the book are applied to it.
\<close>

section \<open>A session\<close>

definition book_time :: py_any where
  "book_time = ADatetime \<lparr>dt_local = 63900000000000000, dt_offset = Some 0\<rparr>"

definition sample_levels :: "(int \<times> int) list \<Rightarrow> DepthLevelUpdate list" where
  "sample_levels xs = map (\<lambda>(p, q). \<lparr>lv_price = of_int p, lv_quantity = of_int q\<rparr>) xs"

definition sample_depth_event :: "int \<Rightarrow> int \<Rightarrow> int \<Rightarrow> (int \<times> int) list \<Rightarrow> (int \<times> int) list \<Rightarrow> BinanceDepthEvent" where
  "sample_depth_event first final previous bids asks =
     \<lparr>de_symbol = ''BTCUSDT'', de_pair_symbol = ''BTCUSDT'', de_event_time = 63899999999000000,
      de_transaction_time = 63899999999000000, de_first_update_id = first, de_final_update_id = final,
      de_previous_final_update_id = previous, de_bids = sample_levels bids, de_asks = sample_levels asks\<rparr>"

definition sample_rest_snapshot :: BinanceDepthSnapshot where
  "sample_rest_snapshot =
     \<lparr>ds_last_update_id = 100, ds_event_time = 63899999998000000, ds_transaction_time = 63899999998000000,
      ds_bids = sample_levels [(1000, 1), (999, 5)], ds_asks = sample_levels [(1001, 1), (1002, 4)]\<rparr>"

definition sample_book :: SynchronizedLocalOrderBook where
  "sample_book = projr (new_order_book ''btcusdt'' 5 8 [25, 10])"

definition sample_book_ops :: "book_op list" where
  "sample_book_ops =
     [Connected False, BootstrapStarted, Ingest (sample_depth_event 95 105 94 [(1000, 2)] [(1001, 3)]) book_time,
      InstallSnapshot sample_rest_snapshot book_time, Ingest (sample_depth_event 106 110 105 [(1000, 0)] [(1003, 1)]) book_time]"

definition sample_live_book :: SynchronizedLocalOrderBook where
  "sample_live_book = run book_step sample_book sample_book_ops"

lemma sample_book_new: "new_order_book ''btcusdt'' 5 8 [25, 10] = Inr sample_book"
  by code_simp

lemma sample_book_ops_ok: "list_all op_ok sample_book_ops"
  by code_simp

lemma sample_book_synchronized: "ob_synchronized (run book_step sample_book sample_book_ops)"
  by code_simp

lemma sample_book_clock: "book_timestamp book_time = Inr 63900000000000000"
  by code_simp

lemma sample_live_sides:
  "ob_bids sample_live_book = [(999, 5)]" "ob_asks sample_live_book = [(1001, 3), (1002, 4), (1003, 1)]"
  by code_simp+

lemma sample_live_frame:
  "ob_coverage_bid_floor sample_live_book = Some 999" "ob_coverage_ask_ceiling sample_live_book = Some 1002"
  "ob_bands_bps sample_live_book = [10, 25]"
  by code_simp+

lemma sample_mid: "dec_div (dec_add 999 1001) 2 = 1000" "dec_mul (dec_div (dec_sub 1001 999) 1000) TEN_THOUSAND = 20"
  "max_price [(999, 5)] = 999" "min_price [(1001, 3), (1002, 4), (1003, 1)] = 1001"
  by code_simp+

lemma sample_distances:
  "distance_bps 1000 (Some 999) True = Some 10" "distance_bps 1000 (Some 1002) False = Some 20"
  "quantized_option BPS_QUANT (Some 10) = Inr (Some 10)" "quantized_option BPS_QUANT (Some 20) = Inr (Some 20)"
  "quantized BPS_QUANT 20 = Inr 20"
  by code_simp+

lemma sample_band_sides:
  "bids_in_band 1000 10 [(999, 5)] = [(999, 5)]" "bids_in_band 1000 25 [(999, 5)] = [(999, 5)]"
  "asks_in_band 1000 10 [(1001, 3), (1002, 4), (1003, 1)] = [(1001, 3)]"
  "asks_in_band 1000 25 [(1001, 3), (1002, 4), (1003, 1)] = [(1001, 3), (1002, 4)]"
  "quote_sum [(999, 5)] = 4995" "quote_sum [(1001, 3)] = 3003" "quote_sum [(1001, 3), (1002, 4)] = 7011"
  by code_simp+

lemma sample_quotes:
  "quantized MONEY_QUANT 4995 = Inr 4995" "quantized MONEY_QUANT 3003 = Inr 3003" "quantized MONEY_QUANT 7011 = Inr 7011"
  "quantized_option RATIO_QUANT (if dec_add 4995 3003 > 0 then Some (dec_div (dec_sub 4995 3003) (dec_add 4995 3003)) else None)
     = Inr (Some (24906227 / 100000000))"
  "quantized_option RATIO_QUANT (if dec_add 4995 7011 > 0 then Some (dec_div (dec_sub 4995 7011) (dec_add 4995 7011)) else None)
     = Inr (Some (- (4197901 / 25000000)))"
  by code_simp+

lemma sample_largest:
  "largest_concentration [(999, 5)] 1000 True 25 4995 = Inr (Some \<lparr>vl_price = 999, vl_quote_notional = 4995,
     vl_distance_bps = 10, vl_share_of_observed_band = Some 1, vl_band_bps = 25\<rparr>)"
  "\<not> isl (largest_concentration [(1001, 3), (1002, 4)] 1000 False 25 7011)"
  by code_simp+

definition sample_bands :: "(string \<times> LiquidityBandSnapshot) list" where
  "sample_bands =
     [(''10bps'', \<lparr>lb_band_bps = 10, lb_bid_quote_notional = 4995, lb_ask_quote_notional = 3003,
        lb_depth_imbalance = Some (24906227 / 100000000), lb_bid_coverage_complete = True, lb_ask_coverage_complete = True\<rparr>),
      (''25bps'', \<lparr>lb_band_bps = 25, lb_bid_quote_notional = 4995, lb_ask_quote_notional = 7011,
        lb_depth_imbalance = Some (- (4197901 / 25000000)), lb_bid_coverage_complete = False, lb_ask_coverage_complete = False\<rparr>)]"

lemma sample_band_labels: "int_text 10 = ''10''" "int_text 25 = ''25''"
  by code_simp+

lemma sample_liquidity_bands:
  "liquidity_bands (liquidity_band 1000 (Some 10) (Some 20) sample_live_book) [10, 25] = Inr sample_bands"
  by (simp only: liquidity_bands.simps liquidity_band_def Let_def sample_live_sides sample_band_sides sample_quotes
      sample_band_labels ebind_simps covers_band_def option.case sample_bands_def) simp

lemma sample_summary_taken: "\<exists>s. take_snapshot book_time sample_live_book = Inr (sample_live_book, s) \<and> ls_bands s = sample_bands"
proof -
  have ok: "book_ok sample_live_book" unfolding sample_live_book_def by (rule reachable_ok [OF sample_book_new sample_book_ops_ok])
  have sync: "ob_synchronized sample_live_book" unfolding sample_live_book_def by (rule sample_book_synchronized)
  obtain v where v: "largest_concentration [(1001, 3), (1002, 4)] 1000 False 25 7011 = Inr v"
    using sample_largest(2) by (cases "largest_concentration [(1001, 3), (1002, 4)] 1000 False 25 7011") simp_all
  have "\<exists>s. synchronized_snapshot 63900000000000000 sample_live_book = Inr s \<and> ls_bands s = sample_bands"
    unfolding synchronized_snapshot_def Let_def sample_live_sides sample_mid sample_live_frame sample_distances
      sample_liquidity_bands ebind_simps eraise_if_def
    by (simp only: sample_band_sides sample_largest(1) v last.simps list.simps if_False if_True ebind_simps zero_neq_numeral
        simp_thms sample_distances numeral_eq_iff refl) simp
  then show ?thesis by (auto simp: take_snapshot_reachable [OF ok sync] sample_book_clock)
qed

section \<open>Witnesses\<close>

theorem synchronized_book_replays_chain_witness:
  "\<exists>s t es. InstallSnapshot s t \<in> set (since_reset sample_book_ops) \<and> subseq es (ingested (since_reset sample_book_ops))
    \<and> replays s es (run book_step sample_book sample_book_ops)"
  by (rule synchronized_book_replays_chain [OF sample_book_new sample_book_synchronized])

theorem order_book_never_crossed_witness:
  "side_ok (ob_bids sample_live_book) \<and> side_ok (ob_asks sample_live_book)
    \<and> int (length (ob_buffer sample_live_book)) \<le> ob_event_buffer_size sample_live_book
    \<and> list_all (\<lambda>x. list_all (\<lambda>y. fst x < fst y) (ob_asks sample_live_book)) (ob_bids sample_live_book)"
  using order_book_never_crossed [OF sample_book_new sample_book_ops_ok sample_live_book_def] sample_book_synchronized
  unfolding sample_live_book_def list_all_iff by blast

theorem summary_of_synchronized_book_witness:
  "\<exists>s. take_snapshot book_time sample_live_book = Inr (sample_live_book, s) \<and> ls_last_update_id s = ob_last_update_id sample_live_book"
  using summary_of_synchronized_book [OF sample_book_new sample_book_ops_ok sample_live_book_def _ sample_book_clock]
    sample_book_synchronized sample_summary_taken unfolding sample_live_book_def [symmetric] by fastforce

theorem depth_bands_are_nested_witness:
  "lb_ask_quote_notional (snd (sample_bands ! 0)) \<le> lb_ask_quote_notional (snd (sample_bands ! 1))
    \<and> \<bar>the (lb_depth_imbalance (snd (sample_bands ! 0)))\<bar> \<le> 1"
proof -
  obtain s where s: "take_snapshot book_time (run book_step sample_book sample_book_ops) = Inr (sample_live_book, s)"
    "ls_bands s = sample_bands" using sample_summary_taken unfolding sample_live_book_def by blast
  have m: "sample_bands ! 0 \<in> set (ls_bands s)" "sample_bands ! 1 \<in> set (ls_bands s)"
    "lb_band_bps (snd (sample_bands ! 0)) \<le> lb_band_bps (snd (sample_bands ! 1))"
    by (simp_all add: s(2) sample_bands_def)
  have r: "lb_depth_imbalance (snd (sample_bands ! 0)) = Some (24906227 / 100000000)" by (simp add: sample_bands_def)
  show ?thesis
    using depth_bands_are_nested [OF sample_book_new sample_book_ops_ok s(1), of "fst (sample_bands ! 0)" "snd (sample_bands ! 0)"
        "fst (sample_bands ! 1)" "snd (sample_bands ! 1)"] m r
    by (metis option.sel prod.collapse)
qed

theorem contiguous_stream_is_followed_witness:
  "ob_synchronized (run book_step sample_live_book [Ingest (sample_depth_event 111 112 110 [(998, 1)] []) book_time])
    \<and> ob_last_update_id (run book_step sample_live_book [Ingest (sample_depth_event 111 112 110 [(998, 1)] []) book_time]) = Some 112"
proof -
  let ?e = "sample_depth_event 111 112 110 [(998, 1)] []"
  have s: "ob_synchronized sample_live_book" unfolding sample_live_book_def by (rule sample_book_synchronized)
  have id: "ob_last_update_id sample_live_book = Some 110" by code_simp
  have sym: "de_symbol ?e = ob_symbol sample_live_book" by code_simp
  have cross: "\<not> empty_or_crossed (apply_side (de_bids ?e) (ob_bids sample_live_book)) (apply_side (de_asks ?e) (ob_asks sample_live_book))"
    by code_simp
  have one: "0 < k \<and> k \<le> Suc 0 \<longleftrightarrow> k = Suc 0" for k :: nat by auto
  show ?thesis
    using contiguous_stream_is_followed [OF s id, of "[(?e, book_time)]"] sym cross sample_book_clock
    by (simp add: one sample_depth_event_def)
qed

end
