(* ===== verification/Spec2Isabelle.thy ===== *)
theory Spec2Isabelle
  imports Lifecycle_Safety Outcome_Examples Order_Book_Examples
begin

text \<open>
  \<^bold>\<open>Verification library of the Candle Craft trading agent.\<close>

  The agent scans crypto markets, turns what it sees into trade setups, follows each setup through a lifecycle, decides from closed
  candles how its plan ended, and publishes alerts. It places no orders. This library models the parts that decide: the economic contract of a
  plan, the causality of candles, the setup lifecycle, the closed-candle outcome engine with its evidence, and the local order book.

  \<^bold>\<open>The parts and how they interact.\<close> A scan hands an observation of a setup to the lifecycle state machine, which compares it with the
  stored record, updates the record and moves it along the allowed transitions; the plan of a record must satisfy the economic contract
  before the record may be active. Once a plan is confirmed, the outcome engine takes over: it reads the candle history, keeps the
  candles that were closed at the decision time, selects those after the cursor of the stored progress row, and goes through them one by one;
  entries, targets and stops found there move the lifecycle record through the same state machine and are written back together with
  evidence of the pass. The order book is a separate component that feeds research context only.

  \<^bold>\<open>Theories.\<close>
  \<^item> \<open>Py_Prelude\<close>, \<open>Py_Decimal\<close>, \<open>Py_Float\<close>, \<open>Py_Time\<close>, \<open>Py_Json\<close>: the part of Python the source uses. Strings are character lists, a
    finite \<open>Decimal\<close> is the rational it denotes with rounding to 28 digits written out, a finite \<open>float\<close> is a rational rounded to binary64, an aware
    UTC time is its instant in microseconds since year 1, a JSON text is the value it denotes. An exception is the left of a sum
    (\<open>ebind\<close>, \<open>eraise_if\<close>). The locales \<open>decimal_rounding\<close>, \<open>step_machine\<close> and \<open>ranked_machine\<close> state the
    interfaces that later theories interpret on their own operations.
  \<^item> \<open>Trade_Plan\<close>: \<open>app/core/minimum_rr.py\<close>, \<open>app/core/price_precision.py\<close>, \<open>app/core/trade_plan_integrity.py\<close>. \<open>validate_trade_plan\<close>
    accepts exactly the plans with ordered geometry and enough net reward (\<open>validate_trade_plan_accepts\<close>); a published plan keeps its
    ratio at every fill of its zone (\<open>public_plan_every_fill\<close>); rounding for publication is monotone (\<open>quantize_public_price_order\<close>).
  \<^item> \<open>Lifecycle_Models\<close>, \<open>Identity\<close>, \<open>Observation\<close>: \<open>app/lifecycle/models.py\<close>, \<open>identity.py\<close>, \<open>economic_identity.py\<close> and the predicates of an observation,
    with the two freshness predicates of \<open>app/data/candle_freshness.py\<close> they call. Two plan version ids are equal exactly
    when the economics are, unless SHA-256 collides.
  \<^item> \<open>State_Machine\<close>: \<open>app/lifecycle/state_machine.py\<close>. The state is the record \<open>SetupLifecycleRecord\<close>; one step is
    \<open>evaluate_lifecycle_transition\<close>, composed of \<open>evaluate_initial\<close> and \<open>evaluate_existing\<close> as the code composes it.
  \<^item> \<open>Lifecycle_Sample\<close>, \<open>Lifecycle_Step\<close>, \<open>Lifecycle_Runs\<close>, \<open>Lifecycle_Safety\<close>: what one step and any number of scans do. The abstract
    specification is the graph of allowed transitions, which the step refines. Properties: confirmation only through its gate and after the
    required scans, no outcome without confirmation, locked plans and latched identities never change, malformed plans are quarantined, the
    cooldown lasts a day, terminal outcomes are final, and an evaluation of a valid record returns a valid record.
  \<^item> \<open>Candle_Integrity\<close>: \<open>app/data/candle_integrity.py\<close>. Sequences are validated into timelines; the closed window is causal; shadow diagnostics
    only observe.
  \<^item> \<open>Outcome_Policy\<close>, \<open>Outcome_Progress\<close>, \<open>Prefix_Evidence\<close>, \<open>Outcome_Engine\<close>: \<open>outcome_policy.py\<close>, \<open>plan_version_binding.py\<close>, \<open>breakeven.py\<close>,
    \<open>prefix_disposition_evidence.py\<close>, \<open>outcome_events.py\<close> and \<open>outcomes.py\<close> of \<open>app/lifecycle\<close>. The repository is what the engine reads
    (\<open>outcome_reads\<close>) and the ordered list of its writes. \<open>evaluate_closed_candle_outcomes\<close> is the whole evaluation.
  \<^item> \<open>Outcome_Steps\<close>, \<open>Outcome_Safety\<close>, \<open>Outcome_Runs\<close>, \<open>Outcome_Causality\<close>, \<open>Prefix_Safety\<close>, \<open>Outcome_Resume\<close>, \<open>Outcome_Examples\<close>: the loop over candles
    implements an abstract machine over positions (flat, live with the number of targets reached, closed with an outcome), whole
    evaluations do so for the candles after the cursor, milestones are latched, nothing depends on candles that have not closed, entries
    follow the confirmation, every candle counts once, and the stored evidence is valid and read back as it was written. The locale
    \<open>break_loop\<close> is the contract of a loop that may stop early, interpreted on the candle loop.
  \<^item> \<open>Order_Book\<close>, \<open>Order_Book_Safety\<close>, \<open>Order_Book_Examples\<close>: \<open>app/microstructure/order_book.py\<close> and \<open>order_book_models.py\<close>. The state is the
    record \<open>SynchronizedLocalOrderBook\<close>, a step is any of its seven operations. A synchronized book is the replay of an unbroken chain of
    events onto a snapshot of the same connection, never empty or crossed; a contiguous stream is followed; the summary has
    ordered prices and nested bands.

  \<^bold>\<open>Bounds and termination.\<close> Every definition is total. \<open>advance_rounds\<close> unrolls the \<open>for _ in range(4)\<close> of \<open>advance_to_managing\<close>, so its
  four rounds are the source's own bound. Loops over candles, events and levels recurse over their lists. \<open>int_digits\<close>, \<open>int_len\<close> and
  \<open>int_bits\<close> terminate by a measure on the number. Nothing else uses fuel.

  \<^bold>\<open>Parameters.\<close> SHA-256 is the argument \<open>sha256\<close>; where a property needs it, the hypothesis is that its digests are 64 hexadecimal characters, and
  the identity property names a collision as an explicit alternative. The text of a caught exception, which only goes into diagnostics, and the random
  identifiers of \<open>uuid\<close> are arguments too.

  \<^bold>\<open>Not modelled.\<close>
  \<^item> Strings outside ASCII, and decimals whose exponent leaves the limits of the default context.
  \<^item> The lifecycle service, the SQLite repositories and storage: database statements around the modelled functions; the model passes what
    they read and returns what they write.
  \<^item> Exchange clients, stream services, the Telegram transport and its outbox, the FastAPI application and the scripts: network and process
    input and output.
  \<^item> Scanner pipeline, strategies, agents, scoring, regimes, context, analytics and research: heuristics over indicator windows
    and reports; they produce the observations that the lifecycle takes as arguments, and no property here depends on how they are computed.
  \<^item> The rest of \<open>app/data/candle_freshness.py\<close>, which annotates scan results.
\<close>

end
